(* ===== verification/Prelude.thy ===== *)
theory Prelude
  imports Main "HOL-Library.Word"
begin

text \<open>
  Shared vocabulary of the development: the machine types, Rust's \<open>Result\<close> as a sum with its
  \<open>?\<close> operator, the byte classes and string routines of the Rust standard library that the
  crates call (\<open>is_ascii_digit\<close>, \<open>str::parse\<close>, \<open>str::from_utf8\<close>, \<open>split\<close>, slicing), integer
  formatting, and the collections of rewrite rules the component theories extend.

  A Rust \<open>&str\<close>, \<open>String\<close>, \<open>&[u8]\<close> or \<open>Vec<u8>\<close> is a \<^typ>\<open>string\<close>: HOL characters are
  bytes, so \<open>length\<close> is Rust's \<open>len()\<close> and a text is its UTF-8 encoding. Counts (\<open>usize\<close>) are
  \<^typ>\<open>nat\<close>; \<open>u32\<close> and \<open>u64\<close> data are machine words where the code only stores and compares
  them, and \<^typ>\<open>nat\<close> below \<open>2 ^ 64\<close> where the store does arithmetic on them under an explicit
  bound.
\<close>

section \<open>Rule collections\<close>

named_theorems result_simps \<open>evaluation of the error monad\<close>
named_theorems result_elims \<open>inversion of successful and failed computations\<close>
named_theorems byte_defs \<open>the byte classes, unfolded to their codes\<close>
named_theorems wf_simps \<open>well-formedness of validated values\<close>

section \<open>Machine types\<close>

type_synonym u32 = "32 word"
type_synonym u64 = "64 word"
type_synonym bytes = string

section \<open>Result and the question-mark operator\<close>

type_synonym ('e, 'a) result = "'e + 'a"

definition and_then :: "('e, 'a) result \<Rightarrow> ('a \<Rightarrow> ('e, 'b) result) \<Rightarrow> ('e, 'b) result" where
  "and_then r f = (case r of Inl e \<Rightarrow> Inl e | Inr x \<Rightarrow> f x)"

definition map_err :: "('e \<Rightarrow> 'f) \<Rightarrow> ('e, 'a) result \<Rightarrow> ('f, 'a) result" where
  "map_err g r = (case r of Inl e \<Rightarrow> Inl (g e) | Inr x \<Rightarrow> Inr x)"

definition map_ok :: "('a \<Rightarrow> 'b) \<Rightarrow> ('e, 'a) result \<Rightarrow> ('e, 'b) result" where
  "map_ok g r = (case r of Inl e \<Rightarrow> Inl e | Inr x \<Rightarrow> Inr (g x))"

definition ok_or :: "'e \<Rightarrow> 'a option \<Rightarrow> ('e, 'a) result" where
  "ok_or e v = (case v of None \<Rightarrow> Inl e | Some x \<Rightarrow> Inr x)"

definition is_ok :: "('e, 'a) result \<Rightarrow> bool" where
  "is_ok r = (case r of Inl _ \<Rightarrow> False | Inr _ \<Rightarrow> True)"

text \<open>\<open>Option::map(f).transpose()\<close> for a fallible \<open>f\<close>.\<close>

definition transpose_map :: "('a \<Rightarrow> ('e, 'b) result) \<Rightarrow> 'a option \<Rightarrow> ('e, 'b option) result" where
  "transpose_map f v = (case v of None \<Rightarrow> Inr None | Some x \<Rightarrow> map_ok Some (f x))"

lemma and_then_simps [simp, result_simps]:
  "and_then (Inl e) f = Inl e" "and_then (Inr x) f = f x"
  by (simp_all add: and_then_def)

lemma map_err_simps [simp, result_simps]:
  "map_err g (Inl e) = Inl (g e)" "map_err g (Inr x) = Inr x"
  by (simp_all add: map_err_def)

lemma map_ok_simps [simp, result_simps]:
  "map_ok g (Inl e) = Inl e" "map_ok g (Inr x) = Inr (g x)"
  by (simp_all add: map_ok_def)

lemma ok_or_simps [simp, result_simps]:
  "ok_or e None = Inl e" "ok_or e (Some x) = Inr x"
  by (simp_all add: ok_or_def)

lemma is_ok_simps [simp, result_simps]: "\<not> is_ok (Inl e)" "is_ok (Inr x)"
  by (simp_all add: is_ok_def)

lemma transpose_map_simps [simp, result_simps]:
  "transpose_map f None = Inr None" "transpose_map f (Some x) = map_ok Some (f x)"
  by (simp_all add: transpose_map_def)

lemma and_then_eq_Inr: "and_then r f = Inr y \<longleftrightarrow> (\<exists>x. r = Inr x \<and> f x = Inr y)"
  by (cases r) simp_all

lemma and_then_eq_Inl: "and_then r f = Inl e \<longleftrightarrow> r = Inl e \<or> (\<exists>x. r = Inr x \<and> f x = Inl e)"
  by (cases r) simp_all

lemma map_err_eq_Inr [simp]: "map_err g r = Inr x \<longleftrightarrow> r = Inr x"
  by (cases r) simp_all

lemma map_err_eq_Inl: "map_err g r = Inl e \<longleftrightarrow> (\<exists>e'. r = Inl e' \<and> e = g e')"
  by (cases r) auto

lemma map_ok_eq_Inr: "map_ok g r = Inr y \<longleftrightarrow> (\<exists>x. r = Inr x \<and> y = g x)"
  by (cases r) auto

lemma map_ok_eq_Inl [simp]: "map_ok g r = Inl e \<longleftrightarrow> r = Inl e"
  by (cases r) simp_all

lemma ok_or_eq_Inr [simp]: "ok_or e v = Inr x \<longleftrightarrow> v = Some x"
  by (cases v) simp_all

lemma ok_or_eq_Inl: "ok_or e v = Inl e' \<longleftrightarrow> v = None \<and> e' = e"
  by (cases v) auto

lemma is_ok_iff: "is_ok r \<longleftrightarrow> (\<exists>x. r = Inr x)"
  by (cases r) simp_all

lemmas [result_elims] =
  and_then_eq_Inr and_then_eq_Inl map_err_eq_Inl map_ok_eq_Inr ok_or_eq_Inl

lemma transpose_map_eq_Inr:
  "transpose_map f v = Inr w \<longleftrightarrow>
     (case v of None \<Rightarrow> w = None | Some x \<Rightarrow> (\<exists>y. f x = Inr y \<and> w = Some y))"
  by (cases v) (auto simp: map_ok_eq_Inr)

section \<open>Bytes\<close>

definition byte_code :: "char \<Rightarrow> nat" where
  "byte_code c = of_char c"

definition is_ascii_digit :: "char \<Rightarrow> bool" where
  "is_ascii_digit c \<longleftrightarrow> 48 \<le> byte_code c \<and> byte_code c \<le> 57"

definition is_ascii_uppercase :: "char \<Rightarrow> bool" where
  "is_ascii_uppercase c \<longleftrightarrow> 65 \<le> byte_code c \<and> byte_code c \<le> 90"

definition is_ascii_lowercase :: "char \<Rightarrow> bool" where
  "is_ascii_lowercase c \<longleftrightarrow> 97 \<le> byte_code c \<and> byte_code c \<le> 122"

definition is_ascii_alphanumeric :: "char \<Rightarrow> bool" where
  "is_ascii_alphanumeric c \<longleftrightarrow> is_ascii_digit c \<or> is_ascii_uppercase c \<or> is_ascii_lowercase c"

lemmas [byte_defs] = byte_code_def is_ascii_digit_def is_ascii_uppercase_def
  is_ascii_lowercase_def is_ascii_alphanumeric_def

lemma byte_code_bound: "byte_code c < 256"
  by (simp add: byte_code_def)

lemma byte_code_inject [simp]: "byte_code c = byte_code d \<longleftrightarrow> c = d"
  by (simp add: byte_code_def)

text \<open>The loops of the form \<open>for (index, byte) in value.bytes().enumerate()\<close> that return at the
  first byte a test refuses.\<close>

fun first_refused :: "(nat \<Rightarrow> char \<Rightarrow> bool) \<Rightarrow> nat \<Rightarrow> string \<Rightarrow> nat option" where
  "first_refused allowed i [] = None"
| "first_refused allowed i (b # bs) =
     (if allowed i b then first_refused allowed (Suc i) bs else Some i)"

lemma first_refused_None:
  "first_refused allowed i bs = None \<longleftrightarrow> (\<forall>k < length bs. allowed (i + k) (bs ! k))"
proof (induction bs arbitrary: i)
  case (Cons b bs)
  have "(\<forall>k < length (b # bs). allowed (i + k) ((b # bs) ! k)) \<longleftrightarrow>
        allowed i b \<and> (\<forall>k < length bs. allowed (Suc i + k) (bs ! k))"
    by (auto simp: All_less_Suc2)
  with Cons show ?case by simp
qed simp

lemma first_refused_Some:
  "first_refused allowed i bs = Some j \<longleftrightarrow>
     (\<exists>k < length bs. j = i + k \<and> \<not> allowed j (bs ! k) \<and> (\<forall>m < k. allowed (i + m) (bs ! m)))"
proof (induction bs arbitrary: i)
  case (Cons b bs)
  show ?case
  proof (cases "allowed i b")
    case True
    have "(\<exists>k < length (b # bs). j = i + k \<and> \<not> allowed j ((b # bs) ! k) \<and>
             (\<forall>m < k. allowed (i + m) ((b # bs) ! m))) \<longleftrightarrow>
          (\<exists>k < length bs. j = Suc i + k \<and> \<not> allowed j (bs ! k) \<and>
             (\<forall>m < k. allowed (Suc i + m) (bs ! m)))" (is "?L \<longleftrightarrow> ?R")
    proof
      assume ?L
      then obtain k where k: "k < length (b # bs)" "j = i + k" "\<not> allowed j ((b # bs) ! k)"
        "\<forall>m < k. allowed (i + m) ((b # bs) ! m)" by blast
      with True obtain k' where "k = Suc k'" by (cases k) auto
      with k show ?R by (intro exI [of _ k']) (auto simp: All_less_Suc2)
    next
      assume ?R
      then obtain k where "k < length bs" "j = Suc i + k" "\<not> allowed j (bs ! k)"
        "\<forall>m < k. allowed (Suc i + m) (bs ! m)" by blast
      with True show ?L by (intro exI [of _ "Suc k"]) (auto simp: All_less_Suc2)
    qed
    with True Cons show ?thesis by simp
  next
    case False
    then show ?thesis by (fastforce simp: less_Suc_eq_0_disj)
  qed
qed simp

lemma first_refused_uniform:
  "(\<And>k. allowed (i + k) = ok) \<Longrightarrow> first_refused allowed i bs = None \<longleftrightarrow> list_all ok bs"
  by (simp add: first_refused_None list_all_length)

lemma refused_case_Inr:
  "(case r of None \<Rightarrow> Inr v | Some i \<Rightarrow> Inl (f i)) = Inr w \<longleftrightarrow> r = None \<and> w = v"
  by (cases r) auto

lemma refused_case_Inl:
  "(case r of None \<Rightarrow> Inr v | Some i \<Rightarrow> Inl (f i)) = Inl e \<longleftrightarrow> (\<exists>i. r = Some i \<and> e = f i)"
  by (cases r) auto

section \<open>Slices and searches\<close>

text \<open>\<open>bytes.get(i)\<close> and \<open>bytes.get(a..b)\<close>.\<close>

definition get_at :: "'a list \<Rightarrow> nat \<Rightarrow> 'a option" where
  "get_at xs i = (if i < length xs then Some (xs ! i) else None)"

definition slice :: "'a list \<Rightarrow> nat \<Rightarrow> nat \<Rightarrow> 'a list" where
  "slice xs a b = take (b - a) (drop a xs)"

definition get_slice :: "'a list \<Rightarrow> nat \<Rightarrow> nat \<Rightarrow> 'a list option" where
  "get_slice xs a b = (if a \<le> b \<and> b \<le> length xs then Some (slice xs a b) else None)"

lemma get_at_Some [simp]: "get_at xs i = Some x \<longleftrightarrow> i < length xs \<and> xs ! i = x"
  by (auto simp: get_at_def)

lemma get_at_None [simp]: "get_at xs i = None \<longleftrightarrow> length xs \<le> i"
  by (auto simp: get_at_def)

lemma length_slice [simp]: "b \<le> length xs \<Longrightarrow> length (slice xs a b) = b - a"
  by (simp add: slice_def)

definition starts_with :: "string \<Rightarrow> string \<Rightarrow> bool" where
  "starts_with s p \<longleftrightarrow> take (length p) s = p"

definition strip_prefix :: "string \<Rightarrow> string \<Rightarrow> string option" where
  "strip_prefix s p = (if starts_with s p then Some (drop (length p) s) else None)"

text \<open>\<open>str::split(c)\<close>: always at least one piece.\<close>

fun split_on :: "char \<Rightarrow> string \<Rightarrow> string list" where
  "split_on d [] = [[]]"
| "split_on d (c # cs) =
     (if c = d then [] # split_on d cs
      else (case split_on d cs of [] \<Rightarrow> [[c]] | p # ps \<Rightarrow> (c # p) # ps))"

lemma split_on_not_Nil [simp]: "split_on d s \<noteq> []"
  by (cases s) (auto split: list.splits)

lemma split_on_no_sep: "d \<notin> set s \<Longrightarrow> split_on d s = [s]"
  by (induction s) auto

lemma split_on_append: "d \<notin> set s \<Longrightarrow> split_on d (s @ d # t) = s # split_on d t"
  by (induction s) auto

text \<open>Joining newline-free lines, each ended by the separator, and splitting the text without its
  last byte gives the lines back.\<close>

definition join_lines :: "char \<Rightarrow> string list \<Rightarrow> string" where
  "join_lines d ls = concat (map (\<lambda>l. l @ [d]) ls)"

lemma join_lines_simps [simp]:
  "join_lines d [] = []" "join_lines d (l # ls) = l @ d # join_lines d ls"
  "join_lines d (ls @ ms) = join_lines d ls @ join_lines d ms"
  by (simp_all add: join_lines_def)

lemma join_lines_eq_Nil [simp]: "join_lines d ls = [] \<longleftrightarrow> ls = []"
  by (cases ls) simp_all

lemma last_join_lines: "ls \<noteq> [] \<Longrightarrow> last (join_lines d ls) = d"
  by (induction ls) auto

lemma split_butlast_join_lines:
  "ls \<noteq> [] \<Longrightarrow> \<forall>l \<in> set ls. d \<notin> set l \<Longrightarrow> split_on d (butlast (join_lines d ls)) = ls"
proof (induction ls)
  case (Cons l ls)
  show ?case
  proof (cases "ls = []")
    case True
    with Cons.prems show ?thesis by (simp add: split_on_no_sep)
  next
    case False
    then have "butlast (join_lines d (l # ls)) = l @ d # butlast (join_lines d ls)"
      by (simp add: butlast_append)
    with Cons False show ?thesis by (simp add: split_on_append)
  qed
qed simp

section \<open>Integers as text\<close>

text \<open>\<open>Display\<close> of an unsigned integer, and \<open>str::parse\<close> for one: an optional plus sign, then at
  least one digit, and no overflow.\<close>

definition digit_char :: "nat \<Rightarrow> char" where
  "digit_char d = char_of (48 + d)"

fun show_nat :: "nat \<Rightarrow> string" where
  "show_nat n = (if n < 10 then [digit_char n] else show_nat (n div 10) @ [digit_char (n mod 10)])"

declare show_nat.simps [simp del]

definition digits_value :: "string \<Rightarrow> nat" where
  "digits_value ds = foldl (\<lambda>v d. v * 10 + (byte_code d - 48)) 0 ds"

definition parse_unsigned :: "nat \<Rightarrow> string \<Rightarrow> nat option" where
  "parse_unsigned bound s =
     (let ds = (case s of c # cs \<Rightarrow> if c = CHR ''+'' then cs else s | [] \<Rightarrow> []) in
      if ds = [] \<or> \<not> list_all is_ascii_digit ds then None
      else if digits_value ds < bound then Some (digits_value ds) else None)"

definition parse_u32 :: "string \<Rightarrow> nat option" where
  "parse_u32 = parse_unsigned (2 ^ 32)"

definition parse_u64 :: "string \<Rightarrow> nat option" where
  "parse_u64 = parse_unsigned (2 ^ 64)"

lemma byte_code_digit_char [simp]: "d < 10 \<Longrightarrow> byte_code (digit_char d) = 48 + d"
  by (simp add: byte_code_def digit_char_def)

lemma is_ascii_digit_digit_char [simp]: "d < 10 \<Longrightarrow> is_ascii_digit (digit_char d)"
  by (simp add: is_ascii_digit_def)

lemma show_nat_digits: "list_all is_ascii_digit (show_nat n)"
proof (induction n rule: show_nat.induct)
  case (1 n)
  then show ?case by (cases "n < 10") (simp_all add: show_nat.simps [of n])
qed

lemma show_nat_not_Nil [simp]: "show_nat n \<noteq> []"
  by (subst show_nat.simps) simp

lemma digits_value_show_nat [simp]: "digits_value (show_nat n) = n"
proof (induction n rule: show_nat.induct)
  case (1 n)
  then show ?case by (cases "n < 10") (simp_all add: show_nat.simps [of n] digits_value_def)
qed

lemma parse_unsigned_show_nat: "n < bound \<Longrightarrow> parse_unsigned bound (show_nat n) = Some n"
proof -
  assume n: "n < bound"
  obtain c cs where s: "show_nat n = c # cs"
    by (cases "show_nat n") auto
  have "c \<noteq> CHR ''+''"
    using show_nat_digits [of n] s by (auto simp: byte_defs)
  then show ?thesis
    using n show_nat_digits [of n] digits_value_show_nat [of n]
    by (simp add: parse_unsigned_def s)
qed

lemma parse_unsigned_bound: "parse_unsigned bound s = Some n \<Longrightarrow> n < bound"
  by (auto simp: parse_unsigned_def Let_def split: if_splits list.splits)

section \<open>UTF-8 validation\<close>

text \<open>\<open>core::str::from_utf8\<close>: \<open>None\<close> for a valid text, otherwise the length of the valid prefix
  and the length of the offending sequence (\<open>None\<close> when the input ends inside a sequence), as
  \<open>Utf8Error\<close> carries them.\<close>

definition is_cont :: "char \<Rightarrow> bool" where
  "is_cont c \<longleftrightarrow> 128 \<le> byte_code c \<and> byte_code c \<le> 191"

definition utf8_second_of_3 :: "nat \<Rightarrow> char \<Rightarrow> bool" where
  "utf8_second_of_3 first c \<longleftrightarrow>
     (let x = byte_code c in
      (first = 0xE0 \<and> 0xA0 \<le> x \<and> x \<le> 0xBF) \<or>
      (0xE1 \<le> first \<and> first \<le> 0xEC \<and> 0x80 \<le> x \<and> x \<le> 0xBF) \<or>
      (first = 0xED \<and> 0x80 \<le> x \<and> x \<le> 0x9F) \<or>
      (0xEE \<le> first \<and> first \<le> 0xEF \<and> 0x80 \<le> x \<and> x \<le> 0xBF))"

definition utf8_second_of_4 :: "nat \<Rightarrow> char \<Rightarrow> bool" where
  "utf8_second_of_4 first c \<longleftrightarrow>
     (let x = byte_code c in
      (first = 0xF0 \<and> 0x90 \<le> x \<and> x \<le> 0xBF) \<or>
      (0xF1 \<le> first \<and> first \<le> 0xF3 \<and> 0x80 \<le> x \<and> x \<le> 0xBF) \<or>
      (first = 0xF4 \<and> 0x80 \<le> x \<and> x \<le> 0x8F))"

fun utf8_error :: "nat \<Rightarrow> string \<Rightarrow> (nat \<times> nat option) option" where
  "utf8_error i [] = None"
| "utf8_error i (b # bs) =
     (let first = byte_code b in
      if first < 128 then utf8_error (i + 1) bs
      else if 0xC2 \<le> first \<and> first \<le> 0xDF then
        (case bs of
           [] \<Rightarrow> Some (i, None)
         | c1 # r \<Rightarrow> if is_cont c1 then utf8_error (i + 2) r else Some (i, Some 1))
      else if 0xE0 \<le> first \<and> first \<le> 0xEF then
        (case bs of
           [] \<Rightarrow> Some (i, None)
         | c1 # r1 \<Rightarrow>
             if \<not> utf8_second_of_3 first c1 then Some (i, Some 1)
             else (case r1 of
                     [] \<Rightarrow> Some (i, None)
                   | c2 # r \<Rightarrow> if is_cont c2 then utf8_error (i + 3) r else Some (i, Some 2)))
      else if 0xF0 \<le> first \<and> first \<le> 0xF4 then
        (case bs of
           [] \<Rightarrow> Some (i, None)
         | c1 # r1 \<Rightarrow>
             if \<not> utf8_second_of_4 first c1 then Some (i, Some 1)
             else (case r1 of
                     [] \<Rightarrow> Some (i, None)
                   | c2 # r2 \<Rightarrow>
                       if \<not> is_cont c2 then Some (i, Some 2)
                       else (case r2 of
                               [] \<Rightarrow> Some (i, None)
                             | c3 # r \<Rightarrow> if is_cont c3 then utf8_error (i + 4) r else Some (i, Some 3))))
      else Some (i, Some 1))"

definition from_utf8 :: "bytes \<Rightarrow> (string, string) result" where
  "from_utf8 bs =
     (case utf8_error 0 bs of
        None \<Rightarrow> Inr bs
      | Some (valid, Some n) \<Rightarrow>
          Inl (''invalid utf-8 sequence of '' @ show_nat n @ '' bytes from index '' @ show_nat valid)
      | Some (valid, None) \<Rightarrow>
          Inl (''incomplete utf-8 byte sequence from index '' @ show_nat valid))"

lemma from_utf8_Inr: "from_utf8 bs = Inr t \<Longrightarrow> t = bs"
  by (auto simp: from_utf8_def split: option.splits)

lemma utf8_error_ascii: "list_all (\<lambda>c. byte_code c < 128) bs \<Longrightarrow> utf8_error i bs = None"
  by (induction bs arbitrary: i) auto

lemma from_utf8_ascii: "list_all (\<lambda>c. byte_code c < 128) bs \<Longrightarrow> from_utf8 bs = Inr bs"
  by (simp add: from_utf8_def utf8_error_ascii)

section \<open>Trimming\<close>

text \<open>\<open>str::trim_start\<close> on a UTF-8 text: the characters with the Unicode \<open>White_Space\<close> property,
  one to three bytes each.\<close>

definition white_space_len :: "nat list \<Rightarrow> nat" where
  "white_space_len bs =
     (case bs of
        [] \<Rightarrow> 0
      | a # r1 \<Rightarrow>
          if (9 \<le> a \<and> a \<le> 13) \<or> a = 32 then 1
          else
            (case r1 of
               [] \<Rightarrow> 0
             | b # r2 \<Rightarrow>
                 if a = 0xC2 \<and> (b = 0x85 \<or> b = 0xA0) then 2
                 else
                   (case r2 of
                      [] \<Rightarrow> 0
                    | c # _ \<Rightarrow>
                        if a = 0xE1 \<and> b = 0x9A \<and> c = 0x80 \<or>
                           a = 0xE2 \<and> b = 0x80 \<and> (0x80 \<le> c \<and> c \<le> 0x8A) \<or>
                           a = 0xE2 \<and> b = 0x80 \<and> (c = 0xA8 \<or> c = 0xA9 \<or> c = 0xAF) \<or>
                           a = 0xE2 \<and> b = 0x81 \<and> c = 0x9F \<or>
                           a = 0xE3 \<and> b = 0x80 \<and> c = 0x80
                        then 3 else 0)))"

function trim_start :: "string \<Rightarrow> string" where
  "trim_start s =
     (let n = white_space_len (map byte_code (take 3 s)) in
      if n = 0 \<or> s = [] then s else trim_start (drop n s))"
  by auto
termination by (relation "measure length") auto

declare trim_start.simps [simp del]

end
