(* ===== verification/Identity.thy ===== *)
theory Identity
  imports Prelude
begin

text \<open>
  \<^verbatim>\<open>crates/aizign-core/src/identity.rs\<close>: the validated vocabulary of identifiers, short error
  codes, digests and bounded timestamps. Each Rust newtype is a one-constructor datatype; its
  \<open>new\<close> is a function into a result, and \<open>wf_T\<close> says what every value built by \<open>new\<close> satisfies.
  The grammar predicates (\<open>identifier_grammar\<close>, \<open>short_code_grammar\<close>, \<open>digest_grammar\<close>) are the
  documented regular expressions, stated apart from the loops that check them.
\<close>

section \<open>Bounds and errors\<close>

definition IDENTIFIER_MAX_LEN :: nat where "IDENTIFIER_MAX_LEN = 128"
definition ARTIFACT_REF_MAX_LEN :: nat where "ARTIFACT_REF_MAX_LEN = 256"
definition SHORT_ERROR_CODE_MAX_LEN :: nat where "SHORT_ERROR_CODE_MAX_LEN = 64"

lemmas identity_bounds =
  IDENTIFIER_MAX_LEN_def ARTIFACT_REF_MAX_LEN_def SHORT_ERROR_CODE_MAX_LEN_def

datatype IdentityError =
    Empty
  | TooLong nat nat \<comment> \<open>max, actual\<close>
  | InvalidCharacter nat \<comment> \<open>index\<close>
  | DigestLength nat nat \<comment> \<open>expected, actual\<close>
  | TimestampOutOfRange

fun show_IdentityError :: "IdentityError \<Rightarrow> string" where
  "show_IdentityError Empty = ''value must not be empty''"
| "show_IdentityError (TooLong limit actual) =
     ''value is '' @ show_nat actual @ '' bytes long; at most '' @ show_nat limit @ '' allowed''"
| "show_IdentityError (InvalidCharacter index) =
     ''character at byte '' @ show_nat index @ '' is not allowed''"
| "show_IdentityError (DigestLength expected actual) =
     ''digest has '' @ show_nat actual @ '' hexadecimal characters; expected '' @ show_nat expected"
| "show_IdentityError TimestampOutOfRange = ''timestamp is outside the bounded range''"

section \<open>Identifiers\<close>

definition identifier_byte :: "nat \<Rightarrow> char \<Rightarrow> bool" where
  "identifier_byte index byte \<longleftrightarrow>
     is_ascii_alphanumeric byte \<or>
     (index > 0 \<and> (byte = CHR ''.'' \<or> byte = CHR ''_'' \<or> byte = CHR '':'' \<or> byte = CHR ''-''))"

definition validate_identifier :: "string \<Rightarrow> nat \<Rightarrow> (IdentityError, unit) result" where
  "validate_identifier value limit =
     (if value = [] then Inl Empty
      else if length value > limit then Inl (TooLong limit (length value))
      else (case first_refused identifier_byte 0 value of
              Some index \<Rightarrow> Inl (InvalidCharacter index)
            | None \<Rightarrow> Inr ()))"

datatype WorkflowId = WorkflowId (WorkflowId_as_str: string)
datatype AssignmentId = AssignmentId (AssignmentId_as_str: string)
datatype AttemptId = AttemptId (AttemptId_as_str: string)
datatype ArtifactRevision = ArtifactRevision (ArtifactRevision_as_str: string)
datatype EventId = EventId (EventId_as_str: string)
datatype ArtifactRef = ArtifactRef (ArtifactRef_as_str: string)

definition WorkflowId_new :: "string \<Rightarrow> (IdentityError, WorkflowId) result" where
  "WorkflowId_new value =
     and_then (validate_identifier value IDENTIFIER_MAX_LEN) (\<lambda>_. Inr (WorkflowId value))"

definition AssignmentId_new :: "string \<Rightarrow> (IdentityError, AssignmentId) result" where
  "AssignmentId_new value =
     and_then (validate_identifier value IDENTIFIER_MAX_LEN) (\<lambda>_. Inr (AssignmentId value))"

definition AttemptId_new :: "string \<Rightarrow> (IdentityError, AttemptId) result" where
  "AttemptId_new value =
     and_then (validate_identifier value IDENTIFIER_MAX_LEN) (\<lambda>_. Inr (AttemptId value))"

definition ArtifactRevision_new :: "string \<Rightarrow> (IdentityError, ArtifactRevision) result" where
  "ArtifactRevision_new value =
     and_then (validate_identifier value IDENTIFIER_MAX_LEN) (\<lambda>_. Inr (ArtifactRevision value))"

definition EventId_new :: "string \<Rightarrow> (IdentityError, EventId) result" where
  "EventId_new value =
     and_then (validate_identifier value IDENTIFIER_MAX_LEN) (\<lambda>_. Inr (EventId value))"

definition ArtifactRef_new :: "string \<Rightarrow> (IdentityError, ArtifactRef) result" where
  "ArtifactRef_new value =
     and_then (validate_identifier value ARTIFACT_REF_MAX_LEN) (\<lambda>_. Inr (ArtifactRef value))"

lemmas identifier_new_defs = WorkflowId_new_def AssignmentId_new_def AttemptId_new_def
  ArtifactRevision_new_def EventId_new_def ArtifactRef_new_def

section \<open>Short error codes\<close>

definition short_code_byte :: "nat \<Rightarrow> char \<Rightarrow> bool" where
  "short_code_byte index byte \<longleftrightarrow>
     is_ascii_uppercase byte \<or> (index > 0 \<and> (is_ascii_digit byte \<or> byte = CHR ''_''))"

datatype ShortErrorCode = ShortErrorCode (ShortErrorCode_as_str: string)

definition ShortErrorCode_new :: "string \<Rightarrow> (IdentityError, ShortErrorCode) result" where
  "ShortErrorCode_new value =
     (if value = [] then Inl Empty
      else if length value > SHORT_ERROR_CODE_MAX_LEN
        then Inl (TooLong SHORT_ERROR_CODE_MAX_LEN (length value))
      else (case first_refused short_code_byte 0 value of
              Some index \<Rightarrow> Inl (InvalidCharacter index)
            | None \<Rightarrow> Inr (ShortErrorCode value)))"

section \<open>Digests\<close>

datatype DigestAlgorithm = Sha256

fun hex_len :: "DigestAlgorithm \<Rightarrow> nat" where
  "hex_len Sha256 = 64"

record Digest =
  algorithm :: DigestAlgorithm
  hex :: string

definition lower_hex_byte :: "nat \<Rightarrow> char \<Rightarrow> bool" where
  "lower_hex_byte index byte \<longleftrightarrow>
     is_ascii_digit byte \<or> (97 \<le> byte_code byte \<and> byte_code byte \<le> 102)"

definition Digest_new :: "DigestAlgorithm \<Rightarrow> string \<Rightarrow> (IdentityError, Digest) result" where
  "Digest_new alg h =
     (let expected = hex_len alg in
      if length h \<noteq> expected then Inl (DigestLength expected (length h))
      else (case first_refused lower_hex_byte 0 h of
              Some index \<Rightarrow> Inl (InvalidCharacter index)
            | None \<Rightarrow> Inr \<lparr>algorithm = alg, hex = h\<rparr>))"

definition show_Digest :: "Digest \<Rightarrow> string" where
  "show_Digest d = (case algorithm d of Sha256 \<Rightarrow> ''sha256:'' @ hex d)"

section \<open>Bounded timestamps\<close>

definition MIN_UNIX_SECONDS :: u64 where "MIN_UNIX_SECONDS = 1577836800"
definition MAX_UNIX_SECONDS :: u64 where "MAX_UNIX_SECONDS = 4102444800"

datatype BoundedTimestamp = BoundedTimestamp (unix_seconds: u64)

definition from_unix_seconds :: "u64 \<Rightarrow> (IdentityError, BoundedTimestamp) result" where
  "from_unix_seconds seconds =
     (if MIN_UNIX_SECONDS \<le> seconds \<and> seconds \<le> MAX_UNIX_SECONDS
      then Inr (BoundedTimestamp seconds) else Inl TimestampOutOfRange)"

text \<open>The derived order of \<open>BoundedTimestamp\<close>.\<close>

instantiation BoundedTimestamp :: linorder
begin

definition less_eq_BoundedTimestamp :: "BoundedTimestamp \<Rightarrow> BoundedTimestamp \<Rightarrow> bool" where
  "less_eq_BoundedTimestamp a b \<longleftrightarrow> unix_seconds a \<le> unix_seconds b"

definition less_BoundedTimestamp :: "BoundedTimestamp \<Rightarrow> BoundedTimestamp \<Rightarrow> bool" where
  "less_BoundedTimestamp a b \<longleftrightarrow> unix_seconds a < unix_seconds b"

instance
  by standard
    (auto simp: less_eq_BoundedTimestamp_def less_BoundedTimestamp_def BoundedTimestamp.expand)

end

section \<open>The documented grammars\<close>

definition identifier_grammar :: "nat \<Rightarrow> string \<Rightarrow> bool" where
  "identifier_grammar limit s \<longleftrightarrow>
     length s \<le> limit \<and>
     (\<exists>c cs. s = c # cs \<and> is_ascii_alphanumeric c \<and>
        list_all (\<lambda>b. is_ascii_alphanumeric b \<or> b \<in> set ''._:-'') cs)"

definition short_code_grammar :: "string \<Rightarrow> bool" where
  "short_code_grammar s \<longleftrightarrow>
     length s \<le> 64 \<and>
     (\<exists>c cs. s = c # cs \<and> is_ascii_uppercase c \<and>
        list_all (\<lambda>b. is_ascii_uppercase b \<or> is_ascii_digit b \<or> b = CHR ''_'') cs)"

definition digest_grammar :: "string \<Rightarrow> bool" where
  "digest_grammar s \<longleftrightarrow>
     length s = 64 \<and> list_all (\<lambda>b. is_ascii_digit b \<or> b \<in> set ''abcdef'') s"

lemma identifier_bytes_iff:
  "first_refused identifier_byte 0 (c # cs) = None \<longleftrightarrow>
     is_ascii_alphanumeric c \<and>
     list_all (\<lambda>b. is_ascii_alphanumeric b \<or> b \<in> set ''._:-'') cs"
proof -
  have "first_refused identifier_byte (Suc 0) cs = None \<longleftrightarrow>
      list_all (\<lambda>b. is_ascii_alphanumeric b \<or> b \<in> set ''._:-'') cs"
    by (rule first_refused_uniform) (simp add: fun_eq_iff identifier_byte_def)
  then show ?thesis by (simp add: identifier_byte_def)
qed

lemma short_code_bytes_iff:
  "first_refused short_code_byte 0 (c # cs) = None \<longleftrightarrow>
     is_ascii_uppercase c \<and>
     list_all (\<lambda>b. is_ascii_uppercase b \<or> is_ascii_digit b \<or> b = CHR ''_'') cs"
proof -
  have "first_refused short_code_byte (Suc 0) cs = None \<longleftrightarrow>
      list_all (\<lambda>b. is_ascii_uppercase b \<or> is_ascii_digit b \<or> b = CHR ''_'') cs"
    by (rule first_refused_uniform) (simp add: fun_eq_iff short_code_byte_def)
  then show ?thesis by (simp add: short_code_byte_def)
qed

lemma hex_letter_iff: "97 \<le> byte_code b \<and> byte_code b \<le> 102 \<longleftrightarrow> b \<in> set ''abcdef''"
proof -
  have "b \<in> set ''abcdef'' \<longleftrightarrow> byte_code b \<in> {97, 98, 99, 100, 101, 102}"
  proof -
    have "b = CHR ''a'' \<longleftrightarrow> byte_code b = 97" "b = CHR ''b'' \<longleftrightarrow> byte_code b = 98"
      "b = CHR ''c'' \<longleftrightarrow> byte_code b = 99" "b = CHR ''d'' \<longleftrightarrow> byte_code b = 100"
      "b = CHR ''e'' \<longleftrightarrow> byte_code b = 101" "b = CHR ''f'' \<longleftrightarrow> byte_code b = 102"
      by (simp_all add: byte_code_inject [symmetric] del: byte_code_inject) (simp_all add: byte_code_def)
    then show ?thesis by simp
  qed
  then show ?thesis by auto
qed

lemma hex_bytes_iff:
  "first_refused lower_hex_byte 0 s = None \<longleftrightarrow>
     list_all (\<lambda>b. is_ascii_digit b \<or> b \<in> set ''abcdef'') s"
  unfolding first_refused_None list_all_length lower_hex_byte_def hex_letter_iff by simp

lemma validate_identifier_ok [wf_simps]:
  "validate_identifier s limit = Inr () \<longleftrightarrow> identifier_grammar limit s"
proof (cases s)
  case (Cons c cs)
  then show ?thesis
    unfolding validate_identifier_def identifier_grammar_def Cons
    by (auto simp: refused_case_Inr identifier_bytes_iff simp del: first_refused.simps)
qed (simp add: validate_identifier_def identifier_grammar_def)

lemma ShortErrorCode_new_ok [wf_simps]:
  "ShortErrorCode_new s = Inr c \<longleftrightarrow> short_code_grammar s \<and> c = ShortErrorCode s"
proof (cases s)
  case (Cons b bs)
  then show ?thesis
    unfolding ShortErrorCode_new_def short_code_grammar_def Cons identity_bounds
    by (auto simp: refused_case_Inr short_code_bytes_iff simp del: first_refused.simps)
qed (simp add: ShortErrorCode_new_def short_code_grammar_def)

lemma Digest_new_ok [wf_simps]:
  "Digest_new a h = Inr d \<longleftrightarrow> digest_grammar h \<and> d = \<lparr>algorithm = a, hex = h\<rparr>"
  by (cases a) (auto simp: Digest_new_def digest_grammar_def refused_case_Inr hex_bytes_iff)

text \<open>What every value built by its \<open>new\<close> satisfies.\<close>

definition wf_WorkflowId :: "WorkflowId \<Rightarrow> bool" where
  "wf_WorkflowId i \<longleftrightarrow> identifier_grammar 128 (WorkflowId_as_str i)"
definition wf_AssignmentId :: "AssignmentId \<Rightarrow> bool" where
  "wf_AssignmentId i \<longleftrightarrow> identifier_grammar 128 (AssignmentId_as_str i)"
definition wf_AttemptId :: "AttemptId \<Rightarrow> bool" where
  "wf_AttemptId i \<longleftrightarrow> identifier_grammar 128 (AttemptId_as_str i)"
definition wf_ArtifactRevision :: "ArtifactRevision \<Rightarrow> bool" where
  "wf_ArtifactRevision i \<longleftrightarrow> identifier_grammar 128 (ArtifactRevision_as_str i)"
definition wf_EventId :: "EventId \<Rightarrow> bool" where
  "wf_EventId i \<longleftrightarrow> identifier_grammar 128 (EventId_as_str i)"
definition wf_ArtifactRef :: "ArtifactRef \<Rightarrow> bool" where
  "wf_ArtifactRef i \<longleftrightarrow> identifier_grammar 256 (ArtifactRef_as_str i)"
definition wf_ShortErrorCode :: "ShortErrorCode \<Rightarrow> bool" where
  "wf_ShortErrorCode c \<longleftrightarrow> short_code_grammar (ShortErrorCode_as_str c)"
definition wf_Digest :: "Digest \<Rightarrow> bool" where
  "wf_Digest d \<longleftrightarrow> digest_grammar (hex d)"
definition wf_BoundedTimestamp :: "BoundedTimestamp \<Rightarrow> bool" where
  "wf_BoundedTimestamp t \<longleftrightarrow>
     MIN_UNIX_SECONDS \<le> unix_seconds t \<and> unix_seconds t \<le> MAX_UNIX_SECONDS"

lemmas wf_identity_defs = wf_WorkflowId_def wf_AssignmentId_def wf_AttemptId_def
  wf_ArtifactRevision_def wf_EventId_def wf_ArtifactRef_def wf_ShortErrorCode_def
  wf_Digest_def wf_BoundedTimestamp_def

lemma identifier_new_ok [wf_simps]:
  "WorkflowId_new s = Inr w \<longleftrightarrow> w = WorkflowId s \<and> wf_WorkflowId w"
  "AssignmentId_new s = Inr a \<longleftrightarrow> a = AssignmentId s \<and> wf_AssignmentId a"
  "AttemptId_new s = Inr t \<longleftrightarrow> t = AttemptId s \<and> wf_AttemptId t"
  "ArtifactRevision_new s = Inr r \<longleftrightarrow> r = ArtifactRevision s \<and> wf_ArtifactRevision r"
  "EventId_new s = Inr e \<longleftrightarrow> e = EventId s \<and> wf_EventId e"
  "ArtifactRef_new s = Inr f \<longleftrightarrow> f = ArtifactRef s \<and> wf_ArtifactRef f"
  by (auto simp: identifier_new_defs wf_identity_defs identity_bounds and_then_eq_Inr
      validate_identifier_ok)

lemma from_unix_seconds_ok [wf_simps]:
  "from_unix_seconds s = Inr t \<longleftrightarrow> t = BoundedTimestamp s \<and> wf_BoundedTimestamp t"
  by (auto simp: from_unix_seconds_def wf_BoundedTimestamp_def)

text \<open>A well-formed value passes its own constructor again: the round trip every decoder relies on.\<close>

lemma new_as_str [simp]:
  "wf_WorkflowId w \<Longrightarrow> WorkflowId_new (WorkflowId_as_str w) = Inr w"
  "wf_AssignmentId a \<Longrightarrow> AssignmentId_new (AssignmentId_as_str a) = Inr a"
  "wf_AttemptId t \<Longrightarrow> AttemptId_new (AttemptId_as_str t) = Inr t"
  "wf_ArtifactRevision r \<Longrightarrow> ArtifactRevision_new (ArtifactRevision_as_str r) = Inr r"
  "wf_EventId e \<Longrightarrow> EventId_new (EventId_as_str e) = Inr e"
  "wf_ArtifactRef f \<Longrightarrow> ArtifactRef_new (ArtifactRef_as_str f) = Inr f"
  "wf_ShortErrorCode c \<Longrightarrow> ShortErrorCode_new (ShortErrorCode_as_str c) = Inr c"
  "wf_Digest d \<Longrightarrow> Digest_new (algorithm d) (hex d) = Inr d"
  "wf_BoundedTimestamp b \<Longrightarrow> from_unix_seconds (unix_seconds b) = Inr b"
  by (simp_all add: identifier_new_ok ShortErrorCode_new_ok Digest_new_ok from_unix_seconds_ok
      wf_ShortErrorCode_def wf_Digest_def)

section \<open>The exact outcome of identifier validation\<close>

text \<open>C28: \<open>validate_identifier\<close> accepts exactly the strings of the documented regular expression
  within the length bound, and otherwise reports the first applicable reason in a fixed order: the
  empty string, then the length (with both numbers), then the index of the first byte that is not
  allowed at its position, every earlier byte being allowed.\<close>

theorem validate_identifier_exact:
  "(validate_identifier s limit = Inr () \<longleftrightarrow> identifier_grammar limit s) \<and>
   (validate_identifier s limit = Inl Empty \<longleftrightarrow> s = []) \<and>
   (validate_identifier s limit = Inl (TooLong m a) \<longleftrightarrow>
      s \<noteq> [] \<and> limit < length s \<and> m = limit \<and> a = length s) \<and>
   (validate_identifier s limit = Inl (InvalidCharacter i) \<longleftrightarrow>
      length s \<le> limit \<and> i < length s \<and> \<not> identifier_byte i (s ! i) \<and>
      (\<forall>k < i. identifier_byte k (s ! k)))"
proof (intro conjI)
  show "validate_identifier s limit = Inr () \<longleftrightarrow> identifier_grammar limit s"
    by (rule validate_identifier_ok)
  show "validate_identifier s limit = Inl Empty \<longleftrightarrow> s = []"
    by (simp add: validate_identifier_def refused_case_Inl)
  show "validate_identifier s limit = Inl (TooLong m a) \<longleftrightarrow>
      s \<noteq> [] \<and> limit < length s \<and> m = limit \<and> a = length s"
    by (auto simp: validate_identifier_def refused_case_Inl)
  show "validate_identifier s limit = Inl (InvalidCharacter i) \<longleftrightarrow>
     length s \<le> limit \<and> i < length s \<and> \<not> identifier_byte i (s ! i) \<and>
     (\<forall>k < i. identifier_byte k (s ! k))"
    by (auto simp: validate_identifier_def refused_case_Inl first_refused_Some)
qed

theorem validate_identifier_exact_witness:
  "validate_identifier ''a b'' 8 = Inl (InvalidCharacter 1) \<and>
   validate_identifier ''a.b'' 8 = Inr () \<and> identifier_grammar 8 ''a.b''"
  using validate_identifier_exact [of "''a b''" 8 0 0 1]
    validate_identifier_exact [of "''a.b''" 8 0 0 0]
  by (simp add: identifier_byte_def identifier_grammar_def byte_defs)

end
