(* ===== verification/Workflow.thy ===== *)
theory Workflow
  imports Identity
begin

text \<open>
  \<^verbatim>\<open>crates/aizign-core/src/workflow/\<close> and \<^verbatim>\<open>recovery/mod.rs\<close>: the functional core.
  \<open>WorkflowSignal_validate\<close> checks the kind-specific rules of a signal, \<open>decide\<close> is
  \<open>State + Command -> Decision\<close>, \<open>apply_event\<close> and \<open>replay\<close> are \<open>State + Event -> State\<close>, and
  \<open>reconcile_workflow_signal\<close> classifies a signal against a replayed state. The \<open>BTreeMap\<close> of accepted
  signals is a map from event identifiers.
\<close>

section \<open>Signals (signal.rs)\<close>

datatype Role = Implementation | Review

datatype SignalKind =
    ImplementationReady
  | ReviewFindings
  | ReviewPassed
  | RepairSubmitted
  | Blocked

fun required_role :: "SignalKind \<Rightarrow> Role option" where
  "required_role ImplementationReady = Some Implementation"
| "required_role RepairSubmitted = Some Implementation"
| "required_role ReviewFindings = Some Review"
| "required_role ReviewPassed = Some Review"
| "required_role Blocked = None"

record ExpectedAssignment =
  expected_workflow_id :: WorkflowId
  expected_assignment_id :: AssignmentId
  expected_attempt_id :: AttemptId
  expected_role :: Role
  expected_artifact_revision :: ArtifactRevision
  expected_candidate_digest :: Digest

record SignalParts =
  event_id :: EventId
  workflow_id :: WorkflowId
  assignment_id :: AssignmentId
  attempt_id :: AttemptId
  role :: Role
  artifact_revision :: ArtifactRevision
  candidate_digest :: Digest
  kind :: SignalKind
  finding_count :: "u32 option"
  artifact_ref :: "ArtifactRef option"
  short_error_code :: "ShortErrorCode option"

datatype WorkflowSignal = WorkflowSignal (parts: SignalParts)

abbreviation signal_event_id :: "WorkflowSignal \<Rightarrow> EventId" where
  "signal_event_id s \<equiv> event_id (parts s)"

section \<open>Rejections (error.rs)\<close>

datatype InvalidSignal =
    KindRequiresRole SignalKind Role
  | FindingCountRequired SignalKind
  | FindingCountForbidden SignalKind
  | FindingCountMustBePositive SignalKind
  | FindingCountMustBeZero
  | ArtifactRefRequired SignalKind
  | ArtifactRefForbidden SignalKind
  | ShortErrorCodeRequired
  | ShortErrorCodeForbidden SignalKind

datatype WorkflowError =
    InvalidSignal InvalidSignal
  | WorkflowMismatch WorkflowId WorkflowId \<comment> \<open>expected, actual; likewise below\<close>
  | AssignmentMismatch AssignmentId AssignmentId
  | AttemptMismatch AttemptId AttemptId
  | RoleMismatch Role Role
  | RevisionMismatch ArtifactRevision ArtifactRevision
  | CandidateDigestMismatch Digest Digest
  | EventConflict EventId

fun WorkflowError_code :: "WorkflowError \<Rightarrow> string" where
  "WorkflowError_code (InvalidSignal _) = ''INVALID_SIGNAL''"
| "WorkflowError_code (WorkflowMismatch _ _) = ''WORKFLOW_MISMATCH''"
| "WorkflowError_code (AssignmentMismatch _ _) = ''ASSIGNMENT_MISMATCH''"
| "WorkflowError_code (AttemptMismatch _ _) = ''ATTEMPT_MISMATCH''"
| "WorkflowError_code (RoleMismatch _ _) = ''ROLE_MISMATCH''"
| "WorkflowError_code (RevisionMismatch _ _) = ''REVISION_MISMATCH''"
| "WorkflowError_code (CandidateDigestMismatch _ _) = ''CANDIDATE_DIGEST_MISMATCH''"
| "WorkflowError_code (EventConflict _) = ''EVENT_CONFLICT''"

text \<open>\<open>Debug\<close> of the two enumerations, and \<open>Display\<close> of the rejections.\<close>

fun debug_Role :: "Role \<Rightarrow> string" where
  "debug_Role Implementation = ''Implementation''"
| "debug_Role Review = ''Review''"

fun debug_SignalKind :: "SignalKind \<Rightarrow> string" where
  "debug_SignalKind ImplementationReady = ''ImplementationReady''"
| "debug_SignalKind ReviewFindings = ''ReviewFindings''"
| "debug_SignalKind ReviewPassed = ''ReviewPassed''"
| "debug_SignalKind RepairSubmitted = ''RepairSubmitted''"
| "debug_SignalKind Blocked = ''Blocked''"

fun show_InvalidSignal :: "InvalidSignal \<Rightarrow> string" where
  "show_InvalidSignal (KindRequiresRole k r) =
     debug_SignalKind k @ '' requires the '' @ debug_Role r @ '' role''"
| "show_InvalidSignal (FindingCountRequired k) = debug_SignalKind k @ '' requires finding_count''"
| "show_InvalidSignal (FindingCountForbidden k) =
     debug_SignalKind k @ '' does not carry finding_count''"
| "show_InvalidSignal (FindingCountMustBePositive k) =
     debug_SignalKind k @ '' requires finding_count greater than zero''"
| "show_InvalidSignal FindingCountMustBeZero = ''ReviewPassed requires finding_count zero''"
| "show_InvalidSignal (ArtifactRefRequired k) = debug_SignalKind k @ '' requires artifact_ref''"
| "show_InvalidSignal (ArtifactRefForbidden k) =
     debug_SignalKind k @ '' does not carry artifact_ref''"
| "show_InvalidSignal ShortErrorCodeRequired = ''Blocked requires short_error_code''"
| "show_InvalidSignal (ShortErrorCodeForbidden k) =
     debug_SignalKind k @ '' does not carry short_error_code''"

fun show_WorkflowError :: "WorkflowError \<Rightarrow> string" where
  "show_WorkflowError (InvalidSignal reason) = ''invalid signal: '' @ show_InvalidSignal reason"
| "show_WorkflowError (WorkflowMismatch e a) =
     ''workflow mismatch: expected '' @ WorkflowId_as_str e @ '', got '' @ WorkflowId_as_str a"
| "show_WorkflowError (AssignmentMismatch e a) =
     ''assignment mismatch: expected '' @ AssignmentId_as_str e @ '', got '' @ AssignmentId_as_str a"
| "show_WorkflowError (AttemptMismatch e a) =
     ''attempt mismatch: expected '' @ AttemptId_as_str e @ '', got '' @ AttemptId_as_str a"
| "show_WorkflowError (RoleMismatch e a) =
     ''role mismatch: expected '' @ debug_Role e @ '', got '' @ debug_Role a"
| "show_WorkflowError (RevisionMismatch e a) =
     ''revision mismatch: expected '' @ ArtifactRevision_as_str e @ '', got '' @
     ArtifactRevision_as_str a"
| "show_WorkflowError (CandidateDigestMismatch e a) =
     ''candidate digest mismatch: expected '' @ show_Digest e @ '', got '' @ show_Digest a"
| "show_WorkflowError (EventConflict i) =
     ''event '' @ EventId_as_str i @ '' was already accepted with different content''"

section \<open>Validation and the expected assignment (signal.rs)\<close>

definition check_role :: "SignalParts \<Rightarrow> (InvalidSignal, unit) result" where
  "check_role p =
     (case required_role (kind p) of
        Some required \<Rightarrow>
          if required \<noteq> role p then Inl (KindRequiresRole (kind p) required) else Inr ()
      | None \<Rightarrow> Inr ())"

fun check_finding_count :: "SignalKind \<Rightarrow> u32 option \<Rightarrow> (InvalidSignal, unit) result" where
  "check_finding_count k count =
     (if (k = ReviewFindings \<or> k = RepairSubmitted) \<and> count = Some 0
        then Inl (FindingCountMustBePositive k)
      else if k = ReviewPassed \<and> count \<noteq> None \<and> count \<noteq> Some 0
        then Inl FindingCountMustBeZero
      else if (k = ReviewFindings \<or> k = ReviewPassed \<or> k = RepairSubmitted) \<and> count = None
        then Inl (FindingCountRequired k)
      else if (k = ImplementationReady \<or> k = Blocked) \<and> count \<noteq> None
        then Inl (FindingCountForbidden k)
      else Inr ())"

fun check_artifact_ref :: "SignalKind \<Rightarrow> bool \<Rightarrow> (InvalidSignal, unit) result" where
  "check_artifact_ref k present =
     (if k = RepairSubmitted \<and> \<not> present then Inl (ArtifactRefRequired k)
      else if (k = ImplementationReady \<or> k = ReviewPassed \<or> k = Blocked) \<and> present
        then Inl (ArtifactRefForbidden k)
      else Inr ())"

fun check_short_error_code :: "SignalKind \<Rightarrow> bool \<Rightarrow> (InvalidSignal, unit) result" where
  "check_short_error_code k present =
     (if k = Blocked \<and> \<not> present then Inl ShortErrorCodeRequired
      else if k \<noteq> Blocked \<and> present then Inl (ShortErrorCodeForbidden k)
      else Inr ())"

definition WorkflowSignal_validate :: "SignalParts \<Rightarrow> (WorkflowError, WorkflowSignal) result" where
  "WorkflowSignal_validate p =
     map_err InvalidSignal
       (and_then (check_role p) (\<lambda>_.
        and_then (check_finding_count (kind p) (finding_count p)) (\<lambda>_.
        and_then (check_artifact_ref (kind p) (artifact_ref p \<noteq> None)) (\<lambda>_.
        and_then (check_short_error_code (kind p) (short_error_code p \<noteq> None)) (\<lambda>_.
        Inr (WorkflowSignal p))))))"

definition check_expected ::
  "WorkflowSignal \<Rightarrow> ExpectedAssignment \<Rightarrow> (WorkflowError, unit) result" where
  "check_expected s x =
     (let p = parts s in
      if workflow_id p \<noteq> expected_workflow_id x
        then Inl (WorkflowMismatch (expected_workflow_id x) (workflow_id p))
      else if assignment_id p \<noteq> expected_assignment_id x
        then Inl (AssignmentMismatch (expected_assignment_id x) (assignment_id p))
      else if attempt_id p \<noteq> expected_attempt_id x
        then Inl (AttemptMismatch (expected_attempt_id x) (attempt_id p))
      else if role p \<noteq> expected_role x
        then Inl (RoleMismatch (expected_role x) (role p))
      else if artifact_revision p \<noteq> expected_artifact_revision x
        then Inl (RevisionMismatch (expected_artifact_revision x) (artifact_revision p))
      else if candidate_digest p \<noteq> expected_candidate_digest x
        then Inl (CandidateDigestMismatch (expected_candidate_digest x) (candidate_digest p))
      else Inr ())"

section \<open>Events, commands, state and decisions\<close>

datatype WorkflowEvent = SignalAccepted WorkflowSignal

datatype Command = SubmitSignal WorkflowSignal ExpectedAssignment

datatype ApplyError = DuplicateEvent EventId

fun show_ApplyError :: "ApplyError \<Rightarrow> string" where
  "show_ApplyError (DuplicateEvent i) = ''event '' @ EventId_as_str i @ '' appears more than once''"

record WorkflowState =
  accepted_map :: "EventId \<rightharpoonup> WorkflowSignal"

definition WorkflowState_new :: WorkflowState where
  "WorkflowState_new = \<lparr>accepted_map = Map.empty\<rparr>"

definition accepted :: "WorkflowState \<Rightarrow> EventId \<Rightarrow> WorkflowSignal option" where
  "accepted st i = accepted_map st i"

definition WorkflowState_len :: "WorkflowState \<Rightarrow> nat" where
  "WorkflowState_len st = card (dom (accepted_map st))"

definition WorkflowState_is_empty :: "WorkflowState \<Rightarrow> bool" where
  "WorkflowState_is_empty st \<longleftrightarrow> dom (accepted_map st) = {}"

fun apply_event :: "WorkflowState \<Rightarrow> WorkflowEvent \<Rightarrow> (ApplyError, WorkflowState) result" where
  "apply_event st (SignalAccepted s) =
     (let i = signal_event_id s in
      if accepted_map st i \<noteq> None then Inl (DuplicateEvent i)
      else Inr (st\<lparr>accepted_map := (accepted_map st)(i \<mapsto> s)\<rparr>))"

fun apply_events :: "WorkflowState \<Rightarrow> WorkflowEvent list \<Rightarrow> (ApplyError, WorkflowState) result" where
  "apply_events st [] = Inr st"
| "apply_events st (e # es) = and_then (apply_event st e) (\<lambda>st'. apply_events st' es)"

definition replay :: "WorkflowEvent list \<Rightarrow> (ApplyError, WorkflowState) result" where
  "replay es = apply_events WorkflowState_new es"

datatype Decision =
    Accepted WorkflowEvent
  | Duplicate EventId
  | Rejected WorkflowError

fun decide :: "WorkflowState \<Rightarrow> Command \<Rightarrow> Decision" where
  "decide st (SubmitSignal s x) =
     (case check_expected s x of
        Inl e \<Rightarrow> Rejected e
      | Inr _ \<Rightarrow>
          (case accepted st (signal_event_id s) of
             Some existing \<Rightarrow>
               if existing = s then Duplicate (signal_event_id s)
               else Rejected (EventConflict (signal_event_id s))
           | None \<Rightarrow> Accepted (SignalAccepted s)))"

section \<open>Reconciliation (recovery/mod.rs)\<close>

datatype SignalReconciliation = ReconciledAccepted | ReconciledConflict | ReconciledAbsent

definition reconcile_workflow_signal :: "WorkflowState \<Rightarrow> WorkflowSignal \<Rightarrow> SignalReconciliation" where
  "reconcile_workflow_signal st s =
     (case accepted st (signal_event_id s) of
        Some a \<Rightarrow> if a = s then ReconciledAccepted else ReconciledConflict
      | None \<Rightarrow> ReconciledAbsent)"

section \<open>The documented rules\<close>

text \<open>The kind table of \<open>WorkflowSignal::validate\<close>'s documentation, row by row.\<close>

definition signal_rules :: "SignalParts \<Rightarrow> bool" where
  "signal_rules p \<longleftrightarrow>
     (case kind p of
        ImplementationReady \<Rightarrow>
          role p = Implementation \<and> finding_count p = None \<and> artifact_ref p = None \<and>
          short_error_code p = None
      | ReviewFindings \<Rightarrow>
          role p = Review \<and> (\<exists>n. finding_count p = Some n \<and> 0 < n) \<and> short_error_code p = None
      | ReviewPassed \<Rightarrow>
          role p = Review \<and> finding_count p = Some 0 \<and> artifact_ref p = None \<and>
          short_error_code p = None
      | RepairSubmitted \<Rightarrow>
          role p = Implementation \<and> (\<exists>n. finding_count p = Some n \<and> 0 < n) \<and>
          artifact_ref p \<noteq> None \<and> short_error_code p = None
      | Blocked \<Rightarrow>
          finding_count p = None \<and> artifact_ref p = None \<and> short_error_code p \<noteq> None)"

definition wf_parts :: "SignalParts \<Rightarrow> bool" where
  "wf_parts p \<longleftrightarrow>
     wf_EventId (event_id p) \<and> wf_WorkflowId (workflow_id p) \<and>
     wf_AssignmentId (assignment_id p) \<and> wf_AttemptId (attempt_id p) \<and>
     wf_ArtifactRevision (artifact_revision p) \<and> wf_Digest (candidate_digest p) \<and>
     pred_option wf_ArtifactRef (artifact_ref p) \<and>
     pred_option wf_ShortErrorCode (short_error_code p)"

definition wf_signal :: "WorkflowSignal \<Rightarrow> bool" where
  "wf_signal s \<longleftrightarrow> wf_parts (parts s) \<and> signal_rules (parts s)"

definition matches_expected :: "WorkflowSignal \<Rightarrow> ExpectedAssignment \<Rightarrow> bool" where
  "matches_expected s x \<longleftrightarrow>
     \<lparr>expected_workflow_id = workflow_id (parts s),
      expected_assignment_id = assignment_id (parts s),
      expected_attempt_id = attempt_id (parts s),
      expected_role = role (parts s),
      expected_artifact_revision = artifact_revision (parts s),
      expected_candidate_digest = candidate_digest (parts s)\<rparr> = x"

fun event_signal :: "WorkflowEvent \<Rightarrow> WorkflowSignal" where
  "event_signal (SignalAccepted s) = s"

definition event_key :: "WorkflowEvent \<Rightarrow> EventId" where
  "event_key e = signal_event_id (event_signal e)"

lemma event_key_simps [simp]: "event_key (SignalAccepted s) = signal_event_id s"
  by (simp add: event_key_def)

section \<open>Lemmas on the core\<close>

lemma count_pos: "0 < (n :: u32) \<longleftrightarrow> n \<noteq> 0"
  by (simp add: word_neq_0_conv)

lemma validate_ok:
  "WorkflowSignal_validate p = Inr s \<longleftrightarrow> s = WorkflowSignal p \<and> signal_rules p"
  by (cases "kind p"; cases "role p"; cases "finding_count p")
    (auto simp: WorkflowSignal_validate_def check_role_def signal_rules_def and_then_eq_Inr count_pos)

lemma check_expected_ok: "check_expected s x = Inr () \<longleftrightarrow> matches_expected s x"
  by (cases x) (auto simp: check_expected_def matches_expected_def Let_def)

lemma check_expected_not_conflict: "check_expected s x \<noteq> Inl (EventConflict i)"
  by (simp add: check_expected_def Let_def)

lemma decide_accepted:
  "decide st (SubmitSignal s x) = Accepted ev \<longleftrightarrow>
     matches_expected s x \<and> accepted st (signal_event_id s) = None \<and> ev = SignalAccepted s"
  by (auto simp: check_expected_ok [symmetric] split: sum.splits option.splits)

lemma decide_duplicate:
  "decide st (SubmitSignal s x) = Duplicate i \<longleftrightarrow>
     matches_expected s x \<and> accepted st (signal_event_id s) = Some s \<and> i = signal_event_id s"
  by (auto simp: check_expected_ok [symmetric] split: sum.splits option.splits)

lemma decide_conflict:
  "decide st (SubmitSignal s x) = Rejected (EventConflict i) \<longleftrightarrow>
     matches_expected s x \<and> i = signal_event_id s \<and>
     (\<exists>a. accepted st i = Some a \<and> a \<noteq> s)"
  using check_expected_not_conflict
  by (auto simp: check_expected_ok [symmetric] split: sum.splits option.splits)

lemma decide_mismatch:
  "\<not> matches_expected s x \<Longrightarrow>
     \<exists>e. check_expected s x = Inl e \<and> decide st (SubmitSignal s x) = Rejected e"
  by (cases "check_expected s x") (simp_all add: check_expected_ok)

lemma apply_event_ok:
  "apply_event st e = Inr st' \<longleftrightarrow>
     accepted_map st (event_key e) = None \<and>
     st' = st\<lparr>accepted_map := (accepted_map st)(event_key e \<mapsto> event_signal e)\<rparr>"
  by (cases e) (auto simp: Let_def)

lemma apply_event_error:
  "apply_event st e = Inl (DuplicateEvent i) \<longleftrightarrow>
     i = event_key e \<and> accepted_map st (event_key e) \<noteq> None"
  by (cases e) (auto simp: Let_def)

definition accepted_after :: "(EventId \<rightharpoonup> WorkflowSignal) \<Rightarrow> WorkflowEvent list \<Rightarrow> (EventId \<rightharpoonup> WorkflowSignal)"
  where "accepted_after m es = m ++ map_of (map (\<lambda>e. (event_key e, event_signal e)) es)"

lemma accepted_after_simps [simp]:
  "accepted_after m [] = m"
  "distinct (map event_key (e # es)) \<Longrightarrow>
     accepted_after m (e # es) = accepted_after (m(event_key e \<mapsto> event_signal e)) es"
proof -
  show "accepted_after m [] = m" by (simp add: accepted_after_def)
  assume "distinct (map event_key (e # es))"
  then have "event_key e \<notin> dom (map_of (map (\<lambda>e. (event_key e, event_signal e)) es))"
    by (auto simp: dom_map_of_conv_image_fst)
  then show "accepted_after m (e # es) = accepted_after (m(event_key e \<mapsto> event_signal e)) es"
    by (auto simp: accepted_after_def map_add_def fun_eq_iff split: option.splits)
qed

lemma apply_events_ok:
  "apply_events st es = Inr st' \<longleftrightarrow>
     distinct (map event_key es) \<and> (\<forall>e \<in> set es. accepted_map st (event_key e) = None) \<and>
     st' = st\<lparr>accepted_map := accepted_after (accepted_map st) es\<rparr>"
proof (induction es arbitrary: st)
  case (Cons e es)
  show ?case (is "_ \<longleftrightarrow> ?thesis_rhs")
  proof (cases "apply_event st e")
    case (Inl err)
    then have "accepted_map st (event_key e) \<noteq> None"
      by (cases err) (simp add: apply_event_error)
    with Inl show ?thesis by auto
  next
    case (Inr st1)
    then have none: "accepted_map st (event_key e) = None"
      and st1: "st1 = st\<lparr>accepted_map := (accepted_map st)(event_key e \<mapsto> event_signal e)\<rparr>"
      by (simp_all add: apply_event_ok)
    have free: "(\<forall>f \<in> set es. accepted_map st1 (event_key f) = None) \<longleftrightarrow>
        event_key e \<notin> set (map event_key es) \<and>
        (\<forall>f \<in> set es. accepted_map st (event_key f) = None)"
      by (auto simp: st1) (metis imageI)
    have "apply_events st (e # es) = Inr st' \<longleftrightarrow>
        distinct (map event_key (e # es)) \<and> (\<forall>f \<in> set es. accepted_map st (event_key f) = None) \<and>
        st' = st1\<lparr>accepted_map := accepted_after (accepted_map st1) es\<rparr>"
      using Inr by (simp only: apply_events.simps and_then_simps Cons free) auto
    also have "\<dots> \<longleftrightarrow> ?thesis_rhs"
      using none by (auto simp: st1 simp del: distinct.simps list.map)
    finally show ?thesis .
  qed
qed (auto simp: accepted_after_def)

lemma replay_ok:
  "replay es = Inr st \<longleftrightarrow>
     distinct (map event_key es) \<and>
     st = \<lparr>accepted_map = map_of (map (\<lambda>e. (event_key e, event_signal e)) es)\<rparr>"
  by (auto simp: replay_def WorkflowState_new_def apply_events_ok accepted_after_def)

lemma apply_events_append:
  "apply_events st (es @ fs) = and_then (apply_events st es) (\<lambda>st'. apply_events st' fs)"
proof (induction es arbitrary: st)
  case (Cons e es)
  then show ?case by (cases "apply_event st e") simp_all
qed simp

lemma replay_snoc: "replay (es @ [e]) = and_then (replay es) (\<lambda>st. apply_event st e)"
proof -
  have "and_then (apply_event st e) Inr = apply_event st e" for st
    by (cases "apply_event st e") simp_all
  then show ?thesis by (simp add: replay_def apply_events_append)
qed

lemma replay_accepted:
  assumes "replay es = Inr st"
  shows "accepted st i = Some s \<longleftrightarrow> SignalAccepted s \<in> set es \<and> signal_event_id s = i"
    and "accepted st i = None \<longleftrightarrow> i \<notin> event_key ` set es"
proof -
  let ?ps = "map (\<lambda>e. (event_key e, event_signal e)) es"
  have ok: "distinct (map fst ?ps)" "accepted_map st = map_of ?ps"
    using assms by (simp_all add: replay_ok comp_def)
  have "accepted st i = Some s \<longleftrightarrow> (i, s) \<in> set ?ps"
    using ok by (simp add: accepted_def del: set_map)
  also have "\<dots> \<longleftrightarrow> SignalAccepted s \<in> set es \<and> signal_event_id s = i"
  proof -
    have "event_signal e = s \<longleftrightarrow> e = SignalAccepted s" for e by (cases e) auto
    then show ?thesis by (auto simp: image_iff) (metis event_key_def event_signal.simps)+
  qed
  finally show "accepted st i = Some s \<longleftrightarrow> SignalAccepted s \<in> set es \<and> signal_event_id s = i" .
  show "accepted st i = None \<longleftrightarrow> i \<notin> event_key ` set es"
    using ok by (simp add: accepted_def map_of_eq_None_iff image_image del: map_map)
qed

lemmas core_simps = decide_accepted decide_duplicate decide_conflict apply_event_ok replay_ok


lemma replay_error:
  "replay es = Inl (DuplicateEvent i) \<longleftrightarrow>
     (\<exists>pre e post. es = pre @ e # post \<and> event_key e = i \<and> distinct (map event_key pre) \<and>
        i \<in> event_key ` set pre)"
proof (induction es rule: rev_induct)
  case Nil
  show ?case by (simp add: replay_def)
next
  case (snoc f es)
  show ?case (is "_ \<longleftrightarrow> (\<exists>pre e post. ?split (es @ [f]) pre e post)")
  proof (cases "replay es")
    case (Inl err)
    then obtain j where j: "replay es = Inl (DuplicateEvent j)" by (cases err) simp
    then have dup: "\<not> distinct (map event_key es)"
      by (metis replay_ok Inl sum.distinct(1))
    have "(\<exists>pre e post. ?split (es @ [f]) pre e post) \<longleftrightarrow> (\<exists>pre e post. ?split es pre e post)"
    proof
      assume "\<exists>pre e post. ?split (es @ [f]) pre e post"
      then obtain pre e post where *: "?split (es @ [f]) pre e post" by blast
      with dup have "post \<noteq> []" by auto
      then obtain post' g where "post = post' @ [g]" by (cases post rule: rev_cases) auto
      with * have "?split es pre e post'" by auto
      then show "\<exists>pre e post. ?split es pre e post" by blast
    next
      assume "\<exists>pre e post. ?split es pre e post"
      then show "\<exists>pre e post. ?split (es @ [f]) pre e post" by force
    qed
    with snoc j show ?thesis by (simp add: replay_snoc)
  next
    case (Inr st)
    then have dist: "distinct (map event_key es)" by (simp add: replay_ok)
    have none: "accepted_map st k = None \<longleftrightarrow> k \<notin> event_key ` set es" for k
      using replay_accepted(2) [OF Inr] by (simp add: accepted_def)
    have "replay (es @ [f]) = Inl (DuplicateEvent i) \<longleftrightarrow> i = event_key f \<and> i \<in> event_key ` set es"
      using Inr none by (auto simp: replay_snoc apply_event_error)
    also have "\<dots> \<longleftrightarrow> (\<exists>pre e post. ?split (es @ [f]) pre e post)"
    proof
      assume "i = event_key f \<and> i \<in> event_key ` set es"
      then have "?split (es @ [f]) es f []" using dist by auto
      then show "\<exists>pre e post. ?split (es @ [f]) pre e post" by blast
    next
      assume "\<exists>pre e post. ?split (es @ [f]) pre e post"
      then obtain pre e post where *: "?split (es @ [f]) pre e post" by blast
      then have "post = []"
        using dist by (cases post rule: rev_cases) auto
      with * show "i = event_key f \<and> i \<in> event_key ` set es" by auto
    qed
    finally show ?thesis .
  qed
qed

lemma decide_cases:
  obtains (Accept) "decide st (SubmitSignal s x) = Accepted (SignalAccepted s)"
    | (Dup) "decide st (SubmitSignal s x) = Duplicate (signal_event_id s)"
    | (Reject) e where "decide st (SubmitSignal s x) = Rejected e"
  by (cases "check_expected s x"; cases "accepted st (signal_event_id s)";
      cases "the (accepted st (signal_event_id s)) = s") auto

lemma reconcile_lookup:
  "reconcile_workflow_signal st s = ReconciledAccepted \<longleftrightarrow> accepted st (signal_event_id s) = Some s"
  "reconcile_workflow_signal st s = ReconciledAbsent \<longleftrightarrow> accepted st (signal_event_id s) = None"
  by (auto simp: reconcile_workflow_signal_def split: option.split)

section \<open>Concrete signals\<close>

text \<open>Two signals of one assignment, for evaluating the properties: an implementation hand-over and
  a review verdict under a second identifier.\<close>

definition example_digest :: Digest where
  "example_digest = \<lparr>algorithm = Sha256, hex = replicate 64 (CHR ''a'')\<rparr>"

definition example_parts :: SignalParts where
  "example_parts =
     \<lparr>event_id = EventId ''evt-1'', workflow_id = WorkflowId ''wf-1'',
      assignment_id = AssignmentId ''as-1'', attempt_id = AttemptId ''at-1'',
      role = Implementation, artifact_revision = ArtifactRevision ''rev-1'',
      candidate_digest = example_digest, kind = ImplementationReady,
      finding_count = None, artifact_ref = None, short_error_code = None\<rparr>"

definition example_signal :: WorkflowSignal where
  "example_signal = WorkflowSignal example_parts"

definition example_review :: WorkflowSignal where
  "example_review = WorkflowSignal (example_parts\<lparr>event_id := EventId ''evt-2'', role := Review,
     kind := ReviewFindings, finding_count := Some 3\<rparr>)"

definition example_expected :: ExpectedAssignment where
  "example_expected =
     \<lparr>expected_workflow_id = WorkflowId ''wf-1'', expected_assignment_id = AssignmentId ''as-1'',
      expected_attempt_id = AttemptId ''at-1'', expected_role = Implementation,
      expected_artifact_revision = ArtifactRevision ''rev-1'',
      expected_candidate_digest = example_digest\<rparr>"

lemmas example_defs = example_signal_def example_review_def example_expected_def example_parts_def
  example_digest_def

lemma example_wf: "wf_signal example_signal" "wf_signal example_review"
  by (simp_all add: example_defs wf_signal_def wf_parts_def signal_rules_def wf_identity_defs
      identifier_grammar_def digest_grammar_def byte_defs list_all_iff count_pos)

section \<open>Properties\<close>

text \<open>C29: \<open>WorkflowSignal::validate\<close> accepts exactly the signals of the documented kind table and
  returns the parts unchanged; a refusal is always the \<open>INVALID_SIGNAL\<close> rejection; the role is
  checked before everything else, and the finding count before the artifact reference.\<close>

theorem validate_exact:
  "(WorkflowSignal_validate p = Inr s \<longleftrightarrow> s = WorkflowSignal p \<and> signal_rules p) \<and>
   (WorkflowSignal_validate p = Inl e \<longrightarrow> WorkflowError_code e = ''INVALID_SIGNAL'') \<and>
   (WorkflowSignal_validate p = Inl (InvalidSignal (KindRequiresRole k r)) \<longleftrightarrow>
      k = kind p \<and> required_role k = Some r \<and> r \<noteq> role p) \<and>
   (WorkflowSignal_validate p = Inl (InvalidSignal (FindingCountRequired k)) \<longleftrightarrow>
      k = kind p \<and> check_role p = Inr () \<and> finding_count p = None \<and>
      k \<in> {ReviewFindings, ReviewPassed, RepairSubmitted}) \<and>
   (WorkflowSignal_validate p = Inl (InvalidSignal (ArtifactRefRequired k)) \<longleftrightarrow>
      k = kind p \<and> k = RepairSubmitted \<and> role p = Implementation \<and> artifact_ref p = None \<and>
      (\<exists>n. finding_count p = Some n \<and> n \<noteq> 0))"
proof (intro conjI)
  show "WorkflowSignal_validate p = Inr s \<longleftrightarrow> s = WorkflowSignal p \<and> signal_rules p"
    by (rule validate_ok)
  show "WorkflowSignal_validate p = Inl e \<longrightarrow> WorkflowError_code e = ''INVALID_SIGNAL''"
    by (auto simp: WorkflowSignal_validate_def map_err_eq_Inl)
  show "WorkflowSignal_validate p = Inl (InvalidSignal (KindRequiresRole k r)) \<longleftrightarrow>
      k = kind p \<and> required_role k = Some r \<and> r \<noteq> role p"
    by (cases "kind p"; cases "role p")
      (auto simp: WorkflowSignal_validate_def check_role_def map_err_eq_Inl and_then_eq_Inl)
  show "WorkflowSignal_validate p = Inl (InvalidSignal (FindingCountRequired k)) \<longleftrightarrow>
      k = kind p \<and> check_role p = Inr () \<and> finding_count p = None \<and>
      k \<in> {ReviewFindings, ReviewPassed, RepairSubmitted}"
    by (cases "kind p"; cases "role p"; cases "finding_count p")
      (auto simp: WorkflowSignal_validate_def check_role_def map_err_eq_Inl and_then_eq_Inl)
  show "WorkflowSignal_validate p = Inl (InvalidSignal (ArtifactRefRequired k)) \<longleftrightarrow>
      k = kind p \<and> k = RepairSubmitted \<and> role p = Implementation \<and> artifact_ref p = None \<and>
      (\<exists>n. finding_count p = Some n \<and> n \<noteq> 0)"
    by (cases "kind p"; cases "role p"; cases "finding_count p")
      (auto simp: WorkflowSignal_validate_def check_role_def map_err_eq_Inl and_then_eq_Inl)
qed

theorem validate_exact_witness:
  "WorkflowSignal_validate example_parts = Inr example_signal \<and>
   WorkflowSignal_validate (example_parts\<lparr>kind := ReviewPassed\<rparr>) =
     Inl (InvalidSignal (KindRequiresRole ReviewPassed Review)) \<and>
   WorkflowError_code (InvalidSignal (KindRequiresRole ReviewPassed Review)) = ''INVALID_SIGNAL''"
  using validate_exact [of example_parts example_signal undefined undefined undefined]
    validate_exact [of "example_parts\<lparr>kind := ReviewPassed\<rparr>" undefined
      "InvalidSignal (KindRequiresRole ReviewPassed Review)" ReviewPassed Review]
  by (simp add: example_defs signal_rules_def)

text \<open>C15: the decision on a submitted signal, on every branch. A signal whose assignment, attempt,
  role, revision or digest differs from the expectation is rejected with the first difference and
  the accepted set is not consulted; otherwise a fresh identifier is accepted with that very signal,
  the same content again is a duplicate, and other content under a known identifier is a conflict.\<close>

theorem decide_exact:
  "(decide st (SubmitSignal s x) = Accepted ev \<longleftrightarrow>
      matches_expected s x \<and> accepted st (signal_event_id s) = None \<and> ev = SignalAccepted s) \<and>
   (decide st (SubmitSignal s x) = Duplicate i \<longleftrightarrow>
      matches_expected s x \<and> accepted st (signal_event_id s) = Some s \<and> i = signal_event_id s) \<and>
   (decide st (SubmitSignal s x) = Rejected (EventConflict i) \<longleftrightarrow>
      matches_expected s x \<and> i = signal_event_id s \<and>
      (\<exists>a. accepted st i = Some a \<and> a \<noteq> s)) \<and>
   (\<not> matches_expected s x \<longleftrightarrow>
      (\<exists>e. check_expected s x = Inl e \<and> decide st (SubmitSignal s x) = Rejected e))"
proof -
  have "\<not> matches_expected s x \<longleftrightarrow>
      (\<exists>e. check_expected s x = Inl e \<and> decide st (SubmitSignal s x) = Rejected e)"
    unfolding check_expected_ok [symmetric] by (cases "check_expected s x") simp_all
  then show ?thesis by (intro conjI decide_accepted decide_duplicate decide_conflict)
qed

text \<open>C16: replay succeeds exactly on the journals in which no event identifier occurs twice, and
  then the state holds exactly the journalled signals under their identifiers; otherwise it stops
  at the first event whose identifier already occurred and names that identifier.\<close>

theorem replay_exact:
  "(replay es = Inr st \<longleftrightarrow>
      distinct (map event_key es) \<and>
      st = \<lparr>accepted_map = map_of (map (\<lambda>e. (event_key e, event_signal e)) es)\<rparr>) \<and>
   (replay es = Inl (DuplicateEvent i) \<longleftrightarrow>
      (\<exists>pre e post. es = pre @ e # post \<and> event_key e = i \<and> distinct (map event_key pre) \<and>
         i \<in> event_key ` set pre))"
  using replay_ok replay_error by blast

text \<open>C17: one acceptance. Applying the event of an accepting decision always succeeds and adds one
  signal; deciding the same command again is then a duplicate, reconciliation of the signal changes
  from absent to accepted, and the decision on every command with another event identifier is the
  one it was before.\<close>

theorem accept_then_idempotent:
  assumes "decide st (SubmitSignal s x) = Accepted ev" "finite (dom (accepted_map st))"
  shows "\<exists>st'. apply_event st ev = Inr st' \<and>
    WorkflowState_len st' = Suc (WorkflowState_len st) \<and>
    decide st' (SubmitSignal s x) = Duplicate (signal_event_id s) \<and>
    reconcile_workflow_signal st s = ReconciledAbsent \<and> reconcile_workflow_signal st' s = ReconciledAccepted \<and>
    (\<forall>t y. signal_event_id t \<noteq> signal_event_id s \<longrightarrow>
       decide st' (SubmitSignal t y) = decide st (SubmitSignal t y) \<and>
       reconcile_workflow_signal st' t = reconcile_workflow_signal st t)"
proof -
  let ?i = "signal_event_id s"
  let ?st = "st\<lparr>accepted_map := (accepted_map st)(?i \<mapsto> s)\<rparr>"
  have m: "matches_expected s x" "accepted_map st ?i = None" "ev = SignalAccepted s"
    using assms(1) by (simp_all only: decide_accepted accepted_def)
  have "apply_event st ev = Inr ?st" using m by (simp add: Let_def)
  moreover have "WorkflowState_len ?st = Suc (WorkflowState_len st)"
    using m(2) assms(2) by (simp add: WorkflowState_len_def dom_def [symmetric] domIff)
  moreover have "decide ?st (SubmitSignal s x) = Duplicate ?i"
    unfolding decide_duplicate using m(1) by (simp add: accepted_def)
  moreover have "\<forall>t y. signal_event_id t \<noteq> ?i \<longrightarrow>
      decide ?st (SubmitSignal t y) = decide st (SubmitSignal t y) \<and>
      reconcile_workflow_signal ?st t = reconcile_workflow_signal st t"
    by (simp add: accepted_def reconcile_workflow_signal_def split: sum.split)
  ultimately show ?thesis
    using m(2) by (intro exI [of _ ?st]) (simp add: reconcile_workflow_signal_def accepted_def)
qed

theorem accept_then_idempotent_witness:
  "\<exists>st'. apply_event WorkflowState_new (SignalAccepted example_signal) = Inr st' \<and>
     decide st' (SubmitSignal example_signal example_expected) = Duplicate (EventId ''evt-1'')"
proof -
  have "decide WorkflowState_new (SubmitSignal example_signal example_expected) =
      Accepted (SignalAccepted example_signal)"
    by (simp add: example_defs WorkflowState_new_def accepted_def check_expected_def)
  moreover have "finite (dom (accepted_map WorkflowState_new))"
    by (simp add: WorkflowState_new_def)
  ultimately show ?thesis
    using accept_then_idempotent [of WorkflowState_new example_signal example_expected]
    by (fastforce simp: example_signal_def example_parts_def)
qed

end
