(* ===== verification/Engine.thy ===== *)
theory Engine
  imports Workflow
begin

text \<open>
  \<^verbatim>\<open>crates/aizign-engine/src/\<close>: the ports (\<^verbatim>\<open>journal.rs\<close>, \<^verbatim>\<open>clock.rs\<close>, \<^verbatim>\<open>observation.rs\<close>) and
  the two use cases (\<^verbatim>\<open>handle.rs\<close>, \<^verbatim>\<open>reconcile.rs\<close>). The traits \<open>Journal\<close>, \<open>JournalReader\<close> and
  \<open>EngineObserver\<close> are records of the operations a use case calls on an implementation state
  \<open>'j\<close> or \<open>'o\<close>; an observer operation also says whether it panicked. The contract of the journal
  trait is the locale \<open>journal_reader\<close>, extended by \<open>journal\<close>; what the use cases guarantee over
  any journal that keeps it is proved there once.
\<close>

section \<open>The journal and clock ports (journal.rs, clock.rs)\<close>

definition MAX_JOURNAL_ENTRIES :: nat where
  "MAX_JOURNAL_ENTRIES = 10000"

record JournalEntry =
  seq :: nat
  at :: BoundedTimestamp
  event :: WorkflowEvent

datatype JournalError =
    Unavailable string
  | Locked
  | SchemaUnsupported nat
  | Corrupt string
  | BoundExceeded nat
  | OutcomeUnknown string

fun JournalError_code :: "JournalError \<Rightarrow> string" where
  "JournalError_code (Unavailable _) = ''JOURNAL_UNAVAILABLE''"
| "JournalError_code Locked = ''JOURNAL_LOCKED''"
| "JournalError_code (SchemaUnsupported _) = ''JOURNAL_SCHEMA_UNSUPPORTED''"
| "JournalError_code (Corrupt _) = ''JOURNAL_CORRUPT''"
| "JournalError_code (BoundExceeded _) = ''JOURNAL_BOUND_EXCEEDED''"
| "JournalError_code (OutcomeUnknown _) = ''JOURNAL_OUTCOME_UNKNOWN''"

fun show_JournalError :: "JournalError \<Rightarrow> string" where
  "show_JournalError (Unavailable d) = ''journal unavailable: '' @ d"
| "show_JournalError Locked = ''journal is locked by another process''"
| "show_JournalError (SchemaUnsupported v) =
     ''journal/store schema version '' @ show_nat v @ '' is not supported''"
| "show_JournalError (Corrupt d) = ''journal is corrupt: '' @ d"
| "show_JournalError (BoundExceeded m) =
     ''journal exceeds the cold-read bound of '' @ show_nat m @ '' entries''"
| "show_JournalError (OutcomeUnknown d) = ''append outcome unknown: '' @ d"

record 'j JournalReader =
  load_committed :: "'j \<Rightarrow> (JournalError, JournalEntry list) result \<times> 'j"

record 'j Journal = "'j JournalReader" +
  append_event :: "WorkflowEvent \<Rightarrow> BoundedTimestamp \<Rightarrow> 'j \<Rightarrow> (JournalError, JournalEntry) result \<times> 'j"

datatype ClockError = OutOfRange

fun show_ClockError :: "ClockError \<Rightarrow> string" where
  "show_ClockError OutOfRange = ''system time is outside the bounded range''"

type_synonym Clock = "(ClockError, BoundedTimestamp) result"

section \<open>Observation (observation.rs)\<close>

datatype EngineStage = JournalLoadDecode | Replay | Decide | AppendSync

text \<open>Each operation returns the observer's new state and whether it panicked on the way.\<close>

record 'o EngineObserver =
  on_stage_started :: "EngineStage \<Rightarrow> 'o \<Rightarrow> 'o \<times> bool"
  on_stage_finished :: "EngineStage \<Rightarrow> nat option \<Rightarrow> 'o \<Rightarrow> 'o \<times> bool"

record 'o BestEffortObserver =
  inner :: 'o
  enabled :: bool

definition BestEffortObserver_new :: "'o \<Rightarrow> 'o BestEffortObserver" where
  "BestEffortObserver_new observer = \<lparr>inner = observer, enabled = True\<rparr>"

definition notify :: "('o \<Rightarrow> 'o \<times> bool) \<Rightarrow> 'o BestEffortObserver \<Rightarrow> 'o BestEffortObserver" where
  "notify operation b =
     (if \<not> enabled b then b
      else (case operation (inner b) of
              (observer, panicked) \<Rightarrow>
                if panicked then b\<lparr>inner := observer, enabled := False\<rparr>
                else b\<lparr>inner := observer\<rparr>))"

definition stage_started ::
  "'o EngineObserver \<Rightarrow> EngineStage \<Rightarrow> 'o BestEffortObserver \<Rightarrow> 'o BestEffortObserver" where
  "stage_started ob stage b = notify (on_stage_started ob stage) b"

definition stage_finished ::
  "'o EngineObserver \<Rightarrow> EngineStage \<Rightarrow> nat option \<Rightarrow> 'o BestEffortObserver \<Rightarrow> 'o BestEffortObserver"
  where "stage_finished ob stage n b = notify (on_stage_finished ob stage n) b"

section \<open>Submitting a signal (handle.rs)\<close>

datatype 'o SubmitMode = Plain | Observed "'o BestEffortObserver"

fun mode_started :: "'o EngineObserver \<Rightarrow> EngineStage \<Rightarrow> 'o SubmitMode \<Rightarrow> 'o SubmitMode" where
  "mode_started ob stage Plain = Plain"
| "mode_started ob stage (Observed b) = Observed (stage_started ob stage b)"

fun mode_finished ::
  "'o EngineObserver \<Rightarrow> EngineStage \<Rightarrow> nat option \<Rightarrow> 'o SubmitMode \<Rightarrow> 'o SubmitMode" where
  "mode_finished ob stage n Plain = Plain"
| "mode_finished ob stage n (Observed b) = Observed (stage_finished ob stage n b)"

definition loaded_len :: "(JournalError, JournalEntry list) result \<Rightarrow> nat option" where
  "loaded_len r = (case r of Inl _ \<Rightarrow> None | Inr es \<Rightarrow> Some (length es))"

definition SubmitMode_load_committed ::
  "('j, 'a) JournalReader_scheme \<Rightarrow> 'o EngineObserver \<Rightarrow> 'o SubmitMode \<Rightarrow> 'j \<Rightarrow>
   (JournalError, JournalEntry list) result \<times> 'o SubmitMode \<times> 'j" where
  "SubmitMode_load_committed jr ob mode j =
     (let mode = mode_started ob JournalLoadDecode mode;
          (loaded, j) = load_committed jr j;
          mode = mode_finished ob JournalLoadDecode (loaded_len loaded) mode
      in (loaded, mode, j))"

definition SubmitMode_replay ::
  "'o EngineObserver \<Rightarrow> 'o SubmitMode \<Rightarrow> JournalEntry list \<Rightarrow>
   (ApplyError, WorkflowState) result \<times> 'o SubmitMode" where
  "SubmitMode_replay ob mode entries =
     (let mode = mode_started ob Replay mode;
          replayed = replay (map event entries);
          mode = mode_finished ob Replay None mode
      in (replayed, mode))"

definition SubmitMode_decide ::
  "'o EngineObserver \<Rightarrow> 'o SubmitMode \<Rightarrow> WorkflowState \<Rightarrow> Command \<Rightarrow> Decision \<times> 'o SubmitMode" where
  "SubmitMode_decide ob mode state command =
     (let mode = mode_started ob Decide mode;
          decision = decide state command;
          mode = mode_finished ob Decide None mode
      in (decision, mode))"

definition SubmitMode_append ::
  "('j, 'a) Journal_scheme \<Rightarrow> 'o EngineObserver \<Rightarrow> 'o SubmitMode \<Rightarrow> WorkflowEvent \<Rightarrow>
   BoundedTimestamp \<Rightarrow> 'j \<Rightarrow> (JournalError, JournalEntry) result \<times> 'o SubmitMode \<times> 'j" where
  "SubmitMode_append jr ob mode ev t j =
     (let mode = mode_started ob AppendSync mode;
          (appended, j) = append_event jr ev t j;
          mode = mode_finished ob AppendSync None mode
      in (appended, mode, j))"

datatype SignalOutcome = OutcomeAccepted JournalEntry | OutcomeDuplicate EventId

datatype HandleError =
    HandleRejected WorkflowError
  | HandleJournal JournalError
  | HandleReplay ApplyError
  | HandleClock ClockError

fun HandleError_code :: "HandleError \<Rightarrow> string" where
  "HandleError_code (HandleRejected e) = WorkflowError_code e"
| "HandleError_code (HandleJournal e) = JournalError_code e"
| "HandleError_code (HandleReplay _) = ''JOURNAL_CORRUPT''"
| "HandleError_code (HandleClock _) = ''INTERNAL''"

fun show_HandleError :: "HandleError \<Rightarrow> string" where
  "show_HandleError (HandleRejected e) = show_WorkflowError e"
| "show_HandleError (HandleJournal e) = show_JournalError e"
| "show_HandleError (HandleReplay e) = ''journal is corrupt: '' @ show_ApplyError e"
| "show_HandleError (HandleClock e) = show_ClockError e"

definition execute_workflow_signal ::
  "('j, 'a) Journal_scheme \<Rightarrow> 'o EngineObserver \<Rightarrow> Clock \<Rightarrow> Command \<Rightarrow> 'o SubmitMode \<Rightarrow> 'j \<Rightarrow>
   (HandleError, SignalOutcome) result \<times> 'o SubmitMode \<times> 'j" where
  "execute_workflow_signal jr ob now command mode j =
     (case SubmitMode_load_committed jr ob mode j of
        (Inl e, mode, j) \<Rightarrow> (Inl (HandleJournal e), mode, j)
      | (Inr entries, mode, j) \<Rightarrow>
          (case SubmitMode_replay ob mode entries of
             (Inl e, mode) \<Rightarrow> (Inl (HandleReplay e), mode, j)
           | (Inr state, mode) \<Rightarrow>
               (case SubmitMode_decide ob mode state command of
                  (Accepted ev, mode) \<Rightarrow>
                    (case now of
                       Inl e \<Rightarrow> (Inl (HandleClock e), mode, j)
                     | Inr t \<Rightarrow>
                         (case SubmitMode_append jr ob mode ev t j of
                            (Inl e, mode, j) \<Rightarrow> (Inl (HandleJournal e), mode, j)
                          | (Inr entry, mode, j) \<Rightarrow> (Inr (OutcomeAccepted entry), mode, j)))
                | (Duplicate i, mode) \<Rightarrow> (Inr (OutcomeDuplicate i), mode, j)
                | (Rejected e, mode) \<Rightarrow> (Inl (HandleRejected e), mode, j))))"

text \<open>The plain mode calls no observer: any record of observer operations stands in its place.\<close>

definition no_observer :: "unit EngineObserver" where
  "no_observer = \<lparr>on_stage_started = \<lambda>_ o'. (o', False), on_stage_finished = \<lambda>_ _ o'. (o', False)\<rparr>"

definition handle_workflow_signal ::
  "('j, 'a) Journal_scheme \<Rightarrow> Clock \<Rightarrow> Command \<Rightarrow> 'j \<Rightarrow>
   (HandleError, SignalOutcome) result \<times> 'j" where
  "handle_workflow_signal jr now command j =
     (case execute_workflow_signal jr no_observer now command Plain j of (r, _, j) \<Rightarrow> (r, j))"

definition handle_workflow_signal_observed ::
  "('j, 'a) Journal_scheme \<Rightarrow> Clock \<Rightarrow> Command \<Rightarrow> 'o EngineObserver \<Rightarrow> 'o \<Rightarrow> 'j \<Rightarrow>
   (HandleError, SignalOutcome) result \<times> 'o SubmitMode \<times> 'j" where
  "handle_workflow_signal_observed jr now command ob observer j =
     execute_workflow_signal jr ob now command (Observed (BestEffortObserver_new observer)) j"

section \<open>Reconciling a signal (reconcile.rs)\<close>

text \<open>\<open>ReconcileMode\<close> is \<open>SubmitMode\<close> without the append; the load and replay steps are the same.\<close>

definition ReconcileMode_reconcile ::
  "'o EngineObserver \<Rightarrow> 'o SubmitMode \<Rightarrow> WorkflowState \<Rightarrow> WorkflowSignal \<Rightarrow>
   SignalReconciliation \<times> 'o SubmitMode" where
  "ReconcileMode_reconcile ob mode state signal =
     (let mode = mode_started ob Decide mode;
          disposition = Workflow.reconcile_workflow_signal state signal;
          mode = mode_finished ob Decide None mode
      in (disposition, mode))"

datatype ReconcileError = ReconcileJournal JournalError | ReconcileReplay ApplyError

fun ReconcileError_code :: "ReconcileError \<Rightarrow> string" where
  "ReconcileError_code (ReconcileJournal e) = JournalError_code e"
| "ReconcileError_code (ReconcileReplay _) = ''JOURNAL_CORRUPT''"

fun show_ReconcileError :: "ReconcileError \<Rightarrow> string" where
  "show_ReconcileError (ReconcileJournal e) = show_JournalError e"
| "show_ReconcileError (ReconcileReplay e) = ''journal is corrupt: '' @ show_ApplyError e"

definition execute_reconciliation ::
  "('j, 'a) JournalReader_scheme \<Rightarrow> 'o EngineObserver \<Rightarrow> WorkflowSignal \<Rightarrow> 'o SubmitMode \<Rightarrow> 'j \<Rightarrow>
   (ReconcileError, SignalReconciliation) result \<times> 'o SubmitMode \<times> 'j" where
  "execute_reconciliation jr ob signal mode j =
     (case SubmitMode_load_committed jr ob mode j of
        (Inl e, mode, j) \<Rightarrow> (Inl (ReconcileJournal e), mode, j)
      | (Inr entries, mode, j) \<Rightarrow>
          (case SubmitMode_replay ob mode entries of
             (Inl e, mode) \<Rightarrow> (Inl (ReconcileReplay e), mode, j)
           | (Inr state, mode) \<Rightarrow>
               (case ReconcileMode_reconcile ob mode state signal of
                  (disposition, mode) \<Rightarrow> (Inr disposition, mode, j))))"

definition engine_reconcile_workflow_signal ::
  "('j, 'a) JournalReader_scheme \<Rightarrow> WorkflowSignal \<Rightarrow> 'j \<Rightarrow>
   (ReconcileError, SignalReconciliation) result \<times> 'j" where
  "engine_reconcile_workflow_signal jr signal j =
     (case execute_reconciliation jr no_observer signal Plain j of (r, _, j) \<Rightarrow> (r, j))"

definition reconcile_workflow_signal_observed ::
  "('j, 'a) JournalReader_scheme \<Rightarrow> WorkflowSignal \<Rightarrow> 'o EngineObserver \<Rightarrow> 'o \<Rightarrow> 'j \<Rightarrow>
   (ReconcileError, SignalReconciliation) result \<times> 'o SubmitMode \<times> 'j" where
  "reconcile_workflow_signal_observed jr signal ob observer j =
     execute_reconciliation jr ob signal (Observed (BestEffortObserver_new observer)) j"

section \<open>Observation does not change an outcome\<close>

definition forget_mode :: "'r \<times> 'm \<times> 'j \<Rightarrow> 'r \<times> 'j" where
  "forget_mode = (\<lambda>(r, _, j). (r, j))"

lemma forget_mode_simp [simp]: "forget_mode (r, m, j) = (r, j)"
  by (simp add: forget_mode_def)

lemmas submit_step_defs = SubmitMode_load_committed_def SubmitMode_replay_def SubmitMode_decide_def
  SubmitMode_append_def ReconcileMode_reconcile_def Let_def

text \<open>The use cases with every observation left out.\<close>

definition submit_core ::
  "('j, 'a) Journal_scheme \<Rightarrow> Clock \<Rightarrow> Command \<Rightarrow> 'j \<Rightarrow> (HandleError, SignalOutcome) result \<times> 'j" where
  "submit_core jr now command j =
     (case load_committed jr j of
        (Inl e, j) \<Rightarrow> (Inl (HandleJournal e), j)
      | (Inr entries, j) \<Rightarrow>
          (case replay (map event entries) of
             Inl e \<Rightarrow> (Inl (HandleReplay e), j)
           | Inr state \<Rightarrow>
               (case decide state command of
                  Accepted ev \<Rightarrow>
                    (case now of
                       Inl e \<Rightarrow> (Inl (HandleClock e), j)
                     | Inr t \<Rightarrow>
                         (case append_event jr ev t j of
                            (r, j) \<Rightarrow> (map_ok OutcomeAccepted (map_err HandleJournal r), j)))
                | Duplicate i \<Rightarrow> (Inr (OutcomeDuplicate i), j)
                | Rejected e \<Rightarrow> (Inl (HandleRejected e), j))))"

definition reconcile_core ::
  "('j, 'a) JournalReader_scheme \<Rightarrow> WorkflowSignal \<Rightarrow> 'j \<Rightarrow>
   (ReconcileError, SignalReconciliation) result \<times> 'j" where
  "reconcile_core jr signal j =
     (case load_committed jr j of
        (Inl e, j) \<Rightarrow> (Inl (ReconcileJournal e), j)
      | (Inr entries, j) \<Rightarrow>
          (map_ok (\<lambda>st. reconcile_workflow_signal st signal)
             (map_err ReconcileReplay (replay (map event entries))), j))"

lemma execute_workflow_signal_core:
  "forget_mode (execute_workflow_signal jr ob now command mode j) = submit_core jr now command j"
  by (auto simp: execute_workflow_signal_def submit_core_def submit_step_defs
      split: prod.split sum.split Decision.split)

lemma execute_reconciliation_core:
  "forget_mode (execute_reconciliation jr ob signal mode j) = reconcile_core jr signal j"
  by (auto simp: execute_reconciliation_def reconcile_core_def submit_step_defs
      split: prod.split sum.split)

lemma handle_core: "handle_workflow_signal jr now command j = submit_core jr now command j"
  by (simp add: handle_workflow_signal_def forget_mode_def [symmetric] execute_workflow_signal_core)

lemma reconcile_core: "engine_reconcile_workflow_signal jr signal j = reconcile_core jr signal j"
  by (simp add: engine_reconcile_workflow_signal_def forget_mode_def [symmetric]
      execute_reconciliation_core)

section \<open>The journal contract\<close>

definition next_entry :: "JournalEntry list \<Rightarrow> WorkflowEvent \<Rightarrow> BoundedTimestamp \<Rightarrow> JournalEntry" where
  "next_entry es ev t = \<lparr>seq = Suc (length es), at = t, event = ev\<rparr>"

definition keys_of :: "JournalEntry list \<Rightarrow> EventId list" where
  "keys_of es = map (\<lambda>e. event_key (event e)) es"

definition holds_signal :: "JournalEntry list \<Rightarrow> WorkflowSignal \<Rightarrow> bool" where
  "holds_signal es s \<longleftrightarrow> SignalAccepted s \<in> event ` set es"

lemma keys_of_simps [simp]:
  "keys_of [] = []" "keys_of (es @ fs) = keys_of es @ keys_of fs"
  "keys_of (e # es) = event_key (event e) # keys_of es"
  by (simp_all add: keys_of_def)

lemma next_entry_simps [simp]:
  "seq (next_entry es ev t) = Suc (length es)" "at (next_entry es ev t) = t"
  "event (next_entry es ev t) = ev"
  by (simp_all add: next_entry_def)

lemma replay_keys:
  "replay (map event es) = Inr st \<Longrightarrow> distinct (keys_of es)"
  "replay (map event es) = Inl e \<Longrightarrow> \<not> distinct (keys_of es)"
proof -
  have eq: "map event_key (map event es) = keys_of es" by (simp add: keys_of_def)
  show "replay (map event es) = Inr st \<Longrightarrow> distinct (keys_of es)"
    by (simp add: replay_ok eq [symmetric])
  show "replay (map event es) = Inl e \<Longrightarrow> \<not> distinct (keys_of es)"
    using replay_ok [of "map event es"] unfolding eq by force
qed

lemma replay_lookup:
  assumes "replay (map event es) = Inr st"
  shows "accepted st i = None \<longleftrightarrow> i \<notin> set (keys_of es)"
    and "accepted st (signal_event_id s) = Some s \<longleftrightarrow> holds_signal es s"
  using replay_accepted [OF assms] by (auto simp: keys_of_def holds_signal_def image_image)

text \<open>What one submission may do to the entries of a journal and report, with the entries before
  (\<open>es\<close>) and after (\<open>es'\<close>).\<close>

fun submit_allowed ::
  "Clock \<Rightarrow> WorkflowSignal \<Rightarrow> ExpectedAssignment \<Rightarrow> JournalEntry list \<Rightarrow>
   (HandleError, SignalOutcome) result \<Rightarrow> JournalEntry list \<Rightarrow> bool" where
  "submit_allowed now s x es (Inr (OutcomeAccepted e)) es' \<longleftrightarrow>
     matches_expected s x \<and> signal_event_id s \<notin> set (keys_of es) \<and> distinct (keys_of es) \<and>
     (\<exists>t. now = Inr t \<and> e = next_entry es (SignalAccepted s) t) \<and> es' = es @ [e]"
| "submit_allowed now s x es (Inr (OutcomeDuplicate i)) es' \<longleftrightarrow>
     matches_expected s x \<and> holds_signal es s \<and> i = signal_event_id s \<and> es' = es"
| "submit_allowed now s x es (Inl (HandleRejected e)) es' \<longleftrightarrow>
     es' = es \<and>
     (check_expected s x = Inl e \<or>
      matches_expected s x \<and> e = EventConflict (signal_event_id s) \<and>
      signal_event_id s \<in> set (keys_of es) \<and> \<not> holds_signal es s)"
| "submit_allowed now s x es (Inl (HandleReplay e)) es' \<longleftrightarrow> es' = es \<and> \<not> distinct (keys_of es)"
| "submit_allowed now s x es (Inl (HandleClock e)) es' \<longleftrightarrow> es' = es \<and> now = Inl e"
| "submit_allowed now s x es (Inl (HandleJournal e)) es' \<longleftrightarrow>
     es' = es \<or>
     JournalError_code e = ''JOURNAL_OUTCOME_UNKNOWN'' \<and> matches_expected s x \<and>
     signal_event_id s \<notin> set (keys_of es) \<and> distinct (keys_of es) \<and>
     (\<exists>t. now = Inr t \<and> es' = es @ [next_entry es (SignalAccepted s) t])"

lemma submit_allowed_distinct:
  "submit_allowed now s x es r es' \<Longrightarrow> distinct (keys_of es) \<Longrightarrow> distinct (keys_of es')"
  by (cases "(now, s, x, es, r, es')" rule: submit_allowed.cases) auto

lemma submit_allowed_prefix:
  "submit_allowed now s x es r es' \<Longrightarrow> \<exists>new. es' = es @ new \<and> length new \<le> 1"
  by (cases "(now, s, x, es, r, es')" rule: submit_allowed.cases) auto

definition contiguous :: "JournalEntry list \<Rightarrow> bool" where
  "contiguous es \<longleftrightarrow> map seq es = [1..<Suc (length es)]"

lemma contiguous_Nil [simp]: "contiguous []"
  by (simp add: contiguous_def)

lemma contiguous_snoc [simp]: "contiguous (es @ [e]) \<longleftrightarrow> contiguous es \<and> seq e = Suc (length es)"
  by (auto simp: contiguous_def)

lemma submit_allowed_contiguous:
  "submit_allowed now s x es r es' \<Longrightarrow> contiguous es \<Longrightarrow> contiguous es'"
  by (cases "(now, s, x, es, r, es')" rule: submit_allowed.cases) (auto simp: next_entry_def)

text \<open>A sequence of submissions, each with its own clock reading: one-shot processes run one after
  another on the same journal.\<close>

fun submit_all ::
  "('j, 'a) Journal_scheme \<Rightarrow> (Clock \<times> WorkflowSignal \<times> ExpectedAssignment) list \<Rightarrow> 'j \<Rightarrow>
   (HandleError, SignalOutcome) result list \<times> 'j" where
  "submit_all jr [] j = ([], j)"
| "submit_all jr ((now, s, x) # rest) j =
     (let (r, j) = handle_workflow_signal jr now (SubmitSignal s x) j;
          (rs, j) = submit_all jr rest j
      in (r # rs, j))"

lemma holds_signal_append [simp]: "holds_signal (es @ fs) s \<longleftrightarrow> holds_signal es s \<or> holds_signal fs s"
  by (auto simp: holds_signal_def)

lemma submit_allowed_holds:
  "submit_allowed now s x es (Inr out) es' \<Longrightarrow> holds_signal es' s"
  by (cases out) (auto simp: holds_signal_def)

locale journal_reader =
  fixes jr :: "('j, 'a) JournalReader_scheme"
    and entries :: "'j \<Rightarrow> JournalEntry list"
    and invar :: "'j \<Rightarrow> bool"
  assumes load_reads: "invar j \<Longrightarrow> load_committed jr j = (Inr es, j') \<Longrightarrow> es = entries j"
    and load_keeps: "invar j \<Longrightarrow> load_committed jr j = (r, j') \<Longrightarrow> entries j' = entries j \<and> invar j'"
begin

lemma reconcile_keeps:
  "invar j \<Longrightarrow> engine_reconcile_workflow_signal jr s j = (r, j') \<Longrightarrow> entries j' = entries j \<and> invar j'"
  using load_keeps [of j]
  by (auto simp: reconcile_core reconcile_core_def split: prod.splits sum.splits)

lemma reconcile_exact:
  assumes "invar j" "engine_reconcile_workflow_signal jr s j = (Inr d, j')"
  shows "distinct (keys_of (entries j)) \<and>
    (d = ReconciledAccepted \<longleftrightarrow> holds_signal (entries j) s) \<and>
    (d = ReconciledAbsent \<longleftrightarrow> signal_event_id s \<notin> set (keys_of (entries j)))"
proof -
  obtain es st where l: "load_committed jr j = (Inr es, j')"
    and st: "replay (map event es) = Inr st" and d: "d = reconcile_workflow_signal st s"
    using assms(2) by (auto simp: reconcile_core reconcile_core_def result_elims
        split: prod.splits sum.splits)
  have "es = entries j" using load_reads [OF assms(1) l] .
  then show ?thesis
    using replay_keys(1) [OF st] d by (simp add: reconcile_lookup replay_lookup [OF st])
qed

end

locale journal = journal_reader jr entries invar
  for jr :: "('j, 'a) Journal_scheme" and entries :: "'j \<Rightarrow> JournalEntry list" and invar +
  fixes fits :: "WorkflowEvent \<Rightarrow> BoundedTimestamp \<Rightarrow> bool"
  assumes append_ok: "invar j \<Longrightarrow> fits ev t \<Longrightarrow> append_event jr ev t j = (Inr e, j') \<Longrightarrow>
      e = next_entry (entries j) ev t \<and> entries j' = entries j @ [e]"
    and append_error: "invar j \<Longrightarrow> fits ev t \<Longrightarrow> append_event jr ev t j = (Inl err, j') \<Longrightarrow>
      entries j' = entries j \<or>
      JournalError_code err = ''JOURNAL_OUTCOME_UNKNOWN'' \<and>
      entries j' = entries j @ [next_entry (entries j) ev t]"
    and append_keeps: "invar j \<Longrightarrow> fits ev t \<Longrightarrow> append_event jr ev t j = (r, j') \<Longrightarrow> invar j'"
begin

lemma handle_allowed:
  assumes inv: "invar j" and fit: "\<And>t. now = Inr t \<Longrightarrow> fits (SignalAccepted s) t"
    and run: "handle_workflow_signal jr now (SubmitSignal s x) j = (r, j')"
  shows "submit_allowed now s x (entries j) r (entries j') \<and> invar j'"
proof (cases "load_committed jr j")
  case (Pair l j1)
  note keep = load_keeps [OF inv Pair]
  have core: "submit_core jr now (SubmitSignal s x) j = (r, j')"
    using run by (simp add: handle_core)
  show ?thesis
  proof (cases l)
    case (Inl e)
    with core Pair keep show ?thesis by (auto simp: submit_core_def)
  next
    case (Inr es)
    have es: "es = entries j" using load_reads [OF inv] Pair Inr by blast
    show ?thesis
    proof (cases "replay (map event es)")
      case err: (Inl e)
      with core Pair Inr keep es show ?thesis
        using replay_keys(2) [OF err] by (auto simp: submit_core_def)
    next
      case st: (Inr st)
      note look = replay_lookup [OF st] and dist = replay_keys(1) [OF st]
      show ?thesis
      proof (cases rule: decide_cases [of st s x])
        case Accept
        then have m: "matches_expected s x" "signal_event_id s \<notin> set (keys_of es)"
          unfolding decide_accepted look by simp_all
        show ?thesis
        proof (cases now)
          case (Inl e)
          with core Pair Inr st Accept keep show ?thesis by (auto simp: submit_core_def)
        next
          case t: (Inr t)
          obtain a j2 where a: "append_event jr (SignalAccepted s) t j1 = (a, j2)" by fastforce
          have r: "r = map_ok OutcomeAccepted (map_err HandleJournal a)" "j' = j2"
            using core Pair Inr st Accept t a by (auto simp: submit_core_def)
          show ?thesis
            using append_ok [of j1 _ t] append_error [of j1 _ t] append_keeps [of j1 _ t] keep a r m
              dist t fit [OF t]
            by (cases a) (fastforce simp: es)+
        qed
      next
        case Dup
        then have "matches_expected s x" "holds_signal es s"
          unfolding decide_duplicate look by simp_all
        with core Pair Inr st Dup keep es show ?thesis by (auto simp: submit_core_def)
      next
        case (Reject e)
        then have r: "r = Inl (HandleRejected e)" "j' = j1"
          using core Pair Inr st by (auto simp: submit_core_def)
        show ?thesis
        proof (cases "check_expected s x")
          case (Inl e')
          with Reject r keep show ?thesis by simp
        next
          case ok: (Inr u)
          then have m: "matches_expected s x" by (simp add: check_expected_ok)
          obtain a where a: "accepted st (signal_event_id s) = Some a" "a \<noteq> s"
            "e = EventConflict (signal_event_id s)"
            using Reject ok by (auto split: option.splits if_splits)
          then have "signal_event_id s \<in> set (keys_of es)" "\<not> holds_signal es s"
            using look(1) [of "signal_event_id s"] look(2) [of s] by auto
          then show ?thesis using a(3) m r keep es by simp
        qed
      qed
    qed
  qed
qed

lemma submit_all_keeps:
  assumes "invar j" "submit_all jr cmds j = (rs, j')"
    "list_all (\<lambda>(now, s, x). \<forall>t. now = Inr t \<longrightarrow> fits (SignalAccepted s) t) cmds"
  shows "invar j' \<and> length rs = length cmds \<and>
    (\<exists>new. entries j' = entries j @ new \<and> length new \<le> length cmds) \<and>
    (distinct (keys_of (entries j)) \<longrightarrow> distinct (keys_of (entries j'))) \<and>
    (contiguous (entries j) \<longrightarrow> contiguous (entries j'))"
  using assms
proof (induction cmds arbitrary: j rs)
  case (Cons c cmds)
  obtain now s x where c: "c = (now, s, x)" by (cases c)
  obtain r j1 where h: "handle_workflow_signal jr now (SubmitSignal s x) j = (r, j1)" by fastforce
  obtain rs1 where rest: "submit_all jr cmds j1 = (rs1, j')" "rs = r # rs1"
    using Cons.prems(2) h by (auto simp: c split: prod.splits)
  have ok: "submit_allowed now s x (entries j) r (entries j1)" "invar j1"
    using handle_allowed [OF Cons.prems(1) _ h] Cons.prems(3) by (auto simp: c)
  have fit: "list_all (\<lambda>(now, s, x). \<forall>t. now = Inr t \<longrightarrow> fits (SignalAccepted s) t) cmds"
    using Cons.prems(3) by simp
  note more = Cons.IH [OF ok(2) rest(1) fit]
  obtain n1 where n1: "entries j1 = entries j @ n1" "length n1 \<le> 1"
    using submit_allowed_prefix [OF ok(1)] by blast
  moreover obtain n2 where "entries j' = entries j1 @ n2" "length n2 \<le> length cmds"
    using more by blast
  ultimately have "entries j' = entries j @ (n1 @ n2) \<and> length (n1 @ n2) \<le> Suc (length cmds)"
    by simp
  then show ?case
    using more rest(2) submit_allowed_distinct [OF ok(1)] submit_allowed_contiguous [OF ok(1)]
    by (metis length_Cons)
qed simp

lemma submit_all_reported:
  assumes "invar j" "submit_all jr cmds j = (rs, j')"
    "list_all (\<lambda>(now, s, x). \<forall>t. now = Inr t \<longrightarrow> fits (SignalAccepted s) t) cmds" "k < length cmds" "cmds ! k = (now, s, x)"
    "rs ! k = Inr out"
  shows "holds_signal (entries j') s"
  using assms
proof (induction cmds arbitrary: j rs k)
  case (Cons c cmds)
  obtain now' s' x' where c: "c = (now', s', x')" by (cases c)
  obtain r j1 where h: "handle_workflow_signal jr now' (SubmitSignal s' x') j = (r, j1)" by fastforce
  obtain rs1 where rest: "submit_all jr cmds j1 = (rs1, j')" "rs = r # rs1"
    using Cons.prems(2) h by (auto simp: c split: prod.splits)
  have ok: "submit_allowed now' s' x' (entries j) r (entries j1)" "invar j1"
    using handle_allowed [OF Cons.prems(1) _ h] Cons.prems(3) by (auto simp: c)
  have fit: "list_all (\<lambda>(now, s, x). \<forall>t. now = Inr t \<longrightarrow> fits (SignalAccepted s) t) cmds"
    using Cons.prems(3) by simp
  show ?case
  proof (cases k)
    case 0
    then have "holds_signal (entries j1) s"
      using Cons.prems(5,6) ok(1) rest(2) c submit_allowed_holds by fastforce
    then show ?thesis using submit_all_keeps [OF ok(2) rest(1) fit] by auto
  next
    case (Suc m)
    then show ?thesis using Cons.IH [OF ok(2) rest(1) fit, of m] Cons.prems(4-6) rest(2) by simp
  qed
qed simp

lemma reconcile_after_unknown:
  assumes "invar j" "\<And>t. now = Inr t \<Longrightarrow> fits (SignalAccepted s) t" "handle_workflow_signal jr now (SubmitSignal s x) j = (Inl (HandleJournal e), j1)"
    "engine_reconcile_workflow_signal jr s j1 = (Inr d, j2)" "signal_event_id s \<notin> set (keys_of (entries j))"
  shows "(d = ReconciledAccepted \<longleftrightarrow> length (entries j1) = Suc (length (entries j))) \<and>
    (d = ReconciledAbsent \<longleftrightarrow> entries j1 = entries j) \<and> d \<noteq> ReconciledConflict"
proof -
  have ok: "submit_allowed now s x (entries j) (Inl (HandleJournal e)) (entries j1)" "invar j1"
    using handle_allowed [OF assms(1-3)] by simp_all
  note d = reconcile_exact [OF ok(2) assms(4)]
  have "\<not> holds_signal (entries j) s"
    using assms(5) by (auto simp: holds_signal_def keys_of_def image_iff) (metis event_key_simps)
  moreover have "holds_signal [next_entry (entries j) (SignalAccepted s) t] s" for t
    by (simp add: holds_signal_def)
  ultimately show ?thesis using ok(1) d assms(5) by (cases d) auto
qed

end

section \<open>Properties\<close>


end
