(* ===== verification/Memory_Journal.thy ===== *)
theory Memory_Journal
  imports Engine
begin

text \<open>
  \<^verbatim>\<open>crates/aizign-testkit/src/memory_journal.rs\<close> and \<^verbatim>\<open>fixed_clock.rs\<close>: the in-memory journal
  with fault injection, the model the durable store is compared with. Its two fault queues are
  popped one fault per call. It interprets the \<open>journal\<close> contract, so the guarantees of the two use
  cases hold over it for every fault sequence.
\<close>

datatype AppendFault = Reject JournalError | StoreThenUnknown

record MemoryJournal =
  stored :: "JournalEntry list"
  load_faults :: "JournalError list"
  append_faults :: "AppendFault list"

definition MemoryJournal_new :: MemoryJournal where
  "MemoryJournal_new = \<lparr>stored = [], load_faults = [], append_faults = []\<rparr>"

definition fail_next_load :: "JournalError \<Rightarrow> MemoryJournal \<Rightarrow> MemoryJournal" where
  "fail_next_load e m = m\<lparr>load_faults := load_faults m @ [e]\<rparr>"

definition fail_next_append :: "JournalError \<Rightarrow> MemoryJournal \<Rightarrow> MemoryJournal" where
  "fail_next_append e m = m\<lparr>append_faults := append_faults m @ [Reject e]\<rparr>"

definition lose_next_append_acknowledgement :: "MemoryJournal \<Rightarrow> MemoryJournal" where
  "lose_next_append_acknowledgement m = m\<lparr>append_faults := append_faults m @ [StoreThenUnknown]\<rparr>"

definition MemoryJournal_load_committed ::
  "MemoryJournal \<Rightarrow> (JournalError, JournalEntry list) result \<times> MemoryJournal" where
  "MemoryJournal_load_committed m =
     (case load_faults m of
        e # rest \<Rightarrow> (Inl e, m\<lparr>load_faults := rest\<rparr>)
      | [] \<Rightarrow>
          if length (stored m) > MAX_JOURNAL_ENTRIES then (Inl (BoundExceeded MAX_JOURNAL_ENTRIES), m)
          else (Inr (stored m), m))"

definition MemoryJournal_append ::
  "WorkflowEvent \<Rightarrow> BoundedTimestamp \<Rightarrow> MemoryJournal \<Rightarrow>
   (JournalError, JournalEntry) result \<times> MemoryJournal" where
  "MemoryJournal_append ev t m =
     (let (fault, m) =
        (case append_faults m of
           [] \<Rightarrow> (None, m)
         | f # rest \<Rightarrow> (Some f, m\<lparr>append_faults := rest\<rparr>))
      in case fault of
           Some (Reject e) \<Rightarrow> (Inl e, m)
         | _ \<Rightarrow>
           if length (stored m) \<ge> MAX_JOURNAL_ENTRIES then (Inl (BoundExceeded MAX_JOURNAL_ENTRIES), m)
           else
             let entry = \<lparr>seq = length (stored m) + 1, at = t, event = ev\<rparr>;
                 m = m\<lparr>stored := stored m @ [entry]\<rparr>
             in if fault = Some StoreThenUnknown
                then (Inl (OutcomeUnknown ''acknowledgement lost after the write''), m)
                else (Inr entry, m))"

definition memory_journal :: "MemoryJournal Journal" where
  "memory_journal =
     \<lparr>load_committed = MemoryJournal_load_committed, append_event = MemoryJournal_append\<rparr>"

datatype FixedClock = FixedClock (fixed_now: Clock)

definition FixedClock_at :: "BoundedTimestamp \<Rightarrow> FixedClock" where
  "FixedClock_at t = FixedClock (Inr t)"

definition FixedClock_failing :: "ClockError \<Rightarrow> FixedClock" where
  "FixedClock_failing e = FixedClock (Inl e)"

section \<open>The contract\<close>

lemma memory_load_cases:
  "MemoryJournal_load_committed m = (r, m') \<Longrightarrow>
     stored m' = stored m \<and> append_faults m' = append_faults m \<and> (\<forall>es. r = Inr es \<longrightarrow> es = stored m)"
  by (auto simp: MemoryJournal_load_committed_def split: list.splits if_splits)

lemma memory_append_Inr:
  "MemoryJournal_append ev t m = (Inr e, m') \<Longrightarrow>
     e = next_entry (stored m) ev t \<and> stored m' = stored m @ [e]"
  by (auto simp: MemoryJournal_append_def Let_def next_entry_def
      split: list.splits option.splits AppendFault.splits if_splits)

lemma memory_append_Inl:
  "MemoryJournal_append ev t m = (Inl err, m') \<Longrightarrow>
     stored m' = stored m \<or>
     JournalError_code err = ''JOURNAL_OUTCOME_UNKNOWN'' \<and>
     stored m' = stored m @ [next_entry (stored m) ev t]"
  by (auto simp: MemoryJournal_append_def Let_def next_entry_def
      split: list.splits option.splits AppendFault.splits if_splits)

lemma memory_append_bound:
  "MemoryJournal_append ev t m = (r, m') \<Longrightarrow> length (stored m) \<le> MAX_JOURNAL_ENTRIES \<Longrightarrow>
     length (stored m') \<le> MAX_JOURNAL_ENTRIES"
  by (auto simp: MemoryJournal_append_def Let_def
      split: list.splits option.splits AppendFault.splits if_splits)

definition memory_invar :: "MemoryJournal \<Rightarrow> bool" where
  "memory_invar m \<longleftrightarrow> length (stored m) \<le> MAX_JOURNAL_ENTRIES"

interpretation memory: journal memory_journal stored memory_invar "\<lambda>_ _. True"
  by unfold_locales
    (auto simp: memory_journal_def memory_invar_def
      dest: memory_load_cases memory_append_Inr memory_append_Inl memory_append_bound)

section \<open>Properties\<close>

definition example_time :: BoundedTimestamp where
  "example_time = BoundedTimestamp 1700000000"

text \<open>A journal whose next acknowledgement is lost, as after a crash between write and reply.\<close>

definition example_memory :: MemoryJournal where
  "example_memory = lose_next_append_acknowledgement MemoryJournal_new"

lemma example_memory_submit:
  "handle_workflow_signal memory_journal (Inr example_time)
     (SubmitSignal example_signal example_expected) example_memory =
   (Inl (HandleJournal (OutcomeUnknown ''acknowledgement lost after the write'')),
    \<lparr>stored = [next_entry [] (SignalAccepted example_signal) example_time], load_faults = [],
     append_faults = []\<rparr>)"
  by (simp add: handle_core submit_core_def memory_journal_def MemoryJournal_load_committed_def
      MemoryJournal_append_def example_memory_def lose_next_append_acknowledgement_def
      MemoryJournal_new_def MAX_JOURNAL_ENTRIES_def replay_def WorkflowState_new_def accepted_def
      check_expected_def example_defs next_entry_def)

text \<open>C19: one submission over the in-memory journal, for every queue of injected faults: acceptance is
  reported only when exactly the reported entry was stored at the next sequence number, for a signal
  that matches its expectation and whose identifier was fresh; a duplicate, a rejection, a clock
  failure and a replay failure leave the entries alone; and a journal error leaves them alone or is
  the unknown-outcome error with exactly the submitted event stored.\<close>

theorem memory_submit_exact:
  assumes "memory_invar m"
    and "handle_workflow_signal memory_journal now (SubmitSignal s x) m = (r, m')"
  shows "submit_allowed now s x (stored m) r (stored m') \<and> memory_invar m'"
  by (rule memory.handle_allowed [OF assms(1) TrueI assms(2)])

theorem memory_submit_exact_witness:
  "submit_allowed (Inr example_time) example_signal example_expected []
     (Inl (HandleJournal (OutcomeUnknown ''acknowledgement lost after the write'')))
     [next_entry [] (SignalAccepted example_signal) example_time]"
  using memory_submit_exact [OF _ example_memory_submit]
  by (simp add: memory_invar_def example_memory_def lose_next_append_acknowledgement_def
      MemoryJournal_new_def)

text \<open>C18: any sequence of submissions, retries included, over any fault queues: the entries only grow,
  by at most one per submission; sequence numbers stay contiguous from one; no event identifier is
  ever stored twice, so replay keeps succeeding; and every submission that reported acceptance or a
  duplicate has its signal in the final journal.\<close>

theorem memory_submissions_exactly_once:
  assumes "submit_all memory_journal cmds (MemoryJournal_new\<lparr>load_faults := lf, append_faults := af\<rparr>) = (rs, m')"
  shows "length rs = length cmds \<and> length (stored m') \<le> length cmds \<and> contiguous (stored m') \<and>
    distinct (keys_of (stored m')) \<and> is_ok (replay (map event (stored m'))) \<and>
    (\<forall>k now s x out. k < length cmds \<and> cmds ! k = (now, s, x) \<and> rs ! k = Inr out \<longrightarrow>
       holds_signal (stored m') s)"
proof -
  let ?m = "(MemoryJournal_new\<lparr>load_faults := lf, append_faults := af\<rparr>)"
  have inv: "memory_invar ?m" by (simp add: memory_invar_def MemoryJournal_new_def)
  have empty: "stored ?m = []" by (simp add: MemoryJournal_new_def)
  have fit: "list_all (\<lambda>(now, s, x). \<forall>t. now = Inr t \<longrightarrow> True) cmds" by (simp add: list_all_iff)
  note all = memory.submit_all_keeps [OF inv assms fit] and rep = memory.submit_all_reported [OF inv assms fit]
  have "is_ok (replay (map event (stored m')))"
    using all empty replay_keys(2) by (cases "replay (map event (stored m'))") auto
  with all rep empty show ?thesis by auto
qed

theorem memory_submissions_exactly_once_witness:
  "\<exists>m' out. submit_all memory_journal
       [(Inr example_time, example_signal, example_expected),
        (Inr example_time, example_signal, example_expected)]
       (MemoryJournal_new\<lparr>load_faults := [Locked], append_faults := []\<rparr>) =
     ([Inl (HandleJournal Locked), Inr out], m') \<and> holds_signal (stored m') example_signal \<and>
     distinct (keys_of (stored m'))"
proof -
  let ?e = "next_entry [] (SignalAccepted example_signal) example_time"
  let ?cmds = "[(Inr example_time, example_signal, example_expected),
      (Inr example_time, example_signal, example_expected)]"
  have run: "submit_all memory_journal ?cmds
      (MemoryJournal_new\<lparr>load_faults := [Locked], append_faults := []\<rparr>) =
     ([Inl (HandleJournal Locked), Inr (OutcomeAccepted ?e)],
      \<lparr>stored = [?e], load_faults = [], append_faults = []\<rparr>)"
    by (simp add: handle_core submit_core_def memory_journal_def MemoryJournal_load_committed_def
        MemoryJournal_append_def MemoryJournal_new_def MAX_JOURNAL_ENTRIES_def replay_def
        WorkflowState_new_def accepted_def check_expected_def example_defs next_entry_def Let_def)
  from memory_submissions_exactly_once [OF run] have "holds_signal [?e] example_signal"
    by (elim conjE allE [of _ 1]) simp
  with run memory_submissions_exactly_once [OF run] show ?thesis
    by (intro exI [of _ "\<lparr>stored = [?e], load_faults = [], append_faults = []\<rparr>"]
        exI [of _ "OutcomeAccepted ?e"]) simp
qed

end
