(* ===== verification/Json_Token.thy ===== *)
theory Json_Token
  imports Prelude
begin

text \<open>
  \<^verbatim>\<open>crates/aizign-protocol/src/json_token.rs\<close>: the checks on raw JSON tokens that run before any
  typed deserialization. Texts are byte lists and positions are indices into them, as in the code;
  every loop over an index is a function terminating by the bytes that are left. A stack of levels
  is a list with the innermost level first. Decoding one string token (\<open>serde_json::from_str::<String>\<close>)
  is the parameter \<open>decode_string\<close>, \<open>None\<close> standing for its error.
\<close>

section \<open>Data\<close>

definition TYPED_JSON_DEPTH_LIMIT :: nat where
  "TYPED_JSON_DEPTH_LIMIT = 128"

datatype FailureKind = DuplicateMember | InvalidUnicode | NoncanonicalNumber

record Failure =
  failure_kind :: FailureKind
  failure_index :: nat
  failure_in_payload :: bool
  failure_message :: string

datatype ProbeValue =
    ProbeString string
  | ProbeBoolean bool
  | ProbeNumber string
  | ProbeNull
  | ProbeObject
  | ProbeArray
  | ProbeInvalid

datatype CorrelationSafety = Safe | Suppressed

record Scan =
  syntax_error :: "string option"
  failure :: "Failure option"
  typed_text :: string
  envelope_text :: string
  top_level_object :: bool
  top_level_values :: "string \<rightharpoonup> ProbeValue"
  correlation_safety :: CorrelationSafety
  error_code :: "string option"
  payload_integer_out_of_range :: bool
  payload_exceeds_typed_depth :: bool

datatype Level =
    ObjectLevel (keys: "string set") (in_payload: bool) (direct_error: bool)
      (container_start: nat) (top_level_payload: bool) (pending_key: "string option")
  | ArrayLevel (in_payload: bool) (container_start: nat) (top_level_payload: bool)

section \<open>Token boundaries\<close>

definition is_whitespace :: "char \<Rightarrow> bool" where
  "is_whitespace b \<longleftrightarrow> byte_code b = 32 \<or> byte_code b = 9 \<or> byte_code b = 10 \<or> byte_code b = 13"

abbreviation (input) quote :: char where "quote \<equiv> CHR 0x22"
abbreviation (input) backslash :: char where "backslash \<equiv> CHR 0x5C"

function end_of_string_loop :: "string \<Rightarrow> nat \<Rightarrow> nat option" where
  "end_of_string_loop bytes index =
     (if index < length bytes then
        (if bytes ! index = backslash then end_of_string_loop bytes (index + 2)
         else if bytes ! index = quote then Some (index + 1)
         else end_of_string_loop bytes (index + 1))
      else None)"
  by auto
termination by (relation "measure (\<lambda>(bytes, index). length bytes - index)") auto

definition end_of_string :: "string \<Rightarrow> nat \<Rightarrow> nat option" where
  "end_of_string bytes start = end_of_string_loop bytes (start + 1)"

function next_non_whitespace :: "string \<Rightarrow> nat \<Rightarrow> nat" where
  "next_non_whitespace bytes index =
     (if index < length bytes \<and> is_whitespace (bytes ! index)
      then next_non_whitespace bytes (index + 1) else index)"
  by auto
termination by (relation "measure (\<lambda>(bytes, index). length bytes - index)") auto

definition ends_number :: "char \<Rightarrow> bool" where
  "ends_number b \<longleftrightarrow> is_whitespace b \<or> b \<in> set '',]}:''"

function number_end :: "string \<Rightarrow> nat \<Rightarrow> nat" where
  "number_end bytes index =
     (if index < length bytes \<and> \<not> ends_number (bytes ! index)
      then number_end bytes (index + 1) else index)"
  by auto
termination by (relation "measure (\<lambda>(bytes, index). length bytes - index)") auto

function digits_end :: "string \<Rightarrow> nat \<Rightarrow> nat" where
  "digits_end bytes index =
     (if index < length bytes \<and> is_ascii_digit (bytes ! index)
      then digits_end bytes (index + 1) else index)"
  by auto
termination by (relation "measure (\<lambda>(bytes, index). length bytes - index)") auto

lemmas [simp del] = end_of_string_loop.simps next_non_whitespace.simps number_end.simps
  digits_end.simps

text \<open>\<open>is_json_number\<close>: the integer part, then the optional fraction and exponent, each step
  returning the index it reached or \<open>None\<close> where the code returns \<open>false\<close>.\<close>

definition number_integer_end :: "string \<Rightarrow> nat \<Rightarrow> nat option" where
  "number_integer_end bytes index =
     (case get_at bytes index of
        Some b \<Rightarrow>
          if b = CHR ''0'' then Some (index + 1)
          else if is_ascii_digit b then Some (digits_end bytes (index + 1))
          else None
      | None \<Rightarrow> None)"

definition number_fraction_end :: "string \<Rightarrow> nat \<Rightarrow> nat option" where
  "number_fraction_end bytes index =
     (if get_at bytes index = Some (CHR ''.'')
      then (let start = index + 1; index = digits_end bytes start
            in if index = start then None else Some index)
      else Some index)"

definition exponent_start :: "string \<Rightarrow> nat \<Rightarrow> nat" where
  "exponent_start bytes index =
     (if get_at bytes index = Some (CHR ''+'') \<or> get_at bytes index = Some (CHR ''-'')
      then index + 1 else index)"

definition number_exponent_end :: "string \<Rightarrow> nat \<Rightarrow> nat option" where
  "number_exponent_end bytes index =
     (if get_at bytes index = Some (CHR ''e'') \<or> get_at bytes index = Some (CHR ''E'')
      then (let start = exponent_start bytes (index + 1); index = digits_end bytes start
            in if index = start then None else Some index)
      else Some index)"

definition is_json_number :: "string \<Rightarrow> bool" where
  "is_json_number bytes =
     (let index = (if get_at bytes 0 = Some (CHR ''-'') then 1 else 0) in
      case number_integer_end bytes index of
        None \<Rightarrow> False
      | Some index \<Rightarrow>
          (case number_fraction_end bytes index of
             None \<Rightarrow> False
           | Some index \<Rightarrow>
               (case number_exponent_end bytes index of
                  None \<Rightarrow> False
                | Some index \<Rightarrow> index = length bytes)))"

section \<open>String tokens\<close>

definition hex_digit :: "char \<Rightarrow> nat option" where
  "hex_digit b =
     (let c = byte_code b in
      if 48 \<le> c \<and> c \<le> 57 then Some (c - 48)
      else if 97 \<le> c \<and> c \<le> 102 then Some (c - 97 + 10)
      else if 65 \<le> c \<and> c \<le> 70 then Some (c - 65 + 10)
      else None)"

fun hex_fold :: "nat \<Rightarrow> string \<Rightarrow> nat option" where
  "hex_fold value [] = Some value"
| "hex_fold value (b # bs) =
     (case hex_digit b of None \<Rightarrow> None | Some digit \<Rightarrow> hex_fold (value * 16 + digit) bs)"

definition hex4 :: "string \<Rightarrow> nat \<Rightarrow> nat option" where
  "hex4 bytes start =
     (case get_slice bytes start (start + 4) of
        None \<Rightarrow> None
      | Some digits \<Rightarrow> hex_fold 0 digits)"

definition is_high_surrogate :: "nat \<Rightarrow> bool" where
  "is_high_surrogate u \<longleftrightarrow> 0xd800 \<le> u \<and> u \<le> 0xdbff"

definition is_low_surrogate :: "nat \<Rightarrow> bool" where
  "is_low_surrogate u \<longleftrightarrow> 0xdc00 \<le> u \<and> u \<le> 0xdfff"

definition simple_escape :: "char \<Rightarrow> bool" where
  "simple_escape b \<longleftrightarrow> b \<in> {quote, backslash} \<or> b \<in> set ''/bfnrt''"

text \<open>One \<open>\u\<close> escape whose \<open>u\<close> is at \<open>index\<close>: \<open>None\<close> where the code returns the token as
  grammatically invalid, otherwise the index behind the escape and whether it is a Unicode scalar.\<close>

definition unicode_escape :: "string \<Rightarrow> nat \<Rightarrow> (nat \<times> bool) option" where
  "unicode_escape bytes index =
     (case hex4 bytes (index + 1) of
        None \<Rightarrow> None
      | Some unit \<Rightarrow>
          let index = index + 5 in
          if is_high_surrogate unit then
            (if get_slice bytes index (index + 2) = Some [backslash, CHR ''u''] then
               (case hex4 bytes (index + 2) of
                  None \<Rightarrow> None
                | Some low \<Rightarrow>
                    if is_low_surrogate low then Some (index + 6, True) else Some (index, False))
             else Some (index, False))
          else Some (index, \<not> is_low_surrogate unit))"

lemma unicode_escape_advances: "unicode_escape bytes index = Some (i, ok) \<Longrightarrow> index + 5 \<le> i"
  by (auto simp: unicode_escape_def Let_def split: option.splits if_splits)

function string_token_loop :: "string \<Rightarrow> nat \<Rightarrow> nat \<Rightarrow> bool \<Rightarrow> bool \<times> bool" where
  "string_token_loop bytes content_end index unicode_valid =
     (if index < content_end then
        (if byte_code (bytes ! index) \<le> 0x1f then (False, unicode_valid)
         else if bytes ! index = backslash then
           (case get_at bytes (index + 1) of
              None \<Rightarrow> (False, unicode_valid)
            | Some escape \<Rightarrow>
                if simple_escape escape
                then string_token_loop bytes content_end (index + 2) unicode_valid
                else if escape = CHR ''u'' then
                  (case unicode_escape bytes (index + 1) of
                     None \<Rightarrow> (False, unicode_valid)
                   | Some (index', scalar) \<Rightarrow>
                       string_token_loop bytes content_end index' (unicode_valid \<and> scalar))
                else (False, unicode_valid))
         else string_token_loop bytes content_end (index + 1) unicode_valid)
      else (True, unicode_valid))"
  by pat_completeness auto
termination
  by (relation "measure (\<lambda>(bytes, content_end, index, _). content_end - index)")
    (auto dest: unicode_escape_advances)

lemmas [simp del] = string_token_loop.simps

definition string_token_state :: "string \<Rightarrow> nat \<Rightarrow> nat \<Rightarrow> bool \<times> bool" where
  "string_token_state bytes start end_index =
     string_token_loop bytes (end_index - 1) (start + 1) True"

section \<open>The grammar\<close>

datatype ObjectState = KeyOrEnd | Key | Colon | Value | CommaOrEnd

datatype ArrayState = ValueOrEnd | ArrayValue | ArrayCommaOrEnd

datatype GrammarLevel = GObject ObjectState | GArray ArrayState

definition consume_json_string :: "string \<Rightarrow> nat \<Rightarrow> (string, nat) result" where
  "consume_json_string bytes index =
     (case end_of_string bytes index of
        None \<Rightarrow> Inl ''frame contains an unterminated JSON string''
      | Some end_index \<Rightarrow>
          if \<not> fst (string_token_state bytes index end_index)
          then Inl ''frame contains an invalid JSON string token''
          else Inr end_index)"

definition consume_json_value ::
  "string \<Rightarrow> nat \<Rightarrow> GrammarLevel list \<Rightarrow> (string, nat \<times> GrammarLevel list) result" where
  "consume_json_value bytes index levels =
     (case get_at bytes index of
        None \<Rightarrow> Inl ''frame contains an invalid JSON value''
      | Some b \<Rightarrow>
          if b = CHR ''{'' then Inr (index + 1, GObject KeyOrEnd # levels)
          else if b = CHR ''['' then Inr (index + 1, GArray ValueOrEnd # levels)
          else if b = quote then map_ok (\<lambda>e. (e, levels)) (consume_json_string bytes index)
          else if b = CHR ''t'' \<and> get_slice bytes index (index + 4) = Some ''true''
            then Inr (index + 4, levels)
          else if b = CHR ''f'' \<and> get_slice bytes index (index + 5) = Some ''false''
            then Inr (index + 5, levels)
          else if b = CHR ''n'' \<and> get_slice bytes index (index + 4) = Some ''null''
            then Inr (index + 4, levels)
          else if b = CHR ''-'' \<or> is_ascii_digit b then
            (let end_index = number_end bytes index; token = slice bytes index end_index in
             if \<not> is_ok (from_utf8 token) \<or> \<not> is_json_number token
             then Inl ''frame contains an invalid JSON number token''
             else Inr (end_index, levels))
          else Inl ''frame contains an invalid JSON value'')"

text \<open>The body of the loop for the innermost level, at an index that is not whitespace: the next
  index and stack.\<close>

fun grammar_step ::
  "string \<Rightarrow> nat \<Rightarrow> GrammarLevel \<Rightarrow> GrammarLevel list \<Rightarrow> (string, nat \<times> GrammarLevel list) result" where
  "grammar_step bytes index (GObject KeyOrEnd) outer =
     (if get_at bytes index = Some (CHR ''}'') then Inr (index + 1, outer)
      else if get_at bytes index = Some quote then
        map_ok (\<lambda>e. (e, GObject Colon # outer)) (consume_json_string bytes index)
      else Inl ''JSON object member name must be a string'')"
| "grammar_step bytes index (GObject Key) outer =
     (if get_at bytes index \<noteq> Some quote then Inl ''JSON object member name must follow a comma''
      else map_ok (\<lambda>e. (e, GObject Colon # outer)) (consume_json_string bytes index))"
| "grammar_step bytes index (GObject Colon) outer =
     (if get_at bytes index \<noteq> Some (CHR '':'')
      then Inl ''JSON object member name must be followed by a colon''
      else Inr (index + 1, GObject Value # outer))"
| "grammar_step bytes index (GObject Value) outer =
     consume_json_value bytes index (GObject CommaOrEnd # outer)"
| "grammar_step bytes index (GObject CommaOrEnd) outer =
     (if get_at bytes index = Some (CHR '','') then Inr (index + 1, GObject Key # outer)
      else if get_at bytes index = Some (CHR ''}'') then Inr (index + 1, outer)
      else Inl ''JSON object value must be followed by a comma or closing brace'')"
| "grammar_step bytes index (GArray ValueOrEnd) outer =
     (if get_at bytes index = Some (CHR '']'') then Inr (index + 1, outer)
      else consume_json_value bytes index (GArray ArrayCommaOrEnd # outer))"
| "grammar_step bytes index (GArray ArrayValue) outer =
     consume_json_value bytes index (GArray ArrayCommaOrEnd # outer)"
| "grammar_step bytes index (GArray ArrayCommaOrEnd) outer =
     (if get_at bytes index = Some (CHR '','') then Inr (index + 1, GArray ArrayValue # outer)
      else if get_at bytes index = Some (CHR '']'') then Inr (index + 1, outer)
      else Inl ''JSON array value must be followed by a comma or closing bracket'')"

lemma end_of_string_loop_bounds:
  "end_of_string_loop bytes index = Some e \<Longrightarrow> index < e \<and> e \<le> length bytes"
proof (induction bytes index rule: end_of_string_loop.induct)
  case (1 bytes index)
  then show ?case
    by (subst (asm) (3) end_of_string_loop.simps) (auto split: if_splits)
qed

lemma next_non_whitespace_le: "index \<le> next_non_whitespace bytes index"
proof (induction bytes index rule: next_non_whitespace.induct)
  case (1 bytes index)
  then show ?case by (subst next_non_whitespace.simps) auto
qed

lemma number_end_le: "index \<le> number_end bytes index"
proof (induction bytes index rule: number_end.induct)
  case (1 bytes index)
  then show ?case by (subst number_end.simps) auto
qed

lemma number_end_less:
  "index < length bytes \<Longrightarrow> \<not> ends_number (bytes ! index) \<Longrightarrow> index < number_end bytes index"
  using number_end_le [of "index + 1" bytes] by (subst number_end.simps) simp

lemma consume_json_string_advances:
  "consume_json_string bytes index = Inr e \<Longrightarrow> index < e \<and> index < length bytes"
  by (auto simp: consume_json_string_def end_of_string_def split: option.splits if_splits
      dest!: end_of_string_loop_bounds)

lemma digit_or_minus_inside:
  "b = CHR ''-'' \<or> is_ascii_digit b \<Longrightarrow> \<not> ends_number b"
  by (auto simp: ends_number_def is_whitespace_def byte_defs)

lemma number_token_less:
  "index < length bytes \<Longrightarrow> bytes ! index = CHR ''-'' \<or> is_ascii_digit (bytes ! index) \<Longrightarrow>
     length bytes - number_end bytes index < length bytes - index"
  using number_end_less digit_or_minus_inside by (intro diff_less_mono2) auto

lemma consume_json_value_advances:
  "consume_json_value bytes index levels = Inr (index', levels') \<Longrightarrow> index < index' \<and> index < length bytes"
  by (auto simp: consume_json_value_def Let_def map_ok_eq_Inr digit_or_minus_inside number_end_less
      split: option.splits if_splits dest: consume_json_string_advances)

lemma grammar_step_advances:
  "grammar_step bytes index level outer = Inr (index', levels') \<Longrightarrow> index < index' \<and> index < length bytes"
  by (cases "(bytes, index, level, outer)" rule: grammar_step.cases)
    (auto simp: map_ok_eq_Inr split: if_splits
      dest: consume_json_value_advances consume_json_string_advances)

function grammar_loop :: "string \<Rightarrow> nat \<Rightarrow> GrammarLevel list \<Rightarrow> (string, unit) result" where
  "grammar_loop bytes index levels =
     (let index = next_non_whitespace bytes index in
      case levels of
        [] \<Rightarrow>
          if index = length bytes then Inr ()
          else Inl ''frame contains bytes after its JSON value''
      | level # outer \<Rightarrow>
          (case grammar_step bytes index level outer of
             Inl e \<Rightarrow> Inl e
           | Inr (index', levels') \<Rightarrow> grammar_loop bytes index' levels'))"
  by pat_completeness auto
termination
proof (relation "measure (\<lambda>(bytes, index, levels). length bytes - index)", goal_cases)
  case (2 bytes index levels i level outer p index' levels')
  have "i < index'" "i < length bytes"
    using grammar_step_advances 2 by metis+
  moreover have "index \<le> i" using next_non_whitespace_le 2(1) by simp
  ultimately show ?case by simp
qed simp

lemmas [simp del] = grammar_loop.simps

definition validate_json_grammar :: "string \<Rightarrow> (string, unit) result" where
  "validate_json_grammar bytes =
     (let index = next_non_whitespace bytes 0 in
      if index = length bytes then Inl ''frame must contain one JSON value''
      else (case consume_json_value bytes index [] of
              Inl e \<Rightarrow> Inl e
            | Inr (index, levels) \<Rightarrow> grammar_loop bytes index levels))"

section \<open>The scan\<close>

definition value_is_payload :: "Level list \<Rightarrow> bool" where
  "value_is_payload levels =
     (case levels of
        [] \<Rightarrow> False
      | parent # outer \<Rightarrow>
          in_payload parent \<or>
          (case parent of
             ObjectLevel _ _ _ _ _ (Some key) \<Rightarrow> outer = [] \<and> key = ''payload''
           | _ \<Rightarrow> False))"

fun consume_pending_key :: "Level list \<Rightarrow> Level list" where
  "consume_pending_key (ObjectLevel ks p d c t _ # outer) = ObjectLevel ks p d c t None # outer"
| "consume_pending_key levels = levels"

definition is_canonical_integer :: "string \<Rightarrow> bool" where
  "is_canonical_integer token \<longleftrightarrow>
     token = ''0'' \<or>
     (let digits = (case strip_prefix token ''-'' of Some d \<Rightarrow> d | None \<Rightarrow> token) in
      digits \<noteq> [] \<and> \<not> starts_with digits ''0'' \<and> list_all is_ascii_digit digits)"

definition record_failure :: "Failure option \<Rightarrow> Failure \<Rightarrow> Failure option" where
  "record_failure current candidate =
     (case current of
        None \<Rightarrow> Some candidate
      | Some existing \<Rightarrow>
          if failure_index candidate < failure_index existing then Some candidate else current)"

text \<open>The variables of the scanning loop.\<close>

record ScanVars =
  levels :: "Level list"
  typed_replacements :: "(nat \<times> nat \<times> string) list"
  envelope_replacements :: "(nat \<times> nat \<times> string) list"
  seen_values :: "string \<rightharpoonup> ProbeValue"
  seen_error_code :: "string option"
  seen_syntax_error :: "string option"
  seen_failure :: "Failure option"
  seen_correlation :: CorrelationSafety
  seen_out_of_range :: bool
  seen_depth :: bool

definition initial_vars :: ScanVars where
  "initial_vars =
     \<lparr>levels = [], typed_replacements = [], envelope_replacements = [], seen_values = Map.empty,
      seen_error_code = None, seen_syntax_error = None, seen_failure = None,
      seen_correlation = Safe, seen_out_of_range = False, seen_depth = False\<rparr>"

definition record_probe_value :: "ProbeValue \<Rightarrow> ScanVars \<Rightarrow> ScanVars" where
  "record_probe_value value v =
     (case levels v of
        ObjectLevel _ _ direct _ _ (Some key) # outer \<Rightarrow>
          let v = (if outer = []
                   then v\<lparr>seen_values := (seen_values v)(key \<mapsto> value),
                          seen_error_code :=
                            (if key = ''error'' then None else seen_error_code v)\<rparr>
                   else v)
          in if direct \<and> key = ''code''
             then v\<lparr>seen_error_code := (case value of ProbeString s \<Rightarrow> Some s | _ \<Rightarrow> None)\<rparr>
             else v
      | _ \<Rightarrow> v)"

text \<open>\<open>syntax_error.get_or_insert\<close>.\<close>

definition note_syntax_error :: "string \<Rightarrow> ScanVars \<Rightarrow> ScanVars" where
  "note_syntax_error message v =
     v\<lparr>seen_syntax_error := (case seen_syntax_error v of None \<Rightarrow> Some message | e \<Rightarrow> e)\<rparr>"

definition note_failure :: "FailureKind \<Rightarrow> nat \<Rightarrow> bool \<Rightarrow> string \<Rightarrow> ScanVars \<Rightarrow> ScanVars" where
  "note_failure k index payload message v =
     v\<lparr>seen_failure := record_failure (seen_failure v)
         \<lparr>failure_kind = k, failure_index = index, failure_in_payload = payload,
          failure_message = message\<rparr>\<rparr>"

definition pop_value :: "ScanVars \<Rightarrow> ScanVars" where
  "pop_value v = v\<lparr>levels := consume_pending_key (levels v)\<rparr>"

text \<open>A member name seen in the innermost object.\<close>

definition scan_member_name :: "nat \<Rightarrow> string option \<Rightarrow> ScanVars \<Rightarrow> ScanVars" where
  "scan_member_name index decoded v =
     (case (decoded, levels v) of
        (Some name, ObjectLevel ks payload d c t _ # outer) \<Rightarrow>
          let v' = (if name \<in> ks
                    then note_failure DuplicateMember index
                           (payload \<or> (outer = [] \<and> name = ''payload''))
                           ''frame repeats a JSON member; repeated members are not part of the contract''
                           v
                    else v)
          in v'\<lparr>levels := ObjectLevel (insert name ks) payload d c t (Some name) # outer\<rparr>
      | _ \<Rightarrow> v)"

definition scan_string ::
  "(string \<Rightarrow> string option) \<Rightarrow> string \<Rightarrow> nat \<Rightarrow> nat \<Rightarrow> ScanVars \<Rightarrow> ScanVars" where
  "scan_string decode_string bytes index end_index v =
     (let (syntax_valid, unicode_valid) = string_token_state bytes index end_index in
      if \<not> syntax_valid then note_syntax_error ''frame contains an invalid JSON string token'' v
      else
        let decoded = decode_string (slice bytes index end_index);
            after = next_non_whitespace bytes end_index;
            is_member_name = (get_at bytes after = Some (CHR '':''));
            v' = (if \<not> unicode_valid
                  then note_failure InvalidUnicode index (value_is_payload (levels v))
                         ''JSON member names and string values must be well-formed Unicode''
                         (if is_member_name \<and> length (levels v) = 1
                          then v\<lparr>seen_correlation := Suppressed\<rparr> else v)
                  else v)
        in if unicode_valid \<and> decoded = None
           then note_syntax_error ''frame contains an invalid JSON string token'' v
           else if is_member_name then scan_member_name index decoded v'
           else pop_value
                  (record_probe_value
                     (if unicode_valid
                      then (case decoded of Some s \<Rightarrow> ProbeString s | None \<Rightarrow> ProbeInvalid)
                      else ProbeInvalid) v'))"

definition names_root_member :: "string \<Rightarrow> Level list \<Rightarrow> bool" where
  "names_root_member name ls =
     (case ls of
        [ObjectLevel _ _ _ _ _ (Some key)] \<Rightarrow> key = name
      | _ \<Rightarrow> False)"

definition scan_open :: "char \<Rightarrow> nat \<Rightarrow> ScanVars \<Rightarrow> ScanVars" where
  "scan_open b index v =
     (let payload = value_is_payload (levels v);
          top = names_root_member ''payload'' (levels v);
          direct = (b = CHR ''{'' \<and> names_root_member ''error'' (levels v));
          v = (if payload \<and> length (levels v) \<ge> TYPED_JSON_DEPTH_LIMIT
               then v\<lparr>seen_depth := True\<rparr> else v);
          v = pop_value (record_probe_value (if b = CHR ''{'' then ProbeObject else ProbeArray) v)
      in v\<lparr>levels := (if b = CHR ''{'' then ObjectLevel {} payload direct index top None
                      else ArrayLevel payload index top) # levels v\<rparr>)"

definition scan_close :: "nat \<Rightarrow> ScanVars \<Rightarrow> ScanVars" where
  "scan_close index v =
     (case levels v of
        [] \<Rightarrow> v
      | level # outer \<Rightarrow>
          let v = v\<lparr>levels := outer\<rparr> in
          (case level of
             ObjectLevel _ _ _ start True _ \<Rightarrow>
               v\<lparr>envelope_replacements := envelope_replacements v @ [(start, index + 1, ''{}'')]\<rparr>
           | ArrayLevel _ start True \<Rightarrow>
               v\<lparr>envelope_replacements := envelope_replacements v @ [(start, index + 1, ''[]'')]\<rparr>
           | _ \<Rightarrow> v))"

definition scan_number :: "string \<Rightarrow> nat \<Rightarrow> nat \<Rightarrow> ScanVars \<Rightarrow> ScanVars" where
  "scan_number bytes index end_index v =
     (let token = slice bytes index end_index in
      if \<not> is_json_number token
      then note_syntax_error ''frame contains an invalid JSON number token'' v
      else
        let v = record_probe_value (ProbeNumber token) v;
            payload = value_is_payload (levels v);
            v = (if \<not> is_canonical_integer token
                 then note_failure NoncanonicalNumber index payload
                        ''Protocol numbers must use canonical integer spelling'' v
                 else if payload \<and> parse_u32 token = None
                 then v\<lparr>seen_out_of_range := True,
                        typed_replacements := typed_replacements v @ [(index, end_index, ''0'')]\<rparr>
                 else v)
        in pop_value v)"

definition scan_literal :: "string \<Rightarrow> nat \<Rightarrow> ScanVars \<Rightarrow> ScanVars" where
  "scan_literal bytes index v =
     pop_value
       (record_probe_value
          (if get_slice bytes index (index + 4) = Some ''true'' then ProbeBoolean True
           else if get_slice bytes index (index + 5) = Some ''false'' then ProbeBoolean False
           else ProbeNull) v)"

function scan_loop :: "(string \<Rightarrow> string option) \<Rightarrow> string \<Rightarrow> nat \<Rightarrow> ScanVars \<Rightarrow> ScanVars" where
  "scan_loop decode_string bytes index v =
     (if index < length bytes then
        let b = bytes ! index in
        if b = quote then
          (case end_of_string bytes index of
             None \<Rightarrow> note_syntax_error ''frame contains an unterminated JSON string'' v
           | Some end_index \<Rightarrow>
               scan_loop decode_string bytes end_index (scan_string decode_string bytes index end_index v))
        else if b = CHR ''{'' \<or> b = CHR ''[''
          then scan_loop decode_string bytes (index + 1) (scan_open b index v)
        else if b = CHR ''}'' \<or> b = CHR '']''
          then scan_loop decode_string bytes (index + 1) (scan_close index v)
        else if b = CHR ''-'' \<or> is_ascii_digit b
          then scan_loop decode_string bytes (number_end bytes index)
                 (scan_number bytes index (number_end bytes index) v)
        else if b = CHR ''t'' \<or> b = CHR ''f'' \<or> b = CHR ''n''
          then scan_loop decode_string bytes (index + 1) (scan_literal bytes index v)
        else scan_loop decode_string bytes (index + 1) v
      else v)"
  by pat_completeness auto
termination
  by (relation "measure (\<lambda>(_, bytes, index, _). length bytes - index)")
    (auto simp: end_of_string_def number_token_less dest!: end_of_string_loop_bounds)

lemmas [simp del] = scan_loop.simps

fun apply_replacements :: "string \<Rightarrow> nat \<Rightarrow> (nat \<times> nat \<times> string) list \<Rightarrow> string" where
  "apply_replacements text copied [] = drop copied text"
| "apply_replacements text copied ((start, end_index, replacement) # rest) =
     slice text copied start @ replacement @ apply_replacements text end_index rest"

definition scan_json_tokens :: "(string \<Rightarrow> string option) \<Rightarrow> string \<Rightarrow> Scan" where
  "scan_json_tokens decode_string text =
     (case validate_json_grammar text of
        Inl message \<Rightarrow>
          \<lparr>syntax_error = Some message, failure = None, typed_text = text, envelope_text = text,
           top_level_object = False, top_level_values = Map.empty, correlation_safety = Safe,
           error_code = None, payload_integer_out_of_range = False,
           payload_exceeds_typed_depth = False\<rparr>
      | Inr _ \<Rightarrow>
          let v = scan_loop decode_string text 0 initial_vars in
          \<lparr>syntax_error = seen_syntax_error v, failure = seen_failure v,
           typed_text = apply_replacements text 0 (typed_replacements v),
           envelope_text = apply_replacements text 0 (envelope_replacements v),
           top_level_object = starts_with (trim_start text) ''{'',
           top_level_values = seen_values v, correlation_safety = seen_correlation v,
           error_code = seen_error_code v, payload_integer_out_of_range = seen_out_of_range v,
           payload_exceeds_typed_depth = seen_depth v\<rparr>)"

end
