(* ===== verification/Json_Grammar.thy ===== *)
theory Json_Grammar
  imports Json_Token
begin

text \<open>
  The JSON grammar (RFC 8259, over bytes) as an inductive definition, and the proof that the
  iterative validator of \<^verbatim>\<open>json_token.rs\<close> accepts exactly its texts. The index loops are first
  rephrased over the bytes that are left; then the language a stack of levels still has to read is
  defined, and every step of the validator is shown to preserve membership in it.
\<close>

section \<open>The reference grammar\<close>

definition json_ws :: "string \<Rightarrow> bool" where
  "json_ws s \<longleftrightarrow> list_all is_whitespace s"

definition plain_char :: "char \<Rightarrow> bool" where
  "plain_char c \<longleftrightarrow> 0x20 \<le> byte_code c \<and> c \<noteq> quote \<and> c \<noteq> backslash"

definition is_hex :: "char \<Rightarrow> bool" where
  "is_hex c \<longleftrightarrow> hex_digit c \<noteq> None"

inductive json_chars :: "string \<Rightarrow> bool" where
  json_chars_Nil: "json_chars []"
| json_chars_plain: "plain_char c \<Longrightarrow> json_chars s \<Longrightarrow> json_chars (c # s)"
| json_chars_escape: "simple_escape c \<Longrightarrow> json_chars s \<Longrightarrow> json_chars (backslash # c # s)"
| json_chars_unicode: "is_hex a \<Longrightarrow> is_hex b \<Longrightarrow> is_hex c \<Longrightarrow> is_hex d \<Longrightarrow> json_chars s \<Longrightarrow>
    json_chars (backslash # CHR ''u'' # a # b # c # d # s)"

definition json_string :: "string \<Rightarrow> bool" where
  "json_string s \<longleftrightarrow> (\<exists>cs. s = quote # cs @ [quote] \<and> json_chars cs)"

definition json_digits :: "string \<Rightarrow> bool" where
  "json_digits s \<longleftrightarrow> s \<noteq> [] \<and> list_all is_ascii_digit s"

definition json_int :: "string \<Rightarrow> bool" where
  "json_int s \<longleftrightarrow> s = ''0'' \<or> json_digits s \<and> hd s \<noteq> CHR ''0''"

definition json_frac :: "string \<Rightarrow> bool" where
  "json_frac s \<longleftrightarrow> s = [] \<or> (\<exists>ds. s = CHR ''.'' # ds \<and> json_digits ds)"

definition json_exp :: "string \<Rightarrow> bool" where
  "json_exp s \<longleftrightarrow>
     s = [] \<or>
     (\<exists>e sign ds. s = e # sign @ ds \<and> (e = CHR ''e'' \<or> e = CHR ''E'') \<and>
        (sign = [] \<or> sign = ''+'' \<or> sign = ''-'') \<and> json_digits ds)"

definition json_number :: "string \<Rightarrow> bool" where
  "json_number s \<longleftrightarrow>
     (\<exists>sign int frac ex. s = sign @ int @ frac @ ex \<and> (sign = [] \<or> sign = ''-'') \<and>
        json_int int \<and> json_frac frac \<and> json_exp ex)"

inductive json_value :: "string \<Rightarrow> bool"
  and json_elements :: "string \<Rightarrow> bool"
  and json_members :: "string \<Rightarrow> bool" where
  value_true: "json_value ''true''"
| value_false: "json_value ''false''"
| value_null: "json_value ''null''"
| value_number: "json_number n \<Longrightarrow> json_value n"
| value_string: "json_string s \<Longrightarrow> json_value s"
| value_empty_array: "json_ws w \<Longrightarrow> json_value (CHR ''['' # w @ '']'')"
| value_array: "json_elements es \<Longrightarrow> json_value (CHR ''['' # es @ '']'')"
| value_empty_object: "json_ws w \<Longrightarrow> json_value (CHR ''{'' # w @ ''}'')"
| value_object: "json_members ms \<Longrightarrow> json_value (CHR ''{'' # ms @ ''}'')"
| elements_one: "json_ws w \<Longrightarrow> json_value v \<Longrightarrow> json_ws w' \<Longrightarrow> json_elements (w @ v @ w')"
| elements_more: "json_ws w \<Longrightarrow> json_value v \<Longrightarrow> json_ws w' \<Longrightarrow> json_elements es \<Longrightarrow>
    json_elements (w @ v @ w' @ CHR '','' # es)"
| members_one: "json_ws w1 \<Longrightarrow> json_string k \<Longrightarrow> json_ws w2 \<Longrightarrow> json_ws w3 \<Longrightarrow> json_value v \<Longrightarrow>
    json_ws w4 \<Longrightarrow> json_members (w1 @ k @ w2 @ CHR '':'' # w3 @ v @ w4)"
| members_more: "json_ws w1 \<Longrightarrow> json_string k \<Longrightarrow> json_ws w2 \<Longrightarrow> json_ws w3 \<Longrightarrow> json_value v \<Longrightarrow>
    json_ws w4 \<Longrightarrow> json_members ms \<Longrightarrow>
    json_members (w1 @ k @ w2 @ CHR '':'' # w3 @ v @ w4 @ CHR '','' # ms)"

definition json_text :: "string \<Rightarrow> bool" where
  "json_text s \<longleftrightarrow> (\<exists>w v w'. s = w @ v @ w' \<and> json_ws w \<and> json_value v \<and> json_ws w')"

section \<open>The index loops over the remaining bytes\<close>

declare get_at_Some [simp del] get_at_None [simp del]
declare add_2_eq_Suc [simp del] add_2_eq_Suc' [simp del]

lemma drop_cases:
  obtains "length xs \<le> i" "drop i xs = []" | x where "i < length xs" "drop i xs = x # drop (Suc i) xs" "xs ! i = x"
  by (cases "i < length xs") (auto simp: Cons_nth_drop_Suc [symmetric])

lemma next_non_whitespace_eq:
  "next_non_whitespace bytes i = i + length (takeWhile is_whitespace (drop i bytes))"
proof (induction bytes i rule: next_non_whitespace.induct)
  case (1 bytes i)
  show ?case
    by (cases rule: drop_cases [of bytes i]) (use 1 in \<open>auto simp: next_non_whitespace.simps [of bytes i]\<close>)
qed

lemma number_end_eq:
  "number_end bytes i = i + length (takeWhile (\<lambda>b. \<not> ends_number b) (drop i bytes))"
proof (induction bytes i rule: number_end.induct)
  case (1 bytes i)
  show ?case
    by (cases rule: drop_cases [of bytes i]) (use 1 in \<open>auto simp: number_end.simps [of bytes i]\<close>)
qed

lemma digits_end_eq: "digits_end bytes i = i + length (takeWhile is_ascii_digit (drop i bytes))"
proof (induction bytes i rule: digits_end.induct)
  case (1 bytes i)
  show ?case
    by (cases rule: drop_cases [of bytes i]) (use 1 in \<open>auto simp: digits_end.simps [of bytes i]\<close>)
qed

lemma drop_skip: "drop (i + length (takeWhile P (drop i xs))) xs = dropWhile P (drop i xs)"
  by (metis dropWhile_eq_drop drop_drop add.commute)

lemma drop_next_non_whitespace:
  "drop (next_non_whitespace bytes i) bytes = dropWhile is_whitespace (drop i bytes)"
  by (simp add: next_non_whitespace_eq drop_skip)

lemma next_non_whitespace_bound: "i \<le> length bytes \<Longrightarrow> next_non_whitespace bytes i \<le> length bytes"
  using length_takeWhile_le [of is_whitespace "drop i bytes"] by (simp add: next_non_whitespace_eq)

lemma get_at_drop: "get_at bytes i = (case drop i bytes of [] \<Rightarrow> None | b # _ \<Rightarrow> Some b)"
  by (cases rule: drop_cases [of bytes i]) (auto simp: get_at_def)

lemma get_slice_drop:
  "0 < n \<Longrightarrow> get_slice bytes i (i + n) = (if n \<le> length (drop i bytes) then Some (take n (drop i bytes)) else None)"
  by (auto simp: get_slice_def slice_def)

section \<open>Numbers\<close>

lemma takeWhile_digits_append:
  "list_all is_ascii_digit ds \<Longrightarrow> (rest = [] \<or> \<not> is_ascii_digit (hd rest)) \<Longrightarrow>
     takeWhile is_ascii_digit (ds @ rest) = ds"
  by (induction ds) (cases rest; auto)+

lemma drop_append_index: "drop i xs = ys @ zs \<Longrightarrow> drop (i + length ys) xs = zs"
  by (metis add.commute append_eq_conv_conj drop_drop)

lemma digits_end_append:
  assumes "drop i bytes = ds @ rest" "list_all is_ascii_digit ds" "rest = [] \<or> \<not> is_ascii_digit (hd rest)"
  shows "digits_end bytes i = i + length ds"
  using assms by (simp add: digits_end_eq takeWhile_digits_append)

lemma digits_end_split:
  "\<exists>ds. drop i bytes = ds @ drop (digits_end bytes i) bytes \<and> list_all is_ascii_digit ds \<and>
     digits_end bytes i = i + length ds"
proof -
  have "drop i bytes = takeWhile is_ascii_digit (drop i bytes) @ drop (digits_end bytes i) bytes"
    by (simp add: digits_end_eq drop_skip)
  moreover have "list_all is_ascii_digit (takeWhile is_ascii_digit (drop i bytes))"
    by (auto simp: list_all_iff dest: set_takeWhileD)
  ultimately show ?thesis using digits_end_eq by blast
qed

lemma integer_end_sound:
  assumes "number_integer_end bytes i = Some j"
  shows "\<exists>n. drop i bytes = n @ drop j bytes \<and> json_int n"
proof -
  obtain b where b: "drop i bytes = b # drop (Suc i) bytes"
    using assms by (cases rule: drop_cases [of bytes i]) (auto simp: number_integer_end_def get_at_drop)
  show ?thesis
  proof (cases "b = CHR ''0''")
    case True
    then have "j = Suc i" using assms b by (simp add: number_integer_end_def get_at_drop)
    with b True show ?thesis by (intro exI [of _ "''0''"]) (simp add: json_int_def)
  next
    case False
    then have d: "is_ascii_digit b" "j = digits_end bytes (Suc i)"
      using assms b by (auto simp: number_integer_end_def get_at_drop split: if_splits)
    obtain ds where "drop (Suc i) bytes = ds @ drop j bytes" "list_all is_ascii_digit ds"
      using digits_end_split [of "Suc i" bytes] d(2) by auto
    with b d(1) False show ?thesis
      by (intro exI [of _ "b # ds"]) (simp add: json_int_def json_digits_def)
  qed
qed

lemma integer_end_complete:
  assumes "drop i bytes = n @ rest" "json_int n" "rest = [] \<or> \<not> is_ascii_digit (hd rest)"
  shows "number_integer_end bytes i = Some (i + length n)"
proof -
  obtain b ds where n: "n = b # ds" using assms(2) by (cases n) (auto simp: json_int_def json_digits_def)
  have b: "get_at bytes i = Some b" using assms(1) n by (simp add: get_at_drop)
  have rest: "drop (Suc i) bytes = ds @ rest"
    using drop_append_index [of i bytes "[b]" "ds @ rest"] assms(1) n by simp
  show ?thesis
  proof (cases "b = CHR ''0''")
    case True
    then have "ds = []" using assms(2) n by (auto simp: json_int_def)
    with b True n show ?thesis by (simp add: number_integer_end_def)
  next
    case False
    then have d: "is_ascii_digit b" "list_all is_ascii_digit ds"
      using assms(2) n by (auto simp: json_int_def json_digits_def)
    then show ?thesis
      using digits_end_append [OF rest _ assms(3)] b False n by (simp add: number_integer_end_def)
  qed
qed

lemma fraction_end_sound:
  assumes "number_fraction_end bytes i = Some j"
  shows "\<exists>f. drop i bytes = f @ drop j bytes \<and> json_frac f"
proof (cases "get_at bytes i = Some (CHR ''.'')")
  case True
  then have b: "drop i bytes = CHR ''.'' # drop (Suc i) bytes"
    by (cases rule: drop_cases [of bytes i]) (auto simp: get_at_drop)
  obtain ds where ds: "drop (Suc i) bytes = ds @ drop (digits_end bytes (Suc i)) bytes"
      "list_all is_ascii_digit ds" "digits_end bytes (Suc i) = Suc i + length ds"
    using digits_end_split by blast
  have "j = digits_end bytes (Suc i)" "ds \<noteq> []"
    using assms True ds(3) by (auto simp: number_fraction_end_def Let_def split: if_splits)
  with b ds(1,2) show ?thesis
    by (intro exI [of _ "CHR ''.'' # ds"]) (simp add: json_frac_def json_digits_def)
next
  case False
  with assms show ?thesis by (auto simp: number_fraction_end_def json_frac_def)
qed

lemma fraction_end_complete:
  assumes "drop i bytes = f @ rest" "json_frac f" "rest = [] \<or> hd rest \<in> set ''eE''"
  shows "number_fraction_end bytes i = Some (i + length f)"
proof (cases f)
  case Nil
  then have "get_at bytes i \<noteq> Some (CHR ''.'')" using assms by (cases rest) (auto simp: get_at_drop)
  with Nil show ?thesis by (simp add: number_fraction_end_def)
next
  case (Cons b ds)
  then have b: "b = CHR ''.''" "json_digits ds" using assms(2) by (auto simp: json_frac_def)
  have rest: "drop (Suc i) bytes = ds @ rest"
    using drop_append_index [of i bytes "[b]" "ds @ rest"] assms(1) Cons by simp
  have "rest = [] \<or> \<not> is_ascii_digit (hd rest)" using assms(3) by (auto simp: byte_defs)
  then have "digits_end bytes (Suc i) = Suc i + length ds"
    using digits_end_append [OF rest] b(2) by (simp add: json_digits_def)
  then show ?thesis
    using Cons b assms(1) by (simp add: number_fraction_end_def get_at_drop json_digits_def)
qed

lemma exponent_end_sound:
  assumes "number_exponent_end bytes i = Some j"
  shows "\<exists>f. drop i bytes = f @ drop j bytes \<and> json_exp f"
proof (cases "get_at bytes i = Some (CHR ''e'') \<or> get_at bytes i = Some (CHR ''E'')")
  case True
  then obtain e where e: "drop i bytes = e # drop (Suc i) bytes" "e = CHR ''e'' \<or> e = CHR ''E''"
    by (cases rule: drop_cases [of bytes i]) (auto simp: get_at_drop)
  let ?start = "exponent_start bytes (Suc i)"
  have sign: "\<exists>sign. drop (Suc i) bytes = sign @ drop ?start bytes \<and>
      (sign = [] \<or> sign = ''+'' \<or> sign = ''-'')"
    by (cases rule: drop_cases [of bytes "Suc i"]) (auto simp: exponent_start_def get_at_drop)
  obtain ds where ds: "drop ?start bytes = ds @ drop (digits_end bytes ?start) bytes"
      "list_all is_ascii_digit ds" "digits_end bytes ?start = ?start + length ds"
    using digits_end_split by blast
  have "j = digits_end bytes ?start" "ds \<noteq> []"
    using assms True ds(3)
    by (auto simp: number_exponent_end_def Let_def split: if_splits)
  moreover obtain sign where "drop (Suc i) bytes = sign @ drop ?start bytes"
    "sign = [] \<or> sign = ''+'' \<or> sign = ''-''" using sign by blast
  ultimately show ?thesis
    using e ds(1,2) by (intro exI [of _ "e # sign @ ds"]) (auto simp: json_exp_def json_digits_def)
next
  case False
  with assms show ?thesis by (auto simp: number_exponent_end_def json_exp_def)
qed

lemma exponent_end_complete:
  assumes "drop i bytes = f" "json_exp f"
  shows "number_exponent_end bytes i = Some (i + length f)"
proof (cases "f = []")
  case True
  with assms show ?thesis by (simp add: number_exponent_end_def get_at_drop)
next
  case False
  then obtain e sign ds where f: "f = e # sign @ ds" "e = CHR ''e'' \<or> e = CHR ''E''"
    "sign = [] \<or> sign = ''+'' \<or> sign = ''-''" "json_digits ds"
    using assms(2) by (auto simp: json_exp_def)
  have d1: "drop (Suc i) bytes = sign @ ds"
    using drop_append_index [of i bytes "[e]" "sign @ ds"] assms(1) f(1) by simp
  then have d2: "drop (Suc i + length sign) bytes = ds" by (rule drop_append_index)
  obtain d ds' where ds: "ds = d # ds'" "is_ascii_digit d" using f(4) by (cases ds) (auto simp: json_digits_def)
  then have nd: "d \<noteq> CHR ''+''" "d \<noteq> CHR ''-''" by (auto simp: byte_defs)
  have start: "exponent_start bytes (Suc i) = Suc i + length sign"
    using f(3) d1 ds nd by (auto simp: exponent_start_def get_at_drop)
  have "digits_end bytes (Suc i + length sign) = Suc i + length sign + length ds"
    using digits_end_append [of "Suc i + length sign" bytes ds "[]"] d2 f(4) by (simp add: json_digits_def)
  moreover have "get_at bytes i = Some e" using assms(1) f(1) by (simp add: get_at_drop)
  ultimately show ?thesis
    using f(1,2) ds start by (auto simp: number_exponent_end_def Let_def)
qed

lemma is_json_number_iff: "is_json_number s \<longleftrightarrow> json_number s"
proof
  assume num: "is_json_number s"
  define i where "i = (if get_at s 0 = Some (CHR ''-'') then 1 else (0 :: nat))"
  obtain j k l where j: "number_integer_end s i = Some j" "number_fraction_end s j = Some k"
    "number_exponent_end s k = Some l" "l = length s"
    using num by (auto simp: is_json_number_def i_def [symmetric] Let_def split: option.splits)
  obtain n f e where parts: "drop i s = n @ drop j s" "json_int n" "drop j s = f @ drop k s"
    "json_frac f" "drop k s = e" "json_exp e"
    using integer_end_sound [OF j(1)] fraction_end_sound [OF j(2)] exponent_end_sound [OF j(3)] j(4)
    by auto
  have "s = (if i = 1 then ''-'' else []) @ drop i s"
    by (cases s) (auto simp: i_def get_at_def)
  then have "s = (if i = 1 then ''-'' else []) @ n @ f @ e" using parts(1,3,5) by simp
  moreover have "(if i = 1 then ''-'' else []) = [] \<or> (if i = 1 then ''-'' else []) = ''-''" by simp
  ultimately show "json_number s" unfolding json_number_def using parts(2,4,6) by blast
next
  assume "json_number s"
  then obtain sign n f e where s: "s = sign @ n @ f @ e" "sign = [] \<or> sign = ''-''" "json_int n"
    "json_frac f" "json_exp e" by (auto simp: json_number_def)
  have d0: "drop (length sign) s = n @ f @ e" using s(1) by simp
  have d1: "drop (length sign + length n) s = f @ e" using drop_append_index [OF d0] .
  have d2: "drop (length sign + length n + length f) s = e" using drop_append_index [OF d1] .
  obtain b n' where n: "n = b # n'" "is_ascii_digit b"
    using s(3) by (cases n) (auto simp: json_int_def json_digits_def byte_defs)
  then have "b \<noteq> CHR ''-''" by (auto simp: byte_defs)
  then have i: "(if get_at s 0 = Some (CHR ''-'') then 1 else 0) = length sign"
    using s(1,2) n by (auto simp: get_at_def)
  have "f @ e = [] \<or> \<not> is_ascii_digit (hd (f @ e))"
    using s(4,5) by (auto simp: json_frac_def json_exp_def byte_defs)
  then have 1: "number_integer_end s (length sign) = Some (length sign + length n)"
    using integer_end_complete [OF d0 s(3)] by simp
  have "e = [] \<or> hd e \<in> set ''eE''" using s(5) by (auto simp: json_exp_def)
  then have 2: "number_fraction_end s (length sign + length n) = Some (length sign + length n + length f)"
    using fraction_end_complete [OF d1 s(4)] by simp
  have 3: "number_exponent_end s (length sign + length n + length f) =
      Some (length sign + length n + length f + length e)"
    using exponent_end_complete [OF d2 s(5)] .
  have "length s = length sign + length n + length f + length e" using s(1) by simp
  then show "is_json_number s"
    unfolding is_json_number_def Let_def i by (simp add: 1 2 3)
qed

section \<open>Strings\<close>

lemma hex_not_special: "is_hex c \<Longrightarrow> c \<noteq> quote \<and> c \<noteq> backslash"
  by (auto simp: is_hex_def hex_digit_def byte_defs Let_def split: if_splits)

lemma end_of_string_drop:
  "end_of_string_loop bytes i =
     (case drop i bytes of
        [] \<Rightarrow> None
      | b # _ \<Rightarrow> if b = backslash then end_of_string_loop bytes (i + 2)
               else if b = quote then Some (i + 1) else end_of_string_loop bytes (i + 1))"
  by (cases rule: drop_cases [of bytes i]) (auto simp: end_of_string_loop.simps [of bytes i])

lemma drop_n: "drop i xs = ys \<Longrightarrow> drop (i + n) xs = drop n ys"
  by (metis add.commute drop_drop)

text \<open>One escape with four hexadecimal digits.\<close>

lemma unicode_unit:
  assumes "drop i bytes = backslash # CHR ''u'' # a # b # c # d # r"
    "is_hex a" "is_hex b" "is_hex c" "is_hex d"
  shows "end_of_string_loop bytes i = end_of_string_loop bytes (i + 6)" "drop (i + 6) bytes = r"
proof -
  have d: "drop (i + 2) bytes = a # b # c # d # r" "drop (i + 3) bytes = b # c # d # r"
    "drop (i + 4) bytes = c # d # r" "drop (i + 5) bytes = d # r"
    using drop_n [OF assms(1), of 2] drop_n [OF assms(1), of 3] drop_n [OF assms(1), of 4]
      drop_n [OF assms(1), of 5] by simp_all
  show "drop (i + 6) bytes = r"
    using drop_n [OF assms(1), of 6] by simp
  have hex: "a \<noteq> quote \<and> a \<noteq> backslash" "b \<noteq> quote \<and> b \<noteq> backslash"
    "c \<noteq> quote \<and> c \<noteq> backslash" "d \<noteq> quote \<and> d \<noteq> backslash"
    using assms(2-) hex_not_special by blast+
  have "end_of_string_loop bytes i = end_of_string_loop bytes (i + 2)"
    using assms(1) by (subst end_of_string_drop) simp
  also have "\<dots> = end_of_string_loop bytes (i + 3)"
    using d hex by (subst end_of_string_drop) (simp add: eval_nat_numeral)
  also have "\<dots> = end_of_string_loop bytes (i + 4)"
    using d hex by (subst end_of_string_drop) (simp add: eval_nat_numeral)
  also have "\<dots> = end_of_string_loop bytes (i + 5)"
    using d hex by (subst end_of_string_drop) (simp add: eval_nat_numeral)
  also have "\<dots> = end_of_string_loop bytes (i + 6)"
    using d hex by (subst end_of_string_drop) (simp add: eval_nat_numeral)
  finally show "end_of_string_loop bytes i = end_of_string_loop bytes (i + 6)" .
qed

lemma end_of_string_complete:
  "json_chars cs \<Longrightarrow> drop i bytes = cs @ quote # rest \<Longrightarrow>
     end_of_string_loop bytes i = Some (i + length cs + 1)"
proof (induction cs arbitrary: i rule: json_chars.induct)
  case json_chars_Nil
  then show ?case by (subst end_of_string_drop) simp
next
  case (json_chars_plain c s)
  have "drop (i + 1) bytes = s @ quote # rest"
    using drop_n [OF json_chars_plain.prems, of 1] by simp
  with json_chars_plain show ?case by (subst end_of_string_drop) (auto simp: plain_char_def)
next
  case (json_chars_escape c s)
  have "drop (i + 2) bytes = s @ quote # rest"
    using drop_n [OF json_chars_escape.prems, of 2] by simp
  with json_chars_escape show ?case by (subst end_of_string_drop) auto
next
  case (json_chars_unicode a b c d s)
  have u: "drop i bytes = backslash # CHR ''u'' # a # b # c # d # (s @ quote # rest)"
    using json_chars_unicode.prems by simp
  note unit = unicode_unit [OF u json_chars_unicode.hyps(1-4)]
  then show ?case using json_chars_unicode.IH [OF unit(2)] by simp
qed

lemma hex_fold_Some: "hex_fold v ds \<noteq> None \<longleftrightarrow> list_all is_hex ds"
  by (induction ds arbitrary: v) (auto simp: is_hex_def split: option.splits)

lemma length_4: "4 \<le> length xs \<longleftrightarrow> (\<exists>a b c d r. xs = a # b # c # d # r)"
  by (auto simp: numeral_eq_Suc Suc_le_length_iff)

lemma hex4_drop:
  "hex4 bytes i \<noteq> None \<longleftrightarrow>
     (\<exists>a b c d r. drop i bytes = a # b # c # d # r \<and> is_hex a \<and> is_hex b \<and> is_hex c \<and> is_hex d)"
proof -
  have "hex4 bytes i \<noteq> None \<longleftrightarrow> 4 \<le> length (drop i bytes) \<and> list_all is_hex (take 4 (drop i bytes))"
    using hex_fold_Some [of 0 "take 4 (drop i bytes)"]
    by (auto simp: hex4_def get_slice_drop split: if_splits)
  then show ?thesis unfolding length_4 by force
qed

lemma unicode_escape_at:
  "unicode_escape bytes (i + 1) =
     (case hex4 bytes (i + 2) of
        None \<Rightarrow> None
      | Some unit \<Rightarrow>
          if is_high_surrogate unit then
            (if get_slice bytes (i + 6) (i + 8) = Some [backslash, CHR ''u''] then
               (case hex4 bytes (i + 8) of
                  None \<Rightarrow> None
                | Some low \<Rightarrow> if is_low_surrogate low then Some (i + 12, True) else Some (i + 6, False))
             else Some (i + 6, False))
          else Some (i + 6, \<not> is_low_surrogate unit))"
proof -
  have "i + 1 + 1 = i + 2" "i + 1 + 5 = i + 6" "i + 6 + 2 = i + 8" "i + 6 + 6 = i + 12" by simp_all
  then show ?thesis unfolding unicode_escape_def Let_def by presburger
qed

lemma get_slice_two:
  assumes "get_slice bytes i k = Some [x, y]" "k = i + 2"
  shows "\<exists>t. drop i bytes = x # y # t"
proof -
  have "take 2 (drop i bytes) = [x, y]"
    using assms by (simp add: get_slice_drop split: if_splits)
  then show ?thesis by (cases "drop i bytes"; cases "tl (drop i bytes)") auto
qed

text \<open>One \<open>\u\<close> escape of the code covers one or, for a surrogate pair, two escapes of the grammar.\<close>

lemma unicode_escape_sound:
  assumes esc: "unicode_escape bytes (i + 1) = Some (j, ok)"
    and t: "drop i bytes = backslash # CHR ''u'' # t"
  shows "\<exists>u. drop i bytes = u @ drop j bytes \<and> (\<forall>s. json_chars s \<longrightarrow> json_chars (u @ s)) \<and>
    end_of_string_loop bytes i = end_of_string_loop bytes j"
proof -
  have "hex4 bytes (i + 2) \<noteq> None" using esc unfolding unicode_escape_at by (auto split: option.splits)
  moreover have "drop (i + 2) bytes = t" using drop_n [OF t, of 2] by simp
  ultimately obtain a b c d r where q: "t = a # b # c # d # r" "is_hex a" "is_hex b" "is_hex c" "is_hex d"
    unfolding hex4_drop by auto
  let ?u = "[backslash, CHR ''u'', a, b, c, d]"
  note unit = unicode_unit [OF t [unfolded q(1)] q(2-5)]
  have u: "drop i bytes = ?u @ drop (i + 6) bytes" using t q(1) unit(2) by simp
  have chars: "json_chars s \<Longrightarrow> json_chars (?u @ s)" for s
    using json_chars_unicode q(2-5) by simp
  consider "j = i + 6" | "j = i + 12" "get_slice bytes (i + 6) (i + 8) = Some [backslash, CHR ''u'']"
      "hex4 bytes (i + 8) \<noteq> None"
    using esc unfolding unicode_escape_at by (auto split: option.splits if_splits)
  then show ?thesis
  proof cases
    case 1
    with u chars unit(1) show ?thesis by blast
  next
    case 2
    obtain t' where t': "drop (i + 6) bytes = backslash # CHR ''u'' # t'"
      using get_slice_two [OF 2(2)] by auto
    then have "drop (i + 8) bytes = t'" using drop_n [OF t', of 2] by (simp add: add.commute)
    then obtain a' b' c' d' r' where q': "t' = a' # b' # c' # d' # r'" "is_hex a'" "is_hex b'"
      "is_hex c'" "is_hex d'" using 2(3) unfolding hex4_drop by auto
    let ?v = "[backslash, CHR ''u'', a', b', c', d']"
    note unit' = unicode_unit [OF t' [unfolded q'(1)] q'(2-5)]
    have "drop i bytes = (?u @ ?v) @ drop j bytes"
      using u t' q'(1) unit'(2) 2(1) by (simp add: add.commute)
    moreover have "json_chars s \<Longrightarrow> json_chars ((?u @ ?v) @ s)" for s
      using json_chars_unicode q(2-5) q'(2-5) by simp
    moreover have "end_of_string_loop bytes i = end_of_string_loop bytes j"
      using unit(1) unit'(1) 2(1) by (simp add: add.commute)
    ultimately show ?thesis by blast
  qed
qed

lemma unicode_escape_complete:
  assumes t: "drop i bytes = backslash # CHR ''u'' # a # b # c # d # s @ quote # rest"
    and hex: "is_hex a" "is_hex b" "is_hex c" "is_hex d" and s: "json_chars s"
  shows "\<exists>j ok s'. unicode_escape bytes (i + 1) = Some (j, ok) \<and> drop j bytes = s' @ quote # rest \<and>
    json_chars s' \<and> length s' \<le> length s \<and> j + length s' = i + 6 + length s"
proof -
  have d2: "drop (i + 2) bytes = a # b # c # d # s @ quote # rest"
    using drop_n [OF t, of 2] by simp
  then obtain unit where unit: "hex4 bytes (i + 2) = Some unit" using hex hex4_drop by blast
  have d6: "drop (i + 6) bytes = s @ quote # rest" using unicode_unit(2) [OF t hex] .
  show ?thesis
  proof (cases "is_high_surrogate unit \<and> get_slice bytes (i + 6) (i + 8) = Some [backslash, CHR ''u'']")
    case False
    then have "\<exists>ok. unicode_escape bytes (i + 1) = Some (i + 6, ok)"
      unfolding unicode_escape_at using unit by auto
    with d6 s show ?thesis by fastforce
  next
    case True
    then obtain s1 where "s @ quote # rest = backslash # CHR ''u'' # s1"
      using get_slice_two [OF conjunct2 [OF True]] d6 by auto
    then obtain s2 where s2: "s = backslash # CHR ''u'' # s2"
      by (cases s; cases "tl s") auto
    from s obtain a' b' c' d' s3 where s3: "s2 = a' # b' # c' # d' # s3" "is_hex a'" "is_hex b'"
      "is_hex c'" "is_hex d'" "json_chars s3"
      unfolding s2 by cases (auto simp: plain_char_def simple_escape_def)
    have d8: "drop (i + 8) bytes = a' # b' # c' # d' # s3 @ quote # rest"
      using drop_n [OF d6, of 2] s2 s3(1) by (simp add: add.commute)
    then obtain low where low: "hex4 bytes (i + 8) = Some low" using s3 hex4_drop by blast
    have d12: "drop (i + 12) bytes = s3 @ quote # rest"
      using drop_n [OF d8, of 4] by (simp add: add.commute)
    show ?thesis
    proof (cases "is_low_surrogate low")
      case True': True
      then have "unicode_escape bytes (i + 1) = Some (i + 12, True)"
        unfolding unicode_escape_at using unit True low by simp
      with d12 s3 s2 show ?thesis by fastforce
    next
      case False
      then have "unicode_escape bytes (i + 1) = Some (i + 6, False)"
        unfolding unicode_escape_at using unit True low by simp
      with d6 s show ?thesis by fastforce
    qed
  qed
qed

lemma plain_byte: "0x20 \<le> byte_code b \<longleftrightarrow> \<not> byte_code b \<le> 0x1f"
  by auto

lemma nth_drop_Cons: "drop i xs = x # ys \<Longrightarrow> i < length xs \<and> xs ! i = x \<and> drop (i + 1) xs = ys"
  by (metis Cons_nth_drop_Suc Suc_eq_plus1 drop_eq_Nil linorder_not_le list.distinct(1) list.inject)

lemma string_token_complete:
  assumes "json_chars cs" "drop i bytes = cs @ quote # rest" "content_end = i + length cs"
  shows "fst (string_token_loop bytes content_end i uv)"
  using assms
proof (induction "length cs" arbitrary: cs i uv rule: less_induct)
  case less
  from less.prems(1) show ?case
  proof cases
    case json_chars_Nil
    then show ?thesis using less.prems by (subst string_token_loop.simps) simp
  next
    case (json_chars_plain c s)
    have d: "drop i bytes = c # s @ quote # rest" using less.prems(2) json_chars_plain by simp
    have "fst (string_token_loop bytes content_end (i + 1) uv)"
      using less.hyps [of s "i + 1"] nth_drop_Cons [OF d] less.prems(3) json_chars_plain by simp
    then show ?thesis
      using nth_drop_Cons [OF d] json_chars_plain
      by (subst string_token_loop.simps) (simp add: plain_char_def)
  next
    case (json_chars_escape c s)
    have d: "drop i bytes = backslash # c # s @ quote # rest"
      using less.prems(2) json_chars_escape by simp
    note d1 = nth_drop_Cons [OF d]
    have "get_at bytes (i + 1) = Some c" using d1 by (simp add: get_at_drop)
    moreover have "drop (i + 2) bytes = s @ quote # rest" using drop_n [OF d, of 2] by simp
    then have "fst (string_token_loop bytes content_end (i + 2) uv)"
      using less.hyps [of s "i + 2"] less.prems(3) json_chars_escape by simp
    ultimately show ?thesis
      using d1 json_chars_escape less.prems(3)
      by (subst string_token_loop.simps) (simp add: byte_defs)
  next
    case (json_chars_unicode a b c d s)
    have u: "drop i bytes = backslash # CHR ''u'' # a # b # c # d # s @ quote # rest"
      using less.prems(2) json_chars_unicode by simp
    note d1 = nth_drop_Cons [OF u]
    have g: "get_at bytes (i + 1) = Some (CHR ''u'')" using d1 by (simp add: get_at_drop)
    obtain j ok s' where esc: "unicode_escape bytes (i + 1) = Some (j, ok)"
      "drop j bytes = s' @ quote # rest" "json_chars s'" "length s' \<le> length s"
      "j + length s' = i + 6 + length s"
      using unicode_escape_complete [OF u] json_chars_unicode by blast
    have "fst (string_token_loop bytes content_end j (uv \<and> ok))"
      using less.hyps [of s' j] esc less.prems(3) json_chars_unicode by simp
    then show ?thesis
      using d1 g esc(1) less.prems(3) json_chars_unicode
      by (subst string_token_loop.simps) (simp add: byte_defs simple_escape_def)
  qed
qed

lemma end_of_string_last:
  "end_of_string_loop bytes i = Some e \<Longrightarrow> e = i + 1 \<Longrightarrow> \<exists>r. drop i bytes = quote # r"
  by (subst (asm) end_of_string_drop)
    (auto split: list.splits if_splits dest: end_of_string_loop_bounds)

lemma string_token_sound:
  assumes "end_of_string_loop bytes i = Some e" "fst (string_token_loop bytes (e - 1) i uv)"
  shows "\<exists>cs. json_chars cs \<and> drop i bytes = cs @ quote # drop e bytes"
  using assms
proof (induction "e - i" arbitrary: i uv rule: less_induct)
  case less
  note b = end_of_string_loop_bounds [OF less.prems(1)]
  show ?case
  proof (cases "i < e - 1")
    case False
    with b have "e = i + 1" by auto
    then obtain r where r: "drop i bytes = quote # r"
      using end_of_string_last [OF less.prems(1)] by blast
    then have "drop e bytes = r" using nth_drop_Cons [OF r] \<open>e = i + 1\<close> by simp
    with r json_chars_Nil show ?thesis by (metis append_Nil)
  next
    case True
    obtain c t where c: "drop i bytes = c # t" "bytes ! i = c" "drop (i + 1) bytes = t"
      using b True Cons_nth_drop_Suc [of i bytes] that [of "bytes ! i" "drop (i + 1) bytes"] by simp
    have step: "fst (string_token_loop bytes (e - 1) i uv)" using less.prems(2) .
    have ctl: "\<not> byte_code c \<le> 0x1f"
      using step True c by (subst (asm) string_token_loop.simps) (simp split: if_splits)
    show ?thesis
    proof (cases "c = backslash")
      case False
      have "c \<noteq> quote"
        using less.prems(1) c False True by (subst (asm) end_of_string_drop) auto
      then have pl: "plain_char c" using ctl False by (simp add: plain_char_def)
      have "end_of_string_loop bytes (i + 1) = Some e"
        using less.prems(1) c False \<open>c \<noteq> quote\<close> by (subst (asm) end_of_string_drop) simp
      moreover have "fst (string_token_loop bytes (e - 1) (i + 1) uv)"
        using step True c ctl False by (subst (asm) string_token_loop.simps) simp
      ultimately obtain cs where "json_chars cs" "drop (i + 1) bytes = cs @ quote # drop e bytes"
        using less.hyps [of "i + 1"] True by fastforce
      with pl c show ?thesis by (intro exI [of _ "c # cs"]) (simp add: json_chars_plain)
    next
      case esc: True
      obtain x where x: "get_at bytes (i + 1) = Some x"
        using step True c ctl esc
        by (subst (asm) string_token_loop.simps) (simp split: option.splits)
      then obtain t' where t': "t = x # t'" using c(3) by (auto simp: get_at_drop split: list.splits)
      have eos2: "end_of_string_loop bytes (i + 2) = Some e"
        using less.prems(1) c esc by (subst (asm) end_of_string_drop) simp
      show ?thesis
      proof (cases "simple_escape x")
        case simple: True
        have "fst (string_token_loop bytes (e - 1) (i + 2) uv)"
          using step True c ctl esc x simple by (subst (asm) string_token_loop.simps) simp
        then obtain cs where "json_chars cs" "drop (i + 2) bytes = cs @ quote # drop e bytes"
          using less.hyps [of "i + 2"] eos2 True by fastforce
        moreover have "drop (i + 2) bytes = t'" using drop_n [OF c(1), of 2] t' by simp
        ultimately show ?thesis
          using c(1) t' esc simple by (intro exI [of _ "backslash # x # cs"]) (simp add: json_chars_escape)
      next
        case uni: False
        have u: "x = CHR ''u''"
          using step True c ctl esc x uni
          by (subst (asm) string_token_loop.simps) (simp split: if_splits)
        obtain j ok where j: "unicode_escape bytes (i + 1) = Some (j, ok)"
          "fst (string_token_loop bytes (e - 1) j (uv \<and> ok))"
          using step True c ctl esc x uni u
          by (subst (asm) string_token_loop.simps) (auto split: option.splits)
        have d: "drop i bytes = backslash # CHR ''u'' # t'" using c(1) t' esc u by simp
        obtain p where p: "drop i bytes = p @ drop j bytes" "\<forall>s. json_chars s \<longrightarrow> json_chars (p @ s)"
          "end_of_string_loop bytes i = end_of_string_loop bytes j"
          using unicode_escape_sound [OF j(1) d] by blast
        have "i < j" using unicode_escape_advances [OF j(1)] by simp
        then obtain cs where "json_chars cs" "drop j bytes = cs @ quote # drop e bytes"
          using less.hyps [of j "uv \<and> ok"] p(3) j(2) less.prems(1) b by fastforce
        with p show ?thesis by (intro exI [of _ "p @ cs"]) simp
      qed
    qed
  qed
qed

text \<open>A string token is consumed exactly when the bytes start with one.\<close>

lemma consume_json_string_iff:
  assumes "drop i bytes = quote # t"
  shows "consume_json_string bytes i = Inr e \<longleftrightarrow>
    (\<exists>cs. json_chars cs \<and> t = cs @ quote # drop e bytes \<and> e = i + length cs + 2 \<and> e \<le> length bytes)"
proof -
  have t: "drop (i + 1) bytes = t" using nth_drop_Cons [OF assms] by simp
  show ?thesis
  proof
    assume "consume_json_string bytes i = Inr e"
    then have e: "end_of_string_loop bytes (i + 1) = Some e"
      "fst (string_token_loop bytes (e - 1) (i + 1) True)"
      by (auto simp: consume_json_string_def end_of_string_def string_token_state_def
          split: option.splits if_splits)
    obtain cs where cs: "json_chars cs" "drop (i + 1) bytes = cs @ quote # drop e bytes"
      using string_token_sound [OF e] by blast
    have "e = i + 1 + length cs + 1" using end_of_string_complete [OF cs] e(1) by simp
    with cs t end_of_string_loop_bounds [OF e(1)]
    show "\<exists>cs. json_chars cs \<and> t = cs @ quote # drop e bytes \<and> e = i + length cs + 2 \<and> e \<le> length bytes"
      by auto
  next
    assume "\<exists>cs. json_chars cs \<and> t = cs @ quote # drop e bytes \<and> e = i + length cs + 2 \<and> e \<le> length bytes"
    then obtain cs where cs: "json_chars cs" "t = cs @ quote # drop e bytes" "e = i + length cs + 2" by blast
    have "end_of_string_loop bytes (i + 1) = Some e"
      using end_of_string_complete [OF cs(1), of "i + 1" bytes "drop e bytes"] t cs by simp
    moreover have "fst (string_token_loop bytes (e - 1) (i + 1) True)"
      using string_token_complete [OF cs(1), of "i + 1" bytes "drop e bytes" "e - 1"] t cs by simp
    ultimately show "consume_json_string bytes i = Inr e"
      by (simp add: consume_json_string_def end_of_string_def string_token_state_def)
  qed
qed

section \<open>The language of a stack of levels\<close>

lemma ws_simps [simp]:
  "json_ws []" "json_ws (c # s) \<longleftrightarrow> is_whitespace c \<and> json_ws s"
  "json_ws (a @ b) \<longleftrightarrow> json_ws a \<and> json_ws b"
  by (simp_all add: json_ws_def)

lemma ws_takeWhile: "json_ws (takeWhile is_whitespace s)"
  by (auto simp: json_ws_def list_all_iff dest: set_takeWhileD)

lemma ws_iff: "json_ws s \<longleftrightarrow> dropWhile is_whitespace s = []"
  by (simp add: json_ws_def list_all_iff)

text \<open>A language read behind optional whitespace. Its words start with a byte that is not
  whitespace, so there is one way to skip.\<close>

definition led :: "(string \<Rightarrow> bool) \<Rightarrow> string \<Rightarrow> bool" where
  "led Q s \<longleftrightarrow> (\<exists>w t. s = w @ t \<and> json_ws w \<and> Q t)"

definition solid :: "(string \<Rightarrow> bool) \<Rightarrow> bool" where
  "solid Q \<longleftrightarrow> (\<forall>t. Q t \<longrightarrow> (\<exists>c t'. t = c # t' \<and> \<not> is_whitespace c))"

lemma led_iff: assumes "solid Q" shows "led Q s \<longleftrightarrow> Q (dropWhile is_whitespace s)"
proof
  assume "led Q s"
  then obtain w t where s: "s = w @ t" "json_ws w" "Q t" by (auto simp: led_def)
  then obtain c t' where t: "t = c # t'" "\<not> is_whitespace c" using assms by (auto simp: solid_def)
  have "dropWhile is_whitespace (w @ t) = t" using s(2) t by (induction w) auto
  with s show "Q (dropWhile is_whitespace s)" by simp
next
  assume "Q (dropWhile is_whitespace s)"
  then show "led Q s"
    unfolding led_def using ws_takeWhile takeWhile_dropWhile_id by metis
qed

lemma led_append:
  "(\<exists>a r. s = a @ r \<and> led Q a \<and> R r) \<longleftrightarrow> led (\<lambda>t. \<exists>a r. t = a @ r \<and> Q a \<and> R r) s"
  unfolding led_def by (metis append.assoc)

definition now_after_member :: "string \<Rightarrow> bool" where
  "now_after_member t \<longleftrightarrow> t = ''}'' \<or> (\<exists>ms. json_members ms \<and> t = CHR '','' # ms @ ''}'')"

definition now_after_element :: "string \<Rightarrow> bool" where
  "now_after_element t \<longleftrightarrow> t = '']'' \<or> (\<exists>es. json_elements es \<and> t = CHR '','' # es @ '']'')"

definition now_object_value :: "string \<Rightarrow> bool" where
  "now_object_value t \<longleftrightarrow> (\<exists>v r. t = v @ r \<and> json_value v \<and> led now_after_member r)"

definition now_array_value :: "string \<Rightarrow> bool" where
  "now_array_value t \<longleftrightarrow> (\<exists>v r. t = v @ r \<and> json_value v \<and> led now_after_element r)"

definition now_colon :: "string \<Rightarrow> bool" where
  "now_colon t \<longleftrightarrow> (\<exists>r. t = CHR '':'' # r \<and> led now_object_value r)"

definition now_key :: "string \<Rightarrow> bool" where
  "now_key t \<longleftrightarrow> (\<exists>k r. t = k @ r \<and> json_string k \<and> led now_colon r)"

text \<open>What one level still has to read behind whitespace, up to and including its closing bracket.\<close>

fun level_now :: "GrammarLevel \<Rightarrow> string \<Rightarrow> bool" where
  "level_now (GObject KeyOrEnd) t \<longleftrightarrow> t = ''}'' \<or> now_key t"
| "level_now (GObject Key) t \<longleftrightarrow> now_key t"
| "level_now (GObject Colon) t \<longleftrightarrow> now_colon t"
| "level_now (GObject Value) t \<longleftrightarrow> now_object_value t"
| "level_now (GObject CommaOrEnd) t \<longleftrightarrow> now_after_member t"
| "level_now (GArray ValueOrEnd) t \<longleftrightarrow> t = '']'' \<or> now_array_value t"
| "level_now (GArray ArrayValue) t \<longleftrightarrow> now_array_value t"
| "level_now (GArray ArrayCommaOrEnd) t \<longleftrightarrow> now_after_element t"

fun stack_rest :: "GrammarLevel list \<Rightarrow> string \<Rightarrow> bool" where
  "stack_rest [] s \<longleftrightarrow> json_ws s"
| "stack_rest (l # ls) s \<longleftrightarrow> led (\<lambda>t. \<exists>a r. t = a @ r \<and> level_now l a \<and> stack_rest ls r) s"

text \<open>The inductive members and elements are these languages before the closing bracket.\<close>

lemma members_iff: "(\<exists>ms. json_members ms \<and> s = ms @ ''}'') \<longleftrightarrow> led now_key s"
proof
  assume "\<exists>ms. json_members ms \<and> s = ms @ ''}''"
  then obtain ms where "json_members ms" "s = ms @ ''}''" by blast
  then obtain w1 k w2 w3 v w4 t where s: "s = w1 @ k @ w2 @ CHR '':'' # w3 @ v @ w4 @ t"
    "json_ws w1" "json_string k" "json_ws w2" "json_ws w3" "json_value v" "json_ws w4"
    "now_after_member t"
    by (cases rule: json_members.cases) (auto simp: now_after_member_def)
  then have "led now_after_member (w4 @ t)" by (auto simp: led_def)
  then have "led now_object_value (w3 @ v @ w4 @ t)"
    using s(5,6) unfolding now_object_value_def led_def [of _ "w3 @ v @ w4 @ t"] by blast
  then have "led now_colon (w2 @ CHR '':'' # w3 @ v @ w4 @ t)"
    using s(4) unfolding now_colon_def led_def [of _ "w2 @ CHR '':'' # w3 @ v @ w4 @ t"] by blast
  then show "led now_key s"
    using s(1-3) unfolding now_key_def led_def [of _ s] by blast
next
  assume "led now_key s"
  then obtain w1 k w2 w3 v w4 t where s: "s = w1 @ k @ w2 @ CHR '':'' # w3 @ v @ w4 @ t"
    "json_ws w1" "json_string k" "json_ws w2" "json_ws w3" "json_value v" "json_ws w4"
    "now_after_member t"
    unfolding led_def now_key_def now_colon_def now_object_value_def by blast
  from s(8) show "\<exists>ms. json_members ms \<and> s = ms @ ''}''"
    unfolding now_after_member_def
  proof (elim disjE exE)
    assume "t = ''}''"
    then show ?thesis using members_one [OF s(2-7)] s(1) by force
  next
    fix ms assume "json_members ms \<and> t = CHR '','' # ms @ ''}''"
    then show ?thesis using members_more [OF s(2-7)] s(1) by force
  qed
qed

lemma elements_iff: "(\<exists>es. json_elements es \<and> s = es @ '']'') \<longleftrightarrow> led now_array_value s"
proof
  assume "\<exists>es. json_elements es \<and> s = es @ '']''"
  then obtain es where "json_elements es" "s = es @ '']''" by blast
  then obtain w v w' t where s: "s = w @ v @ w' @ t" "json_ws w" "json_value v" "json_ws w'"
    "now_after_element t"
    by (cases rule: json_elements.cases) (auto simp: now_after_element_def)
  then have "led now_after_element (w' @ t)" by (auto simp: led_def)
  then show "led now_array_value s"
    using s(1-3) unfolding now_array_value_def led_def [of _ s] by blast
next
  assume "led now_array_value s"
  then obtain w v w' t where s: "s = w @ v @ w' @ t" "json_ws w" "json_value v" "json_ws w'"
    "now_after_element t"
    unfolding led_def now_array_value_def by blast
  from s(5) show "\<exists>es. json_elements es \<and> s = es @ '']''"
    unfolding now_after_element_def
  proof (elim disjE exE)
    assume "t = '']''"
    then show ?thesis using elements_one [OF s(2-4)] s(1) by force
  next
    fix es assume "json_elements es \<and> t = CHR '','' # es @ '']''"
    then show ?thesis using elements_more [OF s(2-4)] s(1) by force
  qed
qed

lemma value_head:
  assumes "json_value v"
  shows "\<exists>c t. v = c # t \<and> \<not> is_whitespace c \<and> c \<notin> set '',:]}''"
  using assms
proof (cases rule: json_value.cases)
  case value_number
  then obtain sign int frac ex where n: "v = sign @ int @ frac @ ex" "sign = [] \<or> sign = ''-''" "json_int int"
    by (auto simp: json_number_def)
  obtain b ds where "int = b # ds" "is_ascii_digit b"
    using n(3) by (cases int) (auto simp: json_int_def json_digits_def byte_defs)
  moreover have "is_ascii_digit b \<Longrightarrow> \<not> is_whitespace b \<and> b \<notin> set '',:]}''" for b
    by (auto simp: byte_defs is_whitespace_def)
  moreover have "\<not> is_whitespace (CHR ''-'')" by (simp add: is_whitespace_def byte_defs)
  ultimately show ?thesis using n(1,2) by auto
next
  case value_string
  then obtain cs where "v = quote # cs @ [quote]" unfolding json_string_def by blast
  then show ?thesis by (simp add: is_whitespace_def byte_code_def)
qed (simp_all add: is_whitespace_def byte_code_def)

lemma level_now_solid: "level_now l t \<Longrightarrow> \<exists>c t'. t = c # t' \<and> \<not> is_whitespace c"
proof -
  assume l: "level_now l t"
  have v: "json_value v \<Longrightarrow> \<exists>c t'. v @ r = c # t' \<and> \<not> is_whitespace c" for v r
    using value_head by fastforce
  have k: "json_string k \<Longrightarrow> \<exists>c t'. k @ r = c # t' \<and> \<not> is_whitespace c" for k r
    using v [OF value_string] .
  have c: "\<not> is_whitespace (CHR '','')" "\<not> is_whitespace (CHR ''}'')" "\<not> is_whitespace (CHR '']'')"
    "\<not> is_whitespace (CHR '':'')"
    by (simp_all add: is_whitespace_def byte_code_def)
  show ?thesis
    using l v k c
    by (cases l rule: level_now.cases [of "(l, t)" for l, simplified])
      (auto simp: now_key_def now_colon_def now_object_value_def now_array_value_def
        now_after_member_def now_after_element_def)
qed

lemma stack_solid: "solid (\<lambda>t. \<exists>a r. t = a @ r \<and> level_now l a \<and> stack_rest ls r)"
  unfolding solid_def using level_now_solid by fastforce

lemma stack_rest_skip:
  "stack_rest (l # ls) s \<longleftrightarrow>
     (\<exists>a r. dropWhile is_whitespace s = a @ r \<and> level_now l a \<and> stack_rest ls r)"
  by (simp add: led_iff [OF stack_solid])

section \<open>Consuming one value\<close>

definition expects_separator :: "GrammarLevel list \<Rightarrow> bool" where
  "expects_separator ls \<longleftrightarrow>
     ls = [] \<or> hd ls = GObject CommaOrEnd \<or> hd ls = GArray ArrayCommaOrEnd"

lemma separator_rest:
  assumes "expects_separator ls" "stack_rest ls r"
  shows "r = [] \<or> ends_number (hd r)"
proof (cases ls)
  case Nil
  then show ?thesis using assms(2) by (cases r) (auto simp: ends_number_def)
next
  case (Cons l outer)
  then obtain w t where r: "r = w @ t" "json_ws w" "\<exists>a q. t = a @ q \<and> level_now l a"
    using assms(2) by (auto simp: led_def)
  moreover have "l = GObject CommaOrEnd \<or> l = GArray ArrayCommaOrEnd"
    using assms(1) Cons by (simp add: expects_separator_def)
  ultimately have "\<exists>c t'. t = c # t' \<and> c \<in> set '',]}''"
    by (auto simp: now_after_member_def now_after_element_def)
  with r show ?thesis by (cases w) (auto simp: ends_number_def)
qed

lemma json_number_bytes: "json_number n \<Longrightarrow> n \<noteq> [] \<and> list_all (\<lambda>b. \<not> ends_number b \<and> byte_code b < 128) n \<and>
    (hd n = CHR ''-'' \<or> is_ascii_digit (hd n))"
proof -
  assume "json_number n"
  then obtain sign int frac ex where n: "n = sign @ int @ frac @ ex" "sign = [] \<or> sign = ''-''"
    "json_int int" "json_frac frac" "json_exp ex" by (auto simp: json_number_def)
  let ?ok = "\<lambda>b. \<not> ends_number b \<and> byte_code b < 128"
  have digit: "is_ascii_digit b \<Longrightarrow> ?ok b" for b
    by (auto simp: ends_number_def is_whitespace_def byte_defs)
  have digits: "json_digits ds \<Longrightarrow> list_all ?ok ds" for ds
    using digit by (auto simp: json_digits_def list_all_iff)
  have other: "?ok (CHR ''-'')" "?ok (CHR ''+'')" "?ok (CHR ''.'')" "?ok (CHR ''e'')" "?ok (CHR ''E'')"
    "?ok (CHR ''0'')"
    by (simp_all add: ends_number_def is_whitespace_def byte_code_def)
  have "list_all ?ok int" using n(3) digits other by (auto simp: json_int_def)
  moreover have "list_all ?ok frac" using n(4) digits other by (auto simp: json_frac_def)
  moreover have "list_all ?ok ex" using n(5) digits other by (auto simp: json_exp_def)
  moreover obtain b ds where "int = b # ds" "is_ascii_digit b"
    using n(3) by (cases int) (auto simp: json_int_def json_digits_def byte_defs)
  ultimately show ?thesis using n(1,2) other by auto
qed

lemma json_number_utf8: "json_number n \<Longrightarrow> from_utf8 n = Inr n"
  using json_number_bytes by (intro from_utf8_ascii) (auto simp: list_all_iff)

text \<open>The first byte of a value determines its kind.\<close>

lemma value_by_head:
  "json_value (CHR ''{'' # t) \<longleftrightarrow> (\<exists>w. json_ws w \<and> t = w @ ''}'') \<or> (\<exists>ms. json_members ms \<and> t = ms @ ''}'')"
  "json_value (CHR ''['' # t) \<longleftrightarrow> (\<exists>w. json_ws w \<and> t = w @ '']'') \<or> (\<exists>es. json_elements es \<and> t = es @ '']'')"
  "json_value (quote # t) \<longleftrightarrow> (\<exists>cs. json_chars cs \<and> t = cs @ [quote])"
  "json_value (CHR ''t'' # t) \<longleftrightarrow> t = ''rue''"
  "json_value (CHR ''f'' # t) \<longleftrightarrow> t = ''alse''"
  "json_value (CHR ''n'' # t) \<longleftrightarrow> t = ''ull''"
  "b = CHR ''-'' \<or> is_ascii_digit b \<Longrightarrow> json_value (b # t) \<longleftrightarrow> json_number (b # t)"
  "b \<notin> {CHR ''{'', CHR ''['', quote, CHR ''t'', CHR ''f'', CHR ''n'', CHR ''-''} \<Longrightarrow>
     \<not> is_ascii_digit b \<Longrightarrow> \<not> json_value (b # t)"
proof -
  have num: "json_number (b # t) \<Longrightarrow> b = CHR ''-'' \<or> is_ascii_digit b" for b t
    using json_number_bytes by fastforce
  have nd: "\<not> is_ascii_digit (CHR ''{'')" "\<not> is_ascii_digit (CHR ''['')" "\<not> is_ascii_digit quote"
    "\<not> is_ascii_digit (CHR ''t'')" "\<not> is_ascii_digit (CHR ''f'')" "\<not> is_ascii_digit (CHR ''n'')"
    by (simp_all add: byte_defs)
  show "json_value (CHR ''{'' # t) \<longleftrightarrow>
      (\<exists>w. json_ws w \<and> t = w @ ''}'') \<or> (\<exists>ms. json_members ms \<and> t = ms @ ''}'')"
    using num [of "CHR ''{''" t] nd
    by (subst json_value.simps) (auto simp: json_string_def)
  show "json_value (CHR ''['' # t) \<longleftrightarrow>
      (\<exists>w. json_ws w \<and> t = w @ '']'') \<or> (\<exists>es. json_elements es \<and> t = es @ '']'')"
    using num [of "CHR ''[''" t] nd
    by (subst json_value.simps) (auto simp: json_string_def)
  show "json_value (quote # t) \<longleftrightarrow> (\<exists>cs. json_chars cs \<and> t = cs @ [quote])"
    using num [of quote t] nd by (subst json_value.simps) (auto simp: json_string_def)
  show "json_value (CHR ''t'' # t) \<longleftrightarrow> t = ''rue''"
    using num [of "CHR ''t''" t] nd by (subst json_value.simps) (auto simp: json_string_def)
  show "json_value (CHR ''f'' # t) \<longleftrightarrow> t = ''alse''"
    using num [of "CHR ''f''" t] nd by (subst json_value.simps) (auto simp: json_string_def)
  show "json_value (CHR ''n'' # t) \<longleftrightarrow> t = ''ull''"
    using num [of "CHR ''n''" t] nd by (subst json_value.simps) (auto simp: json_string_def)
  show "b = CHR ''-'' \<or> is_ascii_digit b \<Longrightarrow> json_value (b # t) \<longleftrightarrow> json_number (b # t)"
    using nd by (subst json_value.simps) (auto simp: json_string_def)
  show "b \<notin> {CHR ''{'', CHR ''['', quote, CHR ''t'', CHR ''f'', CHR ''n'', CHR ''-''} \<Longrightarrow>
     \<not> is_ascii_digit b \<Longrightarrow> \<not> json_value (b # t)"
    using num [of b t] by (subst json_value.simps) (auto simp: json_string_def)
qed

text \<open>The continuation after a step: the step succeeds inside the text and the rest is in the
  language of the new stack.\<close>

definition step_accepts :: "string \<Rightarrow> (string, nat \<times> GrammarLevel list) result \<Rightarrow> bool" where
  "step_accepts bytes r \<longleftrightarrow>
     (\<exists>i' ls'. r = Inr (i', ls') \<and> i' \<le> length bytes \<and> stack_rest ls' (drop i' bytes))"

lemma step_accepts_simps [simp]:
  "\<not> step_accepts bytes (Inl e)"
  "step_accepts bytes (Inr (i, ls)) \<longleftrightarrow> i \<le> length bytes \<and> stack_rest ls (drop i bytes)"
  by (auto simp: step_accepts_def)

lemma value_split:
  "(\<exists>v r. b # t = v @ r \<and> json_value v \<and> R r) \<longleftrightarrow> (\<exists>v r. t = v @ r \<and> json_value (b # v) \<and> R r)"
proof
  assume "\<exists>v r. b # t = v @ r \<and> json_value v \<and> R r"
  then obtain v r where v: "b # t = v @ r" "json_value v" "R r" by blast
  obtain v' where "v = b # v'" using v(1) value_head [OF v(2)] by auto
  with v show "\<exists>v r. t = v @ r \<and> json_value (b # v) \<and> R r" by auto
next
  assume "\<exists>v r. t = v @ r \<and> json_value (b # v) \<and> R r"
  then obtain v r where "t = v @ r" "json_value (b # v)" "R r" by blast
  then have "b # t = (b # v) @ r" "json_value (b # v)" "R r" by simp_all
  then show "\<exists>v r. b # t = v @ r \<and> json_value v \<and> R r" by blast
qed

lemma open_bracket:
  "(\<exists>v r. t = v @ r \<and> json_value (CHR ''{'' # v) \<and> stack_rest ls r) \<longleftrightarrow>
     stack_rest (GObject KeyOrEnd # ls) t"
  "(\<exists>v r. t = v @ r \<and> json_value (CHR ''['' # v) \<and> stack_rest ls r) \<longleftrightarrow>
     stack_rest (GArray ValueOrEnd # ls) t"
proof -
  have "json_value (CHR ''{'' # v) \<longleftrightarrow> led (level_now (GObject KeyOrEnd)) v" for v
    unfolding value_by_head members_iff by (auto simp: led_def)
  then show "(\<exists>v r. t = v @ r \<and> json_value (CHR ''{'' # v) \<and> stack_rest ls r) \<longleftrightarrow>
      stack_rest (GObject KeyOrEnd # ls) t"
    by (simp only: led_append stack_rest.simps)
  have "json_value (CHR ''['' # v) \<longleftrightarrow> led (level_now (GArray ValueOrEnd)) v" for v
    unfolding value_by_head elements_iff by (auto simp: led_def)
  then show "(\<exists>v r. t = v @ r \<and> json_value (CHR ''['' # v) \<and> stack_rest ls r) \<longleftrightarrow>
      stack_rest (GArray ValueOrEnd # ls) t"
    by (simp only: led_append stack_rest.simps)
qed

lemma string_accepts:
  assumes "drop i bytes = quote # t"
  shows "step_accepts bytes (map_ok (\<lambda>e. (e, ls)) (consume_json_string bytes i)) \<longleftrightarrow>
    (\<exists>k r. drop i bytes = k @ r \<and> json_string k \<and> stack_rest ls r)"
proof
  assume "step_accepts bytes (map_ok (\<lambda>e. (e, ls)) (consume_json_string bytes i))"
  then obtain e where e: "consume_json_string bytes i = Inr e" "stack_rest ls (drop e bytes)"
    by (auto simp: step_accepts_def map_ok_eq_Inr)
  then obtain cs where "json_chars cs" "t = cs @ quote # drop e bytes"
    using consume_json_string_iff [OF assms] by blast
  then have "drop i bytes = (quote # cs @ [quote]) @ drop e bytes" "json_string (quote # cs @ [quote])"
    using assms by (auto simp: json_string_def)
  with e(2) show "\<exists>k r. drop i bytes = k @ r \<and> json_string k \<and> stack_rest ls r" by blast
next
  assume "\<exists>k r. drop i bytes = k @ r \<and> json_string k \<and> stack_rest ls r"
  then obtain cs r where cs: "json_chars cs" "drop i bytes = quote # cs @ quote # r" "stack_rest ls r"
    by (auto simp: json_string_def)
  let ?e = "i + length cs + 2"
  have "drop ?e bytes = r" using drop_n [OF cs(2), of "length cs + 2"] by (simp add: add.assoc eval_nat_numeral)
  moreover have "?e \<le> length bytes" using arg_cong [OF cs(2), of length] by simp
  ultimately have "consume_json_string bytes i = Inr ?e"
    unfolding consume_json_string_iff [OF assms] using cs assms by auto
  then show "step_accepts bytes (map_ok (\<lambda>e. (e, ls)) (consume_json_string bytes i))"
    using cs(3) \<open>drop ?e bytes = r\<close> \<open>?e \<le> length bytes\<close> by simp
qed

lemma string_split:
  "(\<exists>k r. quote # t = k @ r \<and> json_string k \<and> R r) \<longleftrightarrow>
     (\<exists>v r. t = v @ r \<and> (\<exists>cs. json_chars cs \<and> v = cs @ [quote]) \<and> R r)"
proof -
  have "json_string k \<longleftrightarrow> json_value k" if "quote # t = k @ r" for k r
    using that value_by_head(3) value_head [of "[]"] by (cases k) (auto simp: json_string_def)
  then have "(\<exists>k r. quote # t = k @ r \<and> json_string k \<and> R r) \<longleftrightarrow>
      (\<exists>v r. quote # t = v @ r \<and> json_value v \<and> R r)" by blast
  then show ?thesis unfolding value_split value_by_head(3) .
qed

lemma literal_accepts:
  assumes d: "drop i bytes = b # t" and n: "n = Suc (length word)"
  shows "step_accepts bytes
      (if get_slice bytes i (i + n) = Some (b # word) then Inr (i + n, ls) else Inl e) \<longleftrightarrow>
    (\<exists>v r. t = v @ r \<and> v = word \<and> stack_rest ls r)"
proof -
  have "get_slice bytes i (i + n) = Some (b # word) \<longleftrightarrow> length word \<le> length t \<and> take (length word) t = word"
    using get_slice_drop [of n bytes i] n d by auto
  also have "\<dots> \<longleftrightarrow> (\<exists>r. t = word @ r)"
    by (metis append_eq_conv_conj append_take_drop_id le_add1 length_append)
  finally have iff: "get_slice bytes i (i + n) = Some (b # word) \<longleftrightarrow> (\<exists>r. t = word @ r)" .
  have "i + n \<le> length bytes \<and> drop (i + n) bytes = r" if "t = word @ r" for r
    using drop_n [OF d, of n] arg_cong [OF d, of length] nth_drop_Cons [OF d] that n by auto
  then show ?thesis using iff by auto
qed

lemma takeWhile_all_append:
  "list_all P xs \<Longrightarrow> ys = [] \<or> \<not> P (hd ys) \<Longrightarrow> takeWhile P (xs @ ys) = xs \<and> dropWhile P (xs @ ys) = ys"
  by (induction xs) (cases ys; auto)+

lemma number_accepts:
  assumes d: "drop i bytes = b # t" and b: "b = CHR ''-'' \<or> is_ascii_digit b"
    and sep: "expects_separator ls"
  shows "step_accepts bytes (consume_json_value bytes i ls) \<longleftrightarrow>
    (\<exists>n r. b # t = n @ r \<and> json_number n \<and> stack_rest ls r)"
proof -
  define tok where "tok = takeWhile (\<lambda>b. \<not> ends_number b) (b # t)"
  define rest where "rest = dropWhile (\<lambda>b. \<not> ends_number b) (b # t)"
  have split: "b # t = tok @ rest" by (simp only: tok_def rest_def takeWhile_dropWhile_id)
  have other: "b \<noteq> CHR ''{''" "b \<noteq> CHR ''[''" "b \<noteq> quote" "b \<noteq> CHR ''t''" "b \<noteq> CHR ''f''" "b \<noteq> CHR ''n''"
    using b by (auto simp: byte_defs)
  have e: "number_end bytes i = i + length tok" by (simp only: number_end_eq d tok_def)
  have tok: "slice bytes i (number_end bytes i) = tok"
    unfolding slice_def e d split by simp
  have rest: "drop (number_end bytes i) bytes = rest"
    using drop_n [OF d, of "length tok"] unfolding e split by simp
  have le: "number_end bytes i \<le> length bytes"
    using arg_cong [OF d, of length] nth_drop_Cons [OF d] unfolding e split by auto
  have consume: "consume_json_value bytes i ls =
      (if \<not> is_ok (from_utf8 tok) \<or> \<not> json_number tok
       then Inl ''frame contains an invalid JSON number token'' else Inr (number_end bytes i, ls))"
    using other b by (simp add: consume_json_value_def get_at_drop d Let_def is_json_number_iff tok)
  have "step_accepts bytes (consume_json_value bytes i ls) \<longleftrightarrow> json_number tok \<and> stack_rest ls rest"
    using le rest by (cases "json_number tok") (simp_all add: consume json_number_utf8)
  also have "\<dots> \<longleftrightarrow> (\<exists>n r. b # t = n @ r \<and> json_number n \<and> stack_rest ls r)"
  proof
    assume "json_number tok \<and> stack_rest ls rest"
    then show "\<exists>n r. b # t = n @ r \<and> json_number n \<and> stack_rest ls r" using split by blast
  next
    assume "\<exists>n r. b # t = n @ r \<and> json_number n \<and> stack_rest ls r"
    then obtain n r where n: "b # t = n @ r" "json_number n" "stack_rest ls r" by blast
    have "takeWhile (\<lambda>b. \<not> ends_number b) (n @ r) = n \<and> dropWhile (\<lambda>b. \<not> ends_number b) (n @ r) = r"
      using takeWhile_all_append [of "\<lambda>b. \<not> ends_number b" n r] json_number_bytes [OF n(2)]
        separator_rest [OF sep n(3)] by (auto simp: list_all_iff)
    then have "tok = n" "rest = r" unfolding tok_def rest_def n(1) by simp_all
    with n show "json_number tok \<and> stack_rest ls rest" by simp
  qed
  finally show ?thesis .
qed

lemma consume_accepts:
  assumes sep: "expects_separator ls"
  shows "step_accepts bytes (consume_json_value bytes i ls) \<longleftrightarrow>
    (\<exists>v r. drop i bytes = v @ r \<and> json_value v \<and> stack_rest ls r)"
proof (cases "drop i bytes")
  case Nil
  have "\<not> json_value []" using value_head by blast
  with Nil show ?thesis by (simp add: consume_json_value_def get_at_drop)
next
  case (Cons b t)
  have i: "i + 1 \<le> length bytes" "drop (i + 1) bytes = t" using nth_drop_Cons [OF Cons] by auto
  note split = value_split [of b t "stack_rest ls"]
  consider "b = CHR ''{''" | "b = CHR ''[''" | "b = quote" | "b = CHR ''t''" | "b = CHR ''f''"
    | "b = CHR ''n''" | "b = CHR ''-'' \<or> is_ascii_digit b"
    | "b \<notin> {CHR ''{'', CHR ''['', quote, CHR ''t'', CHR ''f'', CHR ''n'', CHR ''-''}" "\<not> is_ascii_digit b"
    by blast
  then show ?thesis
  proof cases
    case 1
    then show ?thesis unfolding Cons split using i open_bracket(1) [of t ls]
      by (simp add: consume_json_value_def get_at_drop Cons del: stack_rest.simps)
  next
    case 2
    then show ?thesis unfolding Cons split using i open_bracket(2) [of t ls]
      by (simp add: consume_json_value_def get_at_drop Cons del: stack_rest.simps)
  next
    case 3
    have "step_accepts bytes (consume_json_value bytes i ls) \<longleftrightarrow>
        (\<exists>k r. b # t = k @ r \<and> json_string k \<and> stack_rest ls r)"
      using string_accepts [of i bytes t ls] 3 Cons by (simp add: consume_json_value_def get_at_drop)
    also have "\<dots> \<longleftrightarrow> (\<exists>v r. b # t = v @ r \<and> json_value v \<and> stack_rest ls r)"
      unfolding split unfolding 3 value_by_head string_split by blast
    finally show ?thesis using Cons by simp
  next
    case 4
    have "consume_json_value bytes i ls = (if get_slice bytes i (i + 4) = Some (b # ''rue'')
        then Inr (i + 4, ls) else Inl ''frame contains an invalid JSON value'')"
      using 4 by (simp add: consume_json_value_def get_at_drop Cons byte_defs)
    then show ?thesis
      unfolding Cons split using literal_accepts [OF Cons, of 4 "''rue''" ls] 4 value_by_head(4) by simp
  next
    case 5
    have "consume_json_value bytes i ls = (if get_slice bytes i (i + 5) = Some (b # ''alse'')
        then Inr (i + 5, ls) else Inl ''frame contains an invalid JSON value'')"
      using 5 by (simp add: consume_json_value_def get_at_drop Cons byte_defs)
    then show ?thesis
      unfolding Cons split using literal_accepts [OF Cons, of 5 "''alse''" ls] 5 value_by_head(5) by simp
  next
    case 6
    have "consume_json_value bytes i ls = (if get_slice bytes i (i + 4) = Some (b # ''ull'')
        then Inr (i + 4, ls) else Inl ''frame contains an invalid JSON value'')"
      using 6 by (simp add: consume_json_value_def get_at_drop Cons byte_defs)
    then show ?thesis
      unfolding Cons split using literal_accepts [OF Cons, of 4 "''ull''" ls] 6 value_by_head(6) by simp
  next
    case 7
    have "json_number n \<longleftrightarrow> json_value n" if "b # t = n @ r" for n r
      using that value_by_head(7) [OF 7] json_number_bytes [of "[]"] value_head [of "[]"] by (cases n) auto
    then have "(\<exists>n r. b # t = n @ r \<and> json_number n \<and> stack_rest ls r) \<longleftrightarrow>
        (\<exists>v r. b # t = v @ r \<and> json_value v \<and> stack_rest ls r)" by blast
    then show ?thesis using number_accepts [OF Cons 7 sep] Cons by simp
  next
    case 8
    then show ?thesis unfolding Cons split using value_by_head(8) [OF 8]
      by (auto simp: consume_json_value_def get_at_drop Cons)
  qed
qed

section \<open>The validator\<close>

lemma consume_json_string_in_text: "consume_json_string bytes i = Inr e \<Longrightarrow> e \<le> length bytes"
  by (auto simp: consume_json_string_def end_of_string_def split: option.splits if_splits
      dest: end_of_string_loop_bounds)

lemma consume_json_value_in_text: "consume_json_value bytes i ls = Inr (i', ls') \<Longrightarrow> i' \<le> length bytes"
proof -
  have num: "i < length bytes \<Longrightarrow> number_end bytes i \<le> length bytes"
    using length_takeWhile_le [of "\<lambda>b. \<not> ends_number b" "drop i bytes"]
    by (simp add: number_end_eq)
  then show "consume_json_value bytes i ls = Inr (i', ls') \<Longrightarrow> i' \<le> length bytes"
    by (auto simp: consume_json_value_def Let_def map_ok_eq_Inr get_at_def get_slice_def
        split: option.splits if_splits dest: consume_json_string_in_text)
qed

lemma grammar_step_in_text:
  "grammar_step bytes i l ls = Inr (i', ls') \<Longrightarrow> i' \<le> length bytes"
  by (cases "(bytes, i, l, ls)" rule: grammar_step.cases)
    (auto simp: map_ok_eq_Inr get_at_def split: if_splits
      dest: consume_json_string_in_text consume_json_value_in_text)

lemma value_then:
  "(\<exists>v r. t = v @ r \<and> json_value v \<and> stack_rest (GObject CommaOrEnd # ls) r) \<longleftrightarrow>
     (\<exists>a r. t = a @ r \<and> now_object_value a \<and> stack_rest ls r)"
  "(\<exists>v r. t = v @ r \<and> json_value v \<and> stack_rest (GArray ArrayCommaOrEnd # ls) r) \<longleftrightarrow>
     (\<exists>a r. t = a @ r \<and> now_array_value a \<and> stack_rest ls r)"
proof -
  have now: "level_now (GObject CommaOrEnd) = now_after_member"
    "level_now (GArray ArrayCommaOrEnd) = now_after_element" by (simp_all add: fun_eq_iff)
  show "(\<exists>v r. t = v @ r \<and> json_value v \<and> stack_rest (GObject CommaOrEnd # ls) r) \<longleftrightarrow>
     (\<exists>a r. t = a @ r \<and> now_object_value a \<and> stack_rest ls r)"
    unfolding stack_rest.simps led_append [symmetric] now now_object_value_def
    by (metis append.assoc)
  show "(\<exists>v r. t = v @ r \<and> json_value v \<and> stack_rest (GArray ArrayCommaOrEnd # ls) r) \<longleftrightarrow>
     (\<exists>a r. t = a @ r \<and> now_array_value a \<and> stack_rest ls r)"
    unfolding stack_rest.simps led_append [symmetric] now now_array_value_def
    by (metis append.assoc)
qed

lemma key_then:
  "(\<exists>k r. t = k @ r \<and> json_string k \<and> stack_rest (GObject Colon # ls) r) \<longleftrightarrow>
     (\<exists>a r. t = a @ r \<and> now_key a \<and> stack_rest ls r)"
proof -
  have now: "level_now (GObject Colon) = now_colon" by (simp add: fun_eq_iff)
  show ?thesis
    unfolding stack_rest.simps led_append [symmetric] now now_key_def by (metis append.assoc)
qed

lemma byte_then:
  assumes "\<And>a. Q a \<longleftrightarrow> (\<exists>q. a = c # q \<and> led (level_now l) q)"
  shows "(\<exists>a r. x # t = a @ r \<and> Q a \<and> stack_rest ls r) \<longleftrightarrow> x = c \<and> stack_rest (l # ls) t"
proof
  assume "\<exists>a r. x # t = a @ r \<and> Q a \<and> stack_rest ls r"
  then obtain q r where "x # t = (c # q) @ r" "led (level_now l) q" "stack_rest ls r"
    unfolding assms by blast
  then show "x = c \<and> stack_rest (l # ls) t"
    unfolding stack_rest.simps led_append [symmetric] by auto
next
  assume "x = c \<and> stack_rest (l # ls) t"
  then obtain q r where "x # t = (c # q) @ r" "led (level_now l) q" "stack_rest ls r"
    unfolding stack_rest.simps led_append [symmetric] by auto
  then show "\<exists>a r. x # t = a @ r \<and> Q a \<and> stack_rest ls r" unfolding assms by blast
qed

lemma closing_then:
  "(\<exists>a r. x # t = a @ r \<and> a = [c] \<and> stack_rest ls r) \<longleftrightarrow> x = c \<and> stack_rest ls t"
  by auto

lemma closing_or:
  "(\<exists>a r. x # t = a @ r \<and> (a = [c] \<or> Q a) \<and> stack_rest ls r) \<longleftrightarrow>
     x = c \<and> stack_rest ls t \<or> (\<exists>a r. x # t = a @ r \<and> Q a \<and> stack_rest ls r)"
  using closing_then [of x t c ls] by blast

text \<open>One step from a byte that is not whitespace keeps exactly the texts of the language.\<close>

lemma step_key_accepts:
  assumes "drop i bytes = x # t"
  shows "x = quote \<and> step_accepts bytes (map_ok (\<lambda>e. (e, GObject Colon # ls)) (consume_json_string bytes i)) \<longleftrightarrow>
    (\<exists>a r. x # t = a @ r \<and> now_key a \<and> stack_rest ls r)"
proof (cases "x = quote")
  case True
  then show ?thesis
    using string_accepts [of i bytes t "GObject Colon # ls"] assms key_then by simp
next
  case False
  have "\<not> (x # t = a @ r \<and> now_key a)" for a r
    using False by (auto simp: now_key_def json_string_def)
  with False show ?thesis by blast
qed

lemma after_member_then:
  "(\<exists>a r. x # t = a @ r \<and> now_after_member a \<and> stack_rest ls r) \<longleftrightarrow>
     x = CHR ''}'' \<and> stack_rest ls t \<or> x = CHR '','' \<and> stack_rest (GObject Key # ls) t"
proof -
  have "(\<exists>a r. x # t = a @ r \<and> (\<exists>ms. json_members ms \<and> a = CHR '','' # ms @ ''}'') \<and> stack_rest ls r) \<longleftrightarrow>
      x = CHR '','' \<and> stack_rest (GObject Key # ls) t"
  proof (rule byte_then)
    fix a
    have "level_now (GObject Key) = now_key" by (simp add: fun_eq_iff)
    then show "(\<exists>ms. json_members ms \<and> a = CHR '','' # ms @ ''}'') \<longleftrightarrow>
        (\<exists>q. a = CHR '','' # q \<and> led (level_now (GObject Key)) q)"
      using members_iff by metis
  qed
  then show ?thesis using closing_then [of x t "CHR ''}''" ls] unfolding now_after_member_def by blast
qed

lemma after_element_then:
  "(\<exists>a r. x # t = a @ r \<and> now_after_element a \<and> stack_rest ls r) \<longleftrightarrow>
     x = CHR '']'' \<and> stack_rest ls t \<or> x = CHR '','' \<and> stack_rest (GArray ArrayValue # ls) t"
proof -
  have "(\<exists>a r. x # t = a @ r \<and> (\<exists>es. json_elements es \<and> a = CHR '','' # es @ '']'') \<and> stack_rest ls r) \<longleftrightarrow>
      x = CHR '','' \<and> stack_rest (GArray ArrayValue # ls) t"
  proof (rule byte_then)
    fix a
    have "level_now (GArray ArrayValue) = now_array_value" by (simp add: fun_eq_iff)
    then show "(\<exists>es. json_elements es \<and> a = CHR '','' # es @ '']'') \<longleftrightarrow>
        (\<exists>q. a = CHR '','' # q \<and> led (level_now (GArray ArrayValue)) q)"
      using elements_iff by metis
  qed
  then show ?thesis using closing_then [of x t "CHR '']''" ls] unfolding now_after_element_def by blast
qed

lemma colon_then:
  "(\<exists>a r. x # t = a @ r \<and> now_colon a \<and> stack_rest ls r) \<longleftrightarrow>
     x = CHR '':'' \<and> stack_rest (GObject Value # ls) t"
proof (rule byte_then)
  fix a
  have "level_now (GObject Value) = now_object_value" by (simp add: fun_eq_iff)
  then show "now_colon a \<longleftrightarrow> (\<exists>q. a = CHR '':'' # q \<and> led (level_now (GObject Value)) q)"
    by (simp add: now_colon_def)
qed

lemma separator_levels:
  "expects_separator (GObject CommaOrEnd # ls)" "expects_separator (GArray ArrayCommaOrEnd # ls)"
  "expects_separator []"
  by (simp_all add: expects_separator_def)

lemma step_accepts_iff:
  "step_accepts bytes (grammar_step bytes i l ls) \<longleftrightarrow>
     (\<exists>a r. drop i bytes = a @ r \<and> level_now l a \<and> stack_rest ls r)"
proof (cases "drop i bytes")
  case Nil
  have "\<not> level_now l []" using level_now_solid by blast
  moreover have "\<not> step_accepts bytes (grammar_step bytes i l ls)"
    using Nil by (cases "(bytes, i, l, ls)" rule: grammar_step.cases)
      (simp_all add: get_at_drop consume_json_value_def)
  ultimately show ?thesis using Nil by simp
next
  case (Cons x t)
  have i: "i + 1 \<le> length bytes" "drop (i + 1) bytes = t" using nth_drop_Cons [OF Cons] by auto
  have g: "get_at bytes i = Some x" using Cons by (simp add: get_at_drop)
  have move: "step_accepts bytes (Inr (i + 1, ls')) \<longleftrightarrow> stack_rest ls' t" for ls'
    using i by (simp del: stack_rest.simps)
  have obj: "step_accepts bytes (consume_json_value bytes i (GObject CommaOrEnd # ls)) \<longleftrightarrow>
      (\<exists>a r. drop i bytes = a @ r \<and> now_object_value a \<and> stack_rest ls r)"
    using consume_accepts [OF separator_levels(1)] value_then(1) by simp
  have arr: "step_accepts bytes (consume_json_value bytes i (GArray ArrayCommaOrEnd # ls)) \<longleftrightarrow>
      (\<exists>a r. drop i bytes = a @ r \<and> now_array_value a \<and> stack_rest ls r)"
    using consume_accepts [OF separator_levels(2)] value_then(2) by simp
  have key: "x = quote \<and> step_accepts bytes
        (map_ok (\<lambda>e. (e, GObject Colon # ls)) (consume_json_string bytes i)) \<longleftrightarrow>
      (\<exists>a r. x # t = a @ r \<and> now_key a \<and> stack_rest ls r)"
    by (rule step_key_accepts [OF Cons])
  show ?thesis
  proof (cases "(bytes, i, l, ls)" rule: grammar_step.cases)
    case 1
    then have l: "l = GObject KeyOrEnd" by simp
    show ?thesis
      unfolding Cons l level_now.simps closing_or using move key g
      by (cases "x = CHR ''}''"; cases "x = quote") (auto simp del: stack_rest.simps)
  next
    case (2 bytes i ls)
    then show ?thesis using key g unfolding Cons by (cases "x = quote") auto
  next
    case (3 bytes i ls)
    then show ?thesis
      using move colon_then [of x t ls] g unfolding Cons by (cases "x = CHR '':''") (auto simp del: stack_rest.simps)
  next
    case (4 bytes i ls)
    then show ?thesis using obj by simp
  next
    case (5 bytes i ls)
    then show ?thesis
      using move after_member_then [of x t ls] g unfolding Cons by (auto simp del: stack_rest.simps)
  next
    case 6
    then have l: "l = GArray ValueOrEnd" by simp
    have "x = CHR '']'' \<Longrightarrow> \<not> (\<exists>a r. x # t = a @ r \<and> now_array_value a)"
      using value_head by (fastforce simp: now_array_value_def)
    then show ?thesis
      unfolding Cons l level_now.simps closing_or using move arr [unfolded Cons] g
      by (cases "x = CHR '']''") (auto simp del: stack_rest.simps)
  next
    case (7 bytes i ls)
    then show ?thesis using arr by simp
  next
    case (8 bytes i ls)
    then show ?thesis
      using move after_element_then [of x t ls] g unfolding Cons by (auto simp del: stack_rest.simps)
  qed
qed

lemma grammar_loop_iff:
  "i \<le> length bytes \<Longrightarrow> grammar_loop bytes i ls = Inr () \<longleftrightarrow> stack_rest ls (drop i bytes)"
proof (induction bytes i ls rule: grammar_loop.induct)
  case (1 bytes i ls)
  let ?j = "next_non_whitespace bytes i"
  have j: "?j \<le> length bytes" "drop ?j bytes = dropWhile is_whitespace (drop i bytes)"
    using next_non_whitespace_bound [OF 1(2)] drop_next_non_whitespace by auto
  show ?case
  proof (cases ls)
    case Nil
    have "?j = length bytes \<longleftrightarrow> drop ?j bytes = []" using j(1) by auto
    then show ?thesis
      using Nil j(2) by (simp add: grammar_loop.simps [of bytes i] Let_def ws_iff)
  next
    case (Cons l outer)
    have "grammar_loop bytes i ls = Inr () \<longleftrightarrow> step_accepts bytes (grammar_step bytes ?j l outer)"
    proof (cases "grammar_step bytes ?j l outer")
      case (Inl e)
      then show ?thesis using Cons by (simp add: grammar_loop.simps [of bytes i] Let_def)
    next
      case (Inr p)
      obtain i' ls' where p: "p = (i', ls')" by (cases p)
      have step: "grammar_loop bytes i ls = grammar_loop bytes i' ls'"
        using Cons Inr p by (simp add: grammar_loop.simps [of bytes i] Let_def)
      show ?thesis
      proof (cases "i' \<le> length bytes")
        case True
        then show ?thesis using 1(1) [OF refl Cons Inr p [symmetric]] step Inr p by simp
      next
        case False
        then have "\<not> step_accepts bytes (Inr p)" using p by simp
        moreover have "grammar_loop bytes i' ls' \<noteq> Inr ()"
          using grammar_step_in_text [of bytes ?j l outer i' ls'] Inr p False by simp
        ultimately show ?thesis using step Inr by simp
      qed
    qed
    then show ?thesis
      unfolding step_accepts_iff j(2) using Cons stack_rest_skip by simp
  qed
qed

lemma validate_json_grammar_iff: "validate_json_grammar bytes = Inr () \<longleftrightarrow> json_text bytes"
proof -
  let ?i = "next_non_whitespace bytes 0"
  have i: "?i \<le> length bytes" "drop ?i bytes = dropWhile is_whitespace bytes"
    using next_non_whitespace_bound [of 0 bytes] drop_next_non_whitespace [of bytes 0] by auto
  have "validate_json_grammar bytes = Inr () \<longleftrightarrow>
      ?i \<noteq> length bytes \<and> step_accepts bytes (consume_json_value bytes ?i [])"
  proof (cases "consume_json_value bytes ?i []")
    case (Inr p)
    obtain i' ls' where p: "p = (i', ls')" by (cases p)
    have "i' \<le> length bytes"
      using consume_json_value_in_text Inr p by blast
    then show ?thesis
      using Inr p grammar_loop_iff [of i' bytes ls'] by (simp add: validate_json_grammar_def Let_def)
  qed (simp add: validate_json_grammar_def Let_def)
  also have "\<dots> \<longleftrightarrow> step_accepts bytes (consume_json_value bytes ?i [])"
    by (auto simp: consume_json_value_def get_at_def step_accepts_def)
  also have "\<dots> \<longleftrightarrow> (\<exists>v r. dropWhile is_whitespace bytes = v @ r \<and> json_value v \<and> json_ws r)"
    unfolding consume_accepts [OF separator_levels(3)] i(2) by simp
  also have "\<dots> \<longleftrightarrow> led (\<lambda>t. \<exists>v r. t = v @ r \<and> json_value v \<and> json_ws r) bytes"
    using value_head by (subst led_iff) (fastforce simp: solid_def)+
  also have "\<dots> \<longleftrightarrow> json_text bytes" by (auto simp: led_def json_text_def)
  finally show ?thesis .
qed

section \<open>Properties\<close>

text \<open>C10: the validator decides the JSON grammar. It accepts a byte string exactly when the string is
  one JSON value with optional whitespace around it, for values of any nesting depth; so it neither
  lets a malformed text through to the later passes nor refuses a well-formed one.\<close>

theorem validate_json_grammar_exact:
  "validate_json_grammar bytes = Inr () \<longleftrightarrow> json_text bytes"
  by (rule validate_json_grammar_iff)

end
