(* ===== verification/Protocol.thy ===== *)
theory Protocol
  imports Workflow
begin

text \<open>
  \<^verbatim>\<open>crates/aizign-protocol/src/error.rs\<close>, \<^verbatim>\<open>hello.rs\<close> and \<^verbatim>\<open>workflow_signal.rs\<close>: protocol errors
  with their stable codes, the handshake payload, and the conversion of the workflow-signal DTOs to
  and from the core's types. A DTO is a record with the fields of the Rust struct; the conversions
  between DTOs and JSON values that \<open>serde\<close> derives are operations of the parameter record
  \<open>PayloadSerde\<close>, over an arbitrary type \<open>'v\<close> of JSON values. A serde error is its text.

  \<open>from_valid_code\<close> unwraps a constructor that fails on a malformed code; the model builds the error
  directly, and the lemmas on emitted codes show that the constructor would have succeeded.
\<close>

section \<open>Errors (error.rs)\<close>

definition PROTOCOL_VERSION_UNSUPPORTED :: string where
  "PROTOCOL_VERSION_UNSUPPORTED = ''PROTOCOL_VERSION_UNSUPPORTED''"
definition INVALID_ENVELOPE :: string where "INVALID_ENVELOPE = ''INVALID_ENVELOPE''"
definition UNKNOWN_KIND :: string where "UNKNOWN_KIND = ''UNKNOWN_KIND''"
definition INVALID_PAYLOAD :: string where "INVALID_PAYLOAD = ''INVALID_PAYLOAD''"
definition REQUEST_TOO_LARGE :: string where "REQUEST_TOO_LARGE = ''REQUEST_TOO_LARGE''"
definition CAPABILITY_UNSUPPORTED :: string where "CAPABILITY_UNSUPPORTED = ''CAPABILITY_UNSUPPORTED''"
definition INTERNAL :: string where "INTERNAL = ''INTERNAL''"
definition HANDLER_TIMEOUT :: string where "HANDLER_TIMEOUT = ''HANDLER_TIMEOUT''"
definition INVALID_EXPECTATION :: string where "INVALID_EXPECTATION = ''INVALID_EXPECTATION''"

lemmas code_defs = PROTOCOL_VERSION_UNSUPPORTED_def INVALID_ENVELOPE_def UNKNOWN_KIND_def
  INVALID_PAYLOAD_def REQUEST_TOO_LARGE_def CAPABILITY_UNSUPPORTED_def INTERNAL_def
  HANDLER_TIMEOUT_def INVALID_EXPECTATION_def

definition CURRENT_FIXED_ERROR_CODES :: "string list" where
  "CURRENT_FIXED_ERROR_CODES =
     [PROTOCOL_VERSION_UNSUPPORTED, INVALID_ENVELOPE, UNKNOWN_KIND, INVALID_PAYLOAD,
      REQUEST_TOO_LARGE, CAPABILITY_UNSUPPORTED, INVALID_EXPECTATION, ''INVALID_SIGNAL'',
      ''WORKFLOW_MISMATCH'', ''ASSIGNMENT_MISMATCH'', ''ATTEMPT_MISMATCH'', ''ROLE_MISMATCH'',
      ''REVISION_MISMATCH'', ''CANDIDATE_DIGEST_MISMATCH'', ''EVENT_CONFLICT'',
      ''JOURNAL_UNAVAILABLE'', ''JOURNAL_CORRUPT'', ''JOURNAL_SCHEMA_UNSUPPORTED'',
      ''JOURNAL_LOCKED'', ''JOURNAL_BOUND_EXCEEDED'', INTERNAL, HANDLER_TIMEOUT,
      ''JOURNAL_OUTCOME_UNKNOWN'']"

definition is_current_fixed_error_code :: "string \<Rightarrow> bool" where
  "is_current_fixed_error_code c \<longleftrightarrow> c \<in> set CURRENT_FIXED_ERROR_CODES"

record ProtocolError =
  code :: ShortErrorCode
  message :: string

definition ProtocolError_try_new :: "string \<Rightarrow> string \<Rightarrow> (IdentityError, ProtocolError) result" where
  "ProtocolError_try_new c m =
     and_then (ShortErrorCode_new c) (\<lambda>c. Inr \<lparr>code = c, message = m\<rparr>)"

definition from_valid_code :: "string \<Rightarrow> string \<Rightarrow> ProtocolError" where
  "from_valid_code c m = \<lparr>code = ShortErrorCode c, message = m\<rparr>"

definition ProtocolError_from_WorkflowError :: "WorkflowError \<Rightarrow> ProtocolError" where
  "ProtocolError_from_WorkflowError e = from_valid_code (WorkflowError_code e) (show_WorkflowError e)"

definition show_ProtocolError :: "ProtocolError \<Rightarrow> string" where
  "show_ProtocolError e = ShortErrorCode_as_str (code e) @ '': '' @ message e"

section \<open>The handshake payload (hello.rs)\<close>

definition CAPABILITY_WORKFLOW_SIGNAL_SUBMIT :: string where
  "CAPABILITY_WORKFLOW_SIGNAL_SUBMIT = ''workflow.signal.submit''"
definition CAPABILITY_WORKFLOW_SIGNAL_RECONCILE :: string where
  "CAPABILITY_WORKFLOW_SIGNAL_RECONCILE = ''workflow.signal.reconcile''"

record PackageInfo =
  package_name :: string
  package_version :: string

record HelloInfo =
  protocol_version :: u32
  journal_schema_version :: u32
  capabilities :: "string list"
  package :: PackageInfo

definition valid_capability :: "string \<Rightarrow> bool" where
  "valid_capability name \<longleftrightarrow>
     length name \<le> 128 \<and> name \<noteq> [] \<and>
     list_all (\<lambda>token.
        case token of
          [] \<Rightarrow> False
        | first # chars \<Rightarrow>
            is_ascii_lowercase first \<and>
            list_all (\<lambda>c. is_ascii_lowercase c \<or> is_ascii_digit c) chars)
       (split_on (CHR ''.'') name)"

fun check_capabilities :: "string set \<Rightarrow> string list \<Rightarrow> (string, unit) result" where
  "check_capabilities seen [] = Inr ()"
| "check_capabilities seen (c # cs) =
     (if \<not> valid_capability c
      then Inl (''capability `'' @ c @
        ''` must match ^[a-z][a-z0-9]*('' @ [CHR 0x5C] @
        ''.[a-z][a-z0-9]*)*$ (at most 128 bytes)'')
      else if c \<in> seen then Inl (''capability `'' @ c @ ''` is listed twice'')
      else check_capabilities (insert c seen) cs)"

definition HelloInfo_validate :: "HelloInfo \<Rightarrow> (string, unit) result" where
  "HelloInfo_validate info =
     (if protocol_version info = 0 then Inl ''protocolVersion must be at least 1''
      else if journal_schema_version info = 0 then Inl ''journalSchemaVersion must be at least 1''
      else check_capabilities {} (capabilities info))"

section \<open>Signal DTOs (workflow\_signal.rs)\<close>

datatype RoleDto = RoleDto_Implementation | RoleDto_Review

datatype KindDto =
    KindDto_ImplementationReady
  | KindDto_ReviewFindings
  | KindDto_ReviewPassed
  | KindDto_RepairSubmitted
  | KindDto_Blocked

datatype DigestAlgorithmDto = DigestAlgorithmDto_Sha256

record DigestDto =
  dto_algorithm :: DigestAlgorithmDto
  dto_hex :: string

record ExpectedDto =
  edto_workflow_id :: string
  edto_assignment_id :: string
  edto_attempt_id :: string
  edto_role :: RoleDto
  edto_artifact_revision :: string
  edto_candidate_digest :: DigestDto

record SignalDto =
  sdto_event_id :: string
  sdto_workflow_id :: string
  sdto_assignment_id :: string
  sdto_attempt_id :: string
  sdto_role :: RoleDto
  sdto_artifact_revision :: string
  sdto_candidate_digest :: DigestDto
  sdto_kind :: KindDto
  sdto_finding_count :: "u32 option"
  sdto_artifact_ref :: "string option"
  sdto_short_error_code :: "string option"

record SubmitPayload =
  payload_expected :: ExpectedDto
  payload_signal :: SignalDto

record ReconcilePayload =
  reconcile_signal :: SignalDto

datatype Disposition = DispositionAccepted | DispositionDuplicate

record SignalResult =
  disposition :: Disposition
  result_event_id :: EventId

datatype ReconciliationDisposition =
    ReconciliationAccepted
  | ReconciliationConflict
  | ReconciliationAbsent

record ReconciliationResult =
  reconciliation_disposition :: ReconciliationDisposition
  reconciliation_event_id :: EventId

record SignalResultDto =
  rdto_disposition :: Disposition
  rdto_event_id :: string

record ReconciliationResultDto =
  rcdto_disposition :: ReconciliationDisposition
  rcdto_event_id :: string

text \<open>The derived conversions between the payload DTOs and JSON values.\<close>

record 'v PayloadSerde =
  from_value_SubmitPayload :: "'v \<Rightarrow> (string, SubmitPayload) result"
  to_value_SubmitPayload :: "SubmitPayload \<Rightarrow> 'v"
  from_value_ReconcilePayload :: "'v \<Rightarrow> (string, ReconcilePayload) result"
  to_value_ReconcilePayload :: "ReconcilePayload \<Rightarrow> 'v"
  from_value_SignalResultDto :: "'v \<Rightarrow> (string, SignalResultDto) result"
  to_value_SignalResultDto :: "SignalResultDto \<Rightarrow> 'v"
  from_value_ReconciliationResultDto :: "'v \<Rightarrow> (string, ReconciliationResultDto) result"
  to_value_ReconciliationResultDto :: "ReconciliationResultDto \<Rightarrow> 'v"
  from_value_HelloInfo :: "'v \<Rightarrow> (string, HelloInfo) result"
  to_value_HelloInfo :: "HelloInfo \<Rightarrow> 'v"

fun DigestAlgorithm_from_dto :: "DigestAlgorithmDto \<Rightarrow> DigestAlgorithm" where
  "DigestAlgorithm_from_dto DigestAlgorithmDto_Sha256 = Sha256"

fun DigestAlgorithmDto_from :: "DigestAlgorithm \<Rightarrow> DigestAlgorithmDto" where
  "DigestAlgorithmDto_from Sha256 = DigestAlgorithmDto_Sha256"

definition DigestDto_from :: "Digest \<Rightarrow> DigestDto" where
  "DigestDto_from d = \<lparr>dto_algorithm = DigestAlgorithmDto_from (algorithm d), dto_hex = hex d\<rparr>"

fun Role_from_dto :: "RoleDto \<Rightarrow> Role" where
  "Role_from_dto RoleDto_Implementation = Implementation"
| "Role_from_dto RoleDto_Review = Review"

fun RoleDto_from :: "Role \<Rightarrow> RoleDto" where
  "RoleDto_from Implementation = RoleDto_Implementation"
| "RoleDto_from Review = RoleDto_Review"

fun SignalKind_from_dto :: "KindDto \<Rightarrow> SignalKind" where
  "SignalKind_from_dto KindDto_ImplementationReady = ImplementationReady"
| "SignalKind_from_dto KindDto_ReviewFindings = ReviewFindings"
| "SignalKind_from_dto KindDto_ReviewPassed = ReviewPassed"
| "SignalKind_from_dto KindDto_RepairSubmitted = RepairSubmitted"
| "SignalKind_from_dto KindDto_Blocked = Blocked"

fun KindDto_from :: "SignalKind \<Rightarrow> KindDto" where
  "KindDto_from ImplementationReady = KindDto_ImplementationReady"
| "KindDto_from ReviewFindings = KindDto_ReviewFindings"
| "KindDto_from ReviewPassed = KindDto_ReviewPassed"
| "KindDto_from RepairSubmitted = KindDto_RepairSubmitted"
| "KindDto_from Blocked = KindDto_Blocked"

text \<open>\<open>reject_null\<close>, over the two serde operations it calls: reading one JSON value, and reading the
  field's type from it.\<close>

definition reject_null ::
  "(string, 'v) result \<Rightarrow> ('v \<Rightarrow> bool) \<Rightarrow> ('v \<Rightarrow> (string, 'a) result) \<Rightarrow> (string, 'a option) result" where
  "reject_null value is_null deserialize =
     and_then value (\<lambda>value.
       if is_null value then Inl ''null is not allowed; omit the field instead''
       else map_ok Some (deserialize value))"

definition field ::
  "string \<Rightarrow> string \<Rightarrow> (IdentityError, 'a) result \<Rightarrow> (ProtocolError, 'a) result" where
  "field c name r = map_err (\<lambda>e. from_valid_code c (name @ '': '' @ show_IdentityError e)) r"

definition digest :: "string \<Rightarrow> string \<Rightarrow> DigestDto \<Rightarrow> (ProtocolError, Digest) result" where
  "digest c name dto =
     field c name (Digest_new (DigestAlgorithm_from_dto (dto_algorithm dto)) (dto_hex dto))"

definition decode_signal :: "SignalDto \<Rightarrow> (ProtocolError, WorkflowSignal) result" where
  "decode_signal dto =
     (let c = ''INVALID_SIGNAL'' in
      and_then (field c ''signal.eventId'' (EventId_new (sdto_event_id dto))) (\<lambda>ev.
      and_then (field c ''signal.workflowId'' (WorkflowId_new (sdto_workflow_id dto))) (\<lambda>wf.
      and_then (field c ''signal.assignmentId'' (AssignmentId_new (sdto_assignment_id dto))) (\<lambda>asg.
      and_then (field c ''signal.attemptId'' (AttemptId_new (sdto_attempt_id dto))) (\<lambda>att.
      and_then (field c ''signal.artifactRevision''
                  (ArtifactRevision_new (sdto_artifact_revision dto))) (\<lambda>rev.
      and_then (digest c ''signal.candidateDigest'' (sdto_candidate_digest dto)) (\<lambda>dg.
      and_then (transpose_map (\<lambda>v. field c ''signal.artifactRef'' (ArtifactRef_new v))
                  (sdto_artifact_ref dto)) (\<lambda>aref.
      and_then (transpose_map (\<lambda>v. field c ''signal.shortErrorCode'' (ShortErrorCode_new v))
                  (sdto_short_error_code dto)) (\<lambda>sec.
      map_err ProtocolError_from_WorkflowError
        (WorkflowSignal_validate
           \<lparr>event_id = ev, workflow_id = wf, assignment_id = asg, attempt_id = att,
            role = Role_from_dto (sdto_role dto), artifact_revision = rev, candidate_digest = dg,
            kind = SignalKind_from_dto (sdto_kind dto), finding_count = sdto_finding_count dto,
            artifact_ref = aref, short_error_code = sec\<rparr>))))))))))"

definition encode_signal :: "WorkflowSignal \<Rightarrow> SignalDto" where
  "encode_signal s =
     (let p = parts s in
      \<lparr>sdto_event_id = EventId_as_str (event_id p),
       sdto_workflow_id = WorkflowId_as_str (workflow_id p),
       sdto_assignment_id = AssignmentId_as_str (assignment_id p),
       sdto_attempt_id = AttemptId_as_str (attempt_id p),
       sdto_role = RoleDto_from (role p),
       sdto_artifact_revision = ArtifactRevision_as_str (artifact_revision p),
       sdto_candidate_digest = DigestDto_from (candidate_digest p),
       sdto_kind = KindDto_from (kind p),
       sdto_finding_count = finding_count p,
       sdto_artifact_ref = map_option ArtifactRef_as_str (artifact_ref p),
       sdto_short_error_code = map_option ShortErrorCode_as_str (short_error_code p)\<rparr>)"

definition decode_expected :: "ExpectedDto \<Rightarrow> (ProtocolError, ExpectedAssignment) result" where
  "decode_expected dto =
     (let c = INVALID_EXPECTATION in
      and_then (field c ''expected.workflowId'' (WorkflowId_new (edto_workflow_id dto))) (\<lambda>wf.
      and_then (field c ''expected.assignmentId'' (AssignmentId_new (edto_assignment_id dto))) (\<lambda>asg.
      and_then (field c ''expected.attemptId'' (AttemptId_new (edto_attempt_id dto))) (\<lambda>att.
      and_then (field c ''expected.artifactRevision''
                  (ArtifactRevision_new (edto_artifact_revision dto))) (\<lambda>rev.
      and_then (digest c ''expected.candidateDigest'' (edto_candidate_digest dto)) (\<lambda>dg.
      Inr \<lparr>expected_workflow_id = wf, expected_assignment_id = asg, expected_attempt_id = att,
           expected_role = Role_from_dto (edto_role dto), expected_artifact_revision = rev,
           expected_candidate_digest = dg\<rparr>))))))"

definition encode_expected :: "ExpectedAssignment \<Rightarrow> ExpectedDto" where
  "encode_expected x =
     \<lparr>edto_workflow_id = WorkflowId_as_str (expected_workflow_id x),
      edto_assignment_id = AssignmentId_as_str (expected_assignment_id x),
      edto_attempt_id = AttemptId_as_str (expected_attempt_id x),
      edto_role = RoleDto_from (expected_role x),
      edto_artifact_revision = ArtifactRevision_as_str (expected_artifact_revision x),
      edto_candidate_digest = DigestDto_from (expected_candidate_digest x)\<rparr>"

definition shape_error :: "(string, 'a) result \<Rightarrow> (ProtocolError, 'a) result" where
  "shape_error r = map_err (from_valid_code INVALID_PAYLOAD) r"

definition decode_submit ::
  "('v, 'a) PayloadSerde_scheme \<Rightarrow> 'v \<Rightarrow> (ProtocolError, Command) result" where
  "decode_submit S payload =
     and_then (shape_error (from_value_SubmitPayload S payload)) (\<lambda>payload.
     and_then (decode_expected (payload_expected payload)) (\<lambda>expected.
     and_then (decode_signal (payload_signal payload)) (\<lambda>signal.
     Inr (SubmitSignal signal expected))))"

fun encode_submit :: "('v, 'a) PayloadSerde_scheme \<Rightarrow> Command \<Rightarrow> 'v" where
  "encode_submit S (SubmitSignal s x) =
     to_value_SubmitPayload S
       \<lparr>payload_expected = encode_expected x, payload_signal = encode_signal s\<rparr>"

definition decode_reconcile ::
  "('v, 'a) PayloadSerde_scheme \<Rightarrow> 'v \<Rightarrow> (ProtocolError, WorkflowSignal) result" where
  "decode_reconcile S payload =
     and_then (shape_error (from_value_ReconcilePayload S payload)) (\<lambda>payload.
     decode_signal (reconcile_signal payload))"

definition encode_reconcile :: "('v, 'a) PayloadSerde_scheme \<Rightarrow> WorkflowSignal \<Rightarrow> 'v" where
  "encode_reconcile S s = to_value_ReconcilePayload S \<lparr>reconcile_signal = encode_signal s\<rparr>"

definition decode_result ::
  "('v, 'a) PayloadSerde_scheme \<Rightarrow> 'v \<Rightarrow> (ProtocolError, SignalResult) result" where
  "decode_result S payload =
     and_then (shape_error (from_value_SignalResultDto S payload)) (\<lambda>dto.
     and_then (field INVALID_PAYLOAD ''eventId'' (EventId_new (rdto_event_id dto))) (\<lambda>i.
     Inr \<lparr>disposition = rdto_disposition dto, result_event_id = i\<rparr>))"

definition encode_result :: "('v, 'a) PayloadSerde_scheme \<Rightarrow> SignalResult \<Rightarrow> 'v" where
  "encode_result S r =
     to_value_SignalResultDto S
       \<lparr>rdto_disposition = disposition r, rdto_event_id = EventId_as_str (result_event_id r)\<rparr>"

definition decode_reconciliation_result ::
  "('v, 'a) PayloadSerde_scheme \<Rightarrow> 'v \<Rightarrow> (ProtocolError, ReconciliationResult) result" where
  "decode_reconciliation_result S payload =
     and_then (shape_error (from_value_ReconciliationResultDto S payload)) (\<lambda>dto.
     and_then (field INVALID_PAYLOAD ''eventId'' (EventId_new (rcdto_event_id dto))) (\<lambda>i.
     Inr \<lparr>reconciliation_disposition = rcdto_disposition dto, reconciliation_event_id = i\<rparr>))"

definition encode_reconciliation_result ::
  "('v, 'a) PayloadSerde_scheme \<Rightarrow> ReconciliationResult \<Rightarrow> 'v" where
  "encode_reconciliation_result S r =
     to_value_ReconciliationResultDto S
       \<lparr>rcdto_disposition = reconciliation_disposition r,
        rcdto_event_id = EventId_as_str (reconciliation_event_id r)\<rparr>"

section \<open>Codes\<close>

lemma short_code_grammar_fixed:
  "short_code_grammar ''INVALID_SIGNAL''" "short_code_grammar INVALID_PAYLOAD"
  "short_code_grammar INVALID_EXPECTATION" "short_code_grammar INVALID_ENVELOPE"
  "short_code_grammar UNKNOWN_KIND" "short_code_grammar REQUEST_TOO_LARGE"
  "short_code_grammar PROTOCOL_VERSION_UNSUPPORTED" "short_code_grammar HANDLER_TIMEOUT"
  "short_code_grammar INTERNAL" "short_code_grammar CAPABILITY_UNSUPPORTED"
  by (simp_all add: code_defs short_code_grammar_def byte_defs)

lemma WorkflowError_code_grammar: "short_code_grammar (WorkflowError_code e)"
  by (cases e) (simp_all add: short_code_grammar_def byte_defs)

definition wf_ProtocolError :: "ProtocolError \<Rightarrow> bool" where
  "wf_ProtocolError e \<longleftrightarrow> wf_ShortErrorCode (code e)"

abbreviation code_of :: "ProtocolError \<Rightarrow> string" where
  "code_of e \<equiv> ShortErrorCode_as_str (code e)"

lemma from_valid_code_simps [simp]:
  "code_of (from_valid_code c m) = c" "message (from_valid_code c m) = m"
  "wf_ProtocolError (from_valid_code c m) \<longleftrightarrow> short_code_grammar c"
  by (simp_all add: from_valid_code_def wf_ProtocolError_def wf_ShortErrorCode_def)

lemma try_new_from_valid_code:
  "short_code_grammar c \<Longrightarrow> ProtocolError_try_new c m = Inr (from_valid_code c m)"
  by (simp add: ProtocolError_try_new_def ShortErrorCode_new_ok [THEN iffD2] from_valid_code_def)

lemma ProtocolError_from_WorkflowError_wf [simp]:
  "wf_ProtocolError (ProtocolError_from_WorkflowError e)"
  by (simp add: ProtocolError_from_WorkflowError_def WorkflowError_code_grammar)

section \<open>Conversions\<close>

lemma dto_round_trips [simp]:
  "Role_from_dto (RoleDto_from r) = r" "RoleDto_from (Role_from_dto rd) = rd"
  "SignalKind_from_dto (KindDto_from k) = k" "KindDto_from (SignalKind_from_dto kd) = kd"
  "DigestAlgorithm_from_dto (DigestAlgorithmDto_from a) = a"
  "DigestAlgorithmDto_from (DigestAlgorithm_from_dto ad) = ad"
       apply (cases r; simp)
      apply (cases rd; simp)
     apply (cases k; simp)
    apply (cases kd; simp)
   apply (cases a; simp)
  apply (cases ad; simp)
  done

lemma field_Inr [simp]: "field c n r = Inr x \<longleftrightarrow> r = Inr x"
  by (simp add: field_def)

lemma field_Inl: "field c n r = Inl e \<Longrightarrow> code_of e = c"
  by (auto simp: field_def map_err_eq_Inl)

lemma field_wf: "field c n r = Inl e \<Longrightarrow> short_code_grammar c \<Longrightarrow> wf_ProtocolError e"
  by (auto simp: field_def map_err_eq_Inl)

lemma digest_Inr: "digest c n dto = Inr d \<longleftrightarrow> wf_Digest d \<and> DigestDto_from d = dto"
  by (cases dto; cases d)
    (auto simp: digest_def Digest_new_ok DigestDto_from_def wf_Digest_def)

lemma digest_Inl: "digest c n dto = Inl e \<Longrightarrow> code_of e = c"
  by (auto simp: digest_def dest: field_Inl)

lemma transpose_artifact_ref:
  "transpose_map (\<lambda>v. field c n (ArtifactRef_new v)) o1 = Inr r \<longleftrightarrow>
     pred_option wf_ArtifactRef r \<and> map_option ArtifactRef_as_str r = o1"
  by (cases o1; cases r) (auto simp: map_ok_eq_Inr identifier_new_ok)

lemma transpose_short_code:
  "transpose_map (\<lambda>v. field c n (ShortErrorCode_new v)) o1 = Inr r \<longleftrightarrow>
     pred_option wf_ShortErrorCode r \<and> map_option ShortErrorCode_as_str r = o1"
  by (cases o1; cases r) (auto simp: map_ok_eq_Inr ShortErrorCode_new_ok wf_ShortErrorCode_def)

lemma transpose_field_Inl: "transpose_map (\<lambda>v. field c n (g v)) o1 = Inl e \<Longrightarrow> code_of e = c"
  by (cases o1) (auto dest: field_Inl)

lemma identifier_as_str:
  "WorkflowId_new s = Inr w \<longleftrightarrow> wf_WorkflowId w \<and> WorkflowId_as_str w = s"
  "AssignmentId_new s = Inr a \<longleftrightarrow> wf_AssignmentId a \<and> AssignmentId_as_str a = s"
  "AttemptId_new s = Inr t \<longleftrightarrow> wf_AttemptId t \<and> AttemptId_as_str t = s"
  "ArtifactRevision_new s = Inr r \<longleftrightarrow> wf_ArtifactRevision r \<and> ArtifactRevision_as_str r = s"
  "EventId_new s = Inr e \<longleftrightarrow> wf_EventId e \<and> EventId_as_str e = s"
  by (auto simp: identifier_new_ok)

text \<open>Decoding a DTO is exactly the inverse of encoding on the well-formed signals: a decoded signal
  is well-formed and encodes to the DTO it came from, and every well-formed signal is decoded from
  its encoding.\<close>

lemma decode_signal_iff: "decode_signal dto = Inr s \<longleftrightarrow> wf_signal s \<and> encode_signal s = dto"
proof
  assume "decode_signal dto = Inr s"
  then show "wf_signal s \<and> encode_signal s = dto"
    by (auto simp: decode_signal_def Let_def and_then_eq_Inr identifier_as_str digest_Inr
        transpose_artifact_ref transpose_short_code validate_ok wf_signal_def wf_parts_def
        encode_signal_def)
next
  assume s: "wf_signal s \<and> encode_signal s = dto"
  obtain p where p: "s = WorkflowSignal p" by (cases s)
  show "decode_signal dto = Inr s"
    using s by (cases p) (auto simp: p decode_signal_def Let_def and_then_eq_Inr identifier_as_str
        digest_Inr transpose_artifact_ref transpose_short_code validate_ok wf_signal_def
        wf_parts_def encode_signal_def)
qed

lemma decode_signal_error: "decode_signal dto = Inl e \<Longrightarrow> code_of e = ''INVALID_SIGNAL''"
proof -
  assume "decode_signal dto = Inl e"
  moreover have "code_of (ProtocolError_from_WorkflowError w) = ''INVALID_SIGNAL''"
    if "WorkflowSignal_validate p = Inl w" for p w
    using that by (auto simp: WorkflowSignal_validate_def map_err_eq_Inl
        ProtocolError_from_WorkflowError_def)
  ultimately show ?thesis
    by (auto simp: decode_signal_def Let_def and_then_eq_Inl map_err_eq_Inl
        dest!: field_Inl digest_Inl transpose_field_Inl)
qed

definition wf_expected :: "ExpectedAssignment \<Rightarrow> bool" where
  "wf_expected x \<longleftrightarrow>
     wf_WorkflowId (expected_workflow_id x) \<and> wf_AssignmentId (expected_assignment_id x) \<and>
     wf_AttemptId (expected_attempt_id x) \<and> wf_ArtifactRevision (expected_artifact_revision x) \<and>
     wf_Digest (expected_candidate_digest x)"

lemma decode_expected_iff: "decode_expected dto = Inr x \<longleftrightarrow> wf_expected x \<and> encode_expected x = dto"
  by (cases dto; cases x)
    (auto simp: decode_expected_def Let_def and_then_eq_Inr identifier_as_str digest_Inr
      wf_expected_def encode_expected_def)

lemma decode_expected_error: "decode_expected dto = Inl e \<Longrightarrow> code_of e = INVALID_EXPECTATION"
  by (auto simp: decode_expected_def Let_def and_then_eq_Inl dest!: field_Inl digest_Inl)

fun wf_command :: "Command \<Rightarrow> bool" where
  "wf_command (SubmitSignal s x) \<longleftrightarrow> wf_signal s \<and> wf_expected x"

lemma shape_error_simps [simp]:
  "shape_error r = Inr x \<longleftrightarrow> r = Inr x"
  "shape_error r = Inl e \<longleftrightarrow> (\<exists>m. r = Inl m \<and> e = from_valid_code INVALID_PAYLOAD m)"
  by (auto simp: shape_error_def map_err_eq_Inl)

lemma decode_encode [simp]:
  "wf_signal s \<Longrightarrow> decode_signal (encode_signal s) = Inr s"
  "wf_expected x \<Longrightarrow> decode_expected (encode_expected x) = Inr x"
  by (simp_all add: decode_signal_iff decode_expected_iff)

text \<open>The documented behaviour of serde's derived conversions the protocol relies on: reading back
  what was written.\<close>

definition payload_serde_laws :: "('v, 'a) PayloadSerde_scheme \<Rightarrow> bool" where
  "payload_serde_laws S \<longleftrightarrow>
     (\<forall>d. from_value_SubmitPayload S (to_value_SubmitPayload S d) = Inr d) \<and>
     (\<forall>d. from_value_ReconcilePayload S (to_value_ReconcilePayload S d) = Inr d) \<and>
     (\<forall>d. from_value_SignalResultDto S (to_value_SignalResultDto S d) = Inr d) \<and>
     (\<forall>d. from_value_ReconciliationResultDto S (to_value_ReconciliationResultDto S d) = Inr d) \<and>
     (\<forall>d. from_value_HelloInfo S (to_value_HelloInfo S d) = Inr d)"

section \<open>Handshake validation\<close>

lemma check_capabilities_ok:
  "check_capabilities seen cs = Inr () \<longleftrightarrow>
     list_all valid_capability cs \<and> distinct cs \<and> set cs \<inter> seen = {}"
  by (induction cs arbitrary: seen) auto

section \<open>Properties\<close>

text \<open>A payload value as the DTO it was written from: an instance of the conversions for evaluation.\<close>

datatype example_value =
    VSubmit SubmitPayload | VReconcile ReconcilePayload | VResult SignalResultDto
  | VReconciliation ReconciliationResultDto | VHello HelloInfo

definition example_serde :: "example_value PayloadSerde" where
  "example_serde =
     \<lparr>from_value_SubmitPayload = (\<lambda>v. case v of VSubmit d \<Rightarrow> Inr d | _ \<Rightarrow> Inl ''shape''),
      to_value_SubmitPayload = VSubmit,
      from_value_ReconcilePayload = (\<lambda>v. case v of VReconcile d \<Rightarrow> Inr d | _ \<Rightarrow> Inl ''shape''),
      to_value_ReconcilePayload = VReconcile,
      from_value_SignalResultDto = (\<lambda>v. case v of VResult d \<Rightarrow> Inr d | _ \<Rightarrow> Inl ''shape''),
      to_value_SignalResultDto = VResult,
      from_value_ReconciliationResultDto =
        (\<lambda>v. case v of VReconciliation d \<Rightarrow> Inr d | _ \<Rightarrow> Inl ''shape''),
      to_value_ReconciliationResultDto = VReconciliation,
      from_value_HelloInfo = (\<lambda>v. case v of VHello d \<Rightarrow> Inr d | _ \<Rightarrow> Inl ''shape''),
      to_value_HelloInfo = VHello\<rparr>"

lemma example_serde_laws: "payload_serde_laws example_serde"
  by (simp add: payload_serde_laws_def example_serde_def)

lemma example_expected_wf: "wf_expected example_expected"
  by (simp add: example_defs wf_expected_def wf_identity_defs identifier_grammar_def
      digest_grammar_def byte_defs list_all_iff)

text \<open>C33: payloads survive the wire. A well-formed command, signal, submission result and
  reconciliation result is decoded from its encoded payload unchanged.\<close>

theorem payload_round_trip:
  assumes "payload_serde_laws S"
  shows "(wf_command c \<longrightarrow> decode_submit S (encode_submit S c) = Inr c) \<and>
    (wf_signal s \<longrightarrow> decode_reconcile S (encode_reconcile S s) = Inr s) \<and>
    (wf_EventId (result_event_id r) \<longrightarrow> decode_result S (encode_result S r) = Inr r) \<and>
    (wf_EventId (reconciliation_event_id q) \<longrightarrow>
       decode_reconciliation_result S (encode_reconciliation_result S q) = Inr q)"
proof -
  have "wf_command c \<longrightarrow> decode_submit S (encode_submit S c) = Inr c"
    using assms
    by (cases c) (simp add: decode_submit_def payload_serde_laws_def shape_error_def)
  moreover have "wf_signal s \<longrightarrow> decode_reconcile S (encode_reconcile S s) = Inr s"
    using assms
    by (simp add: decode_reconcile_def encode_reconcile_def payload_serde_laws_def shape_error_def)
  ultimately show ?thesis
    using assms by (simp add: decode_result_def encode_result_def decode_reconciliation_result_def
        encode_reconciliation_result_def payload_serde_laws_def shape_error_def field_def)
qed

theorem payload_round_trip_witness:
  "payload_serde_laws example_serde \<and>
   decode_submit example_serde (encode_submit example_serde (SubmitSignal example_signal example_expected)) =
     Inr (SubmitSignal example_signal example_expected) \<and>
   decode_reconcile example_serde (encode_reconcile example_serde example_review) = Inr example_review"
  using payload_round_trip [OF example_serde_laws, of "SubmitSignal example_signal example_expected" example_review]
    example_serde_laws example_wf example_expected_wf by simp

text \<open>C34: what \<open>decode_submit\<close> accepts and how it refuses. It accepts exactly the payloads of the
  closed shape whose expectation and signal are the encodings of well-formed values, and returns
  those values; a wrong shape is \<open>INVALID_PAYLOAD\<close>, a well-shaped payload with an invalid expectation
  is \<open>INVALID_EXPECTATION\<close> whatever its signal is, and everything else is \<open>INVALID_SIGNAL\<close>.\<close>

theorem decode_submit_exact:
  "(decode_submit S v = Inr (SubmitSignal s x) \<longleftrightarrow>
      wf_command (SubmitSignal s x) \<and>
      from_value_SubmitPayload S v =
        Inr \<lparr>payload_expected = encode_expected x, payload_signal = encode_signal s\<rparr>) \<and>
   (decode_submit S v = Inl e \<longrightarrow>
      wf_ProtocolError e \<and>
      code_of e =
        (case from_value_SubmitPayload S v of
           Inl _ \<Rightarrow> ''INVALID_PAYLOAD''
         | Inr p \<Rightarrow>
             if \<nexists>y. wf_expected y \<and> encode_expected y = payload_expected p
             then ''INVALID_EXPECTATION'' else ''INVALID_SIGNAL''))"
proof (intro conjI impI)
  show "decode_submit S v = Inr (SubmitSignal s x) \<longleftrightarrow> wf_command (SubmitSignal s x) \<and>
      from_value_SubmitPayload S v =
        Inr \<lparr>payload_expected = encode_expected x, payload_signal = encode_signal s\<rparr>"
    by (auto simp: decode_submit_def and_then_eq_Inr decode_signal_iff decode_expected_iff
        intro: SubmitPayload.equality)
next
  assume err: "decode_submit S v = Inl e"
  show code: "code_of e =
        (case from_value_SubmitPayload S v of
           Inl _ \<Rightarrow> ''INVALID_PAYLOAD''
         | Inr p \<Rightarrow>
             if \<nexists>y. wf_expected y \<and> encode_expected y = payload_expected p
             then ''INVALID_EXPECTATION'' else ''INVALID_SIGNAL'')"
  proof (cases "from_value_SubmitPayload S v")
    case (Inl m)
    with err show ?thesis by (auto simp: decode_submit_def shape_error_def INVALID_PAYLOAD_def)
  next
    case (Inr p)
    show ?thesis
    proof (cases "decode_expected (payload_expected p)")
      case bad: (Inl m)
      have "\<nexists>y. wf_expected y \<and> encode_expected y = payload_expected p"
        using bad decode_expected_iff by (metis sum.distinct(1))
      with Inr bad err show ?thesis
        by (auto simp: decode_submit_def shape_error_def INVALID_EXPECTATION_def
            dest: decode_expected_error)
    next
      case ok: (Inr x')
      then have "\<exists>y. wf_expected y \<and> encode_expected y = payload_expected p"
        by (auto simp: decode_expected_iff)
      with Inr ok err show ?thesis
        by (auto simp: decode_submit_def shape_error_def and_then_eq_Inl dest: decode_signal_error)
    qed
  qed
  have "short_code_grammar (code_of e)"
    unfolding code using short_code_grammar_fixed(1-3)
    by (auto simp: INVALID_PAYLOAD_def INVALID_EXPECTATION_def split: sum.split)
  then show "wf_ProtocolError e" by (simp add: wf_ProtocolError_def wf_ShortErrorCode_def)
qed

theorem decode_submit_exact_witness:
  "\<exists>e. decode_submit example_serde
      (VSubmit \<lparr>payload_expected = (encode_expected example_expected)\<lparr>edto_workflow_id := []\<rparr>,
                payload_signal = encode_signal example_signal\<rparr>) = Inl e \<and>
    code_of e = ''INVALID_EXPECTATION''"
proof -
  let ?x = "(encode_expected example_expected)\<lparr>edto_workflow_id := []\<rparr>"
  let ?v = "VSubmit \<lparr>payload_expected = ?x, payload_signal = encode_signal example_signal\<rparr>"
  obtain e where e: "decode_submit example_serde ?v = Inl e"
    by (simp add: decode_submit_def example_serde_def shape_error_def decode_expected_def Let_def
        WorkflowId_new_def validate_identifier_def field_def)
  have "\<nexists>y. wf_expected y \<and> encode_expected y = ?x"
    by (auto simp: encode_expected_def wf_expected_def wf_WorkflowId_def identifier_grammar_def
        dest: arg_cong [of _ _ edto_workflow_id])
  then show ?thesis
    using e decode_submit_exact [of example_serde ?v undefined undefined e]
    by (simp add: example_serde_def)
qed


end
