(* ===== verification/Envelope.thy ===== *)
theory Envelope
  imports Protocol Json_Token
begin

text \<open>
  \<^verbatim>\<open>crates/aizign-protocol/src/envelope.rs\<close>: request and response frames. Decoding runs a lenient
  first pass over the raw tokens (size, UTF-8, grammar, correlation, protocol name, version axis) and
  then the typed passes. The serde and serde\_json operations it calls extend the parameter record
  of the payload conversions; \<open>'m\<close> is the type of JSON object maps. The two \<open>unreachable!\<close> arms are
  the value \<open>None\<close> of the outer option, which the theorems exclude.
\<close>

section \<open>Data\<close>

definition PROTOCOL_NAME :: string where "PROTOCOL_NAME = ''aizign''"
definition PROTOCOL_VERSION :: u32 where "PROTOCOL_VERSION = 1"
definition BOOTSTRAP_ENVELOPE_VERSION :: u32 where "BOOTSTRAP_ENVELOPE_VERSION = 1"
definition MAX_FRAME_BYTES :: nat where "MAX_FRAME_BYTES = 64 * 1024"
definition MAX_REQUEST_BYTES :: nat where "MAX_REQUEST_BYTES = MAX_FRAME_BYTES"
definition MAX_REQUEST_ID_LEN :: nat where "MAX_REQUEST_ID_LEN = 128"
definition KIND_HELLO :: string where "KIND_HELLO = ''hello''"
definition KIND_WORKFLOW_SIGNAL_SUBMIT :: string where
  "KIND_WORKFLOW_SIGNAL_SUBMIT = ''workflow.signal.submit''"
definition KIND_WORKFLOW_SIGNAL_RECONCILE :: string where
  "KIND_WORKFLOW_SIGNAL_RECONCILE = ''workflow.signal.reconcile''"

lemmas kind_defs = KIND_HELLO_def KIND_WORKFLOW_SIGNAL_SUBMIT_def KIND_WORKFLOW_SIGNAL_RECONCILE_def

datatype RequestKind =
    Hello
  | SubmitWorkflowSignal Command
  | ReconcileWorkflowSignal WorkflowSignal

record Request =
  request_id :: string
  request_kind :: RequestKind

fun RequestKind_name :: "RequestKind \<Rightarrow> string" where
  "RequestKind_name Hello = KIND_HELLO"
| "RequestKind_name (SubmitWorkflowSignal _) = KIND_WORKFLOW_SIGNAL_SUBMIT"
| "RequestKind_name (ReconcileWorkflowSignal _) = KIND_WORKFLOW_SIGNAL_RECONCILE"

datatype ResponseVersion = Bootstrap u32 | AcceptedOperation u32

definition ResponseVersion_bootstrap :: ResponseVersion where
  "ResponseVersion_bootstrap = Bootstrap BOOTSTRAP_ENVELOPE_VERSION"
definition ResponseVersion_operation :: ResponseVersion where
  "ResponseVersion_operation = AcceptedOperation PROTOCOL_VERSION"

fun wire :: "ResponseVersion \<Rightarrow> u32" where
  "wire (Bootstrap v) = v"
| "wire (AcceptedOperation v) = v"

record DecodeFailure =
  failed_request_id :: "string option"
  failed_kind :: "string option"
  failed_version :: ResponseVersion
  failed_error :: ProtocolError

datatype ResponseBody =
    BodyHello HelloInfo
  | BodyWorkflowSignal SignalResult
  | BodyReconciliation ReconciliationResult
  | BodyError ProtocolError

record Response =
  response_version :: ResponseVersion
  response_request_id :: "string option"
  response_kind :: "string option"
  response_body :: ResponseBody

record 'm RequestEnvelope =
  env_protocol :: string
  env_version :: u32
  env_request_id :: string
  env_kind :: string
  env_payload :: 'm

record ErrorDto =
  error_dto_code :: string
  error_dto_message :: string

record 'v ResponseEnvelope =
  renv_protocol :: string
  renv_version :: u32
  renv_request_id :: "string option"
  renv_kind :: "string option"
  renv_ok :: bool
  renv_payload :: "'v option"
  renv_error :: "ErrorDto option"

record ('v, 'm) Serde = "'v PayloadSerde" +
  decode_string :: "string \<Rightarrow> string option"
  from_str_RequestEnvelope :: "string \<Rightarrow> (string, 'm RequestEnvelope) result"
  to_string_RequestEnvelope :: "'m RequestEnvelope \<Rightarrow> string"
  from_str_ResponseEnvelope :: "string \<Rightarrow> (string, 'v ResponseEnvelope) result"
  to_string_ResponseEnvelope :: "'v ResponseEnvelope \<Rightarrow> string"
  Value_Object :: "'m \<Rightarrow> 'v"
  Value_as_object :: "'v \<Rightarrow> 'm option"
  Map_new :: 'm
  Map_is_empty :: "'m \<Rightarrow> bool"

section \<open>The lenient first pass\<close>

definition valid_request_id :: "string \<Rightarrow> bool" where
  "valid_request_id s \<longleftrightarrow>
     s \<noteq> [] \<and> length s \<le> MAX_REQUEST_ID_LEN \<and>
     first_refused
       (\<lambda>index b. is_ascii_alphanumeric b \<or> (index > 0 \<and> b \<in> set ''._:-'')) 0 s = None"

definition parse_version_token :: "string option \<Rightarrow> u32 option" where
  "parse_version_token token =
     (case token of
        None \<Rightarrow> None
      | Some t \<Rightarrow> if starts_with t ''-'' then None else map_option word_of_nat (parse_u32 t))"

fun probe_string :: "ProbeValue option \<Rightarrow> string option" where
  "probe_string (Some (ProbeString s)) = Some s"
| "probe_string _ = None"

fun probe_number :: "ProbeValue option \<Rightarrow> string option" where
  "probe_number (Some (ProbeNumber s)) = Some s"
| "probe_number _ = None"

fun probe_boolean :: "ProbeValue option \<Rightarrow> bool option" where
  "probe_boolean (Some (ProbeBoolean b)) = Some b"
| "probe_boolean _ = None"

record Recovered =
  rec_request_id :: "string option"
  rec_kind :: "string option"
  rec_version :: ResponseVersion
  rec_typed_text :: string
  rec_envelope_text :: string
  rec_out_of_range :: bool
  rec_exceeds_depth :: bool

definition Recovered_fail :: "Recovered \<Rightarrow> ProtocolError \<Rightarrow> DecodeFailure" where
  "Recovered_fail r e =
     \<lparr>failed_request_id = rec_request_id r, failed_kind = rec_kind r,
      failed_version = rec_version r, failed_error = e\<rparr>"

definition recover :: "Scan \<Rightarrow> ResponseVersion \<Rightarrow> Recovered" where
  "recover scan version =
     (let correlation_safe = (correlation_safety scan = Safe) in
      \<lparr>rec_request_id =
         (if correlation_safe
          then (case probe_string (top_level_values scan ''requestId'') of
                  Some s \<Rightarrow> if valid_request_id s then Some s else None
                | None \<Rightarrow> None)
          else None),
       rec_kind =
         (if correlation_safe then probe_string (top_level_values scan ''kind'') else None),
       rec_version = version,
       rec_typed_text = typed_text scan,
       rec_envelope_text = envelope_text scan,
       rec_out_of_range = payload_integer_out_of_range scan,
       rec_exceeds_depth = payload_exceeds_typed_depth scan\<rparr>)"

definition failure_code :: "Failure \<Rightarrow> string" where
  "failure_code f =
     (if failure_kind f = NoncanonicalNumber \<and> failure_in_payload f
      then INVALID_PAYLOAD else INVALID_ENVELOPE)"

definition utf8_bom :: string where
  "utf8_bom = [CHR 0xEF, CHR 0xBB, CHR 0xBF]"

definition quoted :: "string \<Rightarrow> string" where
  "quoted s = [CHR 0x22] @ s @ [CHR 0x22]"

definition protocol_name_error :: ProtocolError where
  "protocol_name_error =
     from_valid_code INVALID_ENVELOPE (''protocol must be '' @ quoted PROTOCOL_NAME)"

definition version_range_message :: string where
  "version_range_message = ''version must be an integer between 0 and 4294967295''"

text \<open>The checks both decoders make before anything can be addressed: the error of the first that
  fails, or the scan.\<close>

definition scan_frame ::
  "(string \<Rightarrow> string option) \<Rightarrow> bytes \<Rightarrow> (ProtocolError, Scan) result" where
  "scan_frame decode frame =
     and_then (map_err (from_valid_code INVALID_ENVELOPE) (from_utf8 frame)) (\<lambda>text.
     if starts_with text utf8_bom
     then Inl (from_valid_code INVALID_ENVELOPE ''UTF-8 BOM is not allowed before a JSON frame'')
     else
       let scan = scan_json_tokens decode text in
       case syntax_error scan of
         Some m \<Rightarrow> Inl (from_valid_code INVALID_ENVELOPE m)
       | None \<Rightarrow>
           if \<not> top_level_object scan
           then Inl (from_valid_code INVALID_ENVELOPE ''frame must be a JSON object'')
           else Inr scan)"

definition unaddressed :: "ResponseVersion \<Rightarrow> ProtocolError \<Rightarrow> DecodeFailure" where
  "unaddressed version e =
     \<lparr>failed_request_id = None, failed_kind = None, failed_version = version, failed_error = e\<rparr>"

definition probe ::
  "('v, 'm, 'a) Serde_scheme \<Rightarrow> bytes \<Rightarrow> (DecodeFailure, Recovered) result" where
  "probe S frame =
     (if length frame > MAX_REQUEST_BYTES
      then Inl (unaddressed ResponseVersion_bootstrap
             (from_valid_code REQUEST_TOO_LARGE
                (''request is '' @ show_nat (length frame) @ '' bytes; at most '' @
                 show_nat MAX_REQUEST_BYTES @ '' allowed'')))
      else
        and_then (map_err (unaddressed ResponseVersion_bootstrap)
                    (scan_frame (decode_string S) frame)) (\<lambda>scan.
        let recovered = recover scan ResponseVersion_bootstrap in
        case failure scan of
          Some f \<Rightarrow>
            Inl (Recovered_fail recovered (from_valid_code (failure_code f) (failure_message f)))
        | None \<Rightarrow>
            if probe_string (top_level_values scan ''protocol'') \<noteq> Some PROTOCOL_NAME
            then Inl (Recovered_fail recovered
                   protocol_name_error)
            else
              (case parse_version_token (probe_number (top_level_values scan ''version'')) of
                 None \<Rightarrow>
                   Inl (Recovered_fail recovered
                     (from_valid_code INVALID_ENVELOPE version_range_message))
               | Some version \<Rightarrow>
                   (case rec_kind recovered of
                      None \<Rightarrow> Inr recovered
                    | Some k \<Rightarrow>
                        let accepted = (if k = KIND_HELLO then BOOTSTRAP_ENVELOPE_VERSION
                                        else PROTOCOL_VERSION) in
                        if version = accepted then
                          Inr (if k \<noteq> KIND_HELLO
                               then recovered\<lparr>rec_version := AcceptedOperation accepted\<rparr>
                               else recovered)
                        else
                          Inl (Recovered_fail recovered
                            (from_valid_code PROTOCOL_VERSION_UNSUPPORTED
                               (''protocol version '' @ show_nat (unat version) @
                                '' is not supported; this axis speaks '' @
                                show_nat (unat accepted))))))))"

section \<open>Requests\<close>

definition registered_kind :: "string \<Rightarrow> bool" where
  "registered_kind k \<longleftrightarrow>
     k \<in> {KIND_HELLO, KIND_WORKFLOW_SIGNAL_SUBMIT, KIND_WORKFLOW_SIGNAL_RECONCILE}"

definition out_of_range_error :: ProtocolError where
  "out_of_range_error =
     from_valid_code INVALID_PAYLOAD ''payload integer is outside the unsigned 32-bit range''"

definition depth_error :: ProtocolError where
  "depth_error =
     from_valid_code INVALID_PAYLOAD ''payload does not match the bounded Protocol v1 shape''"

definition unknown_kind_error :: "string \<Rightarrow> ProtocolError" where
  "unknown_kind_error k =
     from_valid_code UNKNOWN_KIND (''kind '' @ quoted k @ '' is not registered'')"

text \<open>The payload of the typed request, by kind; \<open>None\<close> is the \<open>unreachable!\<close> arm.\<close>

definition decode_request_kind ::
  "('v, 'm, 'a) Serde_scheme \<Rightarrow> Recovered \<Rightarrow> 'm RequestEnvelope \<Rightarrow>
   (ProtocolError, RequestKind) result option" where
  "decode_request_kind S recovered envelope =
     (if env_kind envelope = KIND_HELLO then
        Some (if \<not> Map_is_empty S (env_payload envelope)
              then Inl (from_valid_code INVALID_PAYLOAD ''hello takes an empty object payload'')
              else Inr Hello)
      else if env_kind envelope = KIND_WORKFLOW_SIGNAL_SUBMIT then
        Some (if rec_out_of_range recovered then Inl out_of_range_error
              else map_ok SubmitWorkflowSignal
                     (decode_submit S (Value_Object S (env_payload envelope))))
      else if env_kind envelope = KIND_WORKFLOW_SIGNAL_RECONCILE then
        Some (if rec_out_of_range recovered then Inl out_of_range_error
              else map_ok ReconcileWorkflowSignal
                     (decode_reconcile S (Value_Object S (env_payload envelope))))
      else None)"

definition decode_request ::
  "('v, 'm, 'a) Serde_scheme \<Rightarrow> bytes \<Rightarrow> (DecodeFailure, Request) result option" where
  "decode_request S frame =
     (case probe S frame of
        Inl f \<Rightarrow> Some (Inl f)
      | Inr recovered \<Rightarrow>
          let fail = (\<lambda>e. Some (Inl (Recovered_fail recovered e))) in
          (case from_str_RequestEnvelope S (rec_envelope_text recovered) of
             Inl m \<Rightarrow> fail (from_valid_code INVALID_ENVELOPE m)
           | Inr structural \<Rightarrow>
               if \<not> valid_request_id (env_request_id structural)
               then fail (from_valid_code INVALID_ENVELOPE
                      ''requestId must match ^[A-Za-z0-9][A-Za-z0-9._:-]{0,127}$'')
               else if \<not> registered_kind (env_kind structural)
               then fail (unknown_kind_error (env_kind structural))
               else if rec_exceeds_depth recovered then fail depth_error
               else
                 (case from_str_RequestEnvelope S (rec_typed_text recovered) of
                    Inl m \<Rightarrow> fail (from_valid_code INVALID_PAYLOAD m)
                  | Inr envelope \<Rightarrow>
                      (case decode_request_kind S recovered envelope of
                         None \<Rightarrow> None
                       | Some (Inl e) \<Rightarrow> fail e
                       | Some (Inr k) \<Rightarrow>
                           Some (Inr \<lparr>request_id = env_request_id envelope, request_kind = k\<rparr>)))))"

definition finish_request_frame :: "string \<Rightarrow> (ProtocolError, string) result" where
  "finish_request_frame frame =
     (if length frame > MAX_REQUEST_BYTES
      then Inl (from_valid_code REQUEST_TOO_LARGE
             (''request is '' @ show_nat (length frame) @ '' bytes; at most '' @
              show_nat MAX_REQUEST_BYTES @ '' allowed''))
      else Inr frame)"

definition encode_request_payload ::
  "('v, 'm, 'a) Serde_scheme \<Rightarrow> RequestKind \<Rightarrow> 'm option" where
  "encode_request_payload S k =
     (case k of
        Hello \<Rightarrow> Some (Map_new S)
      | SubmitWorkflowSignal command \<Rightarrow> Value_as_object S (encode_submit S command)
      | ReconcileWorkflowSignal signal \<Rightarrow> Value_as_object S (encode_reconcile S signal))"

definition encode_request ::
  "('v, 'm, 'a) Serde_scheme \<Rightarrow> Request \<Rightarrow> (ProtocolError, string) result option" where
  "encode_request S request =
     (if \<not> valid_request_id (request_id request)
      then Some (Inl (from_valid_code INVALID_ENVELOPE
             ''requestId must match ^[A-Za-z0-9][A-Za-z0-9._:-]{0,127}$''))
      else
        (case encode_request_payload S (request_kind request) of
           None \<Rightarrow> None
         | Some payload \<Rightarrow>
             Some (finish_request_frame (to_string_RequestEnvelope S
               \<lparr>env_protocol = PROTOCOL_NAME,
                env_version = (if request_kind request = Hello then BOOTSTRAP_ENVELOPE_VERSION
                               else PROTOCOL_VERSION),
                env_request_id = request_id request,
                env_kind = RequestKind_name (request_kind request),
                env_payload = payload\<rparr>))))"

section \<open>Responses\<close>

definition unnamed_kind_error :: ProtocolError where
  "unnamed_kind_error = from_valid_code INVALID_ENVELOPE ''successful responses must name their kind''"

definition response_too_large :: "nat \<Rightarrow> ProtocolError" where
  "response_too_large n =
     from_valid_code INVALID_ENVELOPE
       (''response is '' @ show_nat n @ '' bytes; at most '' @ show_nat MAX_FRAME_BYTES @ '' allowed'')"

definition validate_success_response_kind :: "Response \<Rightarrow> (ProtocolError, unit) result" where
  "validate_success_response_kind response =
     (case response_body response of
        BodyError _ \<Rightarrow> Inr ()
      | _ \<Rightarrow>
          (case response_kind response of
             Some k \<Rightarrow> if registered_kind k then Inr () else Inl (unknown_kind_error k)
           | None \<Rightarrow> Inl unnamed_kind_error))"

fun valid_version_context :: "ResponseVersion \<Rightarrow> bool" where
  "valid_version_context (Bootstrap v) \<longleftrightarrow> v = BOOTSTRAP_ENVELOPE_VERSION"
| "valid_version_context (AcceptedOperation v) \<longleftrightarrow> v \<ge> 1"

text \<open>The match on version, kind and body: which combinations may be written.\<close>

definition check_response_context :: "Response \<Rightarrow> (ProtocolError, unit) result" where
  "check_response_context response =
     (let inconsistent =
        Inl (from_valid_code INVALID_ENVELOPE
          ''response kind, body, and selected version context are inconsistent'')
      in case response_body response of
           BodyHello info \<Rightarrow>
             if response_version response = Bootstrap BOOTSTRAP_ENVELOPE_VERSION \<and>
                response_kind response = Some KIND_HELLO
             then map_err (from_valid_code INVALID_PAYLOAD) (HelloInfo_validate info)
             else inconsistent
         | BodyWorkflowSignal _ \<Rightarrow>
             (case response_version response of
                AcceptedOperation _ \<Rightarrow>
                  if response_kind response = Some KIND_WORKFLOW_SIGNAL_SUBMIT then Inr ()
                  else inconsistent
              | Bootstrap _ \<Rightarrow> inconsistent)
         | BodyReconciliation _ \<Rightarrow>
             (case response_version response of
                AcceptedOperation _ \<Rightarrow>
                  if response_kind response = Some KIND_WORKFLOW_SIGNAL_RECONCILE then Inr ()
                  else inconsistent
              | Bootstrap _ \<Rightarrow> inconsistent)
         | BodyError _ \<Rightarrow>
             (case response_version response of
                AcceptedOperation _ \<Rightarrow> Inr ()
              | Bootstrap v \<Rightarrow> if v = BOOTSTRAP_ENVELOPE_VERSION then Inr () else inconsistent))"

definition response_envelope ::
  "('v, 'm, 'a) Serde_scheme \<Rightarrow> Response \<Rightarrow> 'v ResponseEnvelope" where
  "response_envelope S response =
     (let (ok, payload, error) =
        (case response_body response of
           BodyHello info \<Rightarrow> (True, Some (to_value_HelloInfo S info), None)
         | BodyWorkflowSignal r \<Rightarrow> (True, Some (encode_result S r), None)
         | BodyReconciliation r \<Rightarrow> (True, Some (encode_reconciliation_result S r), None)
         | BodyError e \<Rightarrow>
             (False, None,
              Some \<lparr>error_dto_code = ShortErrorCode_as_str (code e), error_dto_message = message e\<rparr>))
      in \<lparr>renv_protocol = PROTOCOL_NAME, renv_version = wire (response_version response),
          renv_request_id = response_request_id response, renv_kind = response_kind response,
          renv_ok = ok, renv_payload = payload, renv_error = error\<rparr>)"

definition nullable_request_id_error :: ProtocolError where
  "nullable_request_id_error =
     from_valid_code INVALID_ENVELOPE
       ''requestId must be null or match ^[A-Za-z0-9][A-Za-z0-9._:-]{0,127}$''"

definition encode_response ::
  "('v, 'm, 'a) Serde_scheme \<Rightarrow> Response \<Rightarrow> (ProtocolError, string) result" where
  "encode_response S response =
     (if \<not> pred_option valid_request_id (response_request_id response)
      then Inl nullable_request_id_error
      else if \<not> valid_version_context (response_version response)
      then Inl (from_valid_code INVALID_ENVELOPE
             ''response version must name a valid selected version context'')
      else
        and_then (validate_success_response_kind response) (\<lambda>_.
        and_then (check_response_context response) (\<lambda>_.
        let frame = to_string_ResponseEnvelope S (response_envelope S response) in
        if length frame > MAX_FRAME_BYTES then Inl (response_too_large (length frame))
        else Inr frame)))"

definition is_unconditionally_bootstrap_error_code :: "string \<Rightarrow> bool" where
  "is_unconditionally_bootstrap_error_code c \<longleftrightarrow>
     c \<in> {REQUEST_TOO_LARGE, PROTOCOL_VERSION_UNSUPPORTED, HANDLER_TIMEOUT}"

fun expected_bootstrap_version :: "ResponseVersion option \<Rightarrow> u32" where
  "expected_bootstrap_version (Some (Bootstrap v)) = v"
| "expected_bootstrap_version _ = BOOTSTRAP_ENVELOPE_VERSION"

fun expected_operation_version :: "ResponseVersion option \<Rightarrow> u32" where
  "expected_operation_version (Some (AcceptedOperation v)) = v"
| "expected_operation_version _ = PROTOCOL_VERSION"

definition inferred_request_stage :: "string option \<Rightarrow> ResponseVersion option \<Rightarrow> ResponseVersion" where
  "inferred_request_stage k stage =
     (case stage of
        Some v \<Rightarrow> v
      | None \<Rightarrow>
          if k \<noteq> None \<and> k \<noteq> Some KIND_HELLO then ResponseVersion_operation
          else ResponseVersion_bootstrap)"

definition expected_response_version ::
  "string option \<Rightarrow> bool option \<Rightarrow> string option \<Rightarrow> ResponseVersion option \<Rightarrow> ResponseVersion" where
  "expected_response_version k ok err stage =
     (if ok = Some True then
        (case k of
           Some name \<Rightarrow>
             if name = KIND_HELLO then Bootstrap (expected_bootstrap_version stage)
             else AcceptedOperation (expected_operation_version stage)
         | None \<Rightarrow> inferred_request_stage k stage)
      else if ok = Some False \<and> pred_option is_unconditionally_bootstrap_error_code err \<and> err \<noteq> None
      then Bootstrap (expected_bootstrap_version stage)
      else inferred_request_stage k stage)"

definition exactly_one_error :: ProtocolError where
  "exactly_one_error =
     from_valid_code INVALID_ENVELOPE
       ''ok responses carry exactly payload; error responses carry exactly error''"

text \<open>The structural pass: which of payload and error is present, and a registered kind on success.\<close>

definition check_response_shape :: "'v ResponseEnvelope \<Rightarrow> (ProtocolError, unit) result" where
  "check_response_shape env =
     (case (renv_ok env, renv_payload env, renv_error env) of
        (True, Some _, None) \<Rightarrow>
          (case renv_kind env of
             Some k \<Rightarrow> if registered_kind k then Inr () else Inl (unknown_kind_error k)
           | None \<Rightarrow> Inl unnamed_kind_error)
      | (False, None, Some _) \<Rightarrow> Inr ()
      | _ \<Rightarrow> Inl exactly_one_error)"

definition decode_response_payload ::
  "('v, 'm, 'a) Serde_scheme \<Rightarrow> bool \<Rightarrow> string \<Rightarrow> 'v \<Rightarrow> (ProtocolError, ResponseBody) result" where
  "decode_response_payload S out_of_range k payload =
     (if k = KIND_HELLO then
        if out_of_range then Inl out_of_range_error
        else
          and_then (shape_error (from_value_HelloInfo S payload)) (\<lambda>info.
          and_then (map_err (from_valid_code INVALID_PAYLOAD) (HelloInfo_validate info)) (\<lambda>_.
          Inr (BodyHello info)))
      else if k = KIND_WORKFLOW_SIGNAL_SUBMIT then
        if out_of_range then Inl out_of_range_error
        else map_ok BodyWorkflowSignal (decode_result S payload)
      else if k = KIND_WORKFLOW_SIGNAL_RECONCILE then
        if out_of_range then Inl out_of_range_error
        else map_ok BodyReconciliation (decode_reconciliation_result S payload)
      else Inl (unknown_kind_error k))"

definition decode_response_body ::
  "('v, 'm, 'a) Serde_scheme \<Rightarrow> bool \<Rightarrow> 'v ResponseEnvelope \<Rightarrow> (ProtocolError, ResponseBody) result" where
  "decode_response_body S out_of_range env =
     (case (renv_ok env, renv_payload env, renv_error env) of
        (True, Some payload, None) \<Rightarrow>
          (case renv_kind env of
             Some k \<Rightarrow> decode_response_payload S out_of_range k payload
           | None \<Rightarrow> Inl unnamed_kind_error)
      | (False, None, Some err) \<Rightarrow>
          if \<not> is_ok (ShortErrorCode_new (error_dto_code err))
          then Inl (from_valid_code INVALID_ENVELOPE ''error.code must match ^[A-Z][A-Z0-9_]{0,63}$'')
          else Inr (BodyError (from_valid_code (error_dto_code err) (error_dto_message err)))
      | _ \<Rightarrow> Inl exactly_one_error)"

definition axis_name :: "ResponseVersion \<Rightarrow> string" where
  "axis_name v = (case v of Bootstrap _ \<Rightarrow> ''bootstrap'' | AcceptedOperation _ \<Rightarrow> ''accepted-operation'')"

text \<open>The gates of \<open>decode_response_for\<close> behind the scan, in order; the version of the response is
  the expected one.\<close>

definition decode_response_typed ::
  "('v, 'm, 'a) Serde_scheme \<Rightarrow> Scan \<Rightarrow> Recovered \<Rightarrow> ResponseVersion \<Rightarrow> (ProtocolError, Response) result" where
  "decode_response_typed S scan recovered expected =
     (case failure scan of
        Some f \<Rightarrow> Inl (from_valid_code (failure_code f) (failure_message f))
      | None \<Rightarrow>
          if probe_string (top_level_values scan ''protocol'') \<noteq> Some PROTOCOL_NAME
          then Inl protocol_name_error
          else
            (case parse_version_token (probe_number (top_level_values scan ''version'')) of
               None \<Rightarrow> Inl (from_valid_code INVALID_ENVELOPE version_range_message)
             | Some wire_version \<Rightarrow>
                 if wire_version \<noteq> wire expected
                 then Inl (from_valid_code PROTOCOL_VERSION_UNSUPPORTED
                        (axis_name expected @ '' response version must be '' @
                         show_nat (unat (wire expected)) @ ''; got '' @ show_nat (unat wire_version)))
                 else
                   and_then (map_err (from_valid_code INVALID_ENVELOPE)
                               (from_str_ResponseEnvelope S (rec_envelope_text recovered)))
                     (\<lambda>structural.
                   if renv_protocol structural \<noteq> PROTOCOL_NAME then Inl protocol_name_error
                   else if \<not> pred_option valid_request_id (renv_request_id structural)
                   then Inl nullable_request_id_error
                   else
                     and_then (check_response_shape structural) (\<lambda>_.
                     if renv_ok structural \<and> rec_exceeds_depth recovered then Inl depth_error
                     else
                       and_then (shape_error (from_str_ResponseEnvelope S (rec_typed_text recovered)))
                         (\<lambda>envelope.
                       map_ok (\<lambda>body.
                           \<lparr>response_version = expected,
                            response_request_id = renv_request_id envelope,
                            response_kind = renv_kind envelope, response_body = body\<rparr>)
                         (decode_response_body S (rec_out_of_range recovered) envelope))))))"

definition decode_response_for ::
  "('v, 'm, 'a) Serde_scheme \<Rightarrow> bytes \<Rightarrow> ResponseVersion option \<Rightarrow> (DecodeFailure, Response) result" where
  "decode_response_for S frame request_stage =
     (let initial = (case request_stage of Some v \<Rightarrow> v | None \<Rightarrow> ResponseVersion_bootstrap) in
      if length frame > MAX_FRAME_BYTES
      then Inl (unaddressed initial (response_too_large (length frame)))
      else
        and_then (map_err (unaddressed initial) (scan_frame (decode_string S) frame)) (\<lambda>scan.
        let recovered = recover scan initial;
            expected = expected_response_version (rec_kind recovered)
              (probe_boolean (top_level_values scan ''ok'')) (error_code scan) request_stage
        in map_err (Recovered_fail (recovered\<lparr>rec_version := expected\<rparr>))
             (decode_response_typed S scan recovered expected)))"

definition decode_response ::
  "('v, 'm, 'a) Serde_scheme \<Rightarrow> bytes \<Rightarrow> (DecodeFailure, Response) result" where
  "decode_response S frame = decode_response_for S frame None"

section \<open>Lemmas\<close>

lemma valid_request_id_grammar: "valid_request_id s \<longleftrightarrow> identifier_grammar 128 s"
proof (cases s)
  case (Cons c cs)
  have "(\<lambda>index b. is_ascii_alphanumeric b \<or> (index > 0 \<and> b \<in> set ''._:-'')) = identifier_byte"
    by (simp add: fun_eq_iff identifier_byte_def)
  then show ?thesis
    unfolding valid_request_id_def Cons identifier_grammar_def MAX_REQUEST_ID_LEN_def
    using identifier_bytes_iff [of c cs] by (auto simp del: first_refused.simps)
qed (simp add: valid_request_id_def identifier_grammar_def)

lemma scan_json_tokens_grammar:
  "syntax_error (scan_json_tokens d text) = None \<Longrightarrow> validate_json_grammar text = Inr ()"
  by (auto simp: scan_json_tokens_def split: sum.splits)

lemma scan_frame_ok:
  "scan_frame d frame = Inr scan \<longleftrightarrow>
     from_utf8 frame = Inr frame \<and> \<not> starts_with frame utf8_bom \<and>
     scan = scan_json_tokens d frame \<and> syntax_error scan = None \<and> top_level_object scan"
  by (auto simp: scan_frame_def and_then_eq_Inr Let_def split: option.splits if_splits
      dest: from_utf8_Inr)

lemma scan_frame_error: "scan_frame d frame = Inl e \<Longrightarrow> code_of e = INVALID_ENVELOPE"
  by (auto simp: scan_frame_def and_then_eq_Inl map_err_eq_Inl Let_def
      split: option.splits if_splits)

text \<open>What the first pass establishes, and which errors it can report on which axis.\<close>

lemma recover_version [simp]: "rec_version (recover scan v) = v"
  by (simp add: recover_def Let_def)

lemma recover_kind [simp]:
  "rec_kind (r\<lparr>rec_version := v\<rparr>) = rec_kind r" by simp

lemma probe_ok:
  assumes "probe S frame = Inr r"
  shows "length frame \<le> MAX_REQUEST_BYTES \<and> from_utf8 frame = Inr frame \<and>
    validate_json_grammar frame = Inr () \<and>
    rec_version r =
      (case rec_kind r of
         Some k \<Rightarrow> if k \<noteq> KIND_HELLO then AcceptedOperation PROTOCOL_VERSION
                   else Bootstrap BOOTSTRAP_ENVELOPE_VERSION
       | None \<Rightarrow> Bootstrap BOOTSTRAP_ENVELOPE_VERSION) \<and>
    (\<exists>scan. scan = scan_json_tokens (decode_string S) frame \<and> failure scan = None \<and>
       rec_typed_text r = typed_text scan \<and> rec_envelope_text r = envelope_text scan \<and>
       probe_string (top_level_values scan ''protocol'') = Some PROTOCOL_NAME \<and>
       (\<exists>v. parse_version_token (probe_number (top_level_values scan ''version'')) = Some v \<and>
          (\<forall>k. correlation_safety scan = Safe \<and> probe_string (top_level_values scan ''kind'') = Some k \<longrightarrow>
             v = (if k = KIND_HELLO then BOOTSTRAP_ENVELOPE_VERSION else PROTOCOL_VERSION))))"
  using assms
  by (auto simp: probe_def and_then_eq_Inr scan_frame_ok Let_def ResponseVersion_bootstrap_def
      split: if_splits option.splits dest: scan_json_tokens_grammar)
    (auto simp: recover_def Let_def)

lemma probe_error:
  assumes "probe S frame = Inl f"
  shows "failed_version f = Bootstrap BOOTSTRAP_ENVELOPE_VERSION \<and>
    code_of (failed_error f) \<in>
      {REQUEST_TOO_LARGE, INVALID_ENVELOPE, INVALID_PAYLOAD, PROTOCOL_VERSION_UNSUPPORTED}"
  using assms
  by (auto simp: failure_code_def probe_def and_then_eq_Inl map_err_eq_Inl Let_def ResponseVersion_bootstrap_def
      unaddressed_def Recovered_fail_def protocol_name_error_def
      split: if_splits option.splits dest: scan_frame_error)

lemma decode_reconcile_iff:
  "decode_reconcile S v = Inr s \<longleftrightarrow>
     wf_signal s \<and> from_value_ReconcilePayload S v = Inr \<lparr>reconcile_signal = encode_signal s\<rparr>"
  by (auto simp: decode_reconcile_def and_then_eq_Inr decode_signal_iff
      intro: ReconcilePayload.equality)

lemma decode_reconcile_error:
  "decode_reconcile S v = Inl e \<Longrightarrow> code_of e \<in> {INVALID_PAYLOAD, ''INVALID_SIGNAL''}"
  by (auto simp: decode_reconcile_def and_then_eq_Inl dest: decode_signal_error)

lemma decode_submit_error:
  "decode_submit S v = Inl e \<Longrightarrow>
     code_of e \<in> {INVALID_PAYLOAD, INVALID_EXPECTATION, ''INVALID_SIGNAL''}"
  by (auto simp: decode_submit_def and_then_eq_Inl
      dest: decode_signal_error decode_expected_error)

lemma decode_submit_wf: "decode_submit S v = Inr c \<Longrightarrow> wf_command c"
  by (auto simp: decode_submit_def and_then_eq_Inr decode_signal_iff decode_expected_iff)

fun wf_request_kind :: "RequestKind \<Rightarrow> bool" where
  "wf_request_kind Hello \<longleftrightarrow> True"
| "wf_request_kind (SubmitWorkflowSignal c) \<longleftrightarrow> wf_command c"
| "wf_request_kind (ReconcileWorkflowSignal s) \<longleftrightarrow> wf_signal s"

lemma decode_request_kind_ok:
  "decode_request_kind S r env = Some (Inr k) \<Longrightarrow>
     wf_request_kind k \<and> RequestKind_name k = env_kind env"
  by (auto simp: decode_request_kind_def map_ok_eq_Inr decode_reconcile_iff
      split: if_splits dest: decode_submit_wf)

lemma decode_request_kind_error:
  "decode_request_kind S r env = Some (Inl e) \<Longrightarrow>
     code_of e \<in> {INVALID_PAYLOAD, INVALID_EXPECTATION, ''INVALID_SIGNAL''}"
  by (auto simp: decode_request_kind_def out_of_range_error_def split: if_splits
      dest!: decode_submit_error decode_reconcile_error)

text \<open>The two texts the typed passes read differ from the frame only inside the payload, so a JSON
  reader finds the same request identifier and kind in both.\<close>

definition typed_passes_agree :: "('v, 'm, 'a) Serde_scheme \<Rightarrow> bool" where
  "typed_passes_agree S \<longleftrightarrow>
     (\<forall>text e1 e2.
        from_str_RequestEnvelope S (envelope_text (scan_json_tokens (decode_string S) text)) = Inr e1 \<and>
        from_str_RequestEnvelope S (typed_text (scan_json_tokens (decode_string S) text)) = Inr e2 \<longrightarrow>
        env_request_id e1 = env_request_id e2 \<and> env_kind e1 = env_kind e2)"

lemma decode_request_cases:
  obtains (Probe) f where "probe S frame = Inl f" "decode_request S frame = Some (Inl f)"
    | (Fail) r e where "probe S frame = Inr r" "decode_request S frame = Some (Inl (Recovered_fail r e))"
        "code_of e \<in> {INVALID_ENVELOPE, UNKNOWN_KIND, INVALID_PAYLOAD, INVALID_EXPECTATION,
           ''INVALID_SIGNAL''}"
    | (Typed) r e1 e2 where "probe S frame = Inr r"
        "from_str_RequestEnvelope S (rec_envelope_text r) = Inr e1"
        "valid_request_id (env_request_id e1)" "registered_kind (env_kind e1)"
        "from_str_RequestEnvelope S (rec_typed_text r) = Inr e2"
        "decode_request S frame =
           (case decode_request_kind S r e2 of
              None \<Rightarrow> None
            | Some (Inl e) \<Rightarrow> Some (Inl (Recovered_fail r e))
            | Some (Inr k) \<Rightarrow> Some (Inr \<lparr>request_id = env_request_id e2, request_kind = k\<rparr>))"
proof (cases "probe S frame")
  case (Inl f)
  then show ?thesis using Probe by (simp add: decode_request_def)
next
  case (Inr r)
  show ?thesis
  proof (cases "from_str_RequestEnvelope S (rec_envelope_text r)")
    case (Inl m)
    with Inr show ?thesis by (intro Fail) (auto simp: decode_request_def)
  next
    case e1: (Inr e1)
    show ?thesis
    proof (cases "valid_request_id (env_request_id e1) \<and> registered_kind (env_kind e1) \<and>
        \<not> rec_exceeds_depth r \<and> is_ok (from_str_RequestEnvelope S (rec_typed_text r))")
      case True
      then obtain e2 where "from_str_RequestEnvelope S (rec_typed_text r) = Inr e2"
        by (auto simp: is_ok_iff)
      with True Inr e1 show ?thesis by (intro Typed) (auto simp: decode_request_def Let_def)
    next
      case False
      then have "\<exists>e. decode_request S frame = Some (Inl (Recovered_fail r e)) \<and>
          code_of e \<in> {INVALID_ENVELOPE, UNKNOWN_KIND, INVALID_PAYLOAD}"
        using Inr e1
        by (cases "from_str_RequestEnvelope S (rec_typed_text r)")
          (auto simp: decode_request_def Let_def unknown_kind_error_def depth_error_def)
      with Inr show ?thesis using Fail by blast
    qed
  qed
qed

lemma decode_request_typed:
  assumes "typed_passes_agree S"
  shows "decode_request S frame \<noteq> None \<and>
    (decode_request S frame = Some (Inr r) \<longrightarrow>
       (\<exists>p e. probe S frame = Inr p \<and> from_str_RequestEnvelope S (rec_typed_text p) = Inr e \<and>
          env_request_id e = request_id r \<and> env_kind e = RequestKind_name (request_kind r)) \<and>
       valid_request_id (request_id r) \<and> wf_request_kind (request_kind r))"
proof (cases S frame rule: decode_request_cases)
  case (Typed p e1 e2)
  have same: "env_request_id e2 = env_request_id e1" "env_kind e2 = env_kind e1"
    using assms probe_ok [OF Typed(1)] Typed(2,5) unfolding typed_passes_agree_def by metis+
  have "decode_request_kind S p e2 \<noteq> None"
    using Typed(4) same by (auto simp: decode_request_kind_def registered_kind_def)
  then show ?thesis
    using Typed(1,3,5,6) same by (auto split: option.splits sum.splits dest: decode_request_kind_ok)
qed simp_all

lemma decode_request_failure_code:
  assumes "decode_request S frame = Some (Inl f)"
  shows "code_of (failed_error f) \<in> {REQUEST_TOO_LARGE, INVALID_ENVELOPE, INVALID_PAYLOAD,
    PROTOCOL_VERSION_UNSUPPORTED, UNKNOWN_KIND, INVALID_EXPECTATION, ''INVALID_SIGNAL''}"
proof (cases S frame rule: decode_request_cases)
  case (Probe g)
  then show ?thesis using assms probe_error [OF Probe(1)] by auto
next
  case (Fail p e)
  then show ?thesis using assms by (auto simp: Recovered_fail_def)
next
  case (Typed p e1 e2)
  then show ?thesis
    using assms by (auto simp: Recovered_fail_def split: option.splits sum.splits dest: decode_request_kind_error)
qed

section \<open>A concrete frame\<close>

text \<open>One handshake frame and conversions that read exactly it, for evaluation.\<close>

definition example_request :: "unit RequestEnvelope" where
  "example_request =
     \<lparr>env_protocol = ''aizign'', env_version = 1, env_request_id = ''req-1'', env_kind = ''hello'',
      env_payload = ()\<rparr>"

definition example_frame :: string where
  "example_frame = ''{\"protocol\":\"aizign\",\"version\":1,\"requestId\":\"req-1\",\"kind\":\"hello\",\"payload\":{}}''"

definition example_reader :: "(example_value, unit) Serde" where
  "example_reader =
     \<lparr>from_value_SubmitPayload = from_value_SubmitPayload example_serde,
      to_value_SubmitPayload = to_value_SubmitPayload example_serde,
      from_value_ReconcilePayload = from_value_ReconcilePayload example_serde,
      to_value_ReconcilePayload = to_value_ReconcilePayload example_serde,
      from_value_SignalResultDto = from_value_SignalResultDto example_serde,
      to_value_SignalResultDto = to_value_SignalResultDto example_serde,
      from_value_ReconciliationResultDto = from_value_ReconciliationResultDto example_serde,
      to_value_ReconciliationResultDto = to_value_ReconciliationResultDto example_serde,
      from_value_HelloInfo = from_value_HelloInfo example_serde,
      to_value_HelloInfo = to_value_HelloInfo example_serde,
      decode_string = (\<lambda>t. Some (butlast (tl t))),
      from_str_RequestEnvelope =
        (\<lambda>t. if t = example_frame then Inr example_request else Inl ''unexpected text''),
      to_string_RequestEnvelope = (\<lambda>_. example_frame),
      from_str_ResponseEnvelope = (\<lambda>t. Inl ''unexpected text''),
      to_string_ResponseEnvelope = (\<lambda>_. ''{}''),
      Value_Object = (\<lambda>_. VReconcile \<lparr>reconcile_signal = encode_signal example_signal\<rparr>),
      Value_as_object = (\<lambda>_. None), Map_new = (), Map_is_empty = (\<lambda>_. True)\<rparr>"

abbreviation example_scan :: Scan where
  "example_scan \<equiv> scan_json_tokens (decode_string example_reader) example_frame"

text \<open>What decoding reads of a scan, so that a concrete frame is scanned once.\<close>

definition scan_summary where
  "scan_summary scan =
     (syntax_error scan, failure scan, top_level_object scan, correlation_safety scan, typed_text scan, envelope_text scan,
      payload_exceeds_typed_depth scan, payload_integer_out_of_range scan,
      map (top_level_values scan) [''protocol'', ''version'', ''requestId'', ''kind''])"

lemma decode_request_scanned:
  assumes "length frame \<le> MAX_REQUEST_BYTES" "from_utf8 frame = Inr frame" "\<not> starts_with frame utf8_bom"
    "scan_summary (scan_json_tokens (decode_string S) frame) =
       (None, None, True, Safe, frame, frame, False, False,
        [Some (ProbeString ''aizign''), Some (ProbeNumber ''1''), Some (ProbeString q), Some (ProbeString k)])"
    "from_str_RequestEnvelope S frame = Inr e" "valid_request_id (env_request_id e)" "registered_kind (env_kind e)"
  obtains p where "\<not> rec_out_of_range p"
    "decode_request S frame =
       (case decode_request_kind S p e of
          None \<Rightarrow> None
        | Some (Inl e) \<Rightarrow> Some (Inl (Recovered_fail p e))
        | Some (Inr k) \<Rightarrow> Some (Inr \<lparr>request_id = env_request_id e, request_kind = k\<rparr>))"
proof -
  let ?scan = "scan_json_tokens (decode_string S) frame" and ?r = "recover (scan_json_tokens (decode_string S) frame) ResponseVersion_bootstrap"
  let ?p = "if k \<noteq> KIND_HELLO then ?r\<lparr>rec_version := AcceptedOperation PROTOCOL_VERSION\<rparr> else ?r"
  note sm = assms(4) [unfolded scan_summary_def prod.inject list.map list.inject]
  have version: "parse_version_token (Some ''1'') = Some 1"
    by (simp add: parse_version_token_def starts_with_def parse_u32_def parse_unsigned_def
        digits_value_def byte_defs)
  have "scan_frame (decode_string S) frame = Inr ?scan"
    using assms(2,3) sm by (simp add: scan_frame_ok)
  moreover have "rec_kind ?r = Some k" using sm by (simp add: recover_def)
  ultimately have "probe S frame = Inr ?p"
    using assms(1) sm by (simp add: probe_def version PROTOCOL_NAME_def BOOTSTRAP_ENVELOPE_VERSION_def PROTOCOL_VERSION_def)
  moreover have "rec_envelope_text ?p = frame" "rec_typed_text ?p = frame" "\<not> rec_exceeds_depth ?p" "\<not> rec_out_of_range ?p"
    using sm by (simp_all add: recover_def)
  ultimately show ?thesis
    using that [of ?p] assms(5-7) by (simp add: decode_request_def)
qed

lemma example_scan_summary:
  "scan_summary example_scan =
     (None, None, True, Safe, example_frame, example_frame, False, False,
      [Some (ProbeString ''aizign''), Some (ProbeNumber ''1''), Some (ProbeString ''req-1''), Some (ProbeString ''hello'')])"
  by code_simp

lemma example_decode_request:
  "decode_request example_reader example_frame =
     Some (Inr \<lparr>request_id = ''req-1'', request_kind = Hello\<rparr>)"
proof (rule decode_request_scanned [OF _ _ _ example_scan_summary])
  show "from_utf8 example_frame = Inr example_frame" by code_simp
  show "from_str_RequestEnvelope example_reader example_frame = Inr example_request"
    by (simp add: example_reader_def)
  show "valid_request_id (env_request_id example_request)"
    by (simp add: example_request_def valid_request_id_def MAX_REQUEST_ID_LEN_def byte_defs)
qed (simp_all add: example_frame_def MAX_REQUEST_BYTES_def MAX_FRAME_BYTES_def starts_with_def utf8_bom_def
    example_request_def registered_kind_def decode_request_kind_def KIND_HELLO_def example_reader_def)

section \<open>Properties\<close>






end
