(* ===== verification/Store_Record.thy ===== *)
theory Store_Record
  imports Engine Protocol
begin

text \<open>
  \<^verbatim>\<open>crates/aizign-store-jsonl/src/json_member.rs\<close> and \<^verbatim>\<open>record.rs\<close>: the duplicate-member check and
  the journal record, one line of the journal file. The crate repeats the signal DTOs of
  \<^verbatim>\<open>aizign-protocol\<close> field by field (\<^verbatim>\<open>SignalDto\<close>, \<^verbatim>\<open>RoleDto\<close>, \<^verbatim>\<open>KindDto\<close>, \<^verbatim>\<open>DigestDto\<close> and their
  conversions), so the types of theory Protocol are used for both.

  serde\_json is a parameter: \<open>JsonReader\<close> is the deserializer the duplicate check drives, as the
  sequence of visitor calls it makes for a text, and \<open>RecordSerde\<close> adds the derived conversions of the
  record. \<open>record_serde_laws\<close> states the documented behaviour the code relies on: compact output
  with the members in declaration order, and reading it back.
\<close>

section \<open>Duplicate members (json\_member.rs)\<close>

definition DUPLICATE_MEMBER_MARKER :: string where
  "DUPLICATE_MEMBER_MARKER = ''duplicate JSON member''"

text \<open>What the deserializer presents to a visitor: a scalar, the elements of a sequence or the
  members of a map, each with the error that ended them early if there was one, or an error in place
  of a value.\<close>

datatype DeValue =
    DeScalar
  | DeSeq "DeValue list" "string option"
  | DeMap "(string \<times> DeValue) list" "string option"
  | DeFail string

record JsonReader =
  de_visit :: "string \<Rightarrow> DeValue"
  de_end :: "string \<Rightarrow> (string, unit) result"
  de_position :: "string \<Rightarrow> string"

definition ended :: "string option \<Rightarrow> (string, unit) result" where
  "ended e = (case e of None \<Rightarrow> Inr () | Some m \<Rightarrow> Inl m)"

fun visit_value :: "string \<Rightarrow> DeValue \<Rightarrow> (string, unit) result"
  and visit_seq :: "string \<Rightarrow> DeValue list \<Rightarrow> string option \<Rightarrow> (string, unit) result"
  and visit_map :: "string \<Rightarrow> string set \<Rightarrow> (string \<times> DeValue) list \<Rightarrow> string option \<Rightarrow> (string, unit) result"
where
  "visit_value pos DeScalar = Inr ()"
| "visit_value pos (DeSeq vs e) = visit_seq pos vs e"
| "visit_value pos (DeMap kvs e) = visit_map pos {} kvs e"
| "visit_value pos (DeFail m) = Inl m"
| "visit_seq pos [] e = ended e"
| "visit_seq pos (v # vs) e = and_then (visit_value pos v) (\<lambda>_. visit_seq pos vs e)"
| "visit_map pos seen [] e = ended e"
| "visit_map pos seen ((name, v) # kvs) e =
     (if name \<in> seen then Inl (DUPLICATE_MEMBER_MARKER @ pos)
      else and_then (visit_value pos v) (\<lambda>_. visit_map pos (insert name seen) kvs e))"

definition has_duplicate_members :: "'a JsonReader_scheme \<Rightarrow> string \<Rightarrow> bool" where
  "has_duplicate_members S line =
     (case and_then (visit_value (de_position S line) (de_visit S line)) (\<lambda>_. de_end S line) of
        Inl m \<Rightarrow> starts_with m DUPLICATE_MEMBER_MARKER
      | Inr _ \<Rightarrow> False)"

text \<open>A document the deserializer reads to its end, and one in which no object repeats a member.\<close>

fun complete :: "DeValue \<Rightarrow> bool" where
  "complete DeScalar \<longleftrightarrow> True"
| "complete (DeSeq vs e) \<longleftrightarrow> e = None \<and> (\<forall>v \<in> set vs. complete v)"
| "complete (DeMap kvs e) \<longleftrightarrow> e = None \<and> (\<forall>kv \<in> set kvs. complete (snd kv))"
| "complete (DeFail m) \<longleftrightarrow> False"

fun unrepeated :: "DeValue \<Rightarrow> bool" where
  "unrepeated DeScalar \<longleftrightarrow> True"
| "unrepeated (DeSeq vs e) \<longleftrightarrow> (\<forall>v \<in> set vs. unrepeated v)"
| "unrepeated (DeMap kvs e) \<longleftrightarrow> distinct (map fst kvs) \<and> (\<forall>kv \<in> set kvs. unrepeated (snd kv))"
| "unrepeated (DeFail m) \<longleftrightarrow> True"

lemma visit_complete:
  "complete v \<Longrightarrow> visit_value pos v = (if unrepeated v then Inr () else Inl (DUPLICATE_MEMBER_MARKER @ pos))"
  "\<forall>v \<in> set vs. complete v \<Longrightarrow> visit_seq pos vs None =
     (if \<forall>v \<in> set vs. unrepeated v then Inr () else Inl (DUPLICATE_MEMBER_MARKER @ pos))"
  "\<forall>kv \<in> set kvs. complete (snd kv) \<Longrightarrow> visit_map pos seen kvs None =
     (if distinct (map fst kvs) \<and> set (map fst kvs) \<inter> seen = {} \<and> (\<forall>kv \<in> set kvs. unrepeated (snd kv))
      then Inr () else Inl (DUPLICATE_MEMBER_MARKER @ pos))"
proof (induction pos v and pos vs "None :: string option" and pos seen kvs "None :: string option"
    rule: visit_value_visit_seq_visit_map.induct)
qed (auto simp: ended_def)

lemma has_duplicate_members_complete:
  assumes "complete (de_visit S line)" "de_end S line = Inr ()"
  shows "has_duplicate_members S line \<longleftrightarrow> \<not> unrepeated (de_visit S line)"
  using assms by (simp add: has_duplicate_members_def visit_complete(1) starts_with_def)

section \<open>Journal records (record.rs)\<close>

definition JOURNAL_SCHEMA_VERSION :: nat where
  "JOURNAL_SCHEMA_VERSION = 1"

definition KIND_SIGNAL_ACCEPTED :: string where
  "KIND_SIGNAL_ACCEPTED = ''workflow.signal.accepted''"

record RecordDto =
  dto_schema_version :: nat
  dto_seq :: nat
  dto_at :: u64
  dto_kind :: string
  dto_signal :: SignalDto

record RecordSerde = JsonReader +
  probe_schema_version :: "string \<Rightarrow> (string, nat option) result"
  from_str_RecordDto :: "string \<Rightarrow> (string, RecordDto) result"
  to_string_RecordDto :: "RecordDto \<Rightarrow> string"

definition entry_record :: "JournalEntry \<Rightarrow> RecordDto" where
  "entry_record e =
     \<lparr>dto_schema_version = JOURNAL_SCHEMA_VERSION, dto_seq = seq e, dto_at = unix_seconds (at e),
      dto_kind = KIND_SIGNAL_ACCEPTED, dto_signal = encode_signal (event_signal (event e))\<rparr>"

definition encode_entry :: "'a RecordSerde_scheme \<Rightarrow> JournalEntry \<Rightarrow> (JournalError, string) result" where
  "encode_entry S e =
     (if seq e = 0 \<or> seq e > MAX_JOURNAL_ENTRIES
      then Inl (Corrupt (''entry seq '' @ show_nat (seq e) @ '' is outside the record range 1..='' @
             show_nat MAX_JOURNAL_ENTRIES))
      else Inr (to_string_RecordDto S (entry_record e)))"

definition encode_record :: "'a RecordSerde_scheme \<Rightarrow> JournalEntry \<Rightarrow> (JournalError, string) result" where
  "encode_record S e = encode_entry S e"

definition at_line :: "nat \<Rightarrow> string \<Rightarrow> JournalError" where
  "at_line n detail = Corrupt (''line '' @ show_nat n @ '': '' @ detail)"

definition record_field ::
  "nat \<Rightarrow> string \<Rightarrow> (IdentityError, 'a) result \<Rightarrow> (JournalError, 'a) result" where
  "record_field n name r =
     map_err (\<lambda>e. at_line n (''signal.'' @ name @ '': '' @ show_IdentityError e)) r"

definition record_digest :: "nat \<Rightarrow> string \<Rightarrow> DigestDto \<Rightarrow> (JournalError, Digest) result" where
  "record_digest n name dto =
     record_field n name (Digest_new (DigestAlgorithm_from_dto (dto_algorithm dto)) (dto_hex dto))"

definition record_signal :: "nat \<Rightarrow> SignalDto \<Rightarrow> (JournalError, WorkflowSignal) result" where
  "record_signal n dto =
     (and_then (record_field n ''eventId'' (EventId_new (sdto_event_id dto))) (\<lambda>ev.
      and_then (record_field n ''workflowId'' (WorkflowId_new (sdto_workflow_id dto))) (\<lambda>wf.
      and_then (record_field n ''assignmentId'' (AssignmentId_new (sdto_assignment_id dto))) (\<lambda>asg.
      and_then (record_field n ''attemptId'' (AttemptId_new (sdto_attempt_id dto))) (\<lambda>att.
      and_then (record_field n ''artifactRevision''
                  (ArtifactRevision_new (sdto_artifact_revision dto))) (\<lambda>rev.
      and_then (record_digest n ''candidateDigest'' (sdto_candidate_digest dto)) (\<lambda>dg.
      and_then (transpose_map (\<lambda>v. record_field n ''artifactRef'' (ArtifactRef_new v))
                  (sdto_artifact_ref dto)) (\<lambda>aref.
      and_then (transpose_map (\<lambda>v. record_field n ''shortErrorCode'' (ShortErrorCode_new v))
                  (sdto_short_error_code dto)) (\<lambda>sec.
      map_err (\<lambda>e. at_line n (''signal: '' @ show_WorkflowError e))
        (WorkflowSignal_validate
           \<lparr>event_id = ev, workflow_id = wf, assignment_id = asg, attempt_id = att,
            role = Role_from_dto (sdto_role dto), artifact_revision = rev, candidate_digest = dg,
            kind = SignalKind_from_dto (sdto_kind dto), finding_count = sdto_finding_count dto,
            artifact_ref = aref, short_error_code = sec\<rparr>))))))))))"

definition decode_line ::
  "'a RecordSerde_scheme \<Rightarrow> nat \<Rightarrow> string \<Rightarrow> (JournalError, JournalEntry) result" where
  "decode_line S n line =
     (if has_duplicate_members S line then Inl (at_line n ''record repeats a JSON member'')
      else
        case probe_schema_version S line of
          Inl _ \<Rightarrow> Inl (at_line n ''not a JSON object'')
        | Inr None \<Rightarrow> Inl (at_line n ''missing schemaVersion'')
        | Inr (Some found) \<Rightarrow>
            if found \<noteq> JOURNAL_SCHEMA_VERSION then Inl (SchemaUnsupported found)
            else
              and_then (map_err (at_line n) (from_str_RecordDto S line)) (\<lambda>record.
              if dto_kind record \<noteq> KIND_SIGNAL_ACCEPTED then Inl (at_line n ''unknown record kind'')
              else
                and_then (map_err (\<lambda>e. at_line n (''at: '' @ show_IdentityError e))
                            (from_unix_seconds (dto_at record))) (\<lambda>at.
                if dto_seq record = 0 \<or> dto_seq record > MAX_JOURNAL_ENTRIES
                then Inl (at_line n (''seq must be 1..='' @ show_nat MAX_JOURNAL_ENTRIES))
                else
                  and_then (record_signal n (dto_signal record)) (\<lambda>signal.
                  Inr \<lparr>seq = dto_seq record, at = at, event = SignalAccepted signal\<rparr>))))"

definition decode_record :: "'a RecordSerde_scheme \<Rightarrow> string \<Rightarrow> (JournalError, JournalEntry) result" where
  "decode_record S line = decode_line S 1 line"

section \<open>The text of a record\<close>

text \<open>A text serde writes between quotes as it is: printable ASCII without quotes and backslashes.\<close>

definition plain_byte :: "char \<Rightarrow> bool" where
  "plain_byte c \<longleftrightarrow> 32 \<le> byte_code c \<and> byte_code c < 127 \<and> c \<noteq> CHR 0x22 \<and> c \<noteq> CHR 0x5C"

definition plain :: "string \<Rightarrow> bool" where
  "plain s \<longleftrightarrow> (\<forall>c \<in> set s. plain_byte c)"

definition json_string :: "string \<Rightarrow> string" where
  "json_string s = CHR 0x22 # s @ [CHR 0x22]"

fun RoleDto_name :: "RoleDto \<Rightarrow> string" where
  "RoleDto_name RoleDto_Implementation = ''implementation''"
| "RoleDto_name RoleDto_Review = ''review''"

fun KindDto_name :: "KindDto \<Rightarrow> string" where
  "KindDto_name KindDto_ImplementationReady = ''implementation_ready''"
| "KindDto_name KindDto_ReviewFindings = ''review_findings''"
| "KindDto_name KindDto_ReviewPassed = ''review_passed''"
| "KindDto_name KindDto_RepairSubmitted = ''repair_submitted''"
| "KindDto_name KindDto_Blocked = ''blocked''"

definition optional_member :: "string \<Rightarrow> ('a \<Rightarrow> string) \<Rightarrow> 'a option \<Rightarrow> string" where
  "optional_member name f v =
     (case v of None \<Rightarrow> [] | Some x \<Rightarrow> CHR '','' # json_string name @ CHR '':'' # f x)"

definition signal_text :: "SignalDto \<Rightarrow> string" where
  \<open>signal_text d =
     ''{"eventId":'' @ json_string (sdto_event_id d) @
     '',"workflowId":'' @ json_string (sdto_workflow_id d) @
     '',"assignmentId":'' @ json_string (sdto_assignment_id d) @
     '',"attemptId":'' @ json_string (sdto_attempt_id d) @
     '',"role":'' @ json_string (RoleDto_name (sdto_role d)) @
     '',"artifactRevision":'' @ json_string (sdto_artifact_revision d) @
     '',"candidateDigest":{"algorithm":"sha256","hex":'' @
        json_string (dto_hex (sdto_candidate_digest d)) @
     ''},"kind":'' @ json_string (KindDto_name (sdto_kind d)) @
     optional_member ''findingCount'' (\<lambda>n. show_nat (unat n)) (sdto_finding_count d) @
     optional_member ''artifactRef'' json_string (sdto_artifact_ref d) @
     optional_member ''shortErrorCode'' json_string (sdto_short_error_code d) @ ''}''\<close>

definition record_text :: "RecordDto \<Rightarrow> string" where
  \<open>record_text d =
     ''{"schemaVersion":'' @ show_nat (dto_schema_version d) @
     '',"seq":'' @ show_nat (dto_seq d) @
     '',"at":'' @ show_nat (unat (dto_at d)) @
     '',"kind":'' @ json_string (dto_kind d) @
     '',"signal":'' @ signal_text (dto_signal d) @ ''}''\<close>

definition plain_signal :: "SignalDto \<Rightarrow> bool" where
  "plain_signal d \<longleftrightarrow>
     plain (sdto_event_id d) \<and> plain (sdto_workflow_id d) \<and> plain (sdto_assignment_id d) \<and>
     plain (sdto_attempt_id d) \<and> plain (sdto_artifact_revision d) \<and>
     plain (dto_hex (sdto_candidate_digest d)) \<and> pred_option plain (sdto_artifact_ref d) \<and>
     pred_option plain (sdto_short_error_code d)"

definition plain_record :: "RecordDto \<Rightarrow> bool" where
  "plain_record d \<longleftrightarrow>
     dto_schema_version d < 2 ^ 64 \<and> dto_seq d < 2 ^ 64 \<and> plain (dto_kind d) \<and> plain_signal (dto_signal d)"

definition scalars :: "string list \<Rightarrow> (string \<times> DeValue) list" where
  "scalars names = map (\<lambda>n. (n, DeScalar)) names"

definition signal_tree :: "SignalDto \<Rightarrow> DeValue" where
  "signal_tree d =
     DeMap
       (scalars [''eventId'', ''workflowId'', ''assignmentId'', ''attemptId'', ''role'', ''artifactRevision''] @
        [(''candidateDigest'', DeMap (scalars [''algorithm'', ''hex'']) None)] @
        scalars ([''kind''] @
          (if sdto_finding_count d = None then [] else [''findingCount'']) @
          (if sdto_artifact_ref d = None then [] else [''artifactRef'']) @
          (if sdto_short_error_code d = None then [] else [''shortErrorCode'']))) None"

definition record_tree :: "RecordDto \<Rightarrow> DeValue" where
  "record_tree d =
     DeMap (scalars [''schemaVersion'', ''seq'', ''at'', ''kind''] @ [(''signal'', signal_tree (dto_signal d))]) None"

text \<open>What the store relies on of serde\_json for records: \<open>to_string\<close> writes the members in
  declaration order without spaces, omits the absent optional ones and escapes nothing in plain
  texts; reading that text gives the record back, the version probe finds the version in it, and the
  visitor sees its members.\<close>

definition record_serde_laws :: "'a RecordSerde_scheme \<Rightarrow> bool" where
  "record_serde_laws S \<longleftrightarrow>
     (\<forall>d. plain_record d \<longrightarrow>
        to_string_RecordDto S d = record_text d \<and>
        from_str_RecordDto S (record_text d) = Inr d \<and>
        probe_schema_version S (record_text d) = Inr (Some (dto_schema_version d)) \<and>
        de_visit S (record_text d) = record_tree d \<and>
        de_end S (record_text d) = Inr ())"

lemma plain_simps [simp]:
  "plain []" "plain (c # s) \<longleftrightarrow> plain_byte c \<and> plain s" "plain (s @ t) \<longleftrightarrow> plain s \<and> plain t"
  by (auto simp: plain_def)

lemma scalars_simps [simp]:
  "(n, v) \<in> set (scalars ns) \<longleftrightarrow> n \<in> set ns \<and> v = DeScalar"
  "map fst (scalars ns) = ns" "fst ` set (scalars ns) = set ns"
  by (auto simp: scalars_def comp_def image_image)

lemma record_tree_ok: "complete (record_tree d)" "unrepeated (record_tree d)"
  by (auto simp: record_tree_def signal_tree_def)

lemma record_no_duplicates:
  "record_serde_laws S \<Longrightarrow> plain_record d \<Longrightarrow> \<not> has_duplicate_members S (record_text d)"
  by (simp add: has_duplicate_members_complete record_serde_laws_def record_tree_ok)

lemma show_nat_plain [simp]: "plain (show_nat n)"
  using show_nat_digits [of n]
  by (auto simp: plain_def list_all_iff plain_byte_def byte_defs)

lemma plain_bytes:
  "is_ascii_digit c \<Longrightarrow> plain_byte c" "is_ascii_uppercase c \<Longrightarrow> plain_byte c"
  "is_ascii_alphanumeric c \<Longrightarrow> plain_byte c"
  "c \<in> set ''._:-'' \<Longrightarrow> plain_byte c" "c \<in> set ''abcdef'' \<Longrightarrow> plain_byte c" "plain_byte (CHR ''_'')"
  by (auto simp: plain_byte_def byte_defs)

lemma identifier_plain: "identifier_grammar k s \<Longrightarrow> plain s"
  unfolding identifier_grammar_def plain_def list_all_iff
  using plain_bytes(3,4) by (metis set_ConsD)

lemma short_code_plain: "short_code_grammar s \<Longrightarrow> plain s"
  unfolding short_code_grammar_def plain_def list_all_iff
  using plain_bytes(1,2,6) by (metis set_ConsD)

lemma digest_plain: "digest_grammar s \<Longrightarrow> plain s"
  using plain_bytes(1,5) by (auto simp only: digest_grammar_def plain_def list_all_iff)

lemma optional_plain:
  "pred_option wf_ArtifactRef r \<Longrightarrow> pred_option plain (map_option ArtifactRef_as_str r)"
  "pred_option wf_ShortErrorCode c \<Longrightarrow> pred_option plain (map_option ShortErrorCode_as_str c)"
  by (cases r; cases c; simp add: wf_identity_defs identifier_plain short_code_plain)+

lemma encode_signal_plain: "wf_signal s \<Longrightarrow> plain_signal (encode_signal s)"
  unfolding wf_signal_def wf_parts_def wf_WorkflowId_def wf_AssignmentId_def wf_AttemptId_def
    wf_ArtifactRevision_def wf_EventId_def wf_Digest_def
  by (simp add: plain_signal_def encode_signal_def Let_def DigestDto_from_def optional_plain
      identifier_plain [of 128] digest_plain)

text \<open>An entry as the constructors make it.\<close>

definition wf_entry :: "JournalEntry \<Rightarrow> bool" where
  "wf_entry e \<longleftrightarrow> wf_BoundedTimestamp (at e) \<and> wf_signal (event_signal (event e))"

lemma entry_record_plain:
  assumes "wf_entry e" "seq e \<le> MAX_JOURNAL_ENTRIES" shows "plain_record (entry_record e)"
proof -
  have "plain KIND_SIGNAL_ACCEPTED" by (simp add: KIND_SIGNAL_ACCEPTED_def plain_byte_def byte_defs)
  with assms show ?thesis
    by (simp add: wf_entry_def plain_record_def entry_record_def JOURNAL_SCHEMA_VERSION_def
        MAX_JOURNAL_ENTRIES_def encode_signal_plain)
qed

section \<open>Decoding is the inverse of encoding\<close>

lemma record_field_Inr [simp]: "record_field n name r = Inr x \<longleftrightarrow> r = Inr x"
  by (simp add: record_field_def)

lemma record_digest_Inr: "record_digest n name dto = Inr d \<longleftrightarrow> wf_Digest d \<and> DigestDto_from d = dto"
  by (cases dto; cases d)
    (auto simp: record_digest_def Digest_new_ok DigestDto_from_def wf_Digest_def)

lemma record_optional:
  "transpose_map (\<lambda>v. record_field n name (ArtifactRef_new v)) o1 = Inr r \<longleftrightarrow>
     pred_option wf_ArtifactRef r \<and> map_option ArtifactRef_as_str r = o1"
  "transpose_map (\<lambda>v. record_field n name (ShortErrorCode_new v)) o1 = Inr c \<longleftrightarrow>
     pred_option wf_ShortErrorCode c \<and> map_option ShortErrorCode_as_str c = o1"
  by (cases o1; cases r; cases c;
      auto simp: map_ok_eq_Inr identifier_new_ok ShortErrorCode_new_ok wf_ShortErrorCode_def)+

lemma record_signal_iff: "record_signal n dto = Inr s \<longleftrightarrow> wf_signal s \<and> encode_signal s = dto"
proof
  assume "record_signal n dto = Inr s"
  then show "wf_signal s \<and> encode_signal s = dto"
    by (auto simp: record_signal_def and_then_eq_Inr identifier_as_str record_digest_Inr
        record_optional validate_ok wf_signal_def wf_parts_def encode_signal_def)
next
  assume s: "wf_signal s \<and> encode_signal s = dto"
  obtain p where p: "s = WorkflowSignal p" by (cases s)
  show "record_signal n dto = Inr s"
    using s by (cases p) (auto simp: p record_signal_def Let_def and_then_eq_Inr identifier_as_str
        record_digest_Inr record_optional validate_ok wf_signal_def wf_parts_def encode_signal_def)
qed

lemma decode_line_sound:
  assumes "decode_line S n line = Inr e"
  shows "wf_entry e \<and> 0 < seq e \<and> seq e \<le> MAX_JOURNAL_ENTRIES \<and> \<not> has_duplicate_members S line \<and>
    from_str_RecordDto S line =
      Inr ((entry_record e)\<lparr>dto_schema_version := dto_schema_version (projr (from_str_RecordDto S line))\<rparr>)"
  using assms
  by (auto simp: decode_line_def and_then_eq_Inr from_unix_seconds_ok record_signal_iff wf_entry_def
      entry_record_def split: if_splits sum.splits option.splits)

lemma decode_line_encoded:
  assumes "record_serde_laws S" "wf_entry e" "0 < seq e" "seq e \<le> MAX_JOURNAL_ENTRIES"
  shows "decode_line S n (record_text (entry_record e)) = Inr e"
proof -
  note pl = entry_record_plain [OF assms(2,4)]
  note laws = assms(1) [unfolded record_serde_laws_def, rule_format, OF pl]
  obtain s where s: "event e = SignalAccepted s" by (cases "event e")
  have sig: "record_signal n (dto_signal (entry_record e)) = Inr s"
    using assms(2) by (simp add: record_signal_iff wf_entry_def entry_record_def s)
  have at: "from_unix_seconds (dto_at (entry_record e)) = Inr (at e)"
    using assms(2) by (cases "at e") (simp add: from_unix_seconds_ok wf_entry_def entry_record_def)
  have "decode_line S n (record_text (entry_record e)) =
      Inr \<lparr>seq = dto_seq (entry_record e), at = at e, event = SignalAccepted s\<rparr>"
    using laws record_no_duplicates [OF assms(1) pl] assms(3,4)
    by (simp add: decode_line_def sig at) (simp add: entry_record_def)
  then show ?thesis by (simp add: entry_record_def s [symmetric])
qed

section \<open>Bytes and length of a record line\<close>

definition printable :: "string \<Rightarrow> bool" where
  "printable s \<longleftrightarrow> (\<forall>c \<in> set s. 32 \<le> byte_code c \<and> byte_code c < 127)"

lemma printable_simps [simp]:
  "printable []" "printable (c # s) \<longleftrightarrow> (32 \<le> byte_code c \<and> byte_code c < 127) \<and> printable s"
  "printable (s @ t) \<longleftrightarrow> printable s \<and> printable t"
  by (auto simp: printable_def)

lemma plain_printable: "plain s \<Longrightarrow> printable s"
  by (auto simp: plain_def plain_byte_def printable_def)

lemma json_string_printable [simp]: "plain s \<Longrightarrow> printable (json_string s)"
  by (simp add: json_string_def plain_printable) (simp add: byte_defs)

lemma names_plain [simp]: "plain (RoleDto_name r)" "plain (KindDto_name k)"
  by (cases r; cases k; simp add: plain_byte_def byte_defs)+

lemma optional_member_printable:
  "plain name \<Longrightarrow> (\<And>x. v = Some x \<Longrightarrow> printable (f x)) \<Longrightarrow> printable (optional_member name f v)"
  by (cases v) (simp_all add: optional_member_def, simp_all add: byte_defs)

lemma signal_text_printable:
  assumes "plain_signal d" shows "printable (signal_text d)"
proof -
  have n: "plain ''findingCount''" "plain ''artifactRef''" "plain ''shortErrorCode''"
    by (simp_all add: plain_byte_def byte_defs)
  have "pred_option plain (sdto_artifact_ref d)" "pred_option plain (sdto_short_error_code d)"
    using assms by (simp_all add: plain_signal_def)
  then have "printable (optional_member ''findingCount'' (\<lambda>n. show_nat (unat n)) (sdto_finding_count d))"
    "printable (optional_member ''artifactRef'' json_string (sdto_artifact_ref d))"
    "printable (optional_member ''shortErrorCode'' json_string (sdto_short_error_code d))"
    by (auto intro!: optional_member_printable n simp: plain_printable)
  with assms show ?thesis
    unfolding signal_text_def by (simp add: plain_signal_def) (simp add: byte_defs)
qed

lemma record_text_printable: "plain_record d \<Longrightarrow> printable (record_text d)"
  unfolding record_text_def
  by (simp add: plain_record_def signal_text_printable plain_printable) (simp add: byte_defs)

lemma printable_no_newline: "printable s \<Longrightarrow> CHR 0x0A \<notin> set s"
  by (auto simp: printable_def byte_defs)

lemma printable_ascii: "printable s \<Longrightarrow> list_all (\<lambda>c. byte_code c < 128) s"
  by (auto simp: printable_def list_all_iff)

lemma length_show_nat: "n < 10 ^ k \<Longrightarrow> 0 < k \<Longrightarrow> length (show_nat n) \<le> k"
proof (induction n arbitrary: k rule: show_nat.induct)
  case (1 n)
  show ?case
  proof (cases "n < 10")
    case True
    then show ?thesis using "1.prems" by (simp add: show_nat.simps [of n])
  next
    case False
    then obtain m where k: "k = Suc m" "0 < m" using "1.prems" by (cases k; cases "k - 1") auto
    then have "n div 10 < 10 ^ m" using "1.prems" by (simp add: less_mult_imp_div_less mult.commute)
    with False k "1.IH" [of m] show ?thesis by (simp add: show_nat.simps [of n])
  qed
qed

lemma length_show_u64: "n < 2 ^ 64 \<Longrightarrow> length (show_nat n) \<le> 20"
  by (rule length_show_nat) simp_all

lemma length_show_words:
  "length (show_nat (unat (x :: u64))) \<le> 20" "length (show_nat (unat (y :: u32))) \<le> 20"
proof -
  have "unat x < 2 ^ 64" "unat y < 2 ^ 32"
    using unsigned_less [of x] unsigned_less [of y] by simp_all
  then show "length (show_nat (unat x)) \<le> 20" "length (show_nat (unat y)) \<le> 20"
    by (simp_all add: length_show_u64)
qed

lemma names_length: "length (RoleDto_name r) \<le> 14" "length (KindDto_name k) \<le> 20"
  by (cases r; cases k; simp)+

lemma encode_signal_lengths:
  assumes "wf_signal s"
  shows "length (sdto_event_id (encode_signal s)) \<le> 128" "length (sdto_workflow_id (encode_signal s)) \<le> 128"
    "length (sdto_assignment_id (encode_signal s)) \<le> 128" "length (sdto_attempt_id (encode_signal s)) \<le> 128"
    "length (sdto_artifact_revision (encode_signal s)) \<le> 128"
    "length (dto_hex (sdto_candidate_digest (encode_signal s))) \<le> 64"
    "pred_option (\<lambda>r. length r \<le> 256) (sdto_artifact_ref (encode_signal s))"
    "pred_option (\<lambda>c. length c \<le> 64) (sdto_short_error_code (encode_signal s))"
  using assms unfolding wf_signal_def wf_parts_def wf_WorkflowId_def wf_AssignmentId_def
    wf_AttemptId_def wf_ArtifactRevision_def wf_EventId_def wf_Digest_def identifier_grammar_def
    digest_grammar_def
  by (auto simp: encode_signal_def Let_def DigestDto_from_def option.pred_map comp_def
      wf_ArtifactRef_def wf_ShortErrorCode_def identifier_grammar_def short_code_grammar_def
      elim: option.pred_mono_strong)

lemma optional_member_length:
  "pred_option (\<lambda>x. length (f x) \<le> n) v \<Longrightarrow> length (optional_member name f v) \<le> length name + n + 4"
  by (cases v) (simp_all add: optional_member_def json_string_def)

lemma json_string_length [simp]: "length (json_string s) = length s + 2"
  by (simp add: json_string_def)

lemma signal_text_length:
  assumes "wf_signal s" shows "length (signal_text (encode_signal s)) \<le> 2000"
proof -
  let ?d = "encode_signal s"
  note len = encode_signal_lengths [OF assms]
  have "length (optional_member ''findingCount'' (\<lambda>n. show_nat (unat n)) (sdto_finding_count ?d)) \<le> 36"
    using optional_member_length [of "\<lambda>n :: u32. show_nat (unat n)" 20 "sdto_finding_count ?d" "''findingCount''"]
    by (cases "sdto_finding_count ?d") (simp_all add: optional_member_def length_show_words)
  moreover have "length (optional_member ''artifactRef'' json_string (sdto_artifact_ref ?d)) \<le> 273"
    using len(7) optional_member_length [of json_string 258 "sdto_artifact_ref ?d" "''artifactRef''"] by simp
  moreover have "length (optional_member ''shortErrorCode'' json_string (sdto_short_error_code ?d)) \<le> 84"
    using len(8) optional_member_length [of json_string 66 "sdto_short_error_code ?d" "''shortErrorCode''"]
    by simp
  ultimately show ?thesis
    unfolding signal_text_def
    using len(1-6) names_length(1) [of "sdto_role ?d"] names_length(2) [of "sdto_kind ?d"] by simp
qed

text \<open>A record line, its newline included, is shorter than four kilobytes, so the entry bound keeps a
  journal well below the byte bound of the store.\<close>

lemma record_text_length:
  assumes "wf_entry e" "seq e \<le> MAX_JOURNAL_ENTRIES"
  shows "length (record_text (entry_record e)) < 4096"
proof -
  have "seq e < 2 ^ 64" using assms(2) by (simp add: MAX_JOURNAL_ENTRIES_def)
  then have "length (show_nat (seq e)) \<le> 20" "length (show_nat (unat (unix_seconds (at e)))) \<le> 20"
    "length (show_nat JOURNAL_SCHEMA_VERSION) \<le> 20"
    by (simp_all add: length_show_u64 length_show_words JOURNAL_SCHEMA_VERSION_def)
  moreover have "length (signal_text (encode_signal (event_signal (event e)))) \<le> 2000"
    using assms(1) by (simp add: wf_entry_def signal_text_length)
  ultimately show ?thesis by (simp add: record_text_def entry_record_def KIND_SIGNAL_ACCEPTED_def)
qed

section \<open>A reader that keeps the laws\<close>

text \<open>A reader for exactly the texts above, used to show that the laws can hold: literals, digits and
  quoted texts are taken from the front of the input.\<close>

fun lit :: "string \<Rightarrow> string \<Rightarrow> string option" where
  "lit [] s = Some s"
| "lit (c # l) [] = None"
| "lit (c # l) (d # s) = (if c = d then lit l s else None)"

definition take_number :: "string \<Rightarrow> (nat \<times> string) option" where
  "take_number s =
     (let ds = takeWhile is_ascii_digit s in
      if ds = [] then None else Some (digits_value ds, dropWhile is_ascii_digit s))"

definition take_text :: "string \<Rightarrow> (string \<times> string) option" where
  "take_text s =
     Option.bind (lit [CHR 0x22] s) (\<lambda>r.
     Option.bind (lit [CHR 0x22] (dropWhile (\<lambda>c. c \<noteq> CHR 0x22) r)) (\<lambda>rest.
     Some (takeWhile (\<lambda>c. c \<noteq> CHR 0x22) r, rest)))"

definition take_optional :: "string \<Rightarrow> (string \<Rightarrow> ('a \<times> string) option) \<Rightarrow> string \<Rightarrow> ('a option \<times> string) option" where
  "take_optional name p s =
     (case lit (CHR '','' # json_string name @ '':'') s of
        None \<Rightarrow> Some (None, s)
      | Some r \<Rightarrow> map_option (\<lambda>(v, rest). (Some v, rest)) (p r))"

definition starts_field :: "string \<Rightarrow> bool" where
  "starts_field s \<longleftrightarrow> s \<noteq> [] \<and> \<not> is_ascii_digit (hd s)"

lemma lit_append [simp]: "lit l (l @ s) = Some s"
  by (induction l) simp_all

lemma take_number_show [simp]: "starts_field s \<Longrightarrow> take_number (show_nat n @ s) = Some (n, s)"
proof -
  assume s: "starts_field s"
  have d: "\<And>x. x \<in> set (show_nat n) \<Longrightarrow> is_ascii_digit x"
    using show_nat_digits [of n] by (auto simp: list_all_iff)
  have "takeWhile is_ascii_digit s = []" "dropWhile is_ascii_digit s = s"
    using s by (cases s; simp add: starts_field_def)+
  then show ?thesis
    using d by (simp add: take_number_def takeWhile_append2 dropWhile_append2)
qed

lemma take_text_json [simp]: "plain x \<Longrightarrow> take_text (json_string x @ s) = Some (x, s)"
proof -
  assume "plain x"
  then have q: "\<And>c. c \<in> set x \<Longrightarrow> c \<noteq> CHR 0x22" by (auto simp: plain_def plain_byte_def)
  have "takeWhile (\<lambda>c. c \<noteq> CHR 0x22) (x @ CHR 0x22 # s) = x"
    "dropWhile (\<lambda>c. c \<noteq> CHR 0x22) (x @ CHR 0x22 # s) = CHR 0x22 # s"
    using q by (simp_all add: takeWhile_append2 dropWhile_append2)
  then show ?thesis by (simp add: take_text_def json_string_def)
qed

lemma take_optional_present:
  assumes "\<And>x. v = Some x \<Longrightarrow> p (f x @ s) = Some (x, s)"
    and "v = None \<Longrightarrow> lit (CHR '','' # json_string name @ '':'') s = None"
  shows "take_optional name p (optional_member name f v @ s) = Some (v, s)"
proof (cases v)
  case (Some x)
  have "optional_member name f v @ s = (CHR '','' # json_string name @ '':'') @ (f x @ s)"
    by (simp add: optional_member_def Some)
  then show ?thesis using assms(1) [OF Some] Some lit_append
    by (simp only: take_optional_def) simp
qed (use assms(2) in \<open>simp add: take_optional_def optional_member_def\<close>)

definition role_of_name :: "string \<Rightarrow> RoleDto" where
  "role_of_name s = (if s = ''review'' then RoleDto_Review else RoleDto_Implementation)"

definition kind_of_name :: "string \<Rightarrow> KindDto" where
  "kind_of_name s =
     (if s = ''implementation_ready'' then KindDto_ImplementationReady
      else if s = ''review_findings'' then KindDto_ReviewFindings
      else if s = ''review_passed'' then KindDto_ReviewPassed
      else if s = ''repair_submitted'' then KindDto_RepairSubmitted else KindDto_Blocked)"

lemma names_read [simp]: "role_of_name (RoleDto_name r) = r" "kind_of_name (KindDto_name k) = k"
  by (cases r; cases k; simp add: role_of_name_def kind_of_name_def)+

definition read_signal :: "string \<Rightarrow> (SignalDto \<times> string) option" where
  \<open>read_signal s0 =
     Option.bind (lit ''{"eventId":'' s0) (\<lambda>s. Option.bind (take_text s) (\<lambda>(ev, s).
     Option.bind (lit '',"workflowId":'' s) (\<lambda>s. Option.bind (take_text s) (\<lambda>(wf, s).
     Option.bind (lit '',"assignmentId":'' s) (\<lambda>s. Option.bind (take_text s) (\<lambda>(asg, s).
     Option.bind (lit '',"attemptId":'' s) (\<lambda>s. Option.bind (take_text s) (\<lambda>(att, s).
     Option.bind (lit '',"role":'' s) (\<lambda>s. Option.bind (take_text s) (\<lambda>(ro, s).
     Option.bind (lit '',"artifactRevision":'' s) (\<lambda>s. Option.bind (take_text s) (\<lambda>(rev, s).
     Option.bind (lit '',"candidateDigest":{"algorithm":"sha256","hex":'' s) (\<lambda>s.
     Option.bind (take_text s) (\<lambda>(hx, s).
     Option.bind (lit ''},"kind":'' s) (\<lambda>s. Option.bind (take_text s) (\<lambda>(k, s).
     Option.bind (take_optional ''findingCount'' take_number s) (\<lambda>(fc, s).
     Option.bind (take_optional ''artifactRef'' take_text s) (\<lambda>(ar, s).
     Option.bind (take_optional ''shortErrorCode'' take_text s) (\<lambda>(sc, s).
     Option.bind (lit ''}'' s) (\<lambda>s.
     Some (\<lparr>sdto_event_id = ev, sdto_workflow_id = wf, sdto_assignment_id = asg, sdto_attempt_id = att,
            sdto_role = role_of_name ro, sdto_artifact_revision = rev,
            sdto_candidate_digest = \<lparr>dto_algorithm = DigestAlgorithmDto_Sha256, dto_hex = hx\<rparr>,
            sdto_kind = kind_of_name k, sdto_finding_count = map_option word_of_nat fc,
            sdto_artifact_ref = ar, sdto_short_error_code = sc\<rparr>, s)))))))))))))))))))))\<close>

definition read_record :: "string \<Rightarrow> RecordDto option" where
  \<open>read_record s0 =
     Option.bind (lit ''{"schemaVersion":'' s0) (\<lambda>s. Option.bind (take_number s) (\<lambda>(v, s).
     Option.bind (lit '',"seq":'' s) (\<lambda>s. Option.bind (take_number s) (\<lambda>(sq, s).
     Option.bind (lit '',"at":'' s) (\<lambda>s. Option.bind (take_number s) (\<lambda>(at, s).
     Option.bind (lit '',"kind":'' s) (\<lambda>s. Option.bind (take_text s) (\<lambda>(k, s).
     Option.bind (lit '',"signal":'' s) (\<lambda>s. Option.bind (read_signal s) (\<lambda>(sg, s).
     if s = ''}'' then
       Some \<lparr>dto_schema_version = v, dto_seq = sq, dto_at = word_of_nat at, dto_kind = k, dto_signal = sg\<rparr>
     else None))))))))))\<close>

lemma lit_absent:
  assumes "lit (CHR '','' # json_string n @ '':'') s = None" "n \<noteq> m" "plain n" "plain m"
  shows "lit (CHR '','' # json_string n @ '':'') (optional_member m f v @ s) = None"
proof (cases v)
  case (Some x)
  have "lit (n @ CHR 0x22 # '':'') (m @ CHR 0x22 # r) = None" for r
    using assms(2-4)
  proof (induction n arbitrary: m)
    case Nil
    then show ?case by (cases m) (auto simp: plain_byte_def)
  next
    case (Cons a n)
    then show ?case by (cases m) (auto simp: plain_byte_def)
  qed
  then show ?thesis by (simp add: optional_member_def Some json_string_def)
qed (use assms in \<open>simp add: optional_member_def\<close>)

lemma starts_field_member [simp]: "starts_field s \<Longrightarrow> starts_field (optional_member n f v @ s)"
  by (cases v) (simp_all add: optional_member_def starts_field_def byte_defs)

lemma starts_field_Cons [simp]: "starts_field (c # s) \<longleftrightarrow> \<not> is_ascii_digit c"
  by (simp add: starts_field_def)

lemma read_signal_text:
  assumes "plain_signal d" shows "read_signal (signal_text d @ s) = Some (d, s)"
proof -
  let ?s1 = "''}'' @ s"
  let ?s2 = "optional_member ''shortErrorCode'' json_string (sdto_short_error_code d) @ ?s1"
  let ?s3 = "optional_member ''artifactRef'' json_string (sdto_artifact_ref d) @ ?s2"
  have names: "plain ''findingCount''" "plain ''artifactRef''" "plain ''shortErrorCode''"
    by (simp_all add: plain_byte_def byte_defs)
  have base: "lit (CHR '','' # json_string n @ '':'') ?s1 = None" for n by simp
  have sf: "starts_field ?s3" by (simp add: byte_defs)
  have "take_optional ''shortErrorCode'' take_text ?s2 = Some (sdto_short_error_code d, ?s1)"
    using assms base by (intro take_optional_present) (auto simp: plain_signal_def)
  moreover have "take_optional ''artifactRef'' take_text ?s3 = Some (sdto_artifact_ref d, ?s2)"
    using assms by (intro take_optional_present) (auto simp: plain_signal_def intro!: lit_absent base names)
  moreover have "take_optional ''findingCount'' take_number
      (optional_member ''findingCount'' (\<lambda>n. show_nat (unat n)) (sdto_finding_count d) @ ?s3) =
      Some (map_option unat (sdto_finding_count d), ?s3)"
  proof (cases "sdto_finding_count d")
    case None
    have "lit (CHR '','' # json_string ''findingCount'' @ '':'') ?s3 = None"
      by (intro lit_absent base names) simp_all
    then show ?thesis by (simp add: None take_optional_def optional_member_def)
  next
    case (Some n)
    have "optional_member ''findingCount'' (\<lambda>n. show_nat (unat n)) (Some n) @ ?s3 =
        (CHR '','' # json_string ''findingCount'' @ '':'') @ (show_nat (unat n) @ ?s3)"
      by (simp add: optional_member_def)
    then show ?thesis
      unfolding Some take_optional_def by (simp only: lit_append option.case take_number_show [OF sf]) simp
  qed
  moreover have "map_option word_of_nat (map_option unat (sdto_finding_count d)) = sdto_finding_count d"
    by (cases "sdto_finding_count d") simp_all
  moreover have "\<lparr>dto_algorithm = DigestAlgorithmDto_Sha256, dto_hex = dto_hex (sdto_candidate_digest d)\<rparr> =
      sdto_candidate_digest d"
    by (cases "sdto_candidate_digest d"; cases "dto_algorithm (sdto_candidate_digest d)") simp
  ultimately show ?thesis
    using assms unfolding read_signal_def signal_text_def
    by (simp add: plain_signal_def)
qed

lemma read_record_text:
  assumes "plain_record d" shows "read_record (record_text d) = Some d"
  using assms unfolding read_record_def record_text_def
  by (simp add: plain_record_def read_signal_text byte_defs)

definition example_record_serde :: RecordSerde where
  "example_record_serde =
     \<lparr>de_visit = (\<lambda>s. case read_record s of None \<Rightarrow> DeFail ''expected value'' | Some d \<Rightarrow> record_tree d),
      de_end = (\<lambda>_. Inr ()), de_position = (\<lambda>_. []),
      probe_schema_version = (\<lambda>s. ok_or ''expected value'' (map_option (Some \<circ> dto_schema_version) (read_record s))),
      from_str_RecordDto = (\<lambda>s. ok_or ''expected value'' (read_record s)),
      to_string_RecordDto = record_text\<rparr>"

lemma example_record_serde_laws: "record_serde_laws example_record_serde"
  by (simp add: record_serde_laws_def example_record_serde_def read_record_text)

section \<open>Properties\<close>

definition example_entry :: JournalEntry where
  "example_entry = \<lparr>seq = 1, at = BoundedTimestamp 1700000000, event = SignalAccepted example_signal\<rparr>"

lemma example_entry_wf: "wf_entry example_entry" "seq example_entry = 1"
  using example_wf(1) by (simp_all add: wf_entry_def example_entry_def wf_BoundedTimestamp_def
      MIN_UNIX_SECONDS_def MAX_UNIX_SECONDS_def)

text \<open>C25: a journal record survives the disk. For an entry built by the constructors whose sequence
  number is in the record range, encoding succeeds with a line that decodes to the same entry,
  is printable ASCII (so it contains no newline and is UTF-8) and is shorter than four kilobytes;
  out of the range encoding is refused; and whatever a line decodes to is an entry the encoder
  accepts.\<close>

theorem record_round_trip:
  assumes "record_serde_laws S" and "wf_entry e"
  shows "(if 0 < seq e \<and> seq e \<le> MAX_JOURNAL_ENTRIES
      then \<exists>line. encode_record S e = Inr line \<and> decode_record S line = Inr e \<and>
             printable line \<and> CHR 0x0A \<notin> set line \<and> length line < 4096
      else \<exists>detail. encode_record S e = Inl (Corrupt detail)) \<and>
    (\<forall>line e'. decode_record S line = Inr e' \<longrightarrow> wf_entry e' \<and> is_ok (encode_record S e'))"
proof (intro conjI allI impI)
  show "if 0 < seq e \<and> seq e \<le> MAX_JOURNAL_ENTRIES
      then \<exists>line. encode_record S e = Inr line \<and> decode_record S line = Inr e \<and>
             printable line \<and> CHR 0x0A \<notin> set line \<and> length line < 4096
      else \<exists>detail. encode_record S e = Inl (Corrupt detail)"
  proof (cases "0 < seq e \<and> seq e \<le> MAX_JOURNAL_ENTRIES")
    case True
    then have pl: "plain_record (entry_record e)" using entry_record_plain assms(2) by blast
    have "encode_record S e = Inr (record_text (entry_record e))"
      using True assms(1) pl by (simp add: encode_record_def encode_entry_def record_serde_laws_def)
    with True pl assms printable_no_newline [OF record_text_printable [OF pl]] show ?thesis
      by (simp add: decode_record_def decode_line_encoded record_text_length record_text_printable)
  qed (auto simp: encode_record_def encode_entry_def)
next
  fix line e' assume d: "decode_record S line = Inr e'"
  from decode_line_sound [OF d [unfolded decode_record_def]]
  show "wf_entry e'" "is_ok (encode_record S e')"
    by (simp_all add: encode_record_def encode_entry_def)
qed

theorem record_round_trip_witness:
  "\<exists>line. encode_record example_record_serde example_entry = Inr line \<and>
     decode_record example_record_serde line = Inr example_entry"
  using record_round_trip [OF example_record_serde_laws example_entry_wf(1)]
  by (auto simp: example_entry_wf(2) MAX_JOURNAL_ENTRIES_def)

end
