(* ===== verification/Store_Metadata.thy ===== *)
theory Store_Metadata
  imports Store_Record
begin

text \<open>
  \<^verbatim>\<open>crates/aizign-store-jsonl/src/commit.rs\<close> and \<^verbatim>\<open>publish.rs\<close>: the two metadata documents of a store.
  The commit point names the committed prefix of the journal by length, entry count and SHA-256; the
  publication witness says whether a publication is prepared or clean. Generations, counts and
  lengths are natural numbers: the readers deliver \<open>u64\<close> values and every sum in the code is of
  values the decoders have bounded before.

  The serde conversions and the sha2 hasher are parameters; \<open>store_serde_laws\<close> states what the store
  relies on of them.
\<close>

section \<open>Commit metadata (commit.rs)\<close>

definition STORE_METADATA_VERSION :: nat where "STORE_METADATA_VERSION = 2"
definition MAX_COMMIT_METADATA_BYTES :: nat where "MAX_COMMIT_METADATA_BYTES = 4 * 1024"

record CommitPoint =
  generation :: nat
  committed_bytes :: nat
  committed_entries :: nat
  cp_digest :: bytes

record CommitDto =
  cdto_store_version :: nat
  cdto_generation :: nat
  cdto_committed_bytes :: nat
  cdto_committed_entries :: nat
  cdto_sha256 :: string

record PublishDto =
  pdto_store_version :: nat
  pdto_started_generation :: nat
  pdto_published_generation :: nat

record 's StoreSerde = RecordSerde +
  probe_store_version :: "bytes \<Rightarrow> (string, nat option) result"
  from_slice_CommitDto :: "bytes \<Rightarrow> (string, CommitDto) result"
  to_vec_CommitDto :: "CommitDto \<Rightarrow> bytes"
  from_slice_PublishDto :: "bytes \<Rightarrow> (string, PublishDto) result"
  to_vec_PublishDto :: "PublishDto \<Rightarrow> bytes"
  sha_new :: 's
  sha_update :: "'s \<Rightarrow> bytes \<Rightarrow> 's"
  sha_finalize :: "'s \<Rightarrow> bytes"

function chunks :: "nat \<Rightarrow> 'a list \<Rightarrow> 'a list list" where
  "chunks n xs = (if n = 0 \<or> xs = [] then [] else take n xs # chunks n (drop n xs))"
  by auto
termination by (relation "measure (\<lambda>(n, xs). length xs)") auto

declare chunks.simps [simp del]

definition hash_chunks :: "('s, 'a) StoreSerde_scheme \<Rightarrow> bytes list \<Rightarrow> bytes" where
  "hash_chunks S cs = sha_finalize S (foldl (sha_update S) (sha_new S) cs)"

definition hash_bytes :: "('s, 'a) StoreSerde_scheme \<Rightarrow> bytes \<Rightarrow> bytes" where
  "hash_bytes S bs = hash_chunks S (chunks 8192 bs)"

definition HEX :: string where "HEX = ''0123456789abcdef''"

definition encode_hex :: "bytes \<Rightarrow> string" where
  "encode_hex d = concat (map (\<lambda>b. [HEX ! (byte_code b div 16), HEX ! (byte_code b mod 16)]) d)"

definition nibble :: "char \<Rightarrow> nat option" where
  "nibble b =
     (if 48 \<le> byte_code b \<and> byte_code b \<le> 57 then Some (byte_code b - 48)
      else if 97 \<le> byte_code b \<and> byte_code b \<le> 102 then Some (byte_code b - 97 + 10)
      else None)"

fun decode_pairs :: "string \<Rightarrow> bytes option" where
  "decode_pairs (a # b # r) =
     (case nibble a of
        None \<Rightarrow> None
      | Some hi \<Rightarrow>
          (case nibble b of
             None \<Rightarrow> None
           | Some lo \<Rightarrow> map_option (\<lambda>ds. char_of (hi * 16 + lo) # ds) (decode_pairs r)))"
| "decode_pairs _ = Some []"

definition decode_hex :: "string \<Rightarrow> bytes option" where
  "decode_hex s = (if length s \<noteq> 64 then None else decode_pairs s)"

definition ends_integer :: "char \<Rightarrow> bool" where
  "ends_integer b \<longleftrightarrow> b \<in> {CHR '','', CHR 0x7D, CHR '']'', CHR '' '', CHR 0x09, CHR 0x0D, CHR 0x0A}"

definition noncanonical_token :: "bytes \<Rightarrow> bool" where
  "noncanonical_token token \<longleftrightarrow>
     token \<noteq> ''0'' \<and>
     ((case token of [] \<Rightarrow> True | b # _ \<Rightarrow> \<not> (49 \<le> byte_code b \<and> byte_code b \<le> 57)) \<or>
      \<not> list_all is_ascii_digit token)"

function noncanonical_loop :: "bool \<Rightarrow> bool \<Rightarrow> bytes \<Rightarrow> bool" where
  "noncanonical_loop in_string escaped bs =
     (case bs of
        [] \<Rightarrow> False
      | b # r \<Rightarrow>
          if in_string then
            if escaped then noncanonical_loop True False r
            else if b = CHR 0x5C then noncanonical_loop True True r
            else if b = CHR 0x22 then noncanonical_loop False False r
            else noncanonical_loop True False r
          else if b = CHR 0x22 then noncanonical_loop True escaped r
          else if b = CHR ''-'' \<or> is_ascii_digit b then
            if noncanonical_token (b # takeWhile (\<lambda>c. \<not> ends_integer c) r) then True
            else noncanonical_loop False escaped (dropWhile (\<lambda>c. \<not> ends_integer c) r)
          else noncanonical_loop False escaped r)"
  by auto
termination
  by (relation "measure (\<lambda>(_, _, bs). length bs)") (auto simp: le_imp_less_Suc length_dropWhile_le)

declare noncanonical_loop.simps [simp del]

definition has_noncanonical_integer_token :: "bytes \<Rightarrow> bool" where
  "has_noncanonical_integer_token bs = noncanonical_loop False False bs"

definition CommitPoint_empty :: "('s, 'a) StoreSerde_scheme \<Rightarrow> CommitPoint" where
  "CommitPoint_empty S =
     \<lparr>generation = 1, committed_bytes = 0, committed_entries = 0, cp_digest = hash_bytes S []\<rparr>"

definition for_prefix :: "('s, 'a) StoreSerde_scheme \<Rightarrow> bytes \<Rightarrow> nat \<Rightarrow> CommitPoint" where
  "for_prefix S prefix entries =
     \<lparr>generation = entries + 1, committed_bytes = length prefix, committed_entries = entries,
      cp_digest = hash_bytes S prefix\<rparr>"

definition commit_dto :: "CommitPoint \<Rightarrow> CommitDto" where
  "commit_dto p =
     \<lparr>cdto_store_version = STORE_METADATA_VERSION, cdto_generation = generation p,
      cdto_committed_bytes = committed_bytes p, cdto_committed_entries = committed_entries p,
      cdto_sha256 = encode_hex (cp_digest p)\<rparr>"

definition CommitPoint_encode :: "('s, 'a) StoreSerde_scheme \<Rightarrow> CommitPoint \<Rightarrow> bytes" where
  "CommitPoint_encode S p = to_vec_CommitDto S (commit_dto p)"

text \<open>The checks both documents share: size, UTF-8, repeated members, integer spelling and store
  version, with the document's own wording.\<close>

definition check_document ::
  "('s, 'a) StoreSerde_scheme \<Rightarrow> string \<Rightarrow> nat \<Rightarrow> bytes \<Rightarrow> (JournalError, unit) result" where
  "check_document S label maximum bs =
     (if length bs > maximum then Inl (Corrupt (label @ '' exceeds its byte bound''))
      else
        case from_utf8 bs of
          Inl _ \<Rightarrow> Inl (Corrupt (label @ '' is not UTF-8 JSON''))
        | Inr text \<Rightarrow>
            if has_duplicate_members S text then Inl (Corrupt (label @ '' repeats a JSON member''))
            else if has_noncanonical_integer_token bs
            then Inl (Corrupt (label @ '' contains a noncanonical integer''))
            else
              (case probe_store_version S bs of
                 Inl _ \<Rightarrow> Inl (Corrupt (label @ '' is not a JSON object''))
               | Inr None \<Rightarrow> Inl (Corrupt (label @ '' is missing storeVersion''))
               | Inr (Some found) \<Rightarrow>
                   if found = STORE_METADATA_VERSION then Inr () else Inl (SchemaUnsupported found)))"

definition commit_point_of_dto :: "nat \<Rightarrow> CommitDto \<Rightarrow> (JournalError, CommitPoint) result" where
  "commit_point_of_dto max_journal_bytes dto =
     (if cdto_committed_bytes dto > max_journal_bytes
      then Inl (Corrupt ''committedBytes exceeds the journal byte bound'')
      else if cdto_committed_entries dto > MAX_JOURNAL_ENTRIES then Inl (BoundExceeded MAX_JOURNAL_ENTRIES)
      else if cdto_generation dto = 0 \<or> cdto_generation dto > MAX_JOURNAL_ENTRIES + 1
      then Inl (Corrupt ''generation exceeds the store bound'')
      else if cdto_generation dto \<noteq> cdto_committed_entries dto + 1
      then Inl (Corrupt ''generation must equal committedEntries plus one'')
      else
        case decode_hex (cdto_sha256 dto) of
          None \<Rightarrow> Inl (Corrupt ''sha256 must be exactly 64 lowercase hexadecimal digits'')
        | Some d \<Rightarrow>
            Inr \<lparr>generation = cdto_generation dto, committed_bytes = cdto_committed_bytes dto,
                 committed_entries = cdto_committed_entries dto, cp_digest = d\<rparr>)"

definition CommitPoint_decode ::
  "('s, 'a) StoreSerde_scheme \<Rightarrow> bytes \<Rightarrow> nat \<Rightarrow> (JournalError, CommitPoint) result" where
  "CommitPoint_decode S bs max_journal_bytes =
     and_then (check_document S ''commit metadata'' MAX_COMMIT_METADATA_BYTES bs) (\<lambda>_.
     and_then (map_err (\<lambda>m. Corrupt (''invalid commit metadata: '' @ m)) (from_slice_CommitDto S bs))
       (commit_point_of_dto max_journal_bytes))"

section \<open>The publication witness (publish.rs)\<close>

definition MAX_PUBLISH_METADATA_BYTES :: nat where "MAX_PUBLISH_METADATA_BYTES = 4 * 1024"

record PublishWitness =
  started_generation :: nat
  published_generation :: nat

definition initializing :: PublishWitness where
  "initializing = \<lparr>started_generation = 1, published_generation = 0\<rparr>"

definition clean :: "nat \<Rightarrow> PublishWitness" where
  "clean g = \<lparr>started_generation = g, published_generation = g\<rparr>"

definition prepared :: "nat \<Rightarrow> PublishWitness" where
  "prepared next_generation =
     \<lparr>started_generation = next_generation, published_generation = next_generation - 1\<rparr>"

definition is_clean :: "PublishWitness \<Rightarrow> bool" where
  "is_clean w \<longleftrightarrow> started_generation w = published_generation w"

definition is_initializing :: "PublishWitness \<Rightarrow> bool" where
  "is_initializing w \<longleftrightarrow> started_generation w = 1 \<and> published_generation w = 0"

definition is_prepared_successor :: "PublishWitness \<Rightarrow> bool" where
  "is_prepared_successor w \<longleftrightarrow>
     published_generation w > 0 \<and> started_generation w = published_generation w + 1"

definition publish_dto :: "PublishWitness \<Rightarrow> PublishDto" where
  "publish_dto w =
     \<lparr>pdto_store_version = STORE_METADATA_VERSION, pdto_started_generation = started_generation w,
      pdto_published_generation = published_generation w\<rparr>"

definition PublishWitness_encode :: "('s, 'a) StoreSerde_scheme \<Rightarrow> PublishWitness \<Rightarrow> bytes" where
  "PublishWitness_encode S w = to_vec_PublishDto S (publish_dto w)"

definition witness_of_dto :: "PublishDto \<Rightarrow> (JournalError, PublishWitness) result" where
  "witness_of_dto dto =
     (let maximum = MAX_JOURNAL_ENTRIES + 1 in
      if pdto_started_generation dto = 0 \<or> pdto_started_generation dto > maximum \<or>
         pdto_published_generation dto > maximum
      then Inl (Corrupt ''publication generation exceeds the store bound'')
      else
        let w = \<lparr>started_generation = pdto_started_generation dto,
                 published_generation = pdto_published_generation dto\<rparr> in
        if \<not> (is_clean w \<or> is_initializing w \<or> is_prepared_successor w)
        then Inl (Corrupt ''publication witness generations are contradictory'')
        else Inr w)"

definition PublishWitness_decode ::
  "('s, 'a) StoreSerde_scheme \<Rightarrow> bytes \<Rightarrow> (JournalError, PublishWitness) result" where
  "PublishWitness_decode S bs =
     and_then (check_document S ''publication witness'' MAX_PUBLISH_METADATA_BYTES bs) (\<lambda>_.
     and_then (map_err (\<lambda>m. Corrupt (''invalid publication witness: '' @ m)) (from_slice_PublishDto S bs))
       witness_of_dto)"

section \<open>The texts of the documents\<close>

definition member :: "string \<Rightarrow> string \<Rightarrow> string" where
  "member name v = json_string name @ CHR '':'' # v"

definition commit_text :: "CommitDto \<Rightarrow> string" where
  "commit_text d =
     CHR 0x7B # member ''storeVersion'' (show_nat (cdto_store_version d)) @
     CHR '','' # member ''generation'' (show_nat (cdto_generation d)) @
     CHR '','' # member ''committedBytes'' (show_nat (cdto_committed_bytes d)) @
     CHR '','' # member ''committedEntries'' (show_nat (cdto_committed_entries d)) @
     CHR '','' # member ''sha256'' (json_string (cdto_sha256 d)) @ [CHR 0x7D]"

definition publish_text :: "PublishDto \<Rightarrow> string" where
  "publish_text d =
     CHR 0x7B # member ''storeVersion'' (show_nat (pdto_store_version d)) @
     CHR '','' # member ''startedGeneration'' (show_nat (pdto_started_generation d)) @
     CHR '','' # member ''publishedGeneration'' (show_nat (pdto_published_generation d)) @ [CHR 0x7D]"

definition commit_tree :: DeValue where
  "commit_tree =
     DeMap (scalars [''storeVersion'', ''generation'', ''committedBytes'', ''committedEntries'', ''sha256'']) None"

definition publish_tree :: DeValue where
  "publish_tree = DeMap (scalars [''storeVersion'', ''startedGeneration'', ''publishedGeneration'']) None"

definition fits_u64 :: "nat \<Rightarrow> bool" where
  "fits_u64 n \<longleftrightarrow> n < 2 ^ 64"

definition plain_commit :: "CommitDto \<Rightarrow> bool" where
  "plain_commit d \<longleftrightarrow> list_all fits_u64 [cdto_store_version d, cdto_generation d,
     cdto_committed_bytes d, cdto_committed_entries d] \<and> plain (cdto_sha256 d)"

definition plain_publish :: "PublishDto \<Rightarrow> bool" where
  "plain_publish d \<longleftrightarrow> list_all fits_u64 [pdto_store_version d, pdto_started_generation d,
     pdto_published_generation d]"

text \<open>What the store relies on: the record laws, the same for the two documents, and of the hasher
  that feeding a text in pieces is feeding it at once and that a digest has 32 bytes.\<close>

definition commit_serde_laws :: "('s, 'a) StoreSerde_scheme \<Rightarrow> bool" where
  "commit_serde_laws S \<longleftrightarrow>
     (\<forall>d. plain_commit d \<longrightarrow>
        to_vec_CommitDto S d = commit_text d \<and> from_slice_CommitDto S (commit_text d) = Inr d \<and>
        probe_store_version S (commit_text d) = Inr (Some (cdto_store_version d)) \<and>
        de_visit S (commit_text d) = commit_tree \<and> de_end S (commit_text d) = Inr ())"

definition publish_serde_laws :: "('s, 'a) StoreSerde_scheme \<Rightarrow> bool" where
  "publish_serde_laws S \<longleftrightarrow>
     (\<forall>d. plain_publish d \<longrightarrow>
        to_vec_PublishDto S d = publish_text d \<and> from_slice_PublishDto S (publish_text d) = Inr d \<and>
        probe_store_version S (publish_text d) = Inr (Some (pdto_store_version d)) \<and>
        de_visit S (publish_text d) = publish_tree \<and> de_end S (publish_text d) = Inr ())"

definition sha_laws :: "('s, 'a) StoreSerde_scheme \<Rightarrow> bool" where
  "sha_laws S \<longleftrightarrow>
     (\<forall>h a b. sha_update S h (a @ b) = sha_update S (sha_update S h a) b) \<and>
     (\<forall>h. sha_update S h [] = h) \<and> (\<forall>h. length (sha_finalize S h) = 32)"

definition store_serde_laws :: "('s, 'a) StoreSerde_scheme \<Rightarrow> bool" where
  "store_serde_laws S \<longleftrightarrow>
     record_serde_laws S \<and> commit_serde_laws S \<and> publish_serde_laws S \<and> sha_laws S"

section \<open>Hashing and hexadecimal\<close>

lemma concat_chunks: "0 < n \<Longrightarrow> concat (chunks n xs) = xs"
  by (induction n xs rule: chunks.induct) (subst chunks.simps, auto)

lemma foldl_update: "sha_laws S \<Longrightarrow> foldl (sha_update S) h cs = sha_update S h (concat cs)"
  by (induction cs arbitrary: h) (auto simp: sha_laws_def)

text \<open>The chunk size is of no consequence.\<close>

lemma hash_chunks_concat: "sha_laws S \<Longrightarrow> hash_chunks S cs = sha_finalize S (sha_update S (sha_new S) (concat cs))"
  by (simp add: hash_chunks_def foldl_update)

lemma hash_bytes_length: "sha_laws S \<Longrightarrow> length (hash_bytes S bs) = 32"
  by (simp add: hash_bytes_def hash_chunks_def sha_laws_def)

lemma nibble_HEX: "k < 16 \<Longrightarrow> nibble (HEX ! k) = Some k"
proof -
  assume "k < 16"
  then have "k \<in> set [0..<16]" by simp
  then show ?thesis by (auto simp: upt_rec HEX_def nibble_def byte_defs)
qed

lemma decode_pairs_encode: "decode_pairs (encode_hex d) = Some d"
proof (induction d)
  case (Cons b d)
  have "byte_code b div 16 < 16" using byte_code_bound [of b] by (simp add: less_mult_imp_div_less)
  moreover have "char_of (byte_code b div 16 * 16 + byte_code b mod 16) = b"
    by (simp add: byte_code_def)
  ultimately show ?case using Cons by (simp add: encode_hex_def nibble_HEX)
qed (simp add: encode_hex_def)

lemma encode_hex_length: "length (encode_hex d) = 2 * length d"
  by (induction d) (simp_all add: encode_hex_def)

lemma decode_hex_encode: "length d = 32 \<Longrightarrow> decode_hex (encode_hex d) = Some d"
  by (simp add: decode_hex_def encode_hex_length decode_pairs_encode)

lemma encode_hex_plain: "plain (encode_hex d)"
proof -
  have "plain_byte (HEX ! k)" if "k < 16" for k
  proof -
    from that have "k \<in> set [0..<16]" by simp
    then show ?thesis by (auto simp: upt_rec HEX_def plain_byte_def byte_defs)
  qed
  moreover have "byte_code b div 16 < 16" for b
    using byte_code_bound [of b] by (simp add: less_mult_imp_div_less)
  ultimately show ?thesis by (induction d) (simp_all add: encode_hex_def)
qed

lemma decode_pairs_length: "decode_pairs s = Some d \<Longrightarrow> length d = length s div 2"
  by (induction s arbitrary: d rule: decode_pairs.induct) (auto split: option.splits)

lemma decode_hex_Some: "decode_hex s = Some d \<Longrightarrow> length d = 32"
  by (auto simp: decode_hex_def decode_pairs_length split: if_splits)

section \<open>Canonical integers in the documents\<close>

lemma noncanonical_string:
  assumes "plain x" shows "noncanonical_loop False False (json_string x @ r) = noncanonical_loop False False r"
proof -
  have "noncanonical_loop True False (x @ CHR 0x22 # r) = noncanonical_loop False False r"
    using assms
    by (induction x) (simp_all add: noncanonical_loop.simps [of True] plain_byte_def)
  then show ?thesis by (simp add: json_string_def noncanonical_loop.simps [of False False "CHR 0x22 # _"])
qed

lemma digits_no_end: "list_all is_ascii_digit ds \<Longrightarrow> c \<in> set ds \<Longrightarrow> \<not> ends_integer c"
  by (auto simp: list_all_iff ends_integer_def byte_defs)

lemma digit_char_0: "digit_char 0 = CHR ''0''"
  by code_simp

lemma show_nat_leading: "show_nat n = ''0'' \<or> (\<exists>c cs. show_nat n = c # cs \<and> 49 \<le> byte_code c \<and> byte_code c \<le> 57)"
proof (induction n rule: show_nat.induct)
  case (1 n)
  show ?case
  proof (cases "n < 10")
    case True
    then have "show_nat n = [digit_char n]" by (simp add: show_nat.simps [of n])
    with True show ?thesis by (cases "n = 0") (simp_all add: digit_char_0)
  next
    case False
    then have "n div 10 \<noteq> 0" by simp
    then have "show_nat (n div 10) \<noteq> ''0''"
      using digits_value_show_nat [of "n div 10"] by (auto simp: digits_value_def byte_defs)
    with False "1" show ?thesis by (auto simp: show_nat.simps [of n])
  qed
qed

lemma noncanonical_number:
  assumes "ends_integer e"
  shows "noncanonical_loop False False (show_nat n @ e # r) = noncanonical_loop False False (e # r)"
proof -
  note d = show_nat_digits [of n]
  obtain c cs where s: "show_nat n = c # cs" by (cases "show_nat n") auto
  have dc: "is_ascii_digit c" "list_all is_ascii_digit cs" using d s by simp_all
  have tok: "takeWhile (\<lambda>c. \<not> ends_integer c) (cs @ e # r) = cs"
    "dropWhile (\<lambda>c. \<not> ends_integer c) (cs @ e # r) = e # r"
    using digits_no_end [OF dc(2)] assms by (simp_all add: takeWhile_append2 dropWhile_append2)
  have "\<not> noncanonical_token (c # cs)"
    using show_nat_leading [of n] d by (auto simp: s noncanonical_token_def)
  moreover have "c \<noteq> CHR 0x22" using dc by (auto simp: byte_defs)
  ultimately show ?thesis
    by (simp add: s noncanonical_loop.simps [of False False "c # _"] tok dc)
qed

lemma noncanonical_punctuation:
  "c \<in> {CHR 0x7B, CHR 0x7D, CHR '','', CHR '':''} \<Longrightarrow>
     noncanonical_loop False False (c # r) = noncanonical_loop False False r"
  by (auto simp: noncanonical_loop.simps [of False False "_ # _"] byte_defs)

lemma noncanonical_Nil [simp]: "\<not> noncanonical_loop a b []"
  by (simp add: noncanonical_loop.simps)

lemmas noncanonical_rules = noncanonical_string noncanonical_number noncanonical_punctuation

lemma ends_integer_simps [simp]: "ends_integer (CHR '','')" "ends_integer (CHR 0x7D)"
  by (simp_all add: ends_integer_def)

lemma documents_canonical:
  "plain (cdto_sha256 d) \<Longrightarrow> \<not> has_noncanonical_integer_token (commit_text d)"
  "\<not> has_noncanonical_integer_token (publish_text w)"
  by (simp_all add: has_noncanonical_integer_token_def commit_text_def publish_text_def member_def
      noncanonical_rules plain_byte_def byte_defs)

section \<open>Decoding is the inverse of encoding\<close>

definition wf_point :: "nat \<Rightarrow> CommitPoint \<Rightarrow> bool" where
  "wf_point max_bytes p \<longleftrightarrow>
     generation p = committed_entries p + 1 \<and> committed_entries p \<le> MAX_JOURNAL_ENTRIES \<and>
     committed_bytes p \<le> max_bytes \<and> length (cp_digest p) = 32"

definition wf_witness :: "PublishWitness \<Rightarrow> bool" where
  "wf_witness w \<longleftrightarrow>
     started_generation w \<le> MAX_JOURNAL_ENTRIES + 1 \<and>
     (started_generation w = published_generation w \<and> 0 < started_generation w \<or>
      started_generation w = published_generation w + 1)"

lemma commit_point_of_dto_iff:
  "commit_point_of_dto m dto = Inr p \<longleftrightarrow>
     wf_point m p \<and> generation p = cdto_generation dto \<and> committed_bytes p = cdto_committed_bytes dto \<and>
     committed_entries p = cdto_committed_entries dto \<and> decode_hex (cdto_sha256 dto) = Some (cp_digest p)"
  by (cases p) (auto simp: commit_point_of_dto_def wf_point_def dest: decode_hex_Some split: option.splits)

lemma witness_of_dto_iff:
  "witness_of_dto dto = Inr w \<longleftrightarrow>
     wf_witness w \<and> started_generation w = pdto_started_generation dto \<and>
     published_generation w = pdto_published_generation dto"
  by (cases w) (auto simp: witness_of_dto_def Let_def wf_witness_def is_clean_def is_initializing_def
      is_prepared_successor_def)

lemma CommitPoint_decode_wf: "CommitPoint_decode S bs m = Inr p \<Longrightarrow> wf_point m p"
  by (auto simp: CommitPoint_decode_def and_then_eq_Inr commit_point_of_dto_iff)

lemma PublishWitness_decode_wf: "PublishWitness_decode S bs = Inr w \<Longrightarrow> wf_witness w"
  by (auto simp: PublishWitness_decode_def and_then_eq_Inr witness_of_dto_iff)

lemma document_printable:
  "plain (cdto_sha256 d) \<Longrightarrow> printable (commit_text d)" "printable (publish_text w)"
  by (simp_all add: commit_text_def publish_text_def member_def plain_printable plain_byte_def byte_defs)

lemma document_length:
  "plain_commit d \<Longrightarrow> length (cdto_sha256 d) = 64 \<Longrightarrow> length (commit_text d) \<le> 4096"
  "plain_publish w \<Longrightarrow> length (publish_text w) \<le> 4096"
  using length_show_u64 [of "cdto_store_version d"] length_show_u64 [of "cdto_generation d"]
    length_show_u64 [of "cdto_committed_bytes d"] length_show_u64 [of "cdto_committed_entries d"]
    length_show_u64 [of "pdto_store_version w"] length_show_u64 [of "pdto_started_generation w"]
    length_show_u64 [of "pdto_published_generation w"]
  by (simp_all add: plain_commit_def plain_publish_def fits_u64_def commit_text_def publish_text_def member_def)

lemma document_trees: "complete commit_tree" "unrepeated commit_tree" "complete publish_tree" "unrepeated publish_tree"
  by (auto simp: commit_tree_def publish_tree_def)

text \<open>The fields of \<open>wf_point\<close> and \<open>wf_witness\<close> are small enough for the DTOs.\<close>

lemma dto_plain:
  "wf_point m p \<Longrightarrow> m < 2 ^ 64 \<Longrightarrow> plain_commit (commit_dto p)"
  "wf_witness w \<Longrightarrow> plain_publish (publish_dto w)"
  by (auto simp: wf_point_def wf_witness_def plain_commit_def plain_publish_def commit_dto_def
      publish_dto_def fits_u64_def STORE_METADATA_VERSION_def MAX_JOURNAL_ENTRIES_def encode_hex_plain)

lemma decode_encode_point:
  assumes "commit_serde_laws S" "wf_point m p" "m < 2 ^ 64"
  shows "CommitPoint_decode S (CommitPoint_encode S p) m = Inr p"
proof -
  let ?d = "commit_dto p"
  note pl = dto_plain(1) [OF assms(2,3)]
  note laws = assms(1) [unfolded commit_serde_laws_def, rule_format, OF pl]
  have sha: "plain (cdto_sha256 ?d)" "length (cdto_sha256 ?d) = 64"
    using assms(2) by (simp_all add: commit_dto_def encode_hex_plain encode_hex_length wf_point_def)
  have "check_document S ''commit metadata'' MAX_COMMIT_METADATA_BYTES (commit_text ?d) = Inr ()"
    using laws document_length(1) [OF pl sha(2)] document_printable(1) [OF sha(1)]
      documents_canonical(1) [OF sha(1)]
    by (simp add: check_document_def MAX_COMMIT_METADATA_BYTES_def from_utf8_ascii printable_ascii
        has_duplicate_members_complete document_trees) (simp add: commit_dto_def)
  then show ?thesis
    using laws assms(2)
    by (auto simp: CommitPoint_decode_def CommitPoint_encode_def commit_point_of_dto_iff)
      (simp_all add: commit_dto_def decode_hex_encode wf_point_def)
qed

lemma decode_encode_witness:
  assumes "publish_serde_laws S" "wf_witness w"
  shows "PublishWitness_decode S (PublishWitness_encode S w) = Inr w"
proof -
  let ?d = "publish_dto w"
  note pl = dto_plain(2) [OF assms(2)]
  note laws = assms(1) [unfolded publish_serde_laws_def, rule_format, OF pl]
  have "check_document S ''publication witness'' MAX_PUBLISH_METADATA_BYTES (publish_text ?d) = Inr ()"
    using laws document_length(2) [OF pl] document_printable(2) documents_canonical(2)
    by (simp add: check_document_def MAX_PUBLISH_METADATA_BYTES_def from_utf8_ascii printable_ascii
        has_duplicate_members_complete document_trees) (simp add: publish_dto_def)
  then show ?thesis
    using laws assms(2)
    by (auto simp: PublishWitness_decode_def PublishWitness_encode_def witness_of_dto_iff)
      (simp_all add: publish_dto_def)
qed

section \<open>A reader and hasher that keep the laws\<close>

definition read_member :: "string \<Rightarrow> (string \<Rightarrow> ('a \<times> string) option) \<Rightarrow> string \<Rightarrow> ('a \<times> string) option" where
  "read_member name p s = Option.bind (lit (json_string name @ '':'') s) p"

definition read_commit :: "bytes \<Rightarrow> CommitDto option" where
  "read_commit s0 =
     Option.bind (lit [CHR 0x7B] s0) (\<lambda>s.
     Option.bind (read_member ''storeVersion'' take_number s) (\<lambda>(v, s).
     Option.bind (lit '','' s) (\<lambda>s.
     Option.bind (read_member ''generation'' take_number s) (\<lambda>(g, s).
     Option.bind (lit '','' s) (\<lambda>s.
     Option.bind (read_member ''committedBytes'' take_number s) (\<lambda>(cb, s).
     Option.bind (lit '','' s) (\<lambda>s.
     Option.bind (read_member ''committedEntries'' take_number s) (\<lambda>(ce, s).
     Option.bind (lit '','' s) (\<lambda>s.
     Option.bind (read_member ''sha256'' take_text s) (\<lambda>(h, s).
     if s = [CHR 0x7D] then
       Some \<lparr>cdto_store_version = v, cdto_generation = g, cdto_committed_bytes = cb,
             cdto_committed_entries = ce, cdto_sha256 = h\<rparr>
     else None))))))))))"

definition read_publish :: "bytes \<Rightarrow> PublishDto option" where
  "read_publish s0 =
     Option.bind (lit [CHR 0x7B] s0) (\<lambda>s.
     Option.bind (read_member ''storeVersion'' take_number s) (\<lambda>(v, s).
     Option.bind (lit '','' s) (\<lambda>s.
     Option.bind (read_member ''startedGeneration'' take_number s) (\<lambda>(g, s).
     Option.bind (lit '','' s) (\<lambda>s.
     Option.bind (read_member ''publishedGeneration'' take_number s) (\<lambda>(p, s).
     if s = [CHR 0x7D] then
       Some \<lparr>pdto_store_version = v, pdto_started_generation = g, pdto_published_generation = p\<rparr>
     else None))))))"

lemma read_member_member:
  "p (v @ s) = Some (x, s) \<Longrightarrow> read_member name p (member name v @ s) = Some (x, s)"
proof -
  assume p: "p (v @ s) = Some (x, s)"
  have "member name v @ s = (json_string name @ '':'') @ (v @ s)" by (simp add: member_def)
  then show ?thesis using p by (simp only: read_member_def lit_append Option.bind.simps)
qed

lemma read_documents:
  "plain (cdto_sha256 d) \<Longrightarrow> read_commit (commit_text d) = Some d" "read_publish (publish_text w) = Some w"
  by (simp_all add: read_commit_def read_publish_def commit_text_def publish_text_def
      read_member_member byte_defs)

lemma documents_distinct: "read_commit (publish_text w) = None" "read_record (publish_text w) = None"
  "read_record (commit_text d) = None"
  by (simp_all add: read_commit_def read_record_def publish_text_def commit_text_def member_def
      read_member_def json_string_def byte_defs)

definition example_store_serde :: "bytes StoreSerde" where
  "example_store_serde =
     \<lparr>de_visit = (\<lambda>s. case read_record s of Some d \<Rightarrow> record_tree d | None \<Rightarrow>
                   (case read_commit s of Some _ \<Rightarrow> commit_tree | None \<Rightarrow>
                     (case read_publish s of Some _ \<Rightarrow> publish_tree | None \<Rightarrow> DeFail ''expected value''))),
      de_end = (\<lambda>_. Inr ()), de_position = (\<lambda>_. []),
      probe_schema_version = probe_schema_version example_record_serde,
      from_str_RecordDto = from_str_RecordDto example_record_serde,
      to_string_RecordDto = to_string_RecordDto example_record_serde,
      probe_store_version = (\<lambda>s. case read_commit s of Some d \<Rightarrow> Inr (Some (cdto_store_version d)) | None \<Rightarrow>
        ok_or ''expected value'' (map_option (\<lambda>d. Some (pdto_store_version d)) (read_publish s))),
      from_slice_CommitDto = (\<lambda>s. ok_or ''expected value'' (read_commit s)),
      to_vec_CommitDto = commit_text,
      from_slice_PublishDto = (\<lambda>s. ok_or ''expected value'' (read_publish s)),
      to_vec_PublishDto = publish_text,
      sha_new = [], sha_update = (@), sha_finalize = (\<lambda>h. take 32 (h @ replicate 32 (CHR 0x00)))\<rparr>"

lemma example_store_serde_laws: "store_serde_laws example_store_serde"
proof -
  have "record_serde_laws example_store_serde"
    by (simp add: record_serde_laws_def example_store_serde_def example_record_serde_def read_record_text)
  moreover have "commit_serde_laws example_store_serde" "publish_serde_laws example_store_serde"
    by (simp_all add: commit_serde_laws_def publish_serde_laws_def example_store_serde_def
        plain_commit_def read_documents documents_distinct)
  moreover have "sha_laws example_store_serde" by (auto simp: sha_laws_def example_store_serde_def min_def)
  ultimately show ?thesis by (simp add: store_serde_laws_def)
qed

section \<open>Properties\<close>

text \<open>C26: the metadata documents survive the disk, and decoding refuses everything else. Every
  well-formed commit point and witness decodes from its encoding; and a document that decodes gives a
  commit point whose generation is its entry count plus one, within the entry and byte bounds and
  with a 32-byte digest, or a witness that is clean, initializing or prepared within the generation
  bound.\<close>

theorem metadata_round_trip:
  assumes "store_serde_laws S"
  shows "(wf_point m p \<and> m < 2 ^ 64 \<longrightarrow> CommitPoint_decode S (CommitPoint_encode S p) m = Inr p) \<and>
    (wf_witness w \<longrightarrow> PublishWitness_decode S (PublishWitness_encode S w) = Inr w) \<and>
    (\<forall>bs q. CommitPoint_decode S bs m = Inr q \<longrightarrow> wf_point m q) \<and>
    (\<forall>bs v. PublishWitness_decode S bs = Inr v \<longrightarrow> wf_witness v \<and>
       (is_clean v \<or> is_initializing v \<or> is_prepared_successor v))"
proof -
  have "is_clean v \<or> is_initializing v \<or> is_prepared_successor v" if "wf_witness v" for v
    using that by (auto simp: wf_witness_def is_clean_def is_initializing_def is_prepared_successor_def)
  with assms show ?thesis
    by (auto simp: store_serde_laws_def decode_encode_point decode_encode_witness
        dest: CommitPoint_decode_wf PublishWitness_decode_wf)
qed

theorem metadata_round_trip_witness:
  "CommitPoint_decode example_store_serde
     (CommitPoint_encode example_store_serde (for_prefix example_store_serde ''abc'' 1)) 100 =
     Inr (for_prefix example_store_serde ''abc'' 1) \<and>
   PublishWitness_decode example_store_serde (PublishWitness_encode example_store_serde (prepared 2)) =
     Inr (prepared 2)"
proof -
  have "wf_point 100 (for_prefix example_store_serde ''abc'' 1)" "wf_witness (prepared 2)"
    using example_store_serde_laws
    by (simp_all add: wf_point_def for_prefix_def hash_bytes_length store_serde_laws_def wf_witness_def
        prepared_def MAX_JOURNAL_ENTRIES_def)
  then show ?thesis
    using metadata_round_trip [OF example_store_serde_laws, of 100 "for_prefix example_store_serde ''abc'' 1"
        "prepared 2"] by simp
qed

end
