(* ===== verification/Store_Profile.thy ===== *)
theory Store_Profile
  imports Engine
begin

text \<open>
  \<^verbatim>\<open>crates/aizign-store-jsonl/src/mountinfo.rs\<close> and \<^verbatim>\<open>profile.rs\<close>: the facts about the file system
  under an opened file that the store insists on, and the bounded parser of
  \<^verbatim>\<open>/proc/self/mountinfo\<close> they come from. An opened file is its inode number. The system calls
  (\<open>statx\<close>, \<open>fstatfs\<close> and reading the mount table) are the parameter \<open>ProfileSystem\<close>;
  a \<open>ProfileOps\<close> implementation is an operation on its own state.
\<close>

section \<open>Mount information (mountinfo.rs)\<close>

definition MAX_MOUNTINFO_BYTES :: nat where "MAX_MOUNTINFO_BYTES = 1024 * 1024"
definition MAX_MOUNTINFO_ROWS :: nat where "MAX_MOUNTINFO_ROWS = 4096"

record MountRecord =
  mr_mount_id :: nat
  mr_device_major :: nat
  mr_device_minor :: nat
  mr_filesystem_type :: string
  mr_mount_read_only :: bool
  mr_superblock_read_only :: bool

text \<open>\<open>str::lines\<close>: a line ends at a newline, which a carriage return before it belongs to; a last
  line without newline counts if it is not empty.\<close>

definition strip_cr :: "string \<Rightarrow> string" where
  "strip_cr l = (if l \<noteq> [] \<and> last l = CHR 0x0D then butlast l else l)"

definition str_lines :: "string \<Rightarrow> string list" where
  "str_lines s =
     (let ps = split_on (CHR 0x0A) s in
      map strip_cr (butlast ps) @ (if last ps = [] then [] else [last ps]))"

definition is_ascii_whitespace :: "char \<Rightarrow> bool" where
  "is_ascii_whitespace c \<longleftrightarrow> c \<in> {CHR '' '', CHR 0x09, CHR 0x0A, CHR 0x0C, CHR 0x0D}"

function split_ascii_whitespace :: "string \<Rightarrow> string list" where
  "split_ascii_whitespace s =
     (let t = dropWhile is_ascii_whitespace s in
      if t = [] then []
      else takeWhile (\<lambda>c. \<not> is_ascii_whitespace c) t #
        split_ascii_whitespace (dropWhile (\<lambda>c. \<not> is_ascii_whitespace c) t))"
  by auto
termination
proof (relation "measure length")
  fix s t :: string
  assume t: "t = dropWhile is_ascii_whitespace s" "t \<noteq> []"
  then have "\<not> is_ascii_whitespace (hd t)" by (metis hd_dropWhile)
  then have "length (dropWhile (\<lambda>c. \<not> is_ascii_whitespace c) t) < length t"
    using t(2) by (cases t) (auto simp: le_imp_less_Suc length_dropWhile_le)
  moreover have "length t \<le> length s" using t(1) by (simp add: length_dropWhile_le)
  ultimately show "(dropWhile (\<lambda>c. \<not> is_ascii_whitespace c) t, s) \<in> measure length" by simp
qed simp

declare split_ascii_whitespace.simps [simp del]

fun split_once :: "char \<Rightarrow> string \<Rightarrow> (string \<times> string) option" where
  "split_once d [] = None"
| "split_once d (c # cs) =
     (if c = d then Some ([], cs) else map_option (\<lambda>(a, b). (c # a, b)) (split_once d cs))"

definition mount_parse_u64 :: "string option \<Rightarrow> string \<Rightarrow> (JournalError, nat) result" where
  "mount_parse_u64 value name =
     and_then (ok_or (Unavailable (''mount information lacks '' @ name)) value) (\<lambda>v.
     ok_or (Unavailable (''mount information has an invalid '' @ name)) (parse_u64 v))"

definition parse_device :: "string option \<Rightarrow> (JournalError, nat \<times> nat) result" where
  "parse_device value =
     and_then (ok_or (Unavailable ''mount information lacks a device'') value) (\<lambda>v.
     and_then (ok_or (Unavailable ''mount information has an invalid device'') (split_once (CHR '':'') v))
       (\<lambda>(major, minor).
     and_then (ok_or (Unavailable ''mount information has an invalid device major'') (parse_u32 major)) (\<lambda>a.
     and_then (ok_or (Unavailable ''mount information has an invalid device minor'') (parse_u32 minor)) (\<lambda>b.
     Inr (a, b)))))"

definition option_present :: "string \<Rightarrow> string \<Rightarrow> bool" where
  "option_present options expected \<longleftrightarrow> expected \<in> set (split_on (CHR '','') options)"

text \<open>The section after the optional fields: everything up to the first \<open>-\<close> is skipped, then come the
  file system type, the source and the superblock options.\<close>

fun mount_tail :: "string list \<Rightarrow> (JournalError, string option \<times> string option) result" where
  "mount_tail [] = Inr (None, None)"
| "mount_tail (f # fs) =
     (if f = ''-'' then
        (case fs of
           [] \<Rightarrow> Inl (Unavailable ''mount information lacks a source field'')
         | [_] \<Rightarrow> Inl (Unavailable ''mount information lacks a source field'')
         | [t, _] \<Rightarrow> Inr (Some t, None)
         | [t, _, opts] \<Rightarrow> Inr (Some t, Some opts)
         | _ \<Rightarrow> Inl (Unavailable ''mount information has trailing required-section fields''))
      else mount_tail fs)"

text \<open>One row, whatever mount it is for.\<close>

definition parse_row :: "string \<Rightarrow> (JournalError, MountRecord) result" where
  "parse_row line =
     (let fs = split_ascii_whitespace line; field = get_at fs in
      and_then (mount_parse_u64 (field 0) ''mount ID'') (\<lambda>i.
      and_then (mount_parse_u64 (field 1) ''parent mount ID'') (\<lambda>_.
      and_then (parse_device (field 2)) (\<lambda>(major, minor).
      and_then (ok_or (Unavailable ''mount information lacks a root field'') (field 3)) (\<lambda>_.
      and_then (ok_or (Unavailable ''mount information lacks a mount point'') (field 4)) (\<lambda>_.
      and_then (ok_or (Unavailable ''mount information lacks mount options'') (field 5)) (\<lambda>mount_options.
      and_then (mount_tail (drop 6 fs)) (\<lambda>(filesystem_type, super_options).
      and_then (ok_or (Unavailable ''mount information lacks a separator'') filesystem_type) (\<lambda>ft.
      and_then (ok_or (Unavailable ''mount information lacks superblock options'') super_options) (\<lambda>so.
      Inr \<lparr>mr_mount_id = i, mr_device_major = major, mr_device_minor = minor, mr_filesystem_type = ft,
           mr_mount_read_only = option_present mount_options ''ro'' \<or> \<not> option_present mount_options ''rw'',
           mr_superblock_read_only = option_present so ''ro''\<rparr>))))))))))"

fun mount_rows ::
  "nat \<Rightarrow> nat \<Rightarrow> MountRecord option \<Rightarrow> string list \<Rightarrow> (JournalError, MountRecord option) result" where
  "mount_rows mount_id rows found [] = Inr found"
| "mount_rows mount_id rows found (line # ls) =
     (let rows = rows + 1 in
      if rows > MAX_MOUNTINFO_ROWS then Inl (Unavailable ''mount information exceeds its row bound'')
      else
        and_then (parse_row line) (\<lambda>r.
        if mr_mount_id r \<noteq> mount_id then mount_rows mount_id rows found ls
        else if found \<noteq> None \<or> mount_id = 0 then Inl (Unavailable ''mount ID is ambiguous or unusable'')
        else mount_rows mount_id rows (Some r) ls))"

definition find_exact_mount :: "string \<Rightarrow> nat \<Rightarrow> (JournalError, MountRecord) result" where
  "find_exact_mount text mount_id =
     and_then (mount_rows mount_id 0 None (str_lines text)) (\<lambda>found.
     ok_or (Unavailable ''mount ID has no usable mount information row'') found)"

definition read_exact_mount :: "(string, bytes) result \<Rightarrow> nat \<Rightarrow> (JournalError, MountRecord) result" where
  "read_exact_mount table mount_id =
     and_then (map_err (\<lambda>e. Unavailable (''cannot read mount information: '' @ e)) table) (\<lambda>bs.
     if length bs > MAX_MOUNTINFO_BYTES then Inl (Unavailable ''mount information exceeds its byte bound'')
     else
       and_then (map_err (\<lambda>_. Unavailable ''mount information is not UTF-8 text'') (from_utf8 bs)) (\<lambda>text.
       find_exact_mount text mount_id))"

section \<open>The store profile (profile.rs)\<close>

definition EXT_FAMILY_MAGIC :: nat where "EXT_FAMILY_MAGIC = 0xef53"

record ProfileObservation =
  mount_id :: nat
  device_major :: nat
  device_minor :: nat
  filesystem_type :: string
  filesystem_magic :: nat
  mount_read_only :: bool
  superblock_read_only :: bool

datatype QualifiedProfile = QualifiedProfile (observation: ProfileObservation)

type_synonym 'h ProfileOps = "nat \<Rightarrow> 'h \<Rightarrow> (JournalError, ProfileObservation) result \<times> 'h"

definition validate_observation :: "ProfileObservation \<Rightarrow> (JournalError, unit) result" where
  "validate_observation ob =
     (if mount_id ob = 0 then Inl (Unavailable ''opened directory has an unusable mount ID'')
      else if filesystem_type ob \<noteq> ''ext4'' then Inl (Unavailable ''opened directory is not on exact ext4'')
      else if mount_read_only ob \<or> superblock_read_only ob
      then Inl (Unavailable ''opened directory is on read-only storage'')
      else if filesystem_magic ob \<noteq> EXT_FAMILY_MAGIC
      then Inl (Unavailable ''opened directory filesystem magic does not corroborate ext4'')
      else Inr ())"

definition qualify_observed ::
  "(JournalError, ProfileObservation) result \<Rightarrow> (JournalError, QualifiedProfile) result" where
  "qualify_observed r =
     and_then r (\<lambda>ob. and_then (validate_observation ob) (\<lambda>_. Inr (QualifiedProfile ob)))"

definition same_profile_observed ::
  "QualifiedProfile \<Rightarrow> (JournalError, ProfileObservation) result \<Rightarrow> (JournalError, unit) result" where
  "same_profile_observed expected r =
     and_then r (\<lambda>actual. and_then (validate_observation actual) (\<lambda>_.
     if mount_id actual \<noteq> mount_id (observation expected) \<or>
        device_major actual \<noteq> device_major (observation expected) \<or>
        device_minor actual \<noteq> device_minor (observation expected) \<or>
        filesystem_type actual \<noteq> filesystem_type (observation expected) \<or>
        filesystem_magic actual \<noteq> filesystem_magic (observation expected)
     then Inl (Unavailable ''opened artifact does not match the qualified store profile'')
     else Inr ()))"

record Statx =
  stx_mask :: u32
  stx_mnt_id :: nat
  stx_dev_major :: nat
  stx_dev_minor :: nat

record ProfileSystem =
  statx :: "nat \<Rightarrow> (string, Statx) result"
  fstatfs :: "nat \<Rightarrow> (string, nat) result"
  mount_table :: "(string, bytes) result"

definition STATX_MNT_ID_BIT :: nat where "STATX_MNT_ID_BIT = 12"

definition require_statx_mount_id :: "u32 \<Rightarrow> (JournalError, unit) result" where
  "require_statx_mount_id returned =
     (if \<not> bit returned STATX_MNT_ID_BIT
      then Inl (Unavailable ''opened store directory did not return STATX_MNT_ID'') else Inr ())"

definition ProductionProfile_observe :: "ProfileSystem \<Rightarrow> nat \<Rightarrow> (JournalError, ProfileObservation) result" where
  "ProductionProfile_observe sys opened =
     and_then (map_err (\<lambda>e. Unavailable (''cannot qualify opened store directory: '' @ e)) (statx sys opened)) (\<lambda>stat.
     and_then (require_statx_mount_id (stx_mask stat)) (\<lambda>_.
     and_then (read_exact_mount (mount_table sys) (stx_mnt_id stat)) (\<lambda>mount.
     if stx_dev_major stat \<noteq> mr_device_major mount \<or> stx_dev_minor stat \<noteq> mr_device_minor mount
     then Inl (Unavailable ''opened directory device does not match its mount information'')
     else
       and_then (map_err (\<lambda>e. Unavailable (''cannot inspect filesystem magic: '' @ e)) (fstatfs sys opened)) (\<lambda>magic.
       Inr \<lparr>mount_id = mr_mount_id mount, device_major = stx_dev_major stat, device_minor = stx_dev_minor stat,
            filesystem_type = mr_filesystem_type mount, filesystem_magic = magic,
            mount_read_only = mr_mount_read_only mount,
            superblock_read_only = mr_superblock_read_only mount\<rparr>))))"

definition ProductionProfile :: "ProfileSystem \<Rightarrow> 'h ProfileOps" where
  "ProductionProfile sys opened h = (ProductionProfile_observe sys opened, h)"

section \<open>Properties\<close>

lemma mount_rows_iff:
  "mount_rows i n found ls = Inr r \<longleftrightarrow>
     (ls = [] \<or> n + length ls \<le> MAX_MOUNTINFO_ROWS) \<and> (\<forall>l \<in> set ls. is_ok (parse_row l)) \<and>
     (let hits = filter (\<lambda>r. mr_mount_id r = i) (map (projr \<circ> parse_row) ls) in
      hits = [] \<and> r = found \<or> (\<exists>h. hits = [h] \<and> r = Some h \<and> found = None \<and> i \<noteq> 0))"
proof (induction ls arbitrary: n found)
  case (Cons l ls)
  show ?case
  proof (cases "Suc n \<le> MAX_MOUNTINFO_ROWS")
    case True
    show ?thesis
    proof (cases "parse_row l")
      case (Inr m)
      have len: "(ls = [] \<or> Suc n + length ls \<le> MAX_MOUNTINFO_ROWS) \<longleftrightarrow> n + length (l # ls) \<le> MAX_MOUNTINFO_ROWS"
        using True by (cases ls) simp_all
      show ?thesis
        using True Inr by (auto simp: Cons.IH Let_def len)
    qed (use True in simp)
  qed simp
qed (auto simp: Let_def)

lemma find_exact_mount_iff:
  "find_exact_mount text i = Inr r \<longleftrightarrow>
     length (str_lines text) \<le> MAX_MOUNTINFO_ROWS \<and> list_all (\<lambda>l. is_ok (parse_row l)) (str_lines text) \<and>
     i \<noteq> 0 \<and> filter (\<lambda>r. mr_mount_id r = i) (map (projr \<circ> parse_row) (str_lines text)) = [r]"
  by (cases "str_lines text = []")
    (auto simp: find_exact_mount_def and_then_eq_Inr mount_rows_iff Let_def list_all_iff)

text \<open>C36: the mount lookup is unambiguous. A record is returned exactly when the table has at most
  4096 rows, every row parses, the identifier is not zero and exactly one row carries it, and then it
  is that row's record; in every other case the lookup is an error.\<close>

theorem find_exact_mount_exact:
  "find_exact_mount text i = Inr r \<longleftrightarrow>
     length (str_lines text) \<le> MAX_MOUNTINFO_ROWS \<and> list_all (\<lambda>l. is_ok (parse_row l)) (str_lines text) \<and>
     i \<noteq> 0 \<and> filter (\<lambda>r. mr_mount_id r = i) (map (projr \<circ> parse_row) (str_lines text)) = [r]"
  by (rule find_exact_mount_iff)

lemma validate_observation_ok:
  "validate_observation ob = Inr () \<longleftrightarrow>
     mount_id ob \<noteq> 0 \<and> filesystem_type ob = ''ext4'' \<and> \<not> mount_read_only ob \<and>
     \<not> superblock_read_only ob \<and> filesystem_magic ob = EXT_FAMILY_MAGIC"
  by (simp add: validate_observation_def)

lemma qualify_observed_ok:
  "qualify_observed r = Inr p \<longleftrightarrow> r = Inr (observation p) \<and> validate_observation (observation p) = Inr ()"
  by (cases p) (auto simp: qualify_observed_def and_then_eq_Inr)

lemma same_profile_observed_ok:
  "same_profile_observed p r = Inr () \<longleftrightarrow>
     (\<exists>ob. r = Inr ob \<and> validate_observation ob = Inr () \<and>
        (mount_id ob, device_major ob, device_minor ob, filesystem_type ob, filesystem_magic ob) =
        (let x = observation p in
         (mount_id x, device_major x, device_minor x, filesystem_type x, filesystem_magic x)))"
  by (cases r) (auto simp: same_profile_observed_def and_then_eq_Inr Let_def split: if_splits)

definition example_row :: string where
  "example_row = ''36 25 8:1 / / rw,relatime - ext4 /dev/root rw,errors=remount-ro'' @ [CHR 0x0A]"

definition example_system :: ProfileSystem where
  "example_system =
     \<lparr>statx = (\<lambda>_. Inr \<lparr>stx_mask = 0x1000, stx_mnt_id = 36, stx_dev_major = 8, stx_dev_minor = 1\<rparr>),
      fstatfs = (\<lambda>_. Inr 0xef53), mount_table = Inr example_row\<rparr>"

definition example_observation :: ProfileObservation where
  "example_observation =
     \<lparr>mount_id = 36, device_major = 8, device_minor = 1, filesystem_type = ''ext4'',
      filesystem_magic = 0xef53, mount_read_only = False, superblock_read_only = False\<rparr>"

lemma example_row_parsed: "find_exact_mount example_row 36 =
    Inr \<lparr>mr_mount_id = 36, mr_device_major = 8, mr_device_minor = 1, mr_filesystem_type = ''ext4'',
         mr_mount_read_only = False, mr_superblock_read_only = False\<rparr>"
proof -
  have "str_lines example_row = [''36 25 8:1 / / rw,relatime - ext4 /dev/root rw,errors=remount-ro'']"
    by code_simp
  moreover have "parse_row ''36 25 8:1 / / rw,relatime - ext4 /dev/root rw,errors=remount-ro'' =
    Inr \<lparr>mr_mount_id = 36, mr_device_major = 8, mr_device_minor = 1, mr_filesystem_type = ''ext4'',
         mr_mount_read_only = False, mr_superblock_read_only = False\<rparr>"
    by (simp add: parse_row_def Let_def split_ascii_whitespace.simps is_ascii_whitespace_def
        mount_parse_u64_def parse_u64_def parse_u32_def parse_unsigned_def digits_value_def byte_defs
        parse_device_def option_present_def get_at_def)
  ultimately show ?thesis
    by (simp add: find_exact_mount_def MAX_MOUNTINFO_ROWS_def)
qed

text \<open>C37: what a qualified directory is. When the production observation of an opened directory
  qualifies, the kernel reported a mount identifier, exactly one row of a bounded UTF-8 mount table
  carries it, that row names the device \<open>statx\<close> reported and the type ext4, the mount is writable
  (\<open>rw\<close> present and \<open>ro\<close> absent) and its superblock is not read-only, and \<open>fstatfs\<close> agrees on the
  magic number; an artifact accepted against that profile is on the same mount and device.\<close>

theorem qualified_profile_sound:
  assumes "qualify_observed (ProductionProfile_observe sys opened) = Inr p"
  shows "(\<exists>stat text r. statx sys opened = Inr stat \<and> bit (stx_mask stat) 12 \<and>
      mount_table sys = Inr text \<and> length text \<le> MAX_MOUNTINFO_BYTES \<and> is_ok (from_utf8 text) \<and>
      filter (\<lambda>r. mr_mount_id r = stx_mnt_id stat) (map (projr \<circ> parse_row) (str_lines text)) = [r] \<and>
      mr_device_major r = stx_dev_major stat \<and> mr_device_minor r = stx_dev_minor stat \<and>
      mr_filesystem_type r = ''ext4'' \<and> \<not> mr_mount_read_only r \<and> \<not> mr_superblock_read_only r \<and>
      fstatfs sys opened = Inr EXT_FAMILY_MAGIC) \<and>
    (same_profile_observed p (ProductionProfile_observe sys artifact) = Inr () \<longrightarrow>
      (\<exists>stat. statx sys artifact = Inr stat \<and> stx_dev_major stat = device_major (observation p) \<and>
         stx_dev_minor stat = device_minor (observation p) \<and> stx_mnt_id stat = mount_id (observation p)))"
proof (intro conjI impI)
  from assms have ob: "ProductionProfile_observe sys opened = Inr (observation p)"
    and ok: "validate_observation (observation p) = Inr ()"
    by (simp_all add: qualify_observed_ok)
  have unfolded: "\<exists>stat text r. statx sys f = Inr stat \<and> bit (stx_mask stat) 12 \<and>
      mount_table sys = Inr text \<and> length text \<le> MAX_MOUNTINFO_BYTES \<and> is_ok (from_utf8 text) \<and>
      find_exact_mount text (stx_mnt_id stat) = Inr r \<and>
      mr_device_major r = stx_dev_major stat \<and> mr_device_minor r = stx_dev_minor stat \<and>
      fstatfs sys f = Inr (filesystem_magic x) \<and> mount_id x = mr_mount_id r \<and>
      device_major x = stx_dev_major stat \<and> device_minor x = stx_dev_minor stat \<and>
      filesystem_type x = mr_filesystem_type r \<and> mount_read_only x = mr_mount_read_only r \<and>
      superblock_read_only x = mr_superblock_read_only r"
    if "ProductionProfile_observe sys f = Inr x" for f x
    using that
    by (auto simp: ProductionProfile_observe_def read_exact_mount_def and_then_eq_Inr
        require_statx_mount_id_def STATX_MNT_ID_BIT_def is_ok_iff dest: from_utf8_Inr split: if_splits)
      (metis from_utf8_Inr)+
  from unfolded [OF ob] ok
  show "\<exists>stat text r. statx sys opened = Inr stat \<and> bit (stx_mask stat) 12 \<and>
      mount_table sys = Inr text \<and> length text \<le> MAX_MOUNTINFO_BYTES \<and> is_ok (from_utf8 text) \<and>
      filter (\<lambda>r. mr_mount_id r = stx_mnt_id stat) (map (projr \<circ> parse_row) (str_lines text)) = [r] \<and>
      mr_device_major r = stx_dev_major stat \<and> mr_device_minor r = stx_dev_minor stat \<and>
      mr_filesystem_type r = ''ext4'' \<and> \<not> mr_mount_read_only r \<and> \<not> mr_superblock_read_only r \<and>
      fstatfs sys opened = Inr EXT_FAMILY_MAGIC"
    by (fastforce simp: validate_observation_ok find_exact_mount_iff)
next
  assume "same_profile_observed p (ProductionProfile_observe sys artifact) = Inr ()"
  then obtain x where x: "ProductionProfile_observe sys artifact = Inr x" "mount_id x = mount_id (observation p)"
    "device_major x = device_major (observation p)" "device_minor x = device_minor (observation p)"
    by (auto simp: same_profile_observed_ok Let_def)
  have "\<exists>stat. statx sys artifact = Inr stat \<and> mount_id x = stx_mnt_id stat \<and>
      device_major x = stx_dev_major stat \<and> device_minor x = stx_dev_minor stat"
    using x(1)
    by (auto simp: ProductionProfile_observe_def read_exact_mount_def and_then_eq_Inr
        find_exact_mount_iff filter_eq_Cons_iff split: if_splits)
  with x(2-4) show "\<exists>stat. statx sys artifact = Inr stat \<and> stx_dev_major stat = device_major (observation p) \<and>
         stx_dev_minor stat = device_minor (observation p) \<and> stx_mnt_id stat = mount_id (observation p)"
    by auto
qed

lemma example_profile:
  "ProductionProfile_observe example_system f = Inr example_observation"
  "validate_observation example_observation = Inr ()"
proof -
  have "from_utf8 example_row = Inr example_row" by code_simp
  then show "ProductionProfile_observe example_system f = Inr example_observation"
    using example_row_parsed
    by (simp add: ProductionProfile_observe_def example_system_def read_exact_mount_def
        require_statx_mount_id_def STATX_MNT_ID_BIT_def example_observation_def MAX_MOUNTINFO_BYTES_def)
      (simp add: example_row_def)
  show "validate_observation example_observation = Inr ()"
    by (simp add: validate_observation_def example_observation_def EXT_FAMILY_MAGIC_def)
qed

theorem qualified_profile_sound_witness:
  "qualify_observed (ProductionProfile_observe example_system 7) = Inr (QualifiedProfile example_observation) \<and>
   (\<exists>r. filter (\<lambda>r. mr_mount_id r = 36) (map (projr \<circ> parse_row) (str_lines example_row)) = [r] \<and>
      mr_filesystem_type r = ''ext4'')"
proof -
  have "qualify_observed (ProductionProfile_observe example_system 7) =
      Inr (QualifiedProfile example_observation)"
    using example_profile by (simp add: qualify_observed_ok)
  with qualified_profile_sound [OF this] show ?thesis
    by (auto simp: example_system_def)
qed

end
