(* ===== verification/Store_World.thy ===== *)
theory Store_World
  imports Store_Profile
begin

text \<open>
  The operating system as the store sees it, and \<^verbatim>\<open>durability.rs\<close> and \<^verbatim>\<open>observation.rs\<close> of
  \<^verbatim>\<open>crates/aizign-store-jsonl/src/\<close> over it.

  A computation runs on a \<open>World\<close>: the files (names, inodes, locks), a script of faults and the state
  \<open>'h\<close> of the injected hooks. Every system call takes the head of the script: a fault makes the call
  fail with its message after the given amount of its effect, so a script stands for any pattern of
  failures, and a run cut short by a fault stands for a process killed at that call. Names have a
  visible and a durable binding and inodes a flag that says whether their content has reached stable
  storage; \<open>crash_image\<close> relates a state to what a power loss may leave of it.

  Of the standard library, \<open>seek(Start(0))\<close> followed by a read or write is modelled with the position
  left implicit: reads start at the front, and every write of the store lands at the end of the file
  (the append handle, a file just created, a file just truncated).
\<close>

section \<open>Files\<close>

datatype FileKind = Regular | Directory | Symlink

record Inode =
  i_kind :: FileKind
  i_dev :: nat
  i_uid :: nat
  i_nlink :: nat
  i_mode :: nat
  i_data :: bytes
  i_clean :: bool

type_synonym Path = "string list"

datatype LockState = Unlocked | SharedBy nat | Exclusive

record System =
  vis :: "Path \<Rightarrow> nat option"
  dur :: "Path \<Rightarrow> nat option"
  inodes :: "nat \<Rightarrow> Inode option"
  next_ino :: nat
  locks :: "nat \<Rightarrow> LockState"
  creation_mode :: "nat \<Rightarrow> nat"
  proc_uid :: nat

datatype Fault = NoFault | Fault string nat

record 'h World =
  system :: System
  faults :: "Fault list"
  hooks :: 'h

datatype IoError = NotFound | OtherError string

fun show_IoError :: "IoError \<Rightarrow> string" where
  "show_IoError NotFound = ''No such file or directory (os error 2)''"
| "show_IoError (OtherError m) = m"

text \<open>\<open>Path::parent\<close>, with the root as the one-component path of a slash and the empty path the parent
  of a bare relative name, and \<open>Path::join\<close> with a file name.\<close>

definition parent_path :: "Path \<Rightarrow> Path option" where
  "parent_path p = (if p = [] \<or> p = [''/''] then None else Some (butlast p))"

definition join_path :: "Path \<Rightarrow> string \<Rightarrow> Path" where
  "join_path dir name = dir @ [name]"

definition with_file_name :: "Path \<Rightarrow> string \<Rightarrow> Path" where
  "with_file_name p name = butlast p @ [name]"

lemma parent_join [simp]: "dir \<noteq> [] \<Longrightarrow> parent_path (join_path dir n) = Some dir"
  by (simp add: parent_path_def join_path_def)

lemma join_path_simps [simp]:
  "join_path dir n = join_path dir m \<longleftrightarrow> n = m" "join_path dir n \<noteq> dir" "dir \<noteq> join_path dir n"
  "with_file_name (join_path dir n) m = join_path dir m"
  by (simp_all add: join_path_def with_file_name_def)

section \<open>Fallible computations on the world\<close>

type_synonym ('h, 'e, 'a) run = "'h World \<Rightarrow> ('e, 'a) result \<times> 'h World"

definition mret :: "'a \<Rightarrow> ('h, 'e, 'a) run" where
  "mret x w = (Inr x, w)"

definition mfail :: "'e \<Rightarrow> ('h, 'e, 'a) run" where
  "mfail e w = (Inl e, w)"

definition mlift :: "('e, 'a) result \<Rightarrow> ('h, 'e, 'a) run" where
  "mlift r w = (r, w)"

definition mbind :: "('h, 'e, 'a) run \<Rightarrow> ('a \<Rightarrow> ('h, 'e, 'b) run) \<Rightarrow> ('h, 'e, 'b) run" where
  "mbind m f w = (case m w of (Inl e, w') \<Rightarrow> (Inl e, w') | (Inr x, w') \<Rightarrow> f x w')"

definition mmap_err :: "('e \<Rightarrow> 'f) \<Rightarrow> ('h, 'e, 'a) run \<Rightarrow> ('h, 'f, 'a) run" where
  "mmap_err g m w = (case m w of (Inl e, w') \<Rightarrow> (Inl (g e), w') | (Inr x, w') \<Rightarrow> (Inr x, w'))"

section \<open>System calls\<close>

definition mode_0600 :: nat where "mode_0600 = 6 * 8 * 8"
definition mode_0700 :: nat where "mode_0700 = 7 * 8 * 8"

definition syscall ::
  "(nat \<Rightarrow> System \<Rightarrow> System) \<Rightarrow> (System \<Rightarrow> ('e, 'a) result \<times> System) \<Rightarrow> (string \<Rightarrow> 'e) \<Rightarrow> ('h, 'e, 'a) run" where
  "syscall partial op err w =
     (case faults w of
        Fault m k # fs \<Rightarrow> (Inl (err m), w\<lparr>system := partial k (system w), faults := fs\<rparr>)
      | _ \<Rightarrow>
          (case op (system w) of (r, s) \<Rightarrow> (r, w\<lparr>system := s, faults := tl (faults w)\<rparr>)))"

definition query :: "(System \<Rightarrow> (IoError, 'a) result) \<Rightarrow> ('h, IoError, 'a) run" where
  "query f = syscall (\<lambda>_ s. s) (\<lambda>s. (f s, s)) OtherError"

definition effect :: "(nat \<Rightarrow> System \<Rightarrow> System) \<Rightarrow> (System \<Rightarrow> System) \<Rightarrow> ('h, IoError, unit) run" where
  "effect partial f = syscall partial (\<lambda>s. (Inr (), f s)) OtherError"

definition entry_at :: "System \<Rightarrow> Path \<Rightarrow> (nat \<times> Inode) option" where
  "entry_at s p = (case vis s p of None \<Rightarrow> None | Some i \<Rightarrow> map_option (Pair i) (inodes s i))"

definition update_inode :: "nat \<Rightarrow> (Inode \<Rightarrow> Inode) \<Rightarrow> System \<Rightarrow> System" where
  "update_inode i f s = s\<lparr>inodes := (inodes s)(i := map_option f (inodes s i))\<rparr>"

definition parent_ino :: "System \<Rightarrow> Path \<Rightarrow> nat option" where
  "parent_ino s p = (case parent_path p of None \<Rightarrow> None | Some q \<Rightarrow> vis s q)"

definition sys_symlink_metadata :: "Path \<Rightarrow> ('h, IoError, nat \<times> Inode) run" where
  "sys_symlink_metadata p = query (\<lambda>s. case entry_at s p of None \<Rightarrow> Inl NotFound | Some m \<Rightarrow> Inr m)"

definition sys_fstat :: "nat \<Rightarrow> ('h, IoError, nat \<times> Inode) run" where
  "sys_fstat i = query (\<lambda>s. case inodes s i of
     None \<Rightarrow> Inl (OtherError ''Bad file descriptor (os error 9)'') | Some n \<Rightarrow> Inr (i, n))"

definition sys_open_read :: "Path \<Rightarrow> ('h, IoError, nat) run" where
  "sys_open_read p = query (\<lambda>s. case entry_at s p of
     None \<Rightarrow> Inl NotFound
   | Some (i, n) \<Rightarrow> if i_kind n = Symlink
       then Inl (OtherError ''Too many levels of symbolic links (os error 40)'') else Inr i)"

definition sys_open_directory :: "Path \<Rightarrow> ('h, IoError, nat) run" where
  "sys_open_directory p = query (\<lambda>s. case entry_at s p of
     None \<Rightarrow> Inl NotFound
   | Some (i, n) \<Rightarrow> if i_kind n \<noteq> Directory
       then Inl (OtherError ''Not a directory (os error 20)'') else Inr i)"

definition new_entry :: "Path \<Rightarrow> FileKind \<Rightarrow> nat \<Rightarrow> System \<Rightarrow> System" where
  "new_entry p k mode s =
     s\<lparr>vis := (vis s)(p \<mapsto> next_ino s),
       inodes := (inodes s)(next_ino s \<mapsto>
         \<lparr>i_kind = k,
          i_dev = (case Option.bind (parent_ino s p) (inodes s) of None \<Rightarrow> 0 | Some n \<Rightarrow> i_dev n),
          i_uid = proc_uid s, i_nlink = 1, i_mode = creation_mode s mode, i_data = [], i_clean = False\<rparr>),
       next_ino := Suc (next_ino s)\<rparr>"

definition create_entry :: "Path \<Rightarrow> FileKind \<Rightarrow> nat \<Rightarrow> System \<Rightarrow> (IoError, nat) result \<times> System" where
  "create_entry p k mode s =
     (if vis s p \<noteq> None then (Inl (OtherError ''File exists (os error 17)''), s)
      else if parent_ino s p = None then (Inl NotFound, s)
      else (Inr (next_ino s), new_entry p k mode s))"

definition sys_open_writable :: "Path \<Rightarrow> bool \<Rightarrow> ('h, IoError, nat) run" where
  "sys_open_writable p create_new =
     (if create_new then
        syscall (\<lambda>k s. if k = 0 then s else snd (create_entry p Regular mode_0600 s))
          (create_entry p Regular mode_0600) OtherError
      else
        query (\<lambda>s. case entry_at s p of
          None \<Rightarrow> Inl NotFound
        | Some (i, n) \<Rightarrow>
            if i_kind n = Symlink then Inl (OtherError ''Too many levels of symbolic links (os error 40)'')
            else if i_kind n = Directory then Inl (OtherError ''Is a directory (os error 21)'')
            else Inr i))"

definition sys_create_dir :: "Path \<Rightarrow> nat \<Rightarrow> ('h, IoError, nat) run" where
  "sys_create_dir p mode =
     syscall (\<lambda>k s. if k = 0 then s else snd (create_entry p Directory mode s)) (create_entry p Directory mode)
       OtherError"

definition set_mode :: "nat \<Rightarrow> Inode \<Rightarrow> Inode" where
  "set_mode mode n = n\<lparr>i_mode := mode, i_clean := False\<rparr>"

definition sys_fchmod :: "nat \<Rightarrow> nat \<Rightarrow> ('h, IoError, unit) run" where
  "sys_fchmod i mode = effect (\<lambda>_ s. s) (update_inode i (set_mode mode))"

definition sys_chmod :: "Path \<Rightarrow> nat \<Rightarrow> ('h, IoError, unit) run" where
  "sys_chmod p mode = syscall (\<lambda>_ s. s)
     (\<lambda>s. case vis s p of None \<Rightarrow> (Inl NotFound, s) | Some i \<Rightarrow> (Inr (), update_inode i (set_mode mode) s))
     OtherError"

definition sys_remove_file :: "Path \<Rightarrow> ('h, IoError, unit) run" where
  "sys_remove_file p =
     syscall (\<lambda>k s. if k = 0 then s else s\<lparr>vis := (vis s)(p := None)\<rparr>)
       (\<lambda>s. case vis s p of None \<Rightarrow> (Inl NotFound, s) | Some _ \<Rightarrow> (Inr (), s\<lparr>vis := (vis s)(p := None)\<rparr>))
       OtherError"

definition truncate_inode :: "Inode \<Rightarrow> Inode" where
  "truncate_inode n = n\<lparr>i_data := [], i_clean := False\<rparr>"

definition extend_inode :: "bytes \<Rightarrow> Inode \<Rightarrow> Inode" where
  "extend_inode bs n = n\<lparr>i_data := i_data n @ bs, i_clean := False\<rparr>"

definition sys_truncate :: "nat \<Rightarrow> ('h, IoError, unit) run" where
  "sys_truncate i =
     effect (\<lambda>k s. if k = 0 then s else update_inode i truncate_inode s) (update_inode i truncate_inode)"

definition sys_seek_start :: "nat \<Rightarrow> ('h, IoError, unit) run" where
  "sys_seek_start i = query (\<lambda>s. Inr ())"

definition sys_write_all :: "nat \<Rightarrow> bytes \<Rightarrow> ('h, IoError, unit) run" where
  "sys_write_all i bs = effect (\<lambda>k. update_inode i (extend_inode (take k bs))) (update_inode i (extend_inode bs))"

definition sys_read :: "nat \<Rightarrow> nat \<Rightarrow> ('h, IoError, bytes) run" where
  "sys_read i limit = query (\<lambda>s. case inodes s i of
     None \<Rightarrow> Inl (OtherError ''Bad file descriptor (os error 9)'') | Some n \<Rightarrow> Inr (take limit (i_data n)))"

text \<open>\<open>File::sync_all\<close>: the content of a file, or the names of a directory, reach stable storage.\<close>

definition settle :: "nat \<Rightarrow> System \<Rightarrow> System" where
  "settle i s =
     (case inodes s i of
        None \<Rightarrow> s
      | Some n \<Rightarrow>
          (update_inode i (\<lambda>n. n\<lparr>i_clean := True\<rparr>) s)
            \<lparr>dur := (if i_kind n = Directory
               then (\<lambda>p. if parent_ino s p = Some i then vis s p else dur s p) else dur s)\<rparr>)"

definition sys_sync_all :: "nat \<Rightarrow> ('h, IoError, unit) run" where
  "sys_sync_all i = effect (\<lambda>_ s. s) (settle i)"

definition rename_entry :: "Path \<Rightarrow> Path \<Rightarrow> System \<Rightarrow> System" where
  "rename_entry a b s = s\<lparr>vis := (vis s)(a := None, b := vis s a)\<rparr>"

definition sys_rename :: "Path \<Rightarrow> Path \<Rightarrow> ('h, IoError, unit) run" where
  "sys_rename a b =
     syscall (\<lambda>k s. if k = 0 \<or> vis s a = None then s else rename_entry a b s)
       (\<lambda>s. if vis s a = None then (Inl NotFound, s) else (Inr (), rename_entry a b s)) OtherError"

datatype TryLockError = WouldBlock | LockError string

definition sys_try_lock :: "nat \<Rightarrow> ('h, TryLockError, unit) run" where
  "sys_try_lock i = syscall (\<lambda>_ s. s)
     (\<lambda>s. if locks s i = Unlocked then (Inr (), s\<lparr>locks := (locks s)(i := Exclusive)\<rparr>)
          else (Inl WouldBlock, s)) LockError"

definition sys_try_lock_shared :: "nat \<Rightarrow> ('h, TryLockError, unit) run" where
  "sys_try_lock_shared i = syscall (\<lambda>_ s. s)
     (\<lambda>s. case locks s i of
            Exclusive \<Rightarrow> (Inl WouldBlock, s)
          | Unlocked \<Rightarrow> (Inr (), s\<lparr>locks := (locks s)(i := SharedBy 1)\<rparr>)
          | SharedBy n \<Rightarrow> (Inr (), s\<lparr>locks := (locks s)(i := SharedBy (Suc n))\<rparr>)) LockError"

text \<open>Releasing a lock cannot fail: closing the handle releases it too.\<close>

definition release_lock :: "nat \<Rightarrow> System \<Rightarrow> System" where
  "release_lock i s =
     s\<lparr>locks := (locks s)(i := (case locks s i of SharedBy (Suc (Suc n)) \<Rightarrow> SharedBy (Suc n) | _ \<Rightarrow> Unlocked))\<rparr>"

text \<open>What a power loss may leave: inodes on stable storage keep their content, every other inode may
  hold anything, and each name is bound as it was visibly or durably. Locks die with the processes.\<close>

definition crash_image :: "System \<Rightarrow> System \<Rightarrow> bool" where
  "crash_image s t \<longleftrightarrow>
     (\<forall>i n. inodes s i = Some n \<and> i_clean n \<longrightarrow> inodes t i = Some n) \<and>
     (\<forall>p. vis t p = vis s p \<or> vis t p = dur s p)"

section \<open>Durability (durability.rs)\<close>

datatype DurabilityPoint =
    PreparedWriteComplete
  | PreparedBarrierComplete
  | JournalRecordWriteComplete
  | JournalBarrierComplete
  | CommitTemporaryWriteComplete
  | CommitTemporaryBarrierComplete
  | CommitRenameComplete
  | CommitDirectoryBarrierComplete
  | CleanWriteComplete
  | CleanBarrierComplete
  | DurableAppendComplete

record PrimitiveEvent =
  operation :: string
  artifact :: string
  durability_point :: "DurabilityPoint option"
  byte_count :: "nat option"

definition evidence :: "string \<Rightarrow> string \<Rightarrow> PrimitiveEvent" where
  "evidence op art = \<lparr>operation = op, artifact = art, durability_point = None, byte_count = None\<rparr>"

fun durable_names :: "DurabilityPoint \<Rightarrow> string \<times> string" where
  "durable_names PreparedWriteComplete = (''write-complete'', ''publish-witness'')"
| "durable_names CleanWriteComplete = (''write-complete'', ''publish-witness'')"
| "durable_names PreparedBarrierComplete = (''file-barrier-complete'', ''publish-witness'')"
| "durable_names CleanBarrierComplete = (''file-barrier-complete'', ''publish-witness'')"
| "durable_names JournalRecordWriteComplete = (''write-complete'', ''journal'')"
| "durable_names JournalBarrierComplete = (''file-barrier-complete'', ''journal'')"
| "durable_names CommitTemporaryWriteComplete = (''write-complete'', ''commit-temporary'')"
| "durable_names CommitTemporaryBarrierComplete = (''file-barrier-complete'', ''commit-temporary'')"
| "durable_names CommitRenameComplete = (''rename-complete'', ''commit'')"
| "durable_names CommitDirectoryBarrierComplete = (''directory-barrier-complete'', ''state-directory'')"
| "durable_names DurableAppendComplete = (''durable-append-complete'', ''journal'')"

definition durable :: "DurabilityPoint \<Rightarrow> PrimitiveEvent" where
  "durable point =
     (case durable_names point of (op, art) \<Rightarrow>
        \<lparr>operation = op, artifact = art, durability_point = Some point, byte_count = None\<rparr>)"

text \<open>The three methods an implementation of the trait may override; the others are its default
  methods below. An override acts on the hook state and may fail.\<close>

record 'h DurabilityOps =
  before :: "DurabilityPoint \<Rightarrow> 'h \<Rightarrow> (string, unit) result \<times> 'h"
  after :: "DurabilityPoint \<Rightarrow> 'h \<Rightarrow> (string, unit) result \<times> 'h"
  primitive_complete :: "PrimitiveEvent \<Rightarrow> 'h \<Rightarrow> (string, unit) result \<times> 'h"

definition ProductionDurability :: "'h DurabilityOps" where
  "ProductionDurability =
     \<lparr>before = (\<lambda>_ h. (Inr (), h)), after = (\<lambda>_ h. (Inr (), h)), primitive_complete = (\<lambda>_ h. (Inr (), h))\<rparr>"

definition hook :: "('h \<Rightarrow> (string, unit) result \<times> 'h) \<Rightarrow> ('h, IoError, unit) run" where
  "hook f w = (case f (hooks w) of (r, h) \<Rightarrow> (map_err OtherError r, w\<lparr>hooks := h\<rparr>))"

definition primitive :: "'h DurabilityOps \<Rightarrow> PrimitiveEvent \<Rightarrow> ('h, IoError, unit) run" where
  "primitive D ev = hook (primitive_complete D ev)"

text \<open>The frame of every tracked operation: \<open>before\<close>, the operation, \<open>after\<close>, the completion event.\<close>

definition tracked :: "'h DurabilityOps \<Rightarrow> DurabilityPoint \<Rightarrow> ('h, IoError, unit) run \<Rightarrow> ('h, IoError, unit) run" where
  "tracked D point m =
     mbind (hook (before D point)) (\<lambda>_. mbind m (\<lambda>_. mbind (hook (after D point)) (\<lambda>_.
     primitive D (durable point))))"

definition create_state_directory :: "'h DurabilityOps \<Rightarrow> Path \<Rightarrow> ('h, IoError, unit) run" where
  "create_state_directory D p =
     mbind (sys_create_dir p mode_0700) (\<lambda>_. primitive D (evidence ''create-complete'' ''state-directory''))"

definition normalize_state_directory :: "'h DurabilityOps \<Rightarrow> Path \<Rightarrow> ('h, IoError, unit) run" where
  "normalize_state_directory D p =
     mbind (sys_chmod p mode_0700) (\<lambda>_. primitive D (evidence ''permissions-normalized'' ''state-directory''))"

definition open_private_writable :: "Path \<Rightarrow> bool \<Rightarrow> ('h, IoError, nat) run" where
  "open_private_writable p create_new = sys_open_writable p create_new"

definition normalize_private_file :: "'h DurabilityOps \<Rightarrow> nat \<Rightarrow> string \<Rightarrow> ('h, IoError, unit) run" where
  "normalize_private_file D i art =
     mbind (sys_fchmod i mode_0600) (\<lambda>_. primitive D (evidence ''permissions-normalized'' art))"

definition replace_private_writable :: "'h DurabilityOps \<Rightarrow> Path \<Rightarrow> bool \<Rightarrow> string \<Rightarrow> ('h, IoError, nat) run" where
  "replace_private_writable D p remove_stale art =
     mbind (if remove_stale then sys_remove_file p else mret ()) (\<lambda>_.
     mbind (open_private_writable p True) (\<lambda>i.
     mbind (primitive D (evidence ''open-complete'' art)) (\<lambda>_.
     mbind (normalize_private_file D i art) (\<lambda>_. mret i))))"

definition rewrite_file :: "'h DurabilityOps \<Rightarrow> nat \<Rightarrow> bytes \<Rightarrow> DurabilityPoint \<Rightarrow> ('h, IoError, unit) run" where
  "rewrite_file D i bs point =
     tracked D point (mbind (sys_truncate i) (\<lambda>_. mbind (sys_seek_start i) (\<lambda>_. sys_write_all i bs)))"

definition append_file :: "'h DurabilityOps \<Rightarrow> nat \<Rightarrow> bytes \<Rightarrow> DurabilityPoint \<Rightarrow> ('h, IoError, unit) run" where
  "append_file D i bs point = tracked D point (sys_write_all i bs)"

definition write_file :: "'h DurabilityOps \<Rightarrow> nat \<Rightarrow> bytes \<Rightarrow> DurabilityPoint \<Rightarrow> ('h, IoError, unit) run" where
  "write_file D i bs point = tracked D point (sys_write_all i bs)"

definition barrier_file :: "'h DurabilityOps \<Rightarrow> nat \<Rightarrow> DurabilityPoint \<Rightarrow> ('h, IoError, unit) run" where
  "barrier_file D i point = tracked D point (sys_sync_all i)"

definition rename_file :: "'h DurabilityOps \<Rightarrow> Path \<Rightarrow> Path \<Rightarrow> DurabilityPoint \<Rightarrow> ('h, IoError, unit) run" where
  "rename_file D a b point = tracked D point (sys_rename a b)"

definition barrier_directory :: "'h DurabilityOps \<Rightarrow> nat \<Rightarrow> DurabilityPoint \<Rightarrow> ('h, IoError, unit) run" where
  "barrier_directory D d point = tracked D point (sys_sync_all d)"

definition barrier_file_evidence :: "'h DurabilityOps \<Rightarrow> nat \<Rightarrow> string \<Rightarrow> ('h, IoError, unit) run" where
  "barrier_file_evidence D i art =
     mbind (sys_sync_all i) (\<lambda>_. primitive D (evidence ''file-barrier-complete'' art))"

definition barrier_directory_evidence :: "'h DurabilityOps \<Rightarrow> nat \<Rightarrow> string \<Rightarrow> ('h, IoError, unit) run" where
  "barrier_directory_evidence D d art =
     mbind (sys_sync_all d) (\<lambda>_. primitive D (evidence ''directory-barrier-complete'' art))"

definition note_point :: "'h DurabilityOps \<Rightarrow> DurabilityPoint \<Rightarrow> ('h, IoError, unit) run" where
  "note_point D point = tracked D point (mret ())"

section \<open>Observations (observation.rs)\<close>

datatype StoreStage =
    JournalOpen
  | CommittedPrefixRead
  | CommittedPrefixHash
  | CommittedPrefixDecode
  | PublishPrefixHash

datatype StoreObservation =
    StageStarted StoreStage
  | StageFinished StoreStage
  | JournalPhysicalBytes nat

text \<open>A caller's observer says whether it panicked; the wrapper disables it from then on. Wrapped, it
  is an operation on its own part of the hook state that cannot fail.\<close>

type_synonym 'o StoreObserver = "StoreObservation \<Rightarrow> 'o \<Rightarrow> bool \<times> 'o"

record 'o BestEffortStoreObserver =
  inner :: 'o
  enabled :: bool

definition BestEffortStoreObserver_new :: "'o \<Rightarrow> 'o BestEffortStoreObserver" where
  "BestEffortStoreObserver_new o1 = \<lparr>inner = o1, enabled = True\<rparr>"

definition BestEffortStoreObserver_observe ::
  "'o StoreObserver \<Rightarrow> StoreObservation \<Rightarrow> 'o BestEffortStoreObserver \<Rightarrow> 'o BestEffortStoreObserver" where
  "BestEffortStoreObserver_observe sink obs b =
     (if \<not> enabled b then b
      else case sink obs (inner b) of (panicked, o1) \<Rightarrow> \<lparr>inner = o1, enabled = \<not> panicked\<rparr>)"

type_synonym 'h observe = "(StoreObservation \<Rightarrow> 'h \<Rightarrow> 'h) option"

definition notify_store :: "'h observe \<Rightarrow> StoreObservation \<Rightarrow> 'h World \<Rightarrow> 'h World" where
  "notify_store ob x w = (case ob of None \<Rightarrow> w | Some f \<Rightarrow> w\<lparr>hooks := f x (hooks w)\<rparr>)"

definition observe_stage :: "'h observe \<Rightarrow> StoreStage \<Rightarrow> ('h, 'e, 'a) run \<Rightarrow> ('h, 'e, 'a) run" where
  "observe_stage ob stage m w =
     (case m (notify_store ob (StageStarted stage) w) of
        (r, w') \<Rightarrow> (r, notify_store ob (StageFinished stage) w'))"

section \<open>Triples\<close>

text \<open>What a computation does from the states of \<open>P\<close>: a result satisfies \<open>Q\<close>, an error \<open>E\<close>.\<close>

definition triple ::
  "('h World \<Rightarrow> bool) \<Rightarrow> ('h, 'e, 'a) run \<Rightarrow> ('a \<Rightarrow> 'h World \<Rightarrow> bool) \<Rightarrow> ('e \<Rightarrow> 'h World \<Rightarrow> bool) \<Rightarrow> bool" where
  "triple P m Q E \<longleftrightarrow>
     (\<forall>w. P w \<longrightarrow> (case m w of (Inl e, w') \<Rightarrow> E e w' | (Inr x, w') \<Rightarrow> Q x w'))"

named_theorems wp \<open>triples of the operations\<close>

lemma triple_run:
  "triple P m Q E \<Longrightarrow> P w \<Longrightarrow> m w = (Inr x, w') \<Longrightarrow> Q x w'"
  "triple P m Q E \<Longrightarrow> P w \<Longrightarrow> m w = (Inl e, w') \<Longrightarrow> E e w'"
  by (force simp: triple_def)+

lemma triple_weaken:
  assumes "triple P' m Q' E'" "\<And>w. P w \<Longrightarrow> P' w" "\<And>x w. Q' x w \<Longrightarrow> Q x w" "\<And>e w. E' e w \<Longrightarrow> E e w"
  shows "triple P m Q E"
  using assms by (fastforce simp: triple_def split: prod.splits sum.splits)

lemma triple_mret: "(\<And>w. P w \<Longrightarrow> Q x w) \<Longrightarrow> triple P (mret x) Q E"
  by (simp add: triple_def mret_def)

lemma triple_mfail: "(\<And>w. P w \<Longrightarrow> E e w) \<Longrightarrow> triple P (mfail e) Q E"
  by (simp add: triple_def mfail_def)

lemma triple_mlift:
  "(\<And>x w. r = Inr x \<Longrightarrow> P w \<Longrightarrow> Q x w) \<Longrightarrow> (\<And>e w. r = Inl e \<Longrightarrow> P w \<Longrightarrow> E e w) \<Longrightarrow> triple P (mlift r) Q E"
  by (auto simp: triple_def mlift_def split: sum.splits)

lemma triple_mbind:
  "triple P m R E \<Longrightarrow> (\<And>x. triple (R x) (f x) Q E) \<Longrightarrow> triple P (mbind m f) Q E"
  by (fastforce simp: triple_def mbind_def split: prod.splits sum.splits)

lemma triple_mmap_err: "triple P m Q (\<lambda>e. E (g e)) \<Longrightarrow> triple P (mmap_err g m) Q E"
  by (fastforce simp: triple_def mmap_err_def split: prod.splits sum.splits)

lemma triple_if:
  "(c \<Longrightarrow> triple P m Q E) \<Longrightarrow> (\<not> c \<Longrightarrow> triple P m' Q E) \<Longrightarrow> triple P (if c then m else m') Q E"
  by simp

lemma triple_pure: "(\<And>w. P w \<Longrightarrow> c) \<Longrightarrow> (c \<Longrightarrow> triple P m Q E) \<Longrightarrow> triple P m Q E"
  by (auto simp: triple_def)

text \<open>A state of the files, with no faults to come when \<open>calm\<close>.\<close>

definition at_state :: "bool \<Rightarrow> System \<Rightarrow> 'h World \<Rightarrow> bool" where
  "at_state calm s w \<longleftrightarrow> system w = s \<and> (calm \<longrightarrow> faults w = [])"

lemma triple_query:
  "triple (at_state calm s) (query f) (\<lambda>x w. f s = Inr x \<and> at_state calm s w)
     (\<lambda>e w. (calm \<longrightarrow> f s = Inl e) \<and> at_state calm s w)"
  by (auto simp: triple_def query_def syscall_def at_state_def split: list.splits Fault.splits prod.splits sum.splits)

lemma triple_effect:
  "triple (at_state calm s) (effect partial f) (\<lambda>_. at_state calm (f s))
     (\<lambda>_ w. \<not> calm \<and> (\<exists>k. at_state calm (partial k s) w))"
  by (auto simp: triple_def effect_def syscall_def at_state_def split: list.splits Fault.splits)

text \<open>Hooks leave the files alone; in calm worlds they also succeed.\<close>

definition good_hooks :: "'h DurabilityOps \<Rightarrow> bool" where
  "good_hooks D \<longleftrightarrow>
     (\<forall>x h. fst (before D x h) = Inr ()) \<and> (\<forall>x h. fst (after D x h) = Inr ()) \<and>
     (\<forall>x h. fst (primitive_complete D x h) = Inr ())"

lemma ProductionDurability_good [simp]: "good_hooks ProductionDurability"
  by (simp add: good_hooks_def ProductionDurability_def)

lemma triple_hook:
  assumes "calm \<Longrightarrow> (\<And>h. fst (f h) = Inr ())"
  shows "triple (at_state calm s) (hook f) (\<lambda>_. at_state calm s) (\<lambda>_ w. \<not> calm \<and> at_state calm s w)"
proof -
  have "r = Inr ()" if "f h = (r, h')" calm for r h h' using assms [OF that(2), of h] that(1) by simp
  then show ?thesis
    by (fastforce simp: triple_def hook_def at_state_def map_err_def split: prod.splits sum.splits)
qed

lemma triple_primitive:
  "(calm \<Longrightarrow> good_hooks D) \<Longrightarrow>
     triple (at_state calm s) (primitive D x) (\<lambda>_. at_state calm s) (\<lambda>_ w. \<not> calm \<and> at_state calm s w)"
  unfolding primitive_def by (rule triple_hook) (simp add: good_hooks_def)

text \<open>A tracked operation fails before it, in it, or after it with its effect done.\<close>

lemma triple_tracked:
  assumes "calm \<Longrightarrow> good_hooks D"
    and "triple (at_state calm s) m (\<lambda>_. at_state calm s') (\<lambda>_ w. \<not> calm \<and> R w)"
    and "\<And>w. at_state calm s w \<Longrightarrow> R w" "\<And>w. at_state calm s' w \<Longrightarrow> R w"
  shows "triple (at_state calm s) (tracked D point m) (\<lambda>_. at_state calm s') (\<lambda>_ w. \<not> calm \<and> R w)"
proof -
  have h: "triple (at_state calm t) (hook (before D point)) (\<lambda>_. at_state calm t) (\<lambda>_ w. \<not> calm \<and> at_state calm t w)"
    "triple (at_state calm t) (hook (after D point)) (\<lambda>_. at_state calm t) (\<lambda>_ w. \<not> calm \<and> at_state calm t w)"
    "triple (at_state calm t) (primitive D x) (\<lambda>_. at_state calm t) (\<lambda>_ w. \<not> calm \<and> at_state calm t w)" for t x
    using assms(1) by (auto intro!: triple_hook triple_primitive simp: good_hooks_def)
  have last: "triple (at_state calm s') (primitive D (durable point)) (\<lambda>_. at_state calm s') (\<lambda>_ w. \<not> calm \<and> R w)"
    by (rule triple_weaken [OF h(3)]) (use assms(4) in blast)+
  have rest: "triple (at_state calm s') (mbind (hook (after D point)) (\<lambda>_. primitive D (durable point)))
      (\<lambda>_. at_state calm s') (\<lambda>_ w. \<not> calm \<and> R w)"
    by (rule triple_mbind [where R = "\<lambda>_. at_state calm s'", OF _ last], rule triple_weaken [OF h(2)])
      (use assms(4) in blast)+
  have first: "triple (at_state calm s) (hook (before D point)) (\<lambda>_. at_state calm s) (\<lambda>_ w. \<not> calm \<and> R w)"
    by (rule triple_weaken [OF h(1)]) (use assms(3) in blast)+
  show ?thesis
    unfolding tracked_def by (rule triple_mbind [OF first triple_mbind [OF assms(2) rest]])
qed

lemma at_state_notify [simp]: "at_state calm s (notify_store ob x w) = at_state calm s w"
  by (cases ob) (simp_all add: notify_store_def at_state_def)

lemma triple_observe_stage:
  assumes "triple (at_state calm s) m Q E" "\<And>x y w. Q x w \<Longrightarrow> Q x (notify_store ob y w)"
    "\<And>e y w. E e w \<Longrightarrow> E e (notify_store ob y w)"
  shows "triple (at_state calm s) (observe_stage ob stage m) Q E"
proof -
  have "case observe_stage ob stage m w of (Inl e, w') \<Rightarrow> E e w' | (Inr x, w') \<Rightarrow> Q x w'"
    if w: "at_state calm s w" for w
  proof -
    let ?w = "notify_store ob (StageStarted stage) w"
    obtain r w' where r: "m ?w = (r, w')" by (cases "m ?w")
    have "at_state calm s ?w" using w by simp
    from triple_run [OF assms(1) this] r assms(2,3) show ?thesis
      by (cases r) (simp_all add: observe_stage_def)
  qed
  then show ?thesis by (simp add: triple_def)
qed

end
