(* ===== verification/Store_Journal.thy ===== *)
theory Store_Journal
  imports Store_Metadata Store_World
begin

text \<open>
  \<^verbatim>\<open>crates/aizign-store-jsonl/src/journal.rs\<close>: the durable journal and its reader, every function of the
  file in the order of its calls, on the world of theory Store\_World. \<open>S\<close> is the serde and hasher
  parameter, \<open>D\<close> the durability operations, \<open>P\<close> the profile operations, and \<open>ob\<close> the optional
  observer. A file handle is its inode number. The functions for targets without the verified
  store profile (they return one fixed error) are not modelled: the constant
  \<open>STORE_PLATFORM_SUPPORTED\<close> is true.
\<close>

section \<open>Names and bounds\<close>

definition JOURNAL_FILE_NAME :: string where "JOURNAL_FILE_NAME = ''workflow.jsonl''"
definition LOCK_FILE_NAME :: string where "LOCK_FILE_NAME = ''workflow.lock''"
definition COMMIT_FILE_NAME :: string where "COMMIT_FILE_NAME = ''workflow.commit.json''"
definition PUBLISH_FILE_NAME :: string where "PUBLISH_FILE_NAME = ''workflow.publish.json''"
definition COMMIT_TEMP_FILE_NAME :: string where "COMMIT_TEMP_FILE_NAME = ''workflow.commit.tmp''"
definition MAX_JOURNAL_BYTES :: nat where "MAX_JOURNAL_BYTES = 64 * 1024 * 1024"

lemmas file_name_defs = JOURNAL_FILE_NAME_def LOCK_FILE_NAME_def COMMIT_FILE_NAME_def PUBLISH_FILE_NAME_def
  COMMIT_TEMP_FILE_NAME_def

record JsonlJournal =
  state_dir :: Path
  journal_path :: Path
  lock_file :: nat

record Snapshot =
  point :: CommitPoint
  snapshot_bytes :: bytes
  snapshot_entries :: "JournalEntry list"

type_synonym FileIdentity = "nat \<times> nat"

definition io_unavailable :: "string \<Rightarrow> IoError \<Rightarrow> JournalError" where
  "io_unavailable what e = Unavailable (what @ show_IoError e)"

definition outcome_unknown_because :: "string \<Rightarrow> JournalError \<Rightarrow> JournalError" where
  "outcome_unknown_because what e = OutcomeUnknown (what @ show_JournalError e)"

section \<open>Opening files\<close>

definition path_entry_exists :: "Path \<Rightarrow> ('h, JournalError, bool) run" where
  "path_entry_exists p w =
     (case sys_symlink_metadata p w of
        (Inr _, w') \<Rightarrow> (Inr True, w')
      | (Inl e, w') \<Rightarrow>
          (case e of
             NotFound \<Rightarrow> (Inr False, w')
           | OtherError _ \<Rightarrow> (Inl (io_unavailable ''cannot inspect path: '' e), w')))"

definition require_existing_path :: "Path \<Rightarrow> string \<Rightarrow> ('h, JournalError, unit) run" where
  "require_existing_path p label =
     mbind (path_entry_exists p) (\<lambda>found.
     if found then mret () else mfail (Unavailable (''store is missing its '' @ label)))"

definition open_directory_no_follow :: "Path \<Rightarrow> ('h, JournalError, nat) run" where
  "open_directory_no_follow p =
     mbind (mmap_err (io_unavailable ''cannot inspect directory: '') (sys_symlink_metadata p)) (\<lambda>(i, n).
     if i_kind n \<noteq> Directory then mfail (Unavailable ''directory path must be a real directory'')
     else
       mbind (mmap_err (io_unavailable ''cannot open directory: '') (sys_open_directory p)) (\<lambda>d.
       mbind (mmap_err (io_unavailable ''cannot stat opened directory: '') (sys_fstat d)) (\<lambda>(j, m).
       if i_kind m \<noteq> Directory \<or> i_dev m \<noteq> i_dev n \<or> j \<noteq> i
       then mfail (Unavailable ''directory changed while it was opened'')
       else mret d)))"

definition open_existing_private_dir :: "Path \<Rightarrow> ('h, JournalError, nat) run" where
  "open_existing_private_dir dir =
     mbind (mmap_err (io_unavailable ''cannot stat state directory: '') (sys_symlink_metadata dir)) (\<lambda>(_, n).
     if i_kind n \<noteq> Directory then mfail (Unavailable ''state path must be a real directory'')
     else if i_mode n mod 4096 \<noteq> mode_0700 then mfail (Unavailable ''state directory must have exact mode 0700'')
     else open_directory_no_follow dir)"

definition private_parent_owner :: "Path \<Rightarrow> ('h, JournalError, nat) run" where
  "private_parent_owner p =
     mbind (mlift (ok_or (Unavailable ''artifact has no state directory'') (parent_path p))) (\<lambda>dir.
     mbind (open_existing_private_dir dir) (\<lambda>d.
     mbind (mmap_err (io_unavailable ''cannot stat state directory: '') (sys_fstat d)) (\<lambda>(_, n).
     mret (i_uid n))))"

definition check_private_metadata :: "Inode \<Rightarrow> nat \<Rightarrow> (JournalError, unit) result" where
  "check_private_metadata n owner =
     (if i_uid n \<noteq> owner then Inl (Unavailable ''artifact owner must match the state directory owner'')
      else if i_nlink n \<noteq> 1 then Inl (Unavailable ''artifact must have exactly one hard link'')
      else if i_mode n mod 4096 \<noteq> mode_0600 then Inl (Unavailable ''artifact must have exact mode 0600'')
      else Inr ())"

definition inspect_private_file :: "Path \<Rightarrow> nat \<Rightarrow> ('h, JournalError, FileIdentity) run" where
  "inspect_private_file p owner =
     mbind (mmap_err (io_unavailable ''cannot inspect artifact: '') (sys_symlink_metadata p)) (\<lambda>(i, n).
     if i_kind n \<noteq> Regular then mfail (Unavailable ''reserved artifact must be a regular file'')
     else mbind (mlift (check_private_metadata n owner)) (\<lambda>_. mret (i_dev n, i)))"

definition check_opened_private_file :: "nat \<Rightarrow> nat \<Rightarrow> FileIdentity option \<Rightarrow> ('h, JournalError, unit) run" where
  "check_opened_private_file f owner expected =
     mbind (mmap_err (io_unavailable ''cannot stat artifact: '') (sys_fstat f)) (\<lambda>(i, n).
     if i_kind n \<noteq> Regular then mfail (Unavailable ''reserved artifact must be a regular file'')
     else
       mbind (mlift (check_private_metadata n owner)) (\<lambda>_.
       if expected \<noteq> None \<and> expected \<noteq> Some (i_dev n, i)
       then mfail (Unavailable ''artifact changed while it was opened'')
       else mret ()))"

definition opened_identity :: "nat \<Rightarrow> ('h, JournalError, FileIdentity) run" where
  "opened_identity f =
     mbind (mmap_err (io_unavailable ''cannot stat artifact: '') (sys_fstat f)) (\<lambda>(i, n). mret (i_dev n, i))"

definition open_private_read_file :: "Path \<Rightarrow> ('h, JournalError, nat) run" where
  "open_private_read_file p =
     mbind (private_parent_owner p) (\<lambda>owner.
     mbind (inspect_private_file p owner) (\<lambda>expected.
     mbind (mmap_err (io_unavailable ''cannot open artifact: '') (sys_open_read p)) (\<lambda>f.
     mbind (check_opened_private_file f owner (Some expected)) (\<lambda>_. mret f))))"

definition open_private_writable_file ::
  "'h DurabilityOps \<Rightarrow> Path \<Rightarrow> bool \<Rightarrow> string \<Rightarrow> ('h, JournalError, nat) run" where
  "open_private_writable_file D p create_new art =
     mbind (private_parent_owner p) (\<lambda>owner.
     mbind (if create_new
            then mbind (path_entry_exists p) (\<lambda>found.
                 if found then mfail (Unavailable ''reserved artifact appeared while opening'') else mret None)
            else mbind (inspect_private_file p owner) (\<lambda>x. mret (Some x))) (\<lambda>expected.
     mbind (mmap_err (io_unavailable ''cannot open artifact: '') (open_private_writable p create_new)) (\<lambda>f.
     mbind (if create_new
            then mbind (mmap_err (io_unavailable ''cannot record artifact open: '')
                          (primitive D (evidence ''open-complete'' art))) (\<lambda>_.
                 mmap_err (io_unavailable ''cannot normalize artifact mode: '') (normalize_private_file D f art))
            else mret ()) (\<lambda>_.
     mbind (check_opened_private_file f owner expected) (\<lambda>_. mret f)))))"

definition open_private_update_file ::
  "'h DurabilityOps \<Rightarrow> Path \<Rightarrow> bool \<Rightarrow> string \<Rightarrow> ('h, JournalError, nat) run" where
  "open_private_update_file D p create_new art = open_private_writable_file D p create_new art"

definition open_private_append_file ::
  "'h DurabilityOps \<Rightarrow> Path \<Rightarrow> bool \<Rightarrow> string \<Rightarrow> ('h, JournalError, nat) run" where
  "open_private_append_file D p create_new art = open_private_writable_file D p create_new art"

definition open_private_replace_file :: "'h DurabilityOps \<Rightarrow> Path \<Rightarrow> ('h, JournalError, nat) run" where
  "open_private_replace_file D p =
     mbind (private_parent_owner p) (\<lambda>owner.
     mbind (path_entry_exists p) (\<lambda>remove_stale.
     mbind (if remove_stale
            then mbind (inspect_private_file p owner) (\<lambda>expected.
                 mbind (mmap_err (io_unavailable ''cannot open stale temporary file: '') (sys_open_read p)) (\<lambda>stale.
                 check_opened_private_file stale owner (Some expected)))
            else mret ()) (\<lambda>_.
     mbind (mmap_err (io_unavailable ''cannot replace temporary file: '')
              (replace_private_writable D p remove_stale ''commit-temporary'')) (\<lambda>f.
     mbind (check_opened_private_file f owner None) (\<lambda>_. mret f)))))"

definition file_len :: "nat \<Rightarrow> ('h, JournalError, nat) run" where
  "file_len f =
     mbind (mmap_err (io_unavailable ''cannot stat journal: '') (sys_fstat f)) (\<lambda>(_, n). mret (length (i_data n)))"

definition file_len_path :: "Path \<Rightarrow> ('h, JournalError, nat) run" where
  "file_len_path p = mbind (open_private_read_file p) file_len"

section \<open>Profiles and locks\<close>

definition qualify_directory :: "'h ProfileOps \<Rightarrow> nat \<Rightarrow> ('h, JournalError, QualifiedProfile) run" where
  "qualify_directory P f w = (case P f (hooks w) of (r, h) \<Rightarrow> (qualify_observed r, w\<lparr>hooks := h\<rparr>))"

definition require_same_profile :: "'h ProfileOps \<Rightarrow> nat \<Rightarrow> QualifiedProfile \<Rightarrow> ('h, JournalError, unit) run" where
  "require_same_profile P f expected w =
     (case P f (hooks w) of (r, h) \<Rightarrow> (same_profile_observed expected r, w\<lparr>hooks := h\<rparr>))"

fun lock_error :: "string \<Rightarrow> TryLockError \<Rightarrow> JournalError" where
  "lock_error what WouldBlock = Locked"
| "lock_error what (LockError m) = Unavailable (what @ m)"

definition acquire_exclusive :: "nat \<Rightarrow> ('h, JournalError, nat) run" where
  "acquire_exclusive f = mbind (mmap_err (lock_error ''cannot lock journal: '') (sys_try_lock f)) (\<lambda>_. mret f)"

definition acquire_shared :: "nat \<Rightarrow> ('h, JournalError, nat) run" where
  "acquire_shared f =
     mbind (mmap_err (lock_error ''cannot lock journal snapshot: '') (sys_try_lock_shared f)) (\<lambda>_. mret f)"

text \<open>\<open>Drop\<close> of a lock: when a computation that owns it fails, it is released.\<close>

definition drop_lock :: "nat \<Rightarrow> 'h World \<Rightarrow> 'h World" where
  "drop_lock f w = w\<lparr>system := release_lock f (system w)\<rparr>"

definition with_lock :: "nat \<Rightarrow> ('h, 'e, 'a) run \<Rightarrow> ('h, 'e, 'a) run" where
  "with_lock f m w = (case m w of (Inl e, w') \<Rightarrow> (Inl e, drop_lock f w') | (Inr x, w') \<Rightarrow> (Inr x, w'))"

definition revalidate_lock ::
  "'h ProfileOps \<Rightarrow> Path \<Rightarrow> nat \<Rightarrow> QualifiedProfile \<Rightarrow> ('h, JournalError, unit) run" where
  "revalidate_lock P dir lock prof =
     mbind (open_private_read_file (join_path dir LOCK_FILE_NAME)) (\<lambda>reopened.
     mbind (require_same_profile P lock prof) (\<lambda>_.
     mbind (require_same_profile P reopened prof) (\<lambda>_.
     mbind (opened_identity lock) (\<lambda>a.
     mbind (opened_identity reopened) (\<lambda>b.
     if a \<noteq> b then mfail (Unavailable ''ownership lock path no longer names the held lock artifact'')
     else mret ())))))"

section \<open>Reading\<close>

definition read_bounded_file :: "nat \<Rightarrow> nat \<Rightarrow> string \<Rightarrow> ('h, JournalError, bytes) run" where
  "read_bounded_file f maximum label =
     mbind (mmap_err (io_unavailable (''cannot stat '' @ label @ '': '')) (sys_fstat f)) (\<lambda>(_, n).
     if length (i_data n) > maximum then mfail (Corrupt (label @ '' exceeds its byte bound''))
     else
       mbind (mmap_err (io_unavailable (''cannot rewind '' @ label @ '': '')) (sys_seek_start f)) (\<lambda>_.
       mbind (mmap_err (io_unavailable (''cannot read '' @ label @ '': '')) (sys_read f (maximum + 1))) (\<lambda>bs.
       if length bs > maximum then mfail (Corrupt (label @ '' exceeds its byte bound'')) else mret bs)))"

definition read_commit_point :: "('s, 'a) StoreSerde_scheme \<Rightarrow> nat \<Rightarrow> ('h, JournalError, CommitPoint) run" where
  "read_commit_point S f =
     mbind (read_bounded_file f MAX_COMMIT_METADATA_BYTES ''commit metadata'') (\<lambda>bs.
     mlift (CommitPoint_decode S bs MAX_JOURNAL_BYTES))"

definition read_publish_witness :: "('s, 'a) StoreSerde_scheme \<Rightarrow> nat \<Rightarrow> ('h, JournalError, PublishWitness) run" where
  "read_publish_witness S f =
     mbind (read_bounded_file f MAX_PUBLISH_METADATA_BYTES ''publication witness'') (\<lambda>bs.
     mlift (PublishWitness_decode S bs))"

definition verify_opened_witness ::
  "('s, 'a) StoreSerde_scheme \<Rightarrow> nat \<Rightarrow> PublishWitness \<Rightarrow> ('h, JournalError, unit) run" where
  "verify_opened_witness S f expected =
     mbind (read_publish_witness S f) (\<lambda>actual.
     if actual \<noteq> expected then mfail (Corrupt ''publication witness changed during verification'') else mret ())"

fun decode_lines ::
  "'a RecordSerde_scheme \<Rightarrow> JournalEntry list \<Rightarrow> string list \<Rightarrow> (JournalError, JournalEntry list) result" where
  "decode_lines S es [] = Inr es"
| "decode_lines S es (l # ls) =
     (if length es \<ge> MAX_JOURNAL_ENTRIES then Inl (BoundExceeded MAX_JOURNAL_ENTRIES)
      else
        and_then (decode_line S (length es + 1) l) (\<lambda>e.
        if seq e \<noteq> length es + 1
        then Inl (at_line (length es + 1) (''seq '' @ show_nat (seq e) @ '' but '' @ show_nat (length es + 1) @ '' expected''))
        else decode_lines S (es @ [e]) ls))"

definition decode_contents :: "'a RecordSerde_scheme \<Rightarrow> string \<Rightarrow> (JournalError, JournalEntry list) result" where
  "decode_contents S contents =
     (if contents = [] then Inr []
      else if last contents \<noteq> CHR 0x0A then Inl (Corrupt ''trailing record is truncated (no final newline)'')
      else decode_lines S [] (split_on (CHR 0x0A) (butlast contents)))"

definition require_prepared_commit_relation :: "PublishWitness \<Rightarrow> CommitPoint \<Rightarrow> (JournalError, unit) result" where
  "require_prepared_commit_relation w p =
     (if generation p \<noteq> published_generation w \<and> generation p \<noteq> started_generation w
      then Inl (Corrupt ''PREPARED witness and commit generations cannot come from one append'')
      else Inr ())"

definition validate_prepared_commit_prefix ::
  "('s, 'a) StoreSerde_scheme \<Rightarrow> nat \<Rightarrow> CommitPoint \<Rightarrow> PublishWitness \<Rightarrow> ('h, JournalError, unit) run" where
  "validate_prepared_commit_prefix S f p witness =
     mbind (mmap_err (outcome_unknown_because ''cannot inspect PREPARED journal length: '') (file_len f)) (\<lambda>physical.
     if physical < committed_bytes p
     then mfail (Corrupt ''PREPARED journal is shorter than its visible commit prefix'')
     else if generation p = started_generation witness \<and> physical \<noteq> committed_bytes p
     then mfail (Corrupt ''new PREPARED commit does not name the complete journal image'')
     else
       mbind (mmap_err (\<lambda>e. OutcomeUnknown (''cannot rewind PREPARED journal: '' @ show_IoError e))
                (sys_seek_start f)) (\<lambda>_.
       mbind (mmap_err (\<lambda>e. OutcomeUnknown (''cannot read PREPARED journal: '' @ show_IoError e))
                (sys_read f (committed_bytes p))) (\<lambda>bs.
       if length bs \<noteq> committed_bytes p
       then mfail (Corrupt ''PREPARED journal changed while reading its commit prefix'')
       else if hash_bytes S bs \<noteq> cp_digest p
       then mfail (Corrupt ''PREPARED journal prefix does not match its commit digest'')
       else
         mbind (mlift (map_err (\<lambda>_. Corrupt ''PREPARED journal is not UTF-8'') (from_utf8 bs))) (\<lambda>contents.
         mbind (mlift (decode_contents S contents)) (\<lambda>es.
         if length es \<noteq> committed_entries p
         then mfail (Corrupt ''PREPARED journal entry count does not match its commit'')
         else mret ())))))"

definition read_committed_prefix ::
  "nat \<Rightarrow> CommitPoint \<Rightarrow> ('h, JournalError, bytes) run" where
  "read_committed_prefix f p =
     mbind (file_len f) (\<lambda>physical.
     if physical > committed_bytes p
     then mfail (OutcomeUnknown ''journal contains bytes beyond the clean commit point'')
     else if physical < committed_bytes p then mfail (Corrupt ''journal is shorter than committedBytes'')
     else
       mbind (mmap_err (io_unavailable ''cannot rewind journal: '') (sys_seek_start f)) (\<lambda>_.
       mbind (mmap_err (io_unavailable ''cannot read journal: '') (sys_read f (committed_bytes p + 1))) (\<lambda>bs.
       if length bs \<noteq> committed_bytes p
       then mfail (Corrupt ''journal length changed while reading its committed prefix'')
       else mret bs)))"

definition decode_committed_prefix ::
  "'a RecordSerde_scheme \<Rightarrow> CommitPoint \<Rightarrow> bytes \<Rightarrow> (JournalError, JournalEntry list) result" where
  "decode_committed_prefix S p bs =
     and_then (map_err (\<lambda>_. Corrupt ''journal is not UTF-8 text'') (from_utf8 bs)) (\<lambda>contents.
     and_then (decode_contents S contents) (\<lambda>es.
     if length es \<noteq> committed_entries p
     then Inl (Corrupt ''decoded entry count does not match committedEntries'') else Inr es))"

definition read_snapshot_observed ::
  "('s, 'a) StoreSerde_scheme \<Rightarrow> 'h ProfileOps \<Rightarrow> Path \<Rightarrow> QualifiedProfile \<Rightarrow> 'h observe \<Rightarrow>
   ('h, JournalError, Snapshot) run" where
  "read_snapshot_observed S P dir prof ob =
     mbind (open_private_read_file (join_path dir JOURNAL_FILE_NAME)) (\<lambda>journal.
     mbind (require_same_profile P journal prof) (\<lambda>_.
     mbind (open_private_read_file (join_path dir COMMIT_FILE_NAME)) (\<lambda>commit.
     mbind (require_same_profile P commit prof) (\<lambda>_.
     mbind (read_commit_point S commit) (\<lambda>p.
     mbind (open_private_read_file (join_path dir PUBLISH_FILE_NAME)) (\<lambda>publish.
     mbind (require_same_profile P publish prof) (\<lambda>_.
     mbind (read_publish_witness S publish) (\<lambda>witness.
     if is_initializing witness then
       mbind (if p \<noteq> CommitPoint_empty S then mret True
              else mbind (file_len journal) (\<lambda>n. mret (n \<noteq> 0))) (\<lambda>bad.
       if bad then mfail (Corrupt ''initialization PREPARED requires an exact empty commit and journal'')
       else mfail (Unavailable ''store initialization is PREPARED''))
     else if is_prepared_successor witness then
       mbind (mlift (require_prepared_commit_relation witness p)) (\<lambda>_.
       mbind (validate_prepared_commit_prefix S journal p witness) (\<lambda>_.
       mfail (OutcomeUnknown ''store publication is PREPARED and has no known result'')))
     else if witness \<noteq> clean (generation p) then
       mfail (Corrupt ''clean witness generation does not match commit generation'')
     else
       mbind (observe_stage ob CommittedPrefixRead (read_committed_prefix journal p)) (\<lambda>bs.
       mbind (observe_stage ob CommittedPrefixHash (mret (hash_bytes S bs))) (\<lambda>d.
       if d \<noteq> cp_digest p then mfail (Corrupt ''journal prefix does not match the published SHA-256 digest'')
       else
         mbind (observe_stage ob CommittedPrefixDecode (mlift (decode_committed_prefix S p bs))) (\<lambda>es.
         mret \<lparr>point = p, snapshot_bytes = bs, snapshot_entries = es\<rparr>)))))))))))"

definition read_snapshot ::
  "('s, 'a) StoreSerde_scheme \<Rightarrow> 'h ProfileOps \<Rightarrow> Path \<Rightarrow> QualifiedProfile \<Rightarrow> ('h, JournalError, Snapshot) run" where
  "read_snapshot S P dir prof = read_snapshot_observed S P dir prof None"

definition load_committed_observed_by_store ::
  "('s, 'a) StoreSerde_scheme \<Rightarrow> 'h ProfileOps \<Rightarrow> JsonlJournal \<Rightarrow> 'h observe \<Rightarrow>
   ('h, JournalError, JournalEntry list) run" where
  "load_committed_observed_by_store S P j ob =
     mbind (open_existing_private_dir (state_dir j)) (\<lambda>d.
     mbind (qualify_directory P d) (\<lambda>prof.
     mbind (revalidate_lock P (state_dir j) (lock_file j) prof) (\<lambda>_.
     mbind (read_snapshot_observed S P (state_dir j) prof ob) (\<lambda>s. mret (snapshot_entries s)))))"

definition load_committed_with_profile ::
  "('s, 'a) StoreSerde_scheme \<Rightarrow> 'h ProfileOps \<Rightarrow> JsonlJournal \<Rightarrow> ('h, JournalError, JournalEntry list) run" where
  "load_committed_with_profile S P j = load_committed_observed_by_store S P j None"

section \<open>Publishing\<close>

definition classify :: "bool \<Rightarrow> string \<Rightarrow> JournalError" where
  "classify outcome_may_be_unknown detail =
     (if outcome_may_be_unknown then OutcomeUnknown detail else Unavailable detail)"

definition classify_io :: "bool \<Rightarrow> string \<Rightarrow> IoError \<Rightarrow> JournalError" where
  "classify_io u what e = classify u (what @ show_IoError e)"

definition classify_journal :: "bool \<Rightarrow> string \<Rightarrow> JournalError \<Rightarrow> JournalError" where
  "classify_journal u what e = classify u (what @ show_JournalError e)"

definition publish_commit ::
  "('s, 'a) StoreSerde_scheme \<Rightarrow> 'h DurabilityOps \<Rightarrow> 'h ProfileOps \<Rightarrow> nat \<Rightarrow> QualifiedProfile \<Rightarrow> Path \<Rightarrow>
   CommitPoint \<Rightarrow> bool \<Rightarrow> ('h, JournalError, unit) run" where
  "publish_commit S D P state_directory prof commit_path p u =
     (let temp_path = with_file_name commit_path COMMIT_TEMP_FILE_NAME in
      mbind (mmap_err (classify_journal u ''cannot create commit temporary file: '')
               (open_private_replace_file D temp_path)) (\<lambda>temp.
      mbind (mmap_err (classify_journal u ''commit temporary profile failed: '')
               (require_same_profile P temp prof)) (\<lambda>_.
      mbind (mmap_err (classify_io u ''cannot write commit metadata: '')
               (write_file D temp (CommitPoint_encode S p) CommitTemporaryWriteComplete)) (\<lambda>_.
      mbind (mmap_err (classify_io u ''cannot synchronize commit metadata: '')
               (barrier_file D temp CommitTemporaryBarrierComplete)) (\<lambda>_.
      mbind (mmap_err (classify_io u ''cannot publish commit metadata: '')
               (rename_file D temp_path commit_path CommitRenameComplete)) (\<lambda>_.
      mbind (mmap_err (classify_io u ''cannot synchronize commit directory: '')
               (barrier_directory D state_directory CommitDirectoryBarrierComplete)) (\<lambda>_.
      mbind (mmap_err (classify_journal u ''cannot reopen commit metadata: '')
               (open_private_read_file commit_path)) (\<lambda>published.
      mbind (mmap_err (classify_journal u ''published commit profile failed: '')
               (require_same_profile P published prof)) (\<lambda>_.
      mbind (mmap_err (classify_journal u ''cannot verify published commit metadata: '')
               (read_commit_point S published)) (\<lambda>decoded.
      if decoded \<noteq> p then mfail (classify u ''published commit metadata changed'') else mret ()))))))))))"

definition rewrite_witness ::
  "('s, 'a) StoreSerde_scheme \<Rightarrow> 'h DurabilityOps \<Rightarrow> nat \<Rightarrow> PublishWitness \<Rightarrow> DurabilityPoint \<Rightarrow>
   DurabilityPoint \<Rightarrow> bool \<Rightarrow> ('h, JournalError, unit) run" where
  "rewrite_witness S D f witness write_point barrier_point u =
     mbind (mmap_err (classify_io u ''cannot rewrite publication witness: '')
              (rewrite_file D f (PublishWitness_encode S witness) write_point)) (\<lambda>_.
     mmap_err (classify_io u ''cannot synchronize publication witness: '') (barrier_file D f barrier_point))"

definition barrier_directory_untracked :: "'h DurabilityOps \<Rightarrow> Path \<Rightarrow> bool \<Rightarrow> string \<Rightarrow> ('h, JournalError, unit) run" where
  "barrier_directory_untracked D p u art =
     mbind (mmap_err (classify_journal u ''cannot open directory for synchronization: '')
              (open_directory_no_follow p)) (\<lambda>d.
     mmap_err (classify_io u ''cannot synchronize directory: '') (barrier_directory_evidence D d art))"

section \<open>Initialization\<close>

definition initialize_witness ::
  "('s, 'a) StoreSerde_scheme \<Rightarrow> 'h DurabilityOps \<Rightarrow> 'h ProfileOps \<Rightarrow> Path \<Rightarrow> QualifiedProfile \<Rightarrow> Path \<Rightarrow>
   ('h, JournalError, unit) run" where
  "initialize_witness S D P dir prof publish_path =
     mbind (open_private_update_file D publish_path True ''publish-witness'') (\<lambda>witness.
     mbind (require_same_profile P witness prof) (\<lambda>_.
     mbind (opened_identity witness) (\<lambda>identity.
     mbind (rewrite_witness S D witness initializing PreparedWriteComplete PreparedBarrierComplete False) (\<lambda>_.
     mbind (verify_opened_witness S witness initializing) (\<lambda>_.
     mbind (barrier_directory_untracked D dir False ''state-directory'') (\<lambda>_.
     mbind (open_private_update_file D publish_path False ''publish-witness'') (\<lambda>reopened.
     mbind (require_same_profile P reopened prof) (\<lambda>_.
     mbind (opened_identity reopened) (\<lambda>again.
     if again \<noteq> identity
     then mfail (Unavailable ''publication witness changed during initialization revalidation'')
     else
       mbind (verify_opened_witness S reopened initializing) (\<lambda>_.
       mbind (rewrite_witness S D reopened (clean 1) CleanWriteComplete CleanBarrierComplete False) (\<lambda>_.
       verify_opened_witness S reopened (clean 1))))))))))))"

definition initialize_fresh_store ::
  "('s, 'a) StoreSerde_scheme \<Rightarrow> 'h DurabilityOps \<Rightarrow> 'h ProfileOps \<Rightarrow> Path \<Rightarrow> QualifiedProfile \<Rightarrow> nat \<Rightarrow> nat \<Rightarrow>
   ('h, JournalError, unit) run" where
  "initialize_fresh_store S D P dir prof lock jfile =
     (let commit_path = join_path dir COMMIT_FILE_NAME; publish_path = join_path dir PUBLISH_FILE_NAME in
      mbind (mmap_err (io_unavailable ''cannot synchronize lock file: '') (barrier_file_evidence D lock ''lock'')) (\<lambda>_.
      mbind (mmap_err (io_unavailable ''cannot synchronize journal file: '')
               (barrier_file_evidence D jfile ''journal'')) (\<lambda>_.
      mbind (barrier_directory_untracked D dir False ''state-directory'') (\<lambda>_.
      mbind (open_directory_no_follow dir) (\<lambda>state_directory.
      mbind (publish_commit S D P state_directory prof commit_path (CommitPoint_empty S) False) (\<lambda>_.
      initialize_witness S D P dir prof publish_path))))))"

definition resume_or_validate_existing ::
  "('s, 'a) StoreSerde_scheme \<Rightarrow> 'h DurabilityOps \<Rightarrow> 'h ProfileOps \<Rightarrow> Path \<Rightarrow> QualifiedProfile \<Rightarrow>
   ('h, JournalError, unit) run" where
  "resume_or_validate_existing S D P dir prof =
     (let commit_path = join_path dir COMMIT_FILE_NAME; publish_path = join_path dir PUBLISH_FILE_NAME;
          jpath = join_path dir JOURNAL_FILE_NAME in
      mbind (open_private_read_file commit_path) (\<lambda>commit_file.
      mbind (require_same_profile P commit_file prof) (\<lambda>_.
      mbind (read_commit_point S commit_file) (\<lambda>p.
      mbind (open_private_update_file D publish_path False ''publish-witness'') (\<lambda>witness_file.
      mbind (require_same_profile P witness_file prof) (\<lambda>_.
      mbind (read_publish_witness S witness_file) (\<lambda>witness.
      if is_initializing witness then
        mbind (if p \<noteq> CommitPoint_empty S then mret True
               else mbind (file_len_path jpath) (\<lambda>n. mret (n \<noteq> 0))) (\<lambda>bad.
        if bad then mfail (Corrupt ''initialization PREPARED requires an exact empty commit and journal'')
        else
          mbind (opened_identity witness_file) (\<lambda>identity.
          mbind (mmap_err (io_unavailable ''cannot rebarrier PREPARED witness: '')
                   (barrier_file D witness_file PreparedBarrierComplete)) (\<lambda>_.
          mbind (verify_opened_witness S witness_file initializing) (\<lambda>_.
          mbind (barrier_directory_untracked D dir False ''state-directory'') (\<lambda>_.
          mbind (open_private_update_file D publish_path False ''publish-witness'') (\<lambda>reopened.
          mbind (require_same_profile P reopened prof) (\<lambda>_.
          mbind (opened_identity reopened) (\<lambda>again.
          if again \<noteq> identity
          then mfail (Unavailable ''publication witness changed during PREPARED revalidation'')
          else
            mbind (verify_opened_witness S reopened initializing) (\<lambda>_.
            mbind (rewrite_witness S D reopened (clean 1) CleanWriteComplete CleanBarrierComplete False) (\<lambda>_.
            verify_opened_witness S reopened (clean 1)))))))))))
      else if is_prepared_successor witness then
        mbind (mlift (require_prepared_commit_relation witness p)) (\<lambda>_.
        mbind (mmap_err (outcome_unknown_because ''cannot reopen PREPARED journal: '')
                 (open_private_read_file jpath)) (\<lambda>journal_file.
        mbind (mmap_err (outcome_unknown_because ''PREPARED journal profile failed: '')
                 (require_same_profile P journal_file prof)) (\<lambda>_.
        mbind (validate_prepared_commit_prefix S journal_file p witness) (\<lambda>_.
        mfail (OutcomeUnknown ''store is left at a PREPARED publication generation'')))))
      else mbind (read_snapshot S P dir prof) (\<lambda>_. mret ()))))))))"

function nearest_loop :: "Path \<Rightarrow> ('h, JournalError, Path) run" where
  "nearest_loop candidate w =
     (case sys_symlink_metadata candidate w of
        (Inr (_, n), w') \<Rightarrow>
          (if i_kind n = Directory then Inr candidate
           else Inl (Unavailable ''nearest state parent is not a real directory''), w')
      | (Inl e, w') \<Rightarrow>
          (case e of
             NotFound \<Rightarrow>
               (case parent_path candidate of
                  None \<Rightarrow> (Inl (Unavailable ''state path has no existing parent''), w')
                | Some q \<Rightarrow> nearest_loop q w')
           | OtherError _ \<Rightarrow> (Inl (io_unavailable ''cannot inspect nearest state parent: '' e), w')))"
  by pat_completeness auto
termination
  by (relation "measure (\<lambda>(p, _). length p)") (auto simp: parent_path_def split: if_splits)

definition nearest_existing_parent :: "Path \<Rightarrow> ('h, JournalError, Path) run" where
  "nearest_existing_parent p =
     nearest_loop (case parent_path p of Some q \<Rightarrow> if q = [] then [''.''] else q | None \<Rightarrow> [''.''])"

definition ensure_state_directory ::
  "'h DurabilityOps \<Rightarrow> 'h ProfileOps \<Rightarrow> Path \<Rightarrow> ('h, JournalError, QualifiedProfile) run" where
  "ensure_state_directory D P dir =
     mbind (path_entry_exists dir) (\<lambda>found.
     if found then mbind (open_existing_private_dir dir) (qualify_directory P)
     else
       mbind (nearest_existing_parent dir) (\<lambda>parent.
       mbind (open_directory_no_follow parent) (\<lambda>parent_directory.
       mbind (qualify_directory P parent_directory) (\<lambda>parent_profile.
       mbind (mmap_err (io_unavailable ''cannot create state directory: '') (create_state_directory D dir)) (\<lambda>_.
       mbind (mmap_err (io_unavailable ''cannot normalize state directory: '')
                (normalize_state_directory D dir)) (\<lambda>_.
       mbind (open_existing_private_dir dir) (\<lambda>state_directory.
       mbind (qualify_directory P state_directory) (\<lambda>state_profile.
       mbind (require_same_profile P state_directory parent_profile) (\<lambda>_.
       mbind (mmap_err (io_unavailable ''cannot synchronize state directory: '')
                (barrier_directory_evidence D state_directory ''state-directory'')) (\<lambda>_.
       mbind (mmap_err (io_unavailable ''cannot synchronize parent directory: '')
                (barrier_directory_evidence D parent_directory ''parent-directory'')) (\<lambda>_.
       mret state_profile)))))))))))"

section \<open>Opening the writer and the reader\<close>

definition open_existing_or_initialize ::
  "('s, 'a) StoreSerde_scheme \<Rightarrow> 'h DurabilityOps \<Rightarrow> 'h ProfileOps \<Rightarrow> Path \<Rightarrow> QualifiedProfile \<Rightarrow> nat \<Rightarrow>
   bool \<Rightarrow> bool \<Rightarrow> bool \<Rightarrow> ('h, JournalError, unit) run" where
  "open_existing_or_initialize S D P dir prof lock any_exists journal_exists publish_exists =
     mbind (mmap_err (io_unavailable ''cannot record writer lock acquisition: '')
              (primitive D (evidence ''lock-acquired'' ''lock''))) (\<lambda>_.
     mbind (open_private_append_file D (join_path dir JOURNAL_FILE_NAME) (\<not> journal_exists) ''journal'') (\<lambda>journal.
     mbind (require_same_profile P journal prof) (\<lambda>_.
     if any_exists then
       mbind (open_private_read_file (join_path dir COMMIT_FILE_NAME)) (\<lambda>commit.
       mbind (require_same_profile P commit prof) (\<lambda>_.
       mbind (read_commit_point S commit) (\<lambda>p.
       if publish_exists then resume_or_validate_existing S D P dir prof
       else
         mbind (if p \<noteq> CommitPoint_empty S then mret True
                else mbind (file_len journal) (\<lambda>n. mret (n \<noteq> 0))) (\<lambda>bad.
         if bad then mfail (Unavailable ''v2 commit metadata exists without its publication witness'')
         else initialize_witness S D P dir prof (join_path dir PUBLISH_FILE_NAME)))))
     else initialize_fresh_store S D P dir prof lock journal)))"

definition open_with_ops ::
  "('s, 'a) StoreSerde_scheme \<Rightarrow> 'h DurabilityOps \<Rightarrow> 'h ProfileOps \<Rightarrow> Path \<Rightarrow> ('h, JournalError, JsonlJournal) run" where
  "open_with_ops S D P dir =
     mbind (ensure_state_directory D P dir) (\<lambda>prof.
     mbind (path_entry_exists (join_path dir LOCK_FILE_NAME)) (\<lambda>lock_exists.
     mbind (path_entry_exists (join_path dir JOURNAL_FILE_NAME)) (\<lambda>journal_exists.
     mbind (path_entry_exists (join_path dir COMMIT_FILE_NAME)) (\<lambda>commit_exists.
     mbind (path_entry_exists (join_path dir PUBLISH_FILE_NAME)) (\<lambda>publish_exists.
     let any_exists = (lock_exists \<or> journal_exists \<or> commit_exists \<or> publish_exists) in
     if any_exists \<and> \<not> (lock_exists \<and> journal_exists \<and> commit_exists)
     then mfail (Unavailable ''partial pre-marker store state is unsupported and must be discarded'')
     else
       mbind (open_private_update_file D (join_path dir LOCK_FILE_NAME) (\<not> lock_exists) ''lock'') (\<lambda>f.
       mbind (require_same_profile P f prof) (\<lambda>_.
       mbind (acquire_exclusive f) (\<lambda>lock.
       with_lock lock
         (mbind (open_existing_or_initialize S D P dir prof lock any_exists journal_exists publish_exists) (\<lambda>_.
          mret \<lparr>state_dir = dir, journal_path = join_path dir JOURNAL_FILE_NAME, lock_file = lock\<rparr>))))))))))"

definition reader_open_with_profile ::
  "('s, 'a) StoreSerde_scheme \<Rightarrow> 'h ProfileOps \<Rightarrow> Path \<Rightarrow> ('h, JournalError, JsonlJournal) run" where
  "reader_open_with_profile S P dir =
     mbind (open_existing_private_dir dir) (\<lambda>d.
     mbind (qualify_directory P d) (\<lambda>prof.
     mbind (require_existing_path (join_path dir LOCK_FILE_NAME) ''ownership lock'') (\<lambda>_.
     mbind (require_existing_path (join_path dir JOURNAL_FILE_NAME) ''journal'') (\<lambda>_.
     mbind (require_existing_path (join_path dir COMMIT_FILE_NAME) ''commit metadata'') (\<lambda>_.
     mbind (open_private_read_file (join_path dir LOCK_FILE_NAME)) (\<lambda>lock.
     mbind (require_same_profile P lock prof) (\<lambda>_.
     mbind (open_private_read_file (join_path dir JOURNAL_FILE_NAME)) (\<lambda>journal.
     mbind (require_same_profile P journal prof) (\<lambda>_.
     mbind (open_private_read_file (join_path dir COMMIT_FILE_NAME)) (\<lambda>commit.
     mbind (require_same_profile P commit prof) (\<lambda>_.
     mbind (read_commit_point S commit) (\<lambda>_.
     mbind (require_existing_path (join_path dir PUBLISH_FILE_NAME) ''publication witness'') (\<lambda>_.
     mbind (open_private_read_file (join_path dir PUBLISH_FILE_NAME)) (\<lambda>publish.
     mbind (require_same_profile P publish prof) (\<lambda>_.
     mbind (acquire_shared lock) (\<lambda>_.
     mret \<lparr>state_dir = dir, journal_path = join_path dir JOURNAL_FILE_NAME, lock_file = lock\<rparr>))))))))))))))))"

text \<open>The observed opens add the stage events and, on success, the physical length of the journal.\<close>

definition open_observed :: "'h observe \<Rightarrow> ('h, JournalError, JsonlJournal) run \<Rightarrow> ('h, JournalError, JsonlJournal) run" where
  "open_observed ob opener w =
     (case observe_stage ob JournalOpen opener w of
        (Inl e, w') \<Rightarrow> (Inl e, w')
      | (Inr j, w') \<Rightarrow>
          (case sys_symlink_metadata (journal_path j) w' of
             (Inl _, w'') \<Rightarrow> (Inr j, w'')
           | (Inr (_, n), w'') \<Rightarrow> (Inr j, notify_store ob (JournalPhysicalBytes (length (i_data n))) w'')))"

section \<open>Appending\<close>

text \<open>From the encoding of the record on; the files are open and agree with the snapshot.\<close>

definition append_entry ::
  "('s, 'a) StoreSerde_scheme \<Rightarrow> 'h DurabilityOps \<Rightarrow> 'h ProfileOps \<Rightarrow> Path \<Rightarrow> 'h observe \<Rightarrow> nat \<Rightarrow> QualifiedProfile \<Rightarrow>
   Snapshot \<Rightarrow> nat \<Rightarrow> nat \<Rightarrow> WorkflowEvent \<Rightarrow> BoundedTimestamp \<Rightarrow> ('h, JournalError, JournalEntry) run" where
  "append_entry S D P dir ob state_directory prof snapshot witness_file journal_file ev t =
     (let next_generation = generation (point snapshot) + 1;
          s = length (snapshot_entries snapshot) + 1;
          entry = \<lparr>seq = s, at = t, event = ev\<rparr> in
      mbind (mlift (encode_entry S entry)) (\<lambda>text.
      let line = text @ [CHR 0x0A] in
      mbind (rewrite_witness S D witness_file (prepared next_generation)
               PreparedWriteComplete PreparedBarrierComplete True) (\<lambda>_.
      mbind (mmap_err (outcome_unknown_because ''PREPARED verification failed: '')
               (verify_opened_witness S witness_file (prepared next_generation))) (\<lambda>_.
      mbind (mmap_err (classify_io True ''journal write failed: '')
               (append_file D journal_file line JournalRecordWriteComplete)) (\<lambda>_.
      mbind (mmap_err (classify_io True ''journal barrier failed: '')
               (barrier_file D journal_file JournalBarrierComplete)) (\<lambda>_.
      mbind (observe_stage ob PublishPrefixHash
               (mret (for_prefix S (snapshot_bytes snapshot @ line) s))) (\<lambda>next_point.
      mbind (publish_commit S D P state_directory prof (join_path dir COMMIT_FILE_NAME) next_point True) (\<lambda>_.
      mbind (rewrite_witness S D witness_file (clean next_generation)
               CleanWriteComplete CleanBarrierComplete True) (\<lambda>_.
      mbind (mmap_err (outcome_unknown_because ''CLEAN verification failed: '')
               (verify_opened_witness S witness_file (clean next_generation))) (\<lambda>_.
      mbind (mmap_err (classify_io True ''append completion failed: '') (note_point D DurableAppendComplete)) (\<lambda>_.
      mret entry)))))))))))"

definition append_with_ops ::
  "('s, 'a) StoreSerde_scheme \<Rightarrow> 'h DurabilityOps \<Rightarrow> 'h ProfileOps \<Rightarrow> JsonlJournal \<Rightarrow> 'h observe \<Rightarrow>
   WorkflowEvent \<Rightarrow> BoundedTimestamp \<Rightarrow> ('h, JournalError, JournalEntry) run" where
  "append_with_ops S D P j ob ev t =
     (let dir = state_dir j in
      mbind (open_existing_private_dir dir) (\<lambda>state_directory.
      mbind (qualify_directory P state_directory) (\<lambda>prof.
      mbind (revalidate_lock P dir (lock_file j) prof) (\<lambda>_.
      mbind (read_snapshot_observed S P dir prof ob) (\<lambda>snapshot.
      if generation (point snapshot) = MAX_JOURNAL_ENTRIES + 1 then mfail (BoundExceeded MAX_JOURNAL_ENTRIES)
      else
        mbind (open_private_update_file D (join_path dir PUBLISH_FILE_NAME) False ''publish-witness'') (\<lambda>witness_file.
        mbind (require_same_profile P witness_file prof) (\<lambda>_.
        mbind (read_publish_witness S witness_file) (\<lambda>current.
        if current \<noteq> clean (generation (point snapshot))
        then mfail (Corrupt ''publication witness changed after append revalidation'')
        else
          mbind (open_private_append_file D (join_path dir JOURNAL_FILE_NAME) False ''journal'') (\<lambda>journal_file.
          mbind (require_same_profile P journal_file prof) (\<lambda>_.
          append_entry S D P dir ob state_directory prof snapshot witness_file journal_file ev t))))))))))"

text \<open>The engine ports, for an opened writer and reader. The hook state is free in the production
  operations, so an observer's state can live there.\<close>

definition jsonl_reader :: "('s, 'a) StoreSerde_scheme \<Rightarrow> ProfileSystem \<Rightarrow> JsonlJournal \<Rightarrow> 'h observe \<Rightarrow> 'h World JournalReader" where
  "jsonl_reader S sys j ob = \<lparr>load_committed = load_committed_observed_by_store S (ProductionProfile sys) j ob\<rparr>"

definition jsonl_journal :: "('s, 'a) StoreSerde_scheme \<Rightarrow> ProfileSystem \<Rightarrow> JsonlJournal \<Rightarrow> 'h observe \<Rightarrow> 'h World Journal" where
  "jsonl_journal S sys j ob =
     \<lparr>load_committed = load_committed_observed_by_store S (ProductionProfile sys) j ob,
      append_event = append_with_ops S ProductionDurability (ProductionProfile sys) j ob\<rparr>"

end
