(* ===== verification/Store_Reading.thy ===== *)
theory Store_Reading
  imports Store_Journal
begin

text \<open>
  What the reading half of \<^verbatim>\<open>journal.rs\<close> does: it never changes a file, a snapshot it returns is the
  committed view of the files, and without faults it returns that view whenever there is one. The
  texts a journal of entries is made of, and that decoding gives the entries back.
\<close>

section \<open>Computations that only read\<close>

text \<open>From the state \<open>s\<close> the computation leaves the files as they are; a result satisfies \<open>A\<close>, and an
  error is excluded under \<open>c\<close>, which also excludes faults.\<close>

definition reads :: "bool \<Rightarrow> System \<Rightarrow> ('h, 'e, 'a) run \<Rightarrow> ('a \<Rightarrow> bool) \<Rightarrow> bool" where
  "reads c s m A \<longleftrightarrow>
     triple (at_state c s) m (\<lambda>x w. A x \<and> at_state c s w) (\<lambda>_ w. \<not> c \<and> at_state c s w)"

lemma reads_weaken: "reads c s m A \<Longrightarrow> (\<And>x. A x \<Longrightarrow> B x) \<Longrightarrow> reads c s m B"
  unfolding reads_def by (erule triple_weaken) auto

lemma reads_mret: "A x \<Longrightarrow> reads c s (mret x) A"
  unfolding reads_def by (rule triple_mret) simp

lemma reads_mfail: "\<not> c \<Longrightarrow> reads c s (mfail e) A"
  unfolding reads_def by (rule triple_mfail) simp

lemma reads_mlift: "(\<And>x. r = Inr x \<Longrightarrow> A x) \<Longrightarrow> (c \<Longrightarrow> \<exists>x. r = Inr x) \<Longrightarrow> reads c s (mlift r) A"
  unfolding reads_def by (rule triple_mlift) auto

lemma reads_mlift_unit: "(c \<Longrightarrow> r = Inr ()) \<Longrightarrow> reads c s (mlift r) (\<lambda>_. r = Inr ())"
  by (rule reads_mlift) auto

lemma reads_mbind: "reads c s m A \<Longrightarrow> (\<And>x. A x \<Longrightarrow> reads c s (f x) B) \<Longrightarrow> reads c s (mbind m f) B"
  unfolding reads_def
  by (rule triple_mbind, assumption, rule triple_pure [where c = "A x" for x]) auto

lemma reads_mmap_err: "reads c s m A \<Longrightarrow> reads c s (mmap_err g m) A"
  unfolding reads_def by (rule triple_mmap_err)

lemma reads_if: "(p \<Longrightarrow> reads c s m A) \<Longrightarrow> (\<not> p \<Longrightarrow> reads c s m' A) \<Longrightarrow> reads c s (if p then m else m') A"
  by simp

lemma reads_query: "(c \<Longrightarrow> \<exists>x. f s = Inr x) \<Longrightarrow> reads c s (query f) (\<lambda>x. f s = Inr x)"
  unfolding reads_def by (rule triple_weaken [OF triple_query]) auto

lemma reads_observe_stage: "reads c s m A \<Longrightarrow> reads c s (observe_stage ob stage m) A"
  unfolding reads_def by (erule triple_observe_stage) auto

lemma reads_case_prod: "(\<And>a b. x = (a, b) \<Longrightarrow> reads c s (f a b) A) \<Longrightarrow> reads c s (case x of (a, b) \<Rightarrow> f a b) A"
  by (cases x) simp

section \<open>Opening\<close>

definition private_dir :: "System \<Rightarrow> Path \<Rightarrow> bool" where
  "private_dir s dir \<longleftrightarrow>
     (\<exists>d n. entry_at s dir = Some (d, n) \<and> i_kind n = Directory \<and> i_mode n mod 4096 = mode_0700)"

definition owner_of :: "System \<Rightarrow> Path \<Rightarrow> nat" where
  "owner_of s dir = (case entry_at s dir of Some (_, n) \<Rightarrow> i_uid n | None \<Rightarrow> 0)"

definition private_inode :: "nat \<Rightarrow> Inode \<Rightarrow> bool" where
  "private_inode owner n \<longleftrightarrow>
     i_kind n = Regular \<and> i_uid n = owner \<and> i_nlink n = 1 \<and> i_mode n mod 4096 = mode_0600"

definition private_file :: "System \<Rightarrow> Path \<Rightarrow> string \<Rightarrow> bool" where
  "private_file s dir name \<longleftrightarrow>
     (\<exists>f n. entry_at s (join_path dir name) = Some (f, n) \<and> private_inode (owner_of s dir) n)"

lemma check_private_metadata_ok:
  "check_private_metadata n owner = Inr () \<longleftrightarrow>
     i_uid n = owner \<and> i_nlink n = 1 \<and> i_mode n mod 4096 = mode_0600"
  by (simp add: check_private_metadata_def)

lemma entry_at_vis: "entry_at s p = Some (i, n) \<longleftrightarrow> vis s p = Some i \<and> inodes s i = Some n"
  by (auto simp: entry_at_def split: option.splits)

lemma reads_symlink_metadata:
  "(c \<Longrightarrow> entry_at s p \<noteq> None) \<Longrightarrow> reads c s (sys_symlink_metadata p) (\<lambda>m. entry_at s p = Some m)"
  unfolding sys_symlink_metadata_def
  by (rule reads_weaken [OF reads_query]) (auto split: option.splits)

lemma reads_fstat:
  "(c \<Longrightarrow> inodes s i \<noteq> None) \<Longrightarrow> reads c s (sys_fstat i) (\<lambda>(j, n). j = i \<and> inodes s i = Some n)"
  unfolding sys_fstat_def
  by (rule reads_weaken [OF reads_query]) (auto split: option.splits)

lemma reads_open_directory:
  "(c \<Longrightarrow> \<exists>i n. entry_at s p = Some (i, n) \<and> i_kind n = Directory) \<Longrightarrow>
     reads c s (sys_open_directory p) (\<lambda>i. \<exists>n. entry_at s p = Some (i, n) \<and> i_kind n = Directory)"
  unfolding sys_open_directory_def
  by (rule reads_weaken [OF reads_query]) (auto split: option.splits if_splits)

lemma reads_open_read:
  "(c \<Longrightarrow> \<exists>i n. entry_at s p = Some (i, n) \<and> i_kind n \<noteq> Symlink) \<Longrightarrow>
     reads c s (sys_open_read p) (\<lambda>i. \<exists>n. entry_at s p = Some (i, n))"
  unfolding sys_open_read_def
  by (rule reads_weaken [OF reads_query]) (auto split: option.splits if_splits)

lemma reads_seek: "reads c s (sys_seek_start f) (\<lambda>_. True)"
  unfolding sys_seek_start_def by (rule reads_weaken [OF reads_query]) auto

lemma reads_read:
  "(c \<Longrightarrow> inodes s f \<noteq> None) \<Longrightarrow>
     reads c s (sys_read f limit) (\<lambda>bs. \<exists>n. inodes s f = Some n \<and> bs = take limit (i_data n))"
  unfolding sys_read_def by (rule reads_weaken [OF reads_query]) (auto split: option.splits)

lemma reads_open_directory_no_follow:
  assumes "c \<Longrightarrow> \<exists>i n. entry_at s p = Some (i, n) \<and> i_kind n = Directory"
  shows "reads c s (open_directory_no_follow p) (\<lambda>i. \<exists>n. entry_at s p = Some (i, n) \<and> i_kind n = Directory)"
  unfolding open_directory_no_follow_def
  apply (rule reads_mbind [OF reads_mmap_err [OF reads_symlink_metadata]])
  subgoal using assms by fastforce
  apply (rule reads_case_prod, rule reads_if)
  subgoal using assms by (intro reads_mfail) auto
  apply (rule reads_mbind [OF reads_mmap_err [OF reads_open_directory]])
  subgoal using assms by fastforce
  apply (rule reads_mbind [OF reads_mmap_err [OF reads_fstat]])
  subgoal by (auto simp: entry_at_vis)
  apply (rule reads_case_prod, rule reads_if)
  subgoal by (intro reads_mfail) (auto simp: entry_at_vis)
  by (rule reads_mret) auto

lemma reads_open_existing_private_dir:
  assumes "c \<Longrightarrow> private_dir s dir"
  shows "reads c s (open_existing_private_dir dir)
    (\<lambda>i. \<exists>n. entry_at s dir = Some (i, n) \<and> i_kind n = Directory)"
  unfolding open_existing_private_dir_def
  apply (rule reads_mbind [OF reads_mmap_err [OF reads_symlink_metadata]])
  subgoal using assms by (auto simp: private_dir_def)
  apply (rule reads_case_prod, rule reads_if)
  subgoal using assms by (intro reads_mfail) (auto simp: private_dir_def)
  apply (rule reads_if)
  subgoal using assms by (intro reads_mfail) (auto simp: private_dir_def)
  by (rule reads_open_directory_no_follow) (use assms in \<open>auto simp: private_dir_def\<close>)

lemma reads_private_parent_owner:
  assumes "dir \<noteq> []" "c \<Longrightarrow> private_dir s dir"
  shows "reads c s (private_parent_owner (join_path dir name)) (\<lambda>owner. owner = owner_of s dir)"
  unfolding private_parent_owner_def
  apply (rule reads_mbind [where A = "\<lambda>q. q = dir"])
  subgoal using assms(1) by (intro reads_mlift) auto
  apply (rule reads_mbind [OF reads_open_existing_private_dir])
  subgoal using assms(2) by auto
  apply (rule reads_mbind [OF reads_mmap_err [OF reads_fstat]])
  subgoal by (auto simp: entry_at_vis)
  by (rule reads_case_prod, rule reads_mret) (auto simp: owner_of_def entry_at_def split: option.splits)

lemma reads_inspect_private_file:
  assumes "c \<Longrightarrow> \<exists>f n. entry_at s p = Some (f, n) \<and> private_inode owner n"
  shows "reads c s (inspect_private_file p owner)
    (\<lambda>(dev, f). \<exists>n. entry_at s p = Some (f, n) \<and> private_inode owner n \<and> dev = i_dev n)"
  unfolding inspect_private_file_def
  apply (rule reads_mbind [OF reads_mmap_err [OF reads_symlink_metadata]])
  subgoal using assms by auto
  apply (rule reads_case_prod, rule reads_if)
  subgoal using assms by (intro reads_mfail) (auto simp: private_inode_def)
  apply (rule reads_mbind [OF reads_mlift_unit])
  subgoal using assms by (auto simp: check_private_metadata_ok private_inode_def)
  by (rule reads_mret) (auto simp: check_private_metadata_ok private_inode_def)

lemma reads_check_opened_private_file:
  assumes "c \<Longrightarrow> \<exists>n. inodes s f = Some n \<and> private_inode owner n \<and> (expected = None \<or> expected = Some (i_dev n, f))"
  shows "reads c s (check_opened_private_file f owner expected)
    (\<lambda>_. \<exists>n. inodes s f = Some n \<and> private_inode owner n)"
  unfolding check_opened_private_file_def
  apply (rule reads_mbind [OF reads_mmap_err [OF reads_fstat]])
  subgoal using assms by auto
  apply (rule reads_case_prod, rule reads_if)
  subgoal using assms by (intro reads_mfail) (auto simp: private_inode_def)
  apply (rule reads_mbind [OF reads_mlift_unit])
  subgoal using assms by (auto simp: check_private_metadata_ok private_inode_def)
  apply (rule reads_if)
  subgoal using assms by (intro reads_mfail) auto
  by (rule reads_mret) (auto simp: check_private_metadata_ok private_inode_def)

lemma reads_opened_identity:
  assumes "c \<Longrightarrow> inodes s f \<noteq> None"
  shows "reads c s (opened_identity f) (\<lambda>(dev, i). i = f \<and> (\<exists>n. inodes s f = Some n \<and> dev = i_dev n))"
  unfolding opened_identity_def
  apply (rule reads_mbind [OF reads_mmap_err [OF reads_fstat]])
  subgoal using assms by auto
  by (rule reads_case_prod, rule reads_mret) auto

text \<open>The file a private open returns.\<close>

definition opened :: "System \<Rightarrow> Path \<Rightarrow> string \<Rightarrow> nat \<Rightarrow> bool" where
  "opened s dir name f \<longleftrightarrow>
     (\<exists>n. entry_at s (join_path dir name) = Some (f, n) \<and> private_inode (owner_of s dir) n)"

lemma private_file_opened: "private_file s dir name \<longleftrightarrow> (\<exists>f. opened s dir name f)"
  by (auto simp: private_file_def opened_def)

lemma opened_unique: "opened s dir name f \<Longrightarrow> opened s dir name g \<Longrightarrow> f = g"
  by (auto simp: opened_def)

lemma reads_open_private_read_file:
  assumes "dir \<noteq> []" "c \<Longrightarrow> private_dir s dir \<and> private_file s dir name"
  shows "reads c s (open_private_read_file (join_path dir name)) (opened s dir name)"
  unfolding open_private_read_file_def
  apply (rule reads_mbind [OF reads_private_parent_owner])
  subgoal using assms(1) .
  subgoal using assms(2) by auto
  apply (rule reads_mbind [OF reads_inspect_private_file])
  subgoal using assms(2) by (auto simp: private_file_def)
  apply (rule reads_mbind [OF reads_mmap_err [OF reads_open_read]])
  subgoal using assms(2) by (auto simp: private_file_def private_inode_def)
  apply (rule reads_mbind [OF reads_check_opened_private_file])
  subgoal by (auto simp: entry_at_vis)
  by (rule reads_mret) (auto simp: opened_def entry_at_vis)

lemma reads_open_writable_existing:
  assumes "c \<Longrightarrow> \<exists>i n. entry_at s p = Some (i, n) \<and> i_kind n = Regular"
  shows "reads c s (open_private_writable p False) (\<lambda>i. \<exists>n. entry_at s p = Some (i, n))"
  unfolding open_private_writable_def sys_open_writable_def if_False
  by (rule reads_weaken [OF reads_query]) (use assms in \<open>auto split: option.splits if_splits\<close>)

lemma reads_open_private_writable_file:
  assumes "dir \<noteq> []" "c \<Longrightarrow> private_dir s dir \<and> private_file s dir name"
  shows "reads c s (open_private_writable_file D (join_path dir name) False art) (opened s dir name)"
  unfolding open_private_writable_file_def if_False
  apply (rule reads_mbind [OF reads_private_parent_owner])
  subgoal using assms(1) .
  subgoal using assms(2) by auto
  apply (rule reads_mbind [where A = "\<lambda>x. \<exists>dev f n. x = Some (dev, f) \<and> entry_at s (join_path dir name) = Some (f, n) \<and>
      private_inode (owner_of s dir) n \<and> dev = i_dev n"])
   apply (rule reads_mbind [OF reads_inspect_private_file])
  subgoal using assms(2) by (auto simp: private_file_def)
   apply (rule reads_mret)
  subgoal by auto
  apply (rule reads_mbind [OF reads_mmap_err [OF reads_open_writable_existing]])
  subgoal using assms(2) by (auto simp: private_file_def private_inode_def)
  apply (rule reads_mbind [OF reads_mret [where A = "\<lambda>_. True"]])
  subgoal by simp
  apply (rule reads_mbind [OF reads_check_opened_private_file])
  subgoal by (auto simp: entry_at_vis)
  by (rule reads_mret) (auto simp: opened_def entry_at_vis)

lemmas reads_open_private_existing =
  reads_open_private_writable_file [folded open_private_update_file_def]
  reads_open_private_writable_file [folded open_private_append_file_def]

section \<open>Profiles and the lock\<close>

definition accepts_profile :: "'h ProfileOps \<Rightarrow> QualifiedProfile \<Rightarrow> bool" where
  "accepts_profile P prof \<longleftrightarrow> (\<forall>f h. same_profile_observed prof (fst (P f h)) = Inr ())"

definition good_profile :: "'h ProfileOps \<Rightarrow> bool" where
  "good_profile P \<longleftrightarrow>
     (\<exists>x. validate_observation x = Inr () \<and> (\<forall>f h. fst (P f h) = Inr x))"

lemma reads_qualify_directory:
  assumes "c \<Longrightarrow> good_profile P"
  shows "reads c s (qualify_directory P f) (\<lambda>prof. good_profile P \<longrightarrow> accepts_profile P prof)"
proof -
  have "accepts_profile P prof" if "qualify_observed r = Inr prof" "P f h = (r, h')" "good_profile P" for r h h' prof
  proof -
    from that(3) obtain x where x: "validate_observation x = Inr ()" "\<And>f h. fst (P f h) = Inr x"
      by (auto simp: good_profile_def)
    then have "r = Inr x" using that(2) by (metis fst_conv)
    with x that(1) show ?thesis
      by (auto simp: accepts_profile_def same_profile_observed_ok qualify_observed_ok Let_def)
  qed
  moreover have "\<exists>prof. qualify_observed r = Inr prof" if r: "P f h = (r, h')" and c: "c" for r h h'
  proof -
    obtain x where x: "validate_observation x = Inr ()" "fst (P f h) = Inr x"
      using assms [OF c] by (auto simp: good_profile_def)
    then show ?thesis using r by (intro exI [of _ "QualifiedProfile x"]) (simp add: qualify_observed_ok)
  qed
  ultimately show ?thesis
    by (fastforce simp: reads_def triple_def qualify_directory_def at_state_def split: prod.splits sum.splits)
qed

lemma reads_require_same_profile:
  assumes "c \<Longrightarrow> accepts_profile P prof"
  shows "reads c s (require_same_profile P f prof) (\<lambda>_. True)"
proof -
  have "same_profile_observed prof r = Inr ()" if r: "P f h = (r, h')" and c: "c" for r h h'
    using assms [OF c] r by (metis accepts_profile_def fst_conv)
  then show ?thesis
    by (fastforce simp: reads_def triple_def require_same_profile_def at_state_def split: prod.splits sum.splits)
qed

lemma reads_revalidate_lock:
  assumes "dir \<noteq> []" "c \<Longrightarrow> private_dir s dir \<and> opened s dir LOCK_FILE_NAME lock \<and> accepts_profile P prof"
  shows "reads c s (revalidate_lock P dir lock prof) (\<lambda>_. opened s dir LOCK_FILE_NAME lock)"
  unfolding revalidate_lock_def
  apply (rule reads_mbind [OF reads_open_private_read_file [OF assms(1)]])
  subgoal using assms(2) by (auto simp: private_file_opened)
  apply (rule reads_mbind [OF reads_require_same_profile])
  subgoal using assms(2) by auto
  apply (rule reads_mbind [OF reads_require_same_profile])
  subgoal using assms(2) by auto
  apply (rule reads_mbind [OF reads_opened_identity])
  subgoal using assms(2) by (auto simp: opened_def entry_at_vis)
  apply (rule reads_mbind [OF reads_opened_identity])
  subgoal by (auto simp: opened_def entry_at_vis)
  apply (rule reads_if)
  subgoal using assms(2) by (intro reads_mfail) (auto dest: opened_unique)
  by (rule reads_mret) auto

section \<open>Metadata and snapshots\<close>

definition inode_data :: "System \<Rightarrow> nat \<Rightarrow> bytes option" where
  "inode_data s f = map_option i_data (inodes s f)"

definition data_at :: "System \<Rightarrow> Path \<Rightarrow> bytes option" where
  "data_at s p = Option.bind (vis s p) (inode_data s)"

lemma opened_data: "opened s dir name f \<Longrightarrow> data_at s (join_path dir name) = inode_data s f \<and> inode_data s f \<noteq> None"
  by (auto simp: opened_def entry_at_vis data_at_def inode_data_def)

lemma reads_read_bounded_file:
  assumes "c \<Longrightarrow> \<exists>bs. inode_data s f = Some bs \<and> length bs \<le> maximum"
  shows "reads c s (read_bounded_file f maximum label) (\<lambda>bs. inode_data s f = Some bs)"
  unfolding read_bounded_file_def
  apply (rule reads_mbind [OF reads_mmap_err [OF reads_fstat]])
  subgoal using assms by (auto simp: inode_data_def)
  apply (rule reads_case_prod, rule reads_if)
  subgoal using assms by (intro reads_mfail) (auto simp: inode_data_def)
  apply (rule reads_mbind [OF reads_mmap_err [OF reads_seek]])
  apply (rule reads_mbind [OF reads_mmap_err [OF reads_read]])
  subgoal by auto
  apply (rule reads_if)
  subgoal using assms by (intro reads_mfail) (auto simp: inode_data_def)
  by (rule reads_mret) (auto simp: inode_data_def)

lemma reads_decoded_file:
  assumes "c \<Longrightarrow> \<exists>bs x. inode_data s f = Some bs \<and> length bs \<le> maximum \<and> decode bs = Inr x"
  shows "reads c s (mbind (read_bounded_file f maximum label) (\<lambda>bs. mlift (decode bs)))
    (\<lambda>x. \<exists>bs. inode_data s f = Some bs \<and> decode bs = Inr x)"
  apply (rule reads_mbind [OF reads_read_bounded_file])
  subgoal using assms by auto
  by (rule reads_mlift) (use assms in auto)

lemma check_document_length: "check_document S label maximum bs = Inr u \<Longrightarrow> length bs \<le> maximum"
  by (auto simp: check_document_def split: if_splits)

lemma reads_read_commit_point:
  assumes "c \<Longrightarrow> \<exists>bs p. inode_data s f = Some bs \<and> CommitPoint_decode S bs MAX_JOURNAL_BYTES = Inr p"
  shows "reads c s (read_commit_point S f)
    (\<lambda>p. \<exists>bs. inode_data s f = Some bs \<and> CommitPoint_decode S bs MAX_JOURNAL_BYTES = Inr p)"
  unfolding read_commit_point_def
  by (rule reads_decoded_file)
    (use assms in \<open>auto simp: CommitPoint_decode_def and_then_eq_Inr dest: check_document_length\<close>)

lemma reads_read_publish_witness:
  assumes "c \<Longrightarrow> \<exists>bs w. inode_data s f = Some bs \<and> PublishWitness_decode S bs = Inr w"
  shows "reads c s (read_publish_witness S f)
    (\<lambda>w. \<exists>bs. inode_data s f = Some bs \<and> PublishWitness_decode S bs = Inr w)"
  unfolding read_publish_witness_def
  by (rule reads_decoded_file)
    (use assms in \<open>auto simp: PublishWitness_decode_def and_then_eq_Inr dest: check_document_length\<close>)

lemma reads_verify_opened_witness:
  assumes "c \<Longrightarrow> \<exists>bs. inode_data s f = Some bs \<and> PublishWitness_decode S bs = Inr w"
  shows "reads c s (verify_opened_witness S f w)
    (\<lambda>_. \<exists>bs. inode_data s f = Some bs \<and> PublishWitness_decode S bs = Inr w)"
  unfolding verify_opened_witness_def
  apply (rule reads_mbind [OF reads_read_publish_witness])
  subgoal using assms by auto
  apply (rule reads_if)
  subgoal using assms by (intro reads_mfail) auto
  by (rule reads_mret) auto

lemma reads_file_len:
  "(c \<Longrightarrow> inode_data s f \<noteq> None) \<Longrightarrow> reads c s (file_len f) (\<lambda>n. \<exists>bs. inode_data s f = Some bs \<and> n = length bs)"
  unfolding file_len_def
  apply (rule reads_mbind [OF reads_mmap_err [OF reads_fstat]])
  subgoal by (auto simp: inode_data_def)
  by (rule reads_case_prod, rule reads_mret) (auto simp: inode_data_def)

lemma reads_read_committed_prefix:
  assumes "c \<Longrightarrow> \<exists>bs. inode_data s f = Some bs \<and> length bs = committed_bytes p"
  shows "reads c s (read_committed_prefix f p) (\<lambda>bs. inode_data s f = Some bs \<and> length bs = committed_bytes p)"
  unfolding read_committed_prefix_def
  apply (rule reads_mbind [OF reads_file_len])
  subgoal using assms by auto
  apply (rule reads_if)
  subgoal using assms by (intro reads_mfail) auto
  apply (rule reads_if)
  subgoal using assms by (intro reads_mfail) auto
  apply (rule reads_mbind [OF reads_mmap_err [OF reads_seek]])
  apply (rule reads_mbind [OF reads_mmap_err [OF reads_read]])
  subgoal by (auto simp: inode_data_def)
  apply (rule reads_if)
  subgoal by (intro reads_mfail) (auto simp: inode_data_def)
  by (rule reads_mret) (auto simp: inode_data_def)

text \<open>The committed view of the files: the metadata decodes, the witness is clean at the commit
  generation, and the journal is exactly the prefix the commit point names.\<close>

definition view :: "('s, 'a) StoreSerde_scheme \<Rightarrow> System \<Rightarrow> Path \<Rightarrow> Snapshot \<Rightarrow> bool" where
  "view S s dir snap \<longleftrightarrow>
     data_at s (join_path dir JOURNAL_FILE_NAME) = Some (snapshot_bytes snap) \<and>
     (\<exists>cb. data_at s (join_path dir COMMIT_FILE_NAME) = Some cb \<and>
        CommitPoint_decode S cb MAX_JOURNAL_BYTES = Inr (point snap)) \<and>
     (\<exists>pb. data_at s (join_path dir PUBLISH_FILE_NAME) = Some pb \<and>
        PublishWitness_decode S pb = Inr (clean (generation (point snap)))) \<and>
     length (snapshot_bytes snap) = committed_bytes (point snap) \<and>
     hash_bytes S (snapshot_bytes snap) = cp_digest (point snap) \<and>
     decode_committed_prefix S (point snap) (snapshot_bytes snap) = Inr (snapshot_entries snap)"

lemma view_unique: "view S s dir x \<Longrightarrow> view S s dir y \<Longrightarrow> x = y"
  by (cases x; cases y) (auto simp: view_def)

definition openable :: "System \<Rightarrow> Path \<Rightarrow> bool" where
  "openable s dir \<longleftrightarrow>
     private_dir s dir \<and> private_file s dir LOCK_FILE_NAME \<and> private_file s dir JOURNAL_FILE_NAME \<and>
     private_file s dir COMMIT_FILE_NAME \<and> private_file s dir PUBLISH_FILE_NAME"

lemma clean_not_prepared [simp]:
  "\<not> is_initializing (clean g)" "\<not> is_prepared_successor (clean g)"
  by (auto simp: is_initializing_def is_prepared_successor_def clean_def)

lemma reads_validate_prepared: "\<not> c \<Longrightarrow> reads c s (validate_prepared_commit_prefix S f p w) (\<lambda>_. True)"
  unfolding validate_prepared_commit_prefix_def
  by (intro reads_mbind [OF reads_mmap_err [OF reads_file_len]] reads_mbind [OF reads_mmap_err [OF reads_seek]]
      reads_mbind [OF reads_mmap_err [OF reads_read]] reads_mbind [OF reads_mlift [where A = "\<lambda>_. True"]]
      reads_if reads_mfail reads_mret) auto

lemma reads_prepared:
  assumes "\<not> c"
  shows "reads c s (mbind (mlift r) (\<lambda>_. mbind (validate_prepared_commit_prefix S f p w) (\<lambda>_. mfail e))) A"
  by (intro reads_mbind [OF reads_mlift [where A = "\<lambda>_. True"]] reads_mbind [OF reads_validate_prepared]
      reads_mfail) (use assms in auto)

lemma reads_read_snapshot:
  assumes "dir \<noteq> []" "c \<Longrightarrow> openable s dir \<and> accepts_profile P prof \<and> (\<exists>snap. view S s dir snap)"
  shows "reads c s (read_snapshot_observed S P dir prof ob) (view S s dir)"
  unfolding read_snapshot_observed_def
  apply (rule reads_mbind [OF reads_open_private_read_file [OF assms(1)]])
  subgoal using assms(2) by (auto simp: openable_def)
  subgoal for jfile
    apply (rule reads_mbind [OF reads_require_same_profile])
    subgoal using assms(2) by auto
    apply (rule reads_mbind [OF reads_open_private_read_file [OF assms(1)]])
    subgoal using assms(2) by (auto simp: openable_def)
    apply (rule reads_mbind [OF reads_require_same_profile])
    subgoal using assms(2) by auto
    apply (rule reads_mbind [OF reads_read_commit_point])
    subgoal using assms(2) by (auto simp: view_def dest!: opened_data)
    subgoal for _ cfile _ p
      apply (rule reads_mbind [OF reads_open_private_read_file [OF assms(1)]])
      subgoal using assms(2) by (auto simp: openable_def)
      apply (rule reads_mbind [OF reads_require_same_profile])
      subgoal using assms(2) by auto
      apply (rule reads_mbind [OF reads_read_publish_witness])
      subgoal using assms(2) by (auto simp: view_def dest!: opened_data)
      subgoal for pfile _ witness
        apply (rule reads_if)
        subgoal
          apply (rule reads_mbind [where A = "\<lambda>_. True"])
           apply (rule reads_if)
            apply (rule reads_mret, simp)
           apply (rule reads_mbind [OF reads_file_len])
          subgoal by (auto dest!: opened_data)
           apply (rule reads_mret, simp)
          apply (rule reads_if)
          subgoal using assms(2) by (intro reads_mfail) (auto simp: view_def dest!: opened_data)
          subgoal using assms(2) by (intro reads_mfail) (auto simp: view_def dest!: opened_data)
          done
        apply (rule reads_if)
        subgoal
          by (rule reads_prepared) (use assms(2) in \<open>auto simp: view_def dest!: opened_data\<close>)
        apply (rule reads_if)
        subgoal using assms(2) by (intro reads_mfail) (auto simp: view_def dest!: opened_data)
        apply (rule reads_mbind [OF reads_observe_stage [OF reads_read_committed_prefix]])
        subgoal using assms(2) by (auto simp: view_def dest!: opened_data)
        subgoal for bs
          apply (rule reads_mbind [OF reads_observe_stage [OF reads_mret [where A = "\<lambda>d. d = hash_bytes S bs"]]])
          subgoal by simp
          apply (rule reads_if)
          subgoal using assms(2) by (intro reads_mfail) (auto simp: view_def dest!: opened_data)
          apply (rule reads_mbind [OF reads_observe_stage [OF reads_mlift [where A = "\<lambda>es. decode_committed_prefix S p bs = Inr es"]]])
          subgoal by simp
          subgoal using assms(2) by (auto simp: view_def dest!: opened_data)
          by (rule reads_mret) (auto simp: view_def dest!: opened_data)
        done
      done
    done
  done

lemma reads_load_committed:
  assumes "state_dir j \<noteq> []"
    and "c \<Longrightarrow> openable s (state_dir j) \<and> opened s (state_dir j) LOCK_FILE_NAME (lock_file j) \<and> good_profile P \<and>
      (\<exists>snap. view S s (state_dir j) snap)"
  shows "reads c s (load_committed_observed_by_store S P j ob)
    (\<lambda>es. \<exists>snap. view S s (state_dir j) snap \<and> es = snapshot_entries snap)"
  unfolding load_committed_observed_by_store_def
  apply (rule reads_mbind [OF reads_open_existing_private_dir])
  subgoal using assms(2) by (auto simp: openable_def)
  apply (rule reads_mbind [OF reads_qualify_directory])
  subgoal using assms(2) by auto
  apply (rule reads_mbind [OF reads_revalidate_lock [OF assms(1)]])
  subgoal using assms(2) by (auto simp: openable_def)
  apply (rule reads_mbind [OF reads_read_snapshot [OF assms(1)]])
  subgoal using assms(2) by auto
  by (rule reads_mret) auto

section \<open>The text of a journal\<close>

definition journal_bytes :: "JournalEntry list \<Rightarrow> bytes" where
  "journal_bytes es = join_lines (CHR 0x0A) (map (\<lambda>e. record_text (entry_record e)) es)"

definition point_of :: "('s, 'a) StoreSerde_scheme \<Rightarrow> JournalEntry list \<Rightarrow> CommitPoint" where
  "point_of S es = for_prefix S (journal_bytes es) (length es)"

definition wf_entries :: "JournalEntry list \<Rightarrow> bool" where
  "wf_entries es \<longleftrightarrow> list_all wf_entry es \<and> contiguous es \<and> length es \<le> MAX_JOURNAL_ENTRIES"

lemma wf_entries_seq:
  assumes "wf_entries es" "e \<in> set es" shows "0 < seq e" "seq e \<le> MAX_JOURNAL_ENTRIES" "wf_entry e"
proof -
  have "seq e \<in> set (map seq es)" using assms(2) by simp
  moreover have "map seq es = [1..<Suc (length es)]" using assms(1) by (simp add: wf_entries_def contiguous_def)
  ultimately have "seq e \<in> {1..<Suc (length es)}" by (metis set_upt)
  with assms show "0 < seq e" "seq e \<le> MAX_JOURNAL_ENTRIES" "wf_entry e"
    by (auto simp: wf_entries_def list_all_iff)
qed

lemma wf_entries_snoc:
  "wf_entries (es @ [e]) \<longleftrightarrow> wf_entries es \<and> wf_entry e \<and> seq e = Suc (length es) \<and> length es < MAX_JOURNAL_ENTRIES"
  by (auto simp: wf_entries_def)

lemma journal_bytes_snoc [simp]:
  "journal_bytes (es @ [e]) = journal_bytes es @ record_text (entry_record e) @ [CHR 0x0A]"
  by (simp add: journal_bytes_def)

lemma journal_bytes_eq_Nil [simp]: "journal_bytes es = [] \<longleftrightarrow> es = []" "journal_bytes [] = []"
  by (simp_all add: journal_bytes_def)

lemma record_lines:
  assumes "wf_entries es" "l \<in> set (map (\<lambda>e. record_text (entry_record e)) es)"
  shows "printable l" "CHR 0x0A \<notin> set l" "length l < 4096"
proof -
  obtain e where e: "e \<in> set es" "l = record_text (entry_record e)" using assms(2) by auto
  note w = wf_entries_seq [OF assms(1) e(1)]
  show p: "printable l"
    using record_text_printable [OF entry_record_plain [OF w(3,2)]] e(2) by simp
  show "CHR 0x0A \<notin> set l" by (rule printable_no_newline [OF p])
  show "length l < 4096" using record_text_length [OF w(3,2)] e(2) by simp
qed

lemma journal_bytes_utf8: "wf_entries es \<Longrightarrow> from_utf8 (journal_bytes es) = Inr (journal_bytes es)"
proof -
  assume w: "wf_entries es"
  have "list_all (\<lambda>c. byte_code c < 128) (journal_bytes es)"
    using record_lines(1) [OF w] printable_ascii
    by (fastforce simp: journal_bytes_def join_lines_def list_all_iff byte_defs)
  then show ?thesis by (rule from_utf8_ascii)
qed

lemma decode_lines_texts:
  assumes "record_serde_laws S" "wf_entries (acc @ es)"
  shows "decode_lines S acc (map (\<lambda>e. record_text (entry_record e)) es) = Inr (acc @ es)"
  using assms(2)
proof (induction es arbitrary: acc)
  case (Cons e es)
  have e: "0 < seq e" "seq e \<le> MAX_JOURNAL_ENTRIES" "wf_entry e"
    using wf_entries_seq [OF Cons.prems, of e] by simp_all
  have "map seq (acc @ e # es) ! length acc = Suc (length acc)"
    using Cons.prems by (simp add: wf_entries_def contiguous_def del: upt_Suc)
  then have "seq e = Suc (length acc)" by (simp add: nth_append)
  moreover have "length acc < MAX_JOURNAL_ENTRIES" using Cons.prems by (simp add: wf_entries_def)
  ultimately show ?case
    using Cons.IH [of "acc @ [e]"] Cons.prems e assms(1) by (simp add: decode_line_encoded)
qed simp

lemma decode_contents_journal:
  assumes "record_serde_laws S" "wf_entries es" shows "decode_contents S (journal_bytes es) = Inr es"
proof (cases "es = []")
  case False
  let ?ls = "map (\<lambda>e. record_text (entry_record e)) es"
  have "split_on (CHR 0x0A) (butlast (journal_bytes es)) = ?ls"
    unfolding journal_bytes_def
    using False record_lines(2) [OF assms(2)] by (intro split_butlast_join_lines) auto
  moreover have "last (journal_bytes es) = CHR 0x0A"
    unfolding journal_bytes_def using False by (intro last_join_lines) simp
  ultimately show ?thesis
    using False decode_lines_texts [of S "[]" es] assms by (simp add: decode_contents_def)
qed (simp add: decode_contents_def)

lemma decode_lines_sound:
  assumes "decode_lines S acc ls = Inr es" "wf_entries acc" shows "wf_entries es"
  using assms
proof (induction ls arbitrary: acc)
  case (Cons l ls)
  then obtain e where e: "decode_line S (length acc + 1) l = Inr e" "seq e = length acc + 1"
    "length acc < MAX_JOURNAL_ENTRIES" "decode_lines S (acc @ [e]) ls = Inr es"
    by (auto simp: and_then_eq_Inr split: if_splits)
  have "wf_entries (acc @ [e])"
    using decode_line_sound [OF e(1)] e(2,3) Cons.prems(2) by (simp add: wf_entries_snoc)
  with Cons.IH e(4) show ?case by blast
qed simp

lemma wf_entries_Nil [simp]: "wf_entries []"
  by (simp add: wf_entries_def)

lemma decode_contents_sound: "decode_contents S text = Inr es \<Longrightarrow> wf_entries es"
  by (auto simp: decode_contents_def split: if_splits dest: decode_lines_sound)

text \<open>The entry bound implies the byte bound.\<close>

lemma journal_bytes_length:
  assumes "wf_entries es" shows "length (journal_bytes es) \<le> 4096 * length es"
proof -
  have "length (join_lines d ls) \<le> 4096 * length ls" if "\<forall>l \<in> set ls. length l < 4096" for d ls
    using that by (induction ls) auto
  from this [of "map (\<lambda>e. record_text (entry_record e)) es"] record_lines(3) [OF assms]
  show ?thesis by (simp add: journal_bytes_def)
qed

lemma journal_bytes_bound: "wf_entries es \<Longrightarrow> length (journal_bytes es) \<le> MAX_JOURNAL_BYTES"
  using journal_bytes_length [of es]
  by (simp add: wf_entries_def MAX_JOURNAL_ENTRIES_def MAX_JOURNAL_BYTES_def)

lemma point_of_simps [simp]:
  "generation (point_of S es) = Suc (length es)" "committed_bytes (point_of S es) = length (journal_bytes es)"
  "committed_entries (point_of S es) = length es" "cp_digest (point_of S es) = hash_bytes S (journal_bytes es)"
  by (simp_all add: point_of_def for_prefix_def)

lemma point_of_wf: "sha_laws S \<Longrightarrow> wf_entries es \<Longrightarrow> wf_point MAX_JOURNAL_BYTES (point_of S es)"
  by (simp add: wf_point_def hash_bytes_length journal_bytes_bound) (simp add: wf_entries_def)

lemma point_of_Nil: "point_of S [] = CommitPoint_empty S"
  by (simp add: point_of_def CommitPoint_empty_def for_prefix_def)

lemma decode_point_of:
  assumes "store_serde_laws S" "wf_entries es"
  shows "CommitPoint_decode S (CommitPoint_encode S (point_of S es)) MAX_JOURNAL_BYTES = Inr (point_of S es)"
  using assms point_of_wf [of S es]
  by (simp add: store_serde_laws_def decode_encode_point MAX_JOURNAL_BYTES_def)

lemma decode_prefix_point_of:
  assumes "store_serde_laws S" "wf_entries es"
  shows "decode_committed_prefix S (point_of S es) (journal_bytes es) = Inr es"
  using assms
  by (simp add: decode_committed_prefix_def journal_bytes_utf8 decode_contents_journal store_serde_laws_def)

end
