(* ===== verification/Store_States.thy ===== *)
theory Store_States
  imports Store_Reading
begin

text \<open>
  The states a store goes through. \<open>committed\<close> says that the journal and the commit point of some
  entries are on stable storage, \<open>stuck\<close> that a PREPARED witness is, \<open>at_rest\<close> that a clean one is; the
  lemmas say what a reader sees in each, before and after a power loss, and which primitive changes
  keep the frame of the state directory that the append and the initialization rely on.
\<close>

section \<open>States of a store\<close>

definition durable_file :: "System \<Rightarrow> Path \<Rightarrow> nat \<Rightarrow> bytes \<Rightarrow> bool" where
  "durable_file s p f bs \<longleftrightarrow>
     vis s p = Some f \<and> dur s p = Some f \<and> (\<exists>n. inodes s f = Some n \<and> i_data n = bs \<and> i_clean n)"

definition layout :: "System \<Rightarrow> Path \<Rightarrow> bool" where
  "layout s dir \<longleftrightarrow>
     dir \<noteq> [] \<and> (\<forall>i. inodes s i \<noteq> None \<longrightarrow> i < next_ino s) \<and>
     (\<forall>n i. vis s (join_path dir n) = Some i \<longrightarrow> inodes s i \<noteq> None) \<and>
     (\<forall>n m i. vis s (join_path dir n) = Some i \<and> vis s (join_path dir m) = Some i \<longrightarrow> n = m)"

definition committed :: "('s, 'a) StoreSerde_scheme \<Rightarrow> System \<Rightarrow> Path \<Rightarrow> JournalEntry list \<Rightarrow> bool" where
  "committed S s dir es \<longleftrightarrow>
     wf_entries es \<and>
     (\<exists>j. durable_file s (join_path dir JOURNAL_FILE_NAME) j (journal_bytes es)) \<and>
     (\<exists>c. durable_file s (join_path dir COMMIT_FILE_NAME) c (CommitPoint_encode S (point_of S es))) \<and>
     vis s (join_path dir PUBLISH_FILE_NAME) = dur s (join_path dir PUBLISH_FILE_NAME)"

definition stuck :: "('s, 'a) StoreSerde_scheme \<Rightarrow> System \<Rightarrow> Path \<Rightarrow> bool" where
  "stuck S s dir \<longleftrightarrow>
     (\<exists>f k. 2 \<le> k \<and> k \<le> MAX_JOURNAL_ENTRIES + 1 \<and>
        durable_file s (join_path dir PUBLISH_FILE_NAME) f (PublishWitness_encode S (prepared k)))"

text \<open>The entries the visible commit point names, whatever the witness says.\<close>

definition visible_entries :: "('s, 'a) StoreSerde_scheme \<Rightarrow> System \<Rightarrow> Path \<Rightarrow> JournalEntry list" where
  "visible_entries S s dir =
     (case (data_at s (join_path dir COMMIT_FILE_NAME), data_at s (join_path dir JOURNAL_FILE_NAME)) of
        (Some cb, Some jb) \<Rightarrow>
          (case CommitPoint_decode S cb MAX_JOURNAL_BYTES of
             Inl _ \<Rightarrow> []
           | Inr p \<Rightarrow>
               (case decode_contents S (take (committed_bytes p) jb) of Inl _ \<Rightarrow> [] | Inr es \<Rightarrow> es))
      | _ \<Rightarrow> [])"

definition shows_entries :: "('s, 'a) StoreSerde_scheme \<Rightarrow> System \<Rightarrow> Path \<Rightarrow> JournalEntry list \<Rightarrow> bool" where
  "shows_entries S s dir es \<longleftrightarrow>
     wf_entries es \<and> data_at s (join_path dir COMMIT_FILE_NAME) = Some (CommitPoint_encode S (point_of S es)) \<and>
     (\<exists>t. data_at s (join_path dir JOURNAL_FILE_NAME) = Some (journal_bytes es @ t))"

text \<open>A store at rest: committed, with a clean witness on stable storage.\<close>

definition at_rest :: "('s, 'a) StoreSerde_scheme \<Rightarrow> System \<Rightarrow> Path \<Rightarrow> JournalEntry list \<Rightarrow> bool" where
  "at_rest S s dir es \<longleftrightarrow>
     committed S s dir es \<and>
     (\<exists>f. durable_file s (join_path dir PUBLISH_FILE_NAME) f (PublishWitness_encode S (clean (Suc (length es)))))"

text \<open>The state directory and the lock file are on stable storage too.\<close>

definition anchored :: "System \<Rightarrow> Path \<Rightarrow> bool" where
  "anchored s dir \<longleftrightarrow>
     (\<exists>d n. vis s dir = Some d \<and> dur s dir = Some d \<and> inodes s d = Some n \<and> i_clean n) \<and>
     (\<exists>l n. vis s (join_path dir LOCK_FILE_NAME) = Some l \<and> dur s (join_path dir LOCK_FILE_NAME) = Some l \<and>
        inodes s l = Some n \<and> i_clean n)"

lemma file_names_distinct [simp]:
  "JOURNAL_FILE_NAME \<noteq> COMMIT_FILE_NAME" "JOURNAL_FILE_NAME \<noteq> PUBLISH_FILE_NAME"
  "JOURNAL_FILE_NAME \<noteq> COMMIT_TEMP_FILE_NAME" "COMMIT_FILE_NAME \<noteq> JOURNAL_FILE_NAME"
  "COMMIT_FILE_NAME \<noteq> PUBLISH_FILE_NAME" "COMMIT_FILE_NAME \<noteq> COMMIT_TEMP_FILE_NAME"
  "PUBLISH_FILE_NAME \<noteq> JOURNAL_FILE_NAME" "PUBLISH_FILE_NAME \<noteq> COMMIT_FILE_NAME"
  "PUBLISH_FILE_NAME \<noteq> COMMIT_TEMP_FILE_NAME" "COMMIT_TEMP_FILE_NAME \<noteq> JOURNAL_FILE_NAME"
  "COMMIT_TEMP_FILE_NAME \<noteq> COMMIT_FILE_NAME" "COMMIT_TEMP_FILE_NAME \<noteq> PUBLISH_FILE_NAME"
  "LOCK_FILE_NAME \<noteq> JOURNAL_FILE_NAME" "LOCK_FILE_NAME \<noteq> COMMIT_FILE_NAME"
  "LOCK_FILE_NAME \<noteq> PUBLISH_FILE_NAME" "LOCK_FILE_NAME \<noteq> COMMIT_TEMP_FILE_NAME"
  "JOURNAL_FILE_NAME \<noteq> LOCK_FILE_NAME" "COMMIT_FILE_NAME \<noteq> LOCK_FILE_NAME"
  "PUBLISH_FILE_NAME \<noteq> LOCK_FILE_NAME" "COMMIT_TEMP_FILE_NAME \<noteq> LOCK_FILE_NAME"
  by (simp_all add: file_name_defs)

lemma durable_data: "durable_file s p f bs \<Longrightarrow> data_at s p = Some bs"
  by (auto simp: durable_file_def data_at_def inode_data_def)

lemma committed_shows: "committed S s dir es \<Longrightarrow> shows_entries S s dir es"
  by (auto simp: committed_def shows_entries_def dest!: durable_data)

lemma shows_visible:
  assumes "store_serde_laws S" "shows_entries S s dir es" shows "visible_entries S s dir = es"
  using assms decode_contents_journal [of S es] decode_point_of [of S es]
  by (auto simp: visible_entries_def shows_entries_def store_serde_laws_def)

lemma view_committed:
  assumes "store_serde_laws S" "committed S s dir es" "view S s dir snap"
  shows "snap = \<lparr>point = point_of S es, snapshot_bytes = journal_bytes es, snapshot_entries = es\<rparr>"
  using assms decode_point_of [of S es] decode_prefix_point_of [of S es]
  by (cases snap) (auto simp: view_def committed_def dest!: durable_data)

lemma prepared_wf: "2 \<le> k \<Longrightarrow> k \<le> MAX_JOURNAL_ENTRIES + 1 \<Longrightarrow> wf_witness (prepared k)"
  by (auto simp: wf_witness_def prepared_def)

lemma clean_wf: "0 < k \<Longrightarrow> k \<le> MAX_JOURNAL_ENTRIES + 1 \<Longrightarrow> wf_witness (clean k)"
  by (auto simp: wf_witness_def clean_def)

lemma prepared_not_clean: "2 \<le> k \<Longrightarrow> prepared k \<noteq> clean g"
  by (auto simp: prepared_def clean_def)

lemma view_not_stuck: "store_serde_laws S \<Longrightarrow> stuck S s dir \<Longrightarrow> \<not> view S s dir snap"
  using decode_encode_witness [OF _ prepared_wf] prepared_not_clean
  by (fastforce simp: stuck_def view_def store_serde_laws_def dest!: durable_data)

lemma view_at_rest:
  assumes "store_serde_laws S" "at_rest S s dir es"
  shows "view S s dir \<lparr>point = point_of S es, snapshot_bytes = journal_bytes es, snapshot_entries = es\<rparr>"
proof -
  have w: "wf_entries es" using assms(2) by (simp add: at_rest_def committed_def)
  then have "PublishWitness_decode S (PublishWitness_encode S (clean (Suc (length es)))) = Inr (clean (Suc (length es)))"
    using assms(1) by (intro decode_encode_witness clean_wf) (auto simp: store_serde_laws_def wf_entries_def)
  then show ?thesis
    using assms w decode_point_of [of S es] decode_prefix_point_of [of S es]
    by (auto simp: view_def at_rest_def committed_def dest!: durable_data)
qed

section \<open>After a power loss\<close>

lemma crash_durable:
  assumes "crash_image s t" "durable_file s p f bs" shows "vis t p = Some f \<and> data_at t p = Some bs"
proof -
  obtain n where n: "inodes s f = Some n" "i_data n = bs" "i_clean n" and v: "vis s p = Some f" "dur s p = Some f"
    using assms(2) by (auto simp: durable_file_def)
  have "vis t p = Some f" using assms(1) v by (metis crash_image_def)
  moreover have "inodes t f = Some n" using assms(1) n by (auto simp: crash_image_def)
  ultimately show ?thesis using n(2) by (simp add: data_at_def inode_data_def)
qed

lemma crash_committed_view:
  assumes "store_serde_laws S" "committed S s dir es" "crash_image s t" "view S t dir snap"
  shows "snapshot_entries snap = es"
proof -
  obtain j c where d: "durable_file s (join_path dir JOURNAL_FILE_NAME) j (journal_bytes es)"
    "durable_file s (join_path dir COMMIT_FILE_NAME) c (CommitPoint_encode S (point_of S es))" "wf_entries es"
    using assms(2) by (auto simp: committed_def)
  note t = crash_durable [OF assms(3) d(1)] crash_durable [OF assms(3) d(2)]
  show ?thesis
    using assms(1,4) t decode_point_of [OF assms(1) d(3)] decode_prefix_point_of [OF assms(1) d(3)]
    by (auto simp: view_def)
qed

lemma crash_stuck_view:
  assumes "store_serde_laws S" "stuck S s dir" "crash_image s t" shows "\<not> view S t dir snap"
proof -
  obtain f k where k: "2 \<le> k" "k \<le> MAX_JOURNAL_ENTRIES + 1"
    and d: "durable_file s (join_path dir PUBLISH_FILE_NAME) f (PublishWitness_encode S (prepared k))"
    using assms(2) by (auto simp: stuck_def)
  have "PublishWitness_decode S (PublishWitness_encode S (prepared k)) = Inr (prepared k)"
    using assms(1) prepared_wf [OF k] by (simp add: decode_encode_witness store_serde_laws_def)
  then show ?thesis
    using crash_durable [OF assms(3) d] prepared_not_clean [OF k(1)] by (auto simp: view_def)
qed

lemma crash_at_rest_view:
  assumes "store_serde_laws S" "at_rest S s dir es" "crash_image s t"
  shows "view S t dir \<lparr>point = point_of S es, snapshot_bytes = journal_bytes es, snapshot_entries = es\<rparr>"
proof -
  note v = view_at_rest [OF assms(1,2)]
  have "data_at t (join_path dir n) = data_at s (join_path dir n)"
    if "n \<in> {JOURNAL_FILE_NAME, COMMIT_FILE_NAME, PUBLISH_FILE_NAME}" for n
    using assms(2) crash_durable [OF assms(3)] that durable_data
    by (fastforce simp: at_rest_def committed_def)
  with v show ?thesis by (simp add: view_def)
qed

section \<open>The frame of the state directory\<close>

text \<open>The directory is \<open>d\<close>, the journal \<open>j\<close> and the witness \<open>p\<close>; under \<open>c\<close> every file can be opened by
  the process, and under \<open>a\<close> directory and lock file survive a power loss.\<close>

definition framed :: "bool \<Rightarrow> bool \<Rightarrow> Path \<Rightarrow> nat \<Rightarrow> nat \<Rightarrow> nat \<Rightarrow> System \<Rightarrow> bool" where
  "framed c a dir d j p s \<longleftrightarrow>
     layout s dir \<and> (\<exists>n. entry_at s dir = Some (d, n) \<and> i_kind n = Directory) \<and>
     opened s dir JOURNAL_FILE_NAME j \<and> opened s dir PUBLISH_FILE_NAME p \<and>
     (c \<longrightarrow> openable s dir \<and> proc_uid s = owner_of s dir \<and>
       (vis s (join_path dir COMMIT_TEMP_FILE_NAME) \<noteq> None \<longrightarrow> private_file s dir COMMIT_TEMP_FILE_NAME)) \<and>
     (a \<longrightarrow> anchored s dir)"

text \<open>Changes of content: the attributes an open checks stay.\<close>

definition keeps :: "(Inode \<Rightarrow> Inode) \<Rightarrow> bool" where
  "keeps g \<longleftrightarrow>
     (\<forall>n. i_kind (g n) = i_kind n \<and> i_dev (g n) = i_dev n \<and> i_uid (g n) = i_uid n \<and>
        i_nlink (g n) = i_nlink n \<and> i_mode (g n) = i_mode n)"

lemma keeps_content [simp]: "keeps truncate_inode" "keeps (extend_inode bs)" "keeps (i_clean_update h)"
  by (simp_all add: keeps_def truncate_inode_def extend_inode_def)

lemma update_inode_simps [simp]:
  "vis (update_inode f g s) = vis s" "dur (update_inode f g s) = dur s" "next_ino (update_inode f g s) = next_ino s"
  "proc_uid (update_inode f g s) = proc_uid s"
  "inodes (update_inode f g s) i = (if i = f then map_option g (inodes s i) else inodes s i)"
  by (simp_all add: update_inode_def)

lemma entry_at_update:
  "entry_at (update_inode f g s) q = map_option (\<lambda>(i, n). (i, if i = f then g n else n)) (entry_at s q)"
  by (auto simp: entry_at_def map_option_case split: option.splits)

lemma private_inode_keeps [simp]: "keeps g \<Longrightarrow> private_inode owner (g n) = private_inode owner n"
  by (simp add: private_inode_def keeps_def)

lemma owner_of_update [simp]: "keeps g \<Longrightarrow> owner_of (update_inode f g s) dir = owner_of s dir"
  by (auto simp: owner_of_def entry_at_update keeps_def split: option.splits)

lemma opened_update [simp]: "keeps g \<Longrightarrow> opened (update_inode f g s) dir name i = opened s dir name i"
  by (cases "i = f") (auto simp: opened_def entry_at_vis)

lemma private_dir_vis:
  "private_dir s dir \<longleftrightarrow> (\<exists>d. vis s dir = Some d \<and> (\<exists>n. inodes s d = Some n \<and> i_kind n = Directory \<and> i_mode n mod 4096 = mode_0700))"
  by (auto simp: private_dir_def entry_at_vis)

lemma private_dir_update [simp]: "keeps g \<Longrightarrow> private_dir (update_inode f g s) dir = private_dir s dir"
  by (auto simp: private_dir_vis keeps_def split: if_splits)

lemma openable_update [simp]: "keeps g \<Longrightarrow> openable (update_inode f g s) dir = openable s dir"
  by (simp add: openable_def private_file_opened)

lemma layout_update [simp]: "layout (update_inode f g s) dir = layout s dir"
  by (auto simp: layout_def)

text \<open>The directory and the lock file are neither the journal nor the witness, nor is a new file.\<close>

lemma framed_names:
  assumes "framed c a dir d j p s"
  shows "dir \<noteq> []" "j \<noteq> p" "j \<noteq> d" "p \<noteq> d" "vis s (join_path dir JOURNAL_FILE_NAME) = Some j"
    "vis s (join_path dir PUBLISH_FILE_NAME) = Some p" "vis s dir = Some d"
    "\<And>n. vis s (join_path dir n) = Some j \<Longrightarrow> n = JOURNAL_FILE_NAME"
    "\<And>n. vis s (join_path dir n) = Some p \<Longrightarrow> n = PUBLISH_FILE_NAME"
proof -
  show v: "vis s (join_path dir JOURNAL_FILE_NAME) = Some j" "vis s (join_path dir PUBLISH_FILE_NAME) = Some p"
    "vis s dir = Some d" "dir \<noteq> []"
    using assms by (auto simp: framed_def opened_def entry_at_vis layout_def)
  show "j \<noteq> d" "p \<noteq> d"
    using assms by (auto simp: framed_def opened_def entry_at_vis private_inode_def)
  have inj: "n = m" if "vis s (join_path dir n) = Some i" "vis s (join_path dir m) = Some i" for n m i
    using assms that unfolding framed_def layout_def by blast
  show "j \<noteq> p" using inj [OF v(1), of PUBLISH_FILE_NAME] v(2) by (auto dest: sym)
  show "n = JOURNAL_FILE_NAME" if "vis s (join_path dir n) = Some j" for n using inj [OF that v(1)] .
  show "n = PUBLISH_FILE_NAME" if "vis s (join_path dir n) = Some p" for n using inj [OF that v(2)] .
qed

lemma framed_update:
  assumes "framed c a dir d j p s" "keeps g" "vis s (join_path dir n) = Some f" "n \<noteq> LOCK_FILE_NAME" "f \<noteq> d"
  shows "framed c a dir d j p (update_inode f g s)"
proof -
  have "vis s (join_path dir LOCK_FILE_NAME) \<noteq> Some f"
    using assms(1,3,4) unfolding framed_def layout_def by blast
  then show ?thesis
    using assms by (auto simp: framed_def entry_at_update private_file_opened anchored_def entry_at_vis)
qed

lemma settle_simps [simp]:
  "vis (settle i s) = vis s" "next_ino (settle i s) = next_ino s" "proc_uid (settle i s) = proc_uid s"
  "inodes (settle i s) = inodes (update_inode i (\<lambda>n. n\<lparr>i_clean := True\<rparr>) s)"
  by (auto simp: settle_def update_inode_def split: option.splits)

lemma dur_settle:
  "dur (settle i s) q = (if (\<exists>n. inodes s i = Some n \<and> i_kind n = Directory) \<and> parent_ino s q = Some i
     then vis s q else dur s q)"
  by (auto simp: settle_def split: option.splits)

lemma same_files:
  assumes "vis t = vis s" "inodes t = inodes s"
  shows "entry_at t = entry_at s" "owner_of t dir = owner_of s dir" "opened t dir = opened s dir"
    "private_dir t dir = private_dir s dir" "openable t dir = openable s dir"
    "next_ino t = next_ino s \<Longrightarrow> layout t dir = layout s dir" "data_at t = data_at s"
proof -
  show e: "entry_at t = entry_at s" using assms by (auto simp: entry_at_def fun_eq_iff split: option.splits)
  then show w: "owner_of t dir = owner_of s dir" "private_dir t dir = private_dir s dir"
    by (simp_all add: owner_of_def private_dir_def)
  with e show o: "opened t dir = opened s dir" by (simp add: opened_def fun_eq_iff)
  with w show "openable t dir = openable s dir" by (simp add: openable_def private_file_opened)
  show "next_ino t = next_ino s \<Longrightarrow> layout t dir = layout s dir" using assms by (simp add: layout_def)
  have "inode_data t = inode_data s" using assms(2) by (simp add: inode_data_def fun_eq_iff)
  then show "data_at t = data_at s" using assms(1) by (intro ext) (simp add: data_at_def)
qed

lemma framed_settle:
  assumes "framed c a dir d j p s" shows "framed c a dir d j p (settle i s)"
proof -
  let ?u = "update_inode i (\<lambda>n. n\<lparr>i_clean := True\<rparr>) s"
  have k: "keeps (\<lambda>n. n\<lparr>i_clean := True\<rparr>)" by (simp add: keeps_def)
  note sf = same_files [of "settle i s" ?u, simplified]
  have "anchored (settle i s) dir" if "anchored s dir"
    using that by (force simp: anchored_def dur_settle)
  then show ?thesis
    using assms k by (auto simp: framed_def sf private_file_opened entry_at_vis)
qed

text \<open>Changes of the temporary name: removed, created, its mode set, renamed over the commit point.\<close>

lemma framed_same_entries:
  assumes "framed c a dir d j p s" "layout t dir" "proc_uid t = proc_uid s"
    and "entry_at t dir = entry_at s dir" "dur t = dur s"
    and "\<And>n. n \<in> {LOCK_FILE_NAME, JOURNAL_FILE_NAME, PUBLISH_FILE_NAME} \<Longrightarrow>
      entry_at t (join_path dir n) = entry_at s (join_path dir n)"
    and "c' \<Longrightarrow> c \<and> private_file t dir COMMIT_FILE_NAME \<and>
      (vis t (join_path dir COMMIT_TEMP_FILE_NAME) \<noteq> None \<longrightarrow> private_file t dir COMMIT_TEMP_FILE_NAME)"
  shows "framed c' a dir d j p t"
proof -
  have "owner_of t dir = owner_of s dir" "private_dir t dir = private_dir s dir"
    using assms(4) by (simp_all add: owner_of_def private_dir_def)
  moreover from this have "opened t dir n f = opened s dir n f"
    if "n \<in> {LOCK_FILE_NAME, JOURNAL_FILE_NAME, PUBLISH_FILE_NAME}" for n f
    using assms(6) [OF that] by (simp add: opened_def)
  moreover have "anchored s dir \<Longrightarrow> anchored t dir"
    using assms(4) assms(6) [of LOCK_FILE_NAME] unfolding anchored_def assms(5)
    by (metis entry_at_vis insertI1)
  ultimately show ?thesis
    using assms by (auto simp: framed_def openable_def private_file_opened)
qed

lemma framed_remove_temp:
  assumes "framed c a dir d j p s"
  shows "framed c a dir d j p (s\<lparr>vis := (vis s)(join_path dir COMMIT_TEMP_FILE_NAME := None)\<rparr>)" (is "framed _ _ _ _ _ _ ?t")
proof (rule framed_same_entries [OF assms])
  have e: "entry_at ?t q = (if q = join_path dir COMMIT_TEMP_FILE_NAME then None else entry_at s q)" for q
    by (simp add: entry_at_def split: option.splits)
  then show "entry_at ?t dir = entry_at s dir" by auto
  from e show "entry_at ?t (join_path dir n) = entry_at s (join_path dir n)" if "n \<in> {LOCK_FILE_NAME, JOURNAL_FILE_NAME, PUBLISH_FILE_NAME}" for n
    using that by auto
  show "layout ?t dir" using assms by (auto simp: framed_def layout_def)
  have "owner_of ?t dir = owner_of s dir" by (simp add: owner_of_def e)
  then show "c \<and> private_file ?t dir COMMIT_FILE_NAME \<and> (vis ?t (join_path dir COMMIT_TEMP_FILE_NAME) \<noteq> None \<longrightarrow>
      private_file ?t dir COMMIT_TEMP_FILE_NAME)" if c
    using assms that by (simp add: framed_def openable_def private_file_def e)
qed simp_all

lemma framed_fresh:
  assumes "framed c a dir d j p s"
  shows "inodes s (next_ino s) = None" "vis s (join_path dir n) \<noteq> Some (next_ino s)"
    "vis s dir \<noteq> Some (next_ino s)" "next_ino s \<noteq> d"
proof -
  have l: "layout s dir" using assms by (simp add: framed_def)
  then show new: "inodes s (next_ino s) = None" by (meson layout_def less_irrefl not_None_eq)
  then show "vis s (join_path dir n) \<noteq> Some (next_ino s)" using l unfolding layout_def by metis
  show "vis s dir \<noteq> Some (next_ino s)" using new assms by (auto simp: framed_def entry_at_vis)
  then show "next_ino s \<noteq> d" using assms by (auto simp: framed_def entry_at_vis)
qed

lemma framed_new_temp:
  fixes s dir mode
  defines "t \<equiv> new_entry (join_path dir COMMIT_TEMP_FILE_NAME) Regular mode s"
  defines "u \<equiv> update_inode (next_ino s) (set_mode mode_0600) t"
  assumes f: "framed c a dir d j p s" and v: "vis s (join_path dir COMMIT_TEMP_FILE_NAME) = None"
  shows "framed False a dir d j p t" and "framed c a dir d j p u"
    and "c \<Longrightarrow> opened u dir COMMIT_TEMP_FILE_NAME (next_ino s)"
proof -
  note fresh = framed_fresh [OF f]
  have e: "entry_at t q = entry_at s q" "entry_at u q = entry_at s q"
    if "q \<noteq> join_path dir COMMIT_TEMP_FILE_NAME" "vis s q \<noteq> Some (next_ino s)" for q
    using that by (auto simp: t_def u_def new_entry_def entry_at_def split: option.splits)
  note ed = e [OF join_path_simps(3) fresh(3)] and en = e [OF _ fresh(2)]
  have l: "layout t dir"
    using f fresh(2) by (auto simp: framed_def layout_def t_def new_entry_def less_Suc_eq split: if_splits)
  then show "framed False a dir d j p t"
    by (intro framed_same_entries [OF f]) (auto simp: ed en, simp_all add: t_def new_entry_def)
  have o: "owner_of u dir = owner_of s dir" by (simp add: owner_of_def ed)
  have "entry_at u (join_path dir COMMIT_TEMP_FILE_NAME) = Some (next_ino s, set_mode mode_0600 (the (inodes t (next_ino s))))"
    "i_kind (the (inodes t (next_ino s))) = Regular" "i_nlink (the (inodes t (next_ino s))) = 1"
    "i_uid (the (inodes t (next_ino s))) = proc_uid s"
    by (simp_all add: entry_at_def u_def t_def new_entry_def)
  then show op: "c \<Longrightarrow> opened u dir COMMIT_TEMP_FILE_NAME (next_ino s)"
    using f o by (auto simp: opened_def private_inode_def set_mode_def framed_def mode_0600_def)
  show "framed c a dir d j p u"
  proof (rule framed_same_entries [OF f])
    show "layout u dir" using l by (simp add: u_def)
    show "c \<and> private_file u dir COMMIT_FILE_NAME \<and> (vis u (join_path dir COMMIT_TEMP_FILE_NAME) \<noteq> None \<longrightarrow>
        private_file u dir COMMIT_TEMP_FILE_NAME)" if c
      using f that op [OF that] o by (auto simp: private_file_opened framed_def openable_def) (auto simp: opened_def en)
  qed (auto simp: ed en, simp_all add: t_def u_def new_entry_def)
qed

lemma framed_rename_temp:
  fixes dir s
  defines "t \<equiv> rename_entry (join_path dir COMMIT_TEMP_FILE_NAME) (join_path dir COMMIT_FILE_NAME) s"
  assumes f: "framed c a dir d j p s" and v: "c \<Longrightarrow> private_file s dir COMMIT_TEMP_FILE_NAME"
    and x: "vis s (join_path dir COMMIT_TEMP_FILE_NAME) \<noteq> None"
  shows "framed c a dir d j p t"
proof (rule framed_same_entries [OF f])
  have e: "entry_at t q = (if q = join_path dir COMMIT_FILE_NAME then entry_at s (join_path dir COMMIT_TEMP_FILE_NAME)
      else if q = join_path dir COMMIT_TEMP_FILE_NAME then None else entry_at s q)" for q
    by (simp add: entry_at_def t_def rename_entry_def split: option.splits)
  then show "entry_at t dir = entry_at s dir" by auto
  from e show "entry_at t (join_path dir n) = entry_at s (join_path dir n)" if "n \<in> {LOCK_FILE_NAME, JOURNAL_FILE_NAME, PUBLISH_FILE_NAME}" for n
    using that by auto
  show "layout t dir" using f by (auto simp: framed_def layout_def t_def rename_entry_def split: if_splits)
  have "owner_of t dir = owner_of s dir" by (simp add: owner_of_def e)
  then show "c \<and> private_file t dir COMMIT_FILE_NAME \<and> (vis t (join_path dir COMMIT_TEMP_FILE_NAME) \<noteq> None \<longrightarrow>
      private_file t dir COMMIT_TEMP_FILE_NAME)" if c
    using v that by (simp add: private_file_def e) (simp add: t_def rename_entry_def)
qed (simp_all add: t_def rename_entry_def)

section \<open>Contents under the changes\<close>

lemma durable_update: "durable_file s q i bs \<Longrightarrow> i \<noteq> f \<Longrightarrow> durable_file (update_inode f g s) q i bs"
  by (simp add: durable_file_def)

lemma durable_settle: "durable_file s q f bs \<Longrightarrow> durable_file (settle i s) q f bs"
  by (auto simp: durable_file_def dur_settle)

lemma settle_durable:
  "vis s q = Some f \<Longrightarrow> dur s q = Some f \<Longrightarrow> inode_data s f = Some bs \<Longrightarrow> durable_file (settle f s) q f bs"
  by (auto simp: durable_file_def dur_settle inode_data_def)

lemma durable_names_change:
  assumes "durable_file s q f bs" "vis t q = vis s q" "dur t = dur s" "inodes t f = inodes s f"
  shows "durable_file t q f bs"
  using assms by (simp add: durable_file_def)

lemma inode_data_update:
  "inode_data (update_inode f g s) i = (if i = f then map_option (i_data \<circ> g) (inodes s f) else inode_data s i)"
  by (auto simp: inode_data_def option.map_comp)

lemma data_at_update_other: "vis s q \<noteq> Some f \<Longrightarrow> data_at (update_inode f g s) q = data_at s q"
  by (cases "vis s q") (auto simp: data_at_def inode_data_update)

lemma committed_update_witness:
  assumes "committed S s dir es" "framed c a dir d j p s"
  shows "committed S (update_inode p g s) dir es"
proof -
  have "durable_file (update_inode p g s) (join_path dir n) f bs"
    if "durable_file s (join_path dir n) f bs" "n \<noteq> PUBLISH_FILE_NAME" for n f bs
    using that framed_names(9) [OF assms(2)] by (intro durable_update) (auto simp: durable_file_def)
  from this [OF _ file_names_distinct(2)] this [OF _ file_names_distinct(5)] assms(1) show ?thesis
    unfolding committed_def by (metis update_inode_simps(1,2))
qed

lemma committed_settle: "committed S s dir es \<Longrightarrow> committed S (settle i s) dir es"
  by (auto simp: committed_def dur_settle dest: durable_settle)

end
