(* ===== verification/Store_Append.thy ===== *)
theory Store_Append
  imports Store_States
begin

text \<open>
  The append protocol of \<^verbatim>\<open>journal.rs\<close> under every pattern of faults, hook failures and power losses.
  An append leads from \<open>committed es\<close> through the phases below to \<open>committed (es @ [e])\<close>; each of its
  steps is followed with its partial effects, and the properties say what a caller, a later reader
  and a reader after a power loss see.
\<close>

section \<open>Steps\<close>

text \<open>From a state of \<open>A\<close> a result leads to \<open>B\<close>; an error, excluded when \<open>c\<close>, leads to \<open>E\<close>.\<close>

definition steps ::
  "bool \<Rightarrow> (System \<Rightarrow> bool) \<Rightarrow> ('h, 'e, 'a) run \<Rightarrow> ('a \<Rightarrow> System \<Rightarrow> bool) \<Rightarrow> ('e \<Rightarrow> System \<Rightarrow> bool) \<Rightarrow> bool" where
  "steps c A m B E \<longleftrightarrow>
     triple (\<lambda>w. A (system w) \<and> (c \<longrightarrow> faults w = [])) m
       (\<lambda>x w. B x (system w) \<and> (c \<longrightarrow> faults w = [])) (\<lambda>e w. \<not> c \<and> E e (system w))"

lemma triple_ex: "(\<And>y. triple (P y) m Q E) \<Longrightarrow> triple (\<lambda>w. \<exists>y. P y w) m Q E"
  unfolding triple_def by (intro allI impI, erule exE) (drule meta_spec, drule spec, erule mp, assumption)

lemma steps_weaken:
  assumes "steps c A' m B' E'" "\<And>s. A s \<Longrightarrow> A' s" "\<And>x s. B' x s \<Longrightarrow> B x s" "\<And>e s. E' e s \<Longrightarrow> E e s"
  shows "steps c A m B E"
  using assms(1) unfolding steps_def by (rule triple_weaken) (use assms(2-) in blast)+

lemma steps_reads:
  assumes "\<And>s. A s \<Longrightarrow> reads c s m (R s)" "\<And>x s. A s \<Longrightarrow> R s x \<Longrightarrow> B x s" "\<And>e s. A s \<Longrightarrow> E e s"
  shows "steps c A m B E"
proof -
  have "triple (\<lambda>w. A (system w) \<and> (c \<longrightarrow> faults w = []) \<and> system w = s) m
       (\<lambda>x w. B x (system w) \<and> (c \<longrightarrow> faults w = [])) (\<lambda>e w. \<not> c \<and> E e (system w))" for s
  proof (cases "A s")
    case True
    show ?thesis
      by (rule triple_weaken [OF assms(1) [OF True, unfolded reads_def]]) (use assms(2,3) True in \<open>auto simp: at_state_def\<close>)
  next
    case False
    then show ?thesis unfolding triple_def by blast
  qed
  from triple_ex [OF this] show ?thesis unfolding steps_def by (rule triple_weaken) auto
qed

lemma steps_mbind: "steps c A m R E \<Longrightarrow> (\<And>x. steps c (R x) (f x) B E) \<Longrightarrow> steps c A (mbind m f) B E"
  unfolding steps_def by (rule triple_mbind)

lemma steps_mmap_err: "steps c A m B (\<lambda>e. E (g e)) \<Longrightarrow> steps c A (mmap_err g m) B E"
  unfolding steps_def by (rule triple_mmap_err)

lemma steps_mret: "(\<And>s. A s \<Longrightarrow> B x s) \<Longrightarrow> steps c A (mret x) B E"
  unfolding steps_def by (rule triple_mret) simp

lemma steps_if: "(q \<Longrightarrow> steps c A m B E) \<Longrightarrow> (\<not> q \<Longrightarrow> steps c A m' B E) \<Longrightarrow> steps c A (if q then m else m') B E"
  by simp

lemma steps_pure: "(\<And>s. A s \<Longrightarrow> q) \<Longrightarrow> (q \<Longrightarrow> steps c A m B E) \<Longrightarrow> steps c A m B E"
  unfolding steps_def by (rule triple_pure) auto

lemma steps_ex: "(\<And>y. steps c (A y) m B E) \<Longrightarrow> steps c (\<lambda>s. \<exists>y. A y s) m B E"
  unfolding steps_def by (rule triple_weaken [OF triple_ex]) auto

lemma steps_syscall:
  assumes "\<And>s k m. A s \<Longrightarrow> E (err m) (partial k s)"
    and "\<And>s x t. A s \<Longrightarrow> opn s = (Inr x, t) \<Longrightarrow> B x t"
    and "\<And>s e t. A s \<Longrightarrow> opn s = (Inl e, t) \<Longrightarrow> \<not> c \<and> E e t"
  shows "steps c A (syscall partial opn err) B E"
  using assms
  by (auto simp: steps_def triple_def syscall_def split: list.splits Fault.splits prod.splits sum.splits)

lemma steps_effect:
  assumes "\<And>s k m. A s \<Longrightarrow> E (OtherError m) (partial k s)" "\<And>s. A s \<Longrightarrow> B (f s)"
  shows "steps c A (effect partial f) (\<lambda>_. B) E"
  unfolding effect_def using assms by (intro steps_syscall) auto

lemma steps_hook:
  assumes "c \<Longrightarrow> (\<And>h. fst (f h) = Inr ())" "\<And>e s. A s \<Longrightarrow> E e s"
  shows "steps c A (hook f) (\<lambda>_. A) E"
proof -
  have "r = Inr ()" if "f h = (r, h')" c for r h h' using assms(1) [OF that(2), of h] that(1) by simp
  then show ?thesis
    using assms(2) by (fastforce simp: steps_def triple_def hook_def map_err_def split: prod.splits sum.splits)
qed

lemma steps_primitive:
  "(c \<Longrightarrow> good_hooks D) \<Longrightarrow> (\<And>e s. A s \<Longrightarrow> E e s) \<Longrightarrow> steps c A (primitive D x) (\<lambda>_. A) E"
  unfolding primitive_def by (rule steps_hook) (auto simp: good_hooks_def)

lemma steps_tracked:
  assumes "c \<Longrightarrow> good_hooks D" "steps c A m (\<lambda>_. B) E" "\<And>e s. A s \<Longrightarrow> E e s" "\<And>e s. B s \<Longrightarrow> E e s"
  shows "steps c A (tracked D x m) (\<lambda>_. B) E"
  unfolding tracked_def
  by (intro steps_mbind [where R = "\<lambda>_. A"] steps_mbind [where R = "\<lambda>_. B"] steps_hook steps_primitive)
    (use assms in \<open>auto simp: good_hooks_def\<close>)

lemma steps_observe_stage:
  assumes "steps c A m B E" shows "steps c A (observe_stage ob stage m) B E"
proof -
  have [simp]: "system (notify_store ob x w) = system w" "faults (notify_store ob x w) = faults w" for x w
    by (simp_all add: notify_store_def split: option.splits)
  have "case observe_stage ob stage m w of (Inl e, w') \<Rightarrow> \<not> c \<and> E e (system w')
      | (Inr x, w') \<Rightarrow> B x (system w') \<and> (c \<longrightarrow> faults w' = [])"
    if "A (system w)" "c \<longrightarrow> faults w = []" for w
    using assms [unfolded steps_def triple_def, rule_format, of "notify_store ob (StageStarted stage) w"] that
    by (auto simp: observe_stage_def split: prod.splits sum.splits)
  then show ?thesis by (simp add: steps_def triple_def)
qed

lemma steps_note_point:
  "(c \<Longrightarrow> good_hooks D) \<Longrightarrow> (\<And>e s. A s \<Longrightarrow> E e s) \<Longrightarrow> steps c A (note_point D x) (\<lambda>_. A) E"
  unfolding note_point_def by (intro steps_tracked steps_mret) auto

section \<open>The phases of an append\<close>

text \<open>The witness announces generation \<open>k\<close> and the commit point reads \<open>cb\<close>, both on stable storage.\<close>

definition holding ::
  "('s, 'a) StoreSerde_scheme \<Rightarrow> bool \<Rightarrow> bool \<Rightarrow> Path \<Rightarrow> nat \<Rightarrow> nat \<Rightarrow> nat \<Rightarrow> nat \<Rightarrow> bytes \<Rightarrow> System \<Rightarrow> bool" where
  "holding S c a dir d j p k cb s \<longleftrightarrow>
     framed c a dir d j p s \<and> durable_file s (join_path dir PUBLISH_FILE_NAME) p (PublishWitness_encode S (prepared k)) \<and>
     (\<exists>f. durable_file s (join_path dir COMMIT_FILE_NAME) f cb)"

text \<open>What an append that does not report success may leave behind.\<close>

definition residue ::
  "('s, 'a) StoreSerde_scheme \<Rightarrow> bool \<Rightarrow> Path \<Rightarrow> nat \<Rightarrow> nat \<Rightarrow> nat \<Rightarrow> JournalEntry list \<Rightarrow> JournalEntry list \<Rightarrow> System \<Rightarrow> bool" where
  "residue S a dir d j p es es' s \<longleftrightarrow>
     framed False a dir d j p s \<and>
     (committed S s dir es \<or> committed S s dir es' \<or>
      stuck S s dir \<and> (shows_entries S s dir es \<or> shows_entries S s dir es'))"

text \<open>Before the witness announces anything, and while the record is written.\<close>

definition idle ::
  "('s, 'a) StoreSerde_scheme \<Rightarrow> bool \<Rightarrow> bool \<Rightarrow> Path \<Rightarrow> nat \<Rightarrow> nat \<Rightarrow> nat \<Rightarrow> JournalEntry list \<Rightarrow> System \<Rightarrow> bool" where
  "idle S c a dir d j p es s \<longleftrightarrow> framed c a dir d j p s \<and> committed S s dir es"

definition writing ::
  "('s, 'a) StoreSerde_scheme \<Rightarrow> bool \<Rightarrow> bool \<Rightarrow> Path \<Rightarrow> nat \<Rightarrow> nat \<Rightarrow> nat \<Rightarrow> nat \<Rightarrow> bytes \<Rightarrow> bytes \<Rightarrow> System \<Rightarrow> bool" where
  "writing S c a dir d j p k cb bs s \<longleftrightarrow>
     holding S c a dir d j p k cb s \<and> data_at s (join_path dir JOURNAL_FILE_NAME) = Some bs \<and>
     dur s (join_path dir JOURNAL_FILE_NAME) = Some j"

definition logged ::
  "('s, 'a) StoreSerde_scheme \<Rightarrow> bool \<Rightarrow> bool \<Rightarrow> Path \<Rightarrow> nat \<Rightarrow> nat \<Rightarrow> nat \<Rightarrow> nat \<Rightarrow> bytes \<Rightarrow> bytes \<Rightarrow> System \<Rightarrow> bool" where
  "logged S c a dir d j p k cb bs s \<longleftrightarrow>
     holding S c a dir d j p k cb s \<and> durable_file s (join_path dir JOURNAL_FILE_NAME) j bs"

lemma logged_writing: "logged S c a dir d j p k cb bs s \<Longrightarrow> writing S c a dir d j p k cb bs s"
  by (auto simp: logged_def writing_def dest: durable_data) (simp add: durable_file_def)

lemma framed_weaken: "framed c a dir d j p s \<Longrightarrow> framed False a dir d j p s"
  by (simp add: framed_def)

lemma residueI:
  assumes "framed c a dir d j p s"
  shows "committed S s dir es \<Longrightarrow> residue S a dir d j p es es' s"
    "committed S s dir es' \<Longrightarrow> residue S a dir d j p es es' s"
    "stuck S s dir \<Longrightarrow> shows_entries S s dir es \<Longrightarrow> residue S a dir d j p es es' s"
    "stuck S s dir \<Longrightarrow> shows_entries S s dir es' \<Longrightarrow> residue S a dir d j p es es' s"
  using framed_weaken [OF assms] by (auto simp: residue_def)

lemma holding_stuck:
  "holding S c a dir d j p k cb s \<Longrightarrow> 2 \<le> k \<Longrightarrow> k \<le> MAX_JOURNAL_ENTRIES + 1 \<Longrightarrow> stuck S s dir"
  by (auto simp: holding_def stuck_def)

lemma holding_framed: "holding S c a dir d j p k cb s \<Longrightarrow> framed c a dir d j p s"
  by (simp add: holding_def)

lemma holding_commit: "holding S c a dir d j p k cb s \<Longrightarrow> data_at s (join_path dir COMMIT_FILE_NAME) = Some cb"
  by (auto simp: holding_def dest: durable_data)

lemma holding_update:
  assumes "holding S c a dir d j p k cb s" "keeps g" "vis s (join_path dir n) = Some f" "f \<noteq> d"
    "n \<noteq> LOCK_FILE_NAME" "n \<noteq> COMMIT_FILE_NAME" "n \<noteq> PUBLISH_FILE_NAME"
  shows "holding S c a dir d j p k cb (update_inode f g s)"
proof -
  note f = holding_framed [OF assms(1)]
  have "durable_file (update_inode f g s) (join_path dir m) i bs"
    if "durable_file s (join_path dir m) i bs" "m \<noteq> n" for m i bs
    using that assms(3) f by (intro durable_update) (auto simp: durable_file_def framed_def layout_def)
  from this [OF _ not_sym [OF assms(6)]] this [OF _ not_sym [OF assms(7)]] show ?thesis
    using assms framed_update [OF f assms(2,3,5,4)] unfolding holding_def by metis
qed

lemma holding_settle: "holding S c a dir d j p k cb s \<Longrightarrow> holding S c a dir d j p k cb (settle i s)"
  by (auto simp: holding_def intro: framed_settle durable_settle)

section \<open>Rewriting the witness\<close>

lemma steps_rewrite_witness:
  fixes S :: "('s, 'b) StoreSerde_scheme"
  assumes D: "c \<Longrightarrow> good_hooks D" and E: "\<And>m s. idle S c a dir d j p es s \<Longrightarrow> E (classify u m) s"
  shows "steps c (idle S c a dir d j p es) (rewrite_witness S D p w x y u)
    (\<lambda>_ s. idle S c a dir d j p es s \<and> durable_file s (join_path dir PUBLISH_FILE_NAME) p (PublishWitness_encode S w)) E"
proof -
  let ?I = "idle S c a dir d j p es" and ?b = "PublishWitness_encode S w"
  let ?J = "\<lambda>bs s. ?I s \<and> inode_data s p = Some bs"
  have upd: "?I (update_inode p g s)" if "?I s" "keeps g" for s g
    using that framed_update [where n = PUBLISH_FILE_NAME] framed_names committed_update_witness
    unfolding idle_def by (metis file_names_distinct(19))
  have data: "\<exists>n. inodes s p = Some n" if "?I s" for s
    using that by (auto simp: idle_def framed_def opened_def entry_at_vis)
  have set: "?I (settle i s)" if "?I s" for s i
    using that by (simp add: idle_def framed_settle committed_settle)
  have bar: "durable_file (settle p s) (join_path dir PUBLISH_FILE_NAME) p ?b" if "?J ?b s" for s
    using that framed_names(6) [of c a dir d j p s] by (intro settle_durable) (auto simp: idle_def committed_def)
  have t: "steps c ?I (sys_truncate p) (\<lambda>_. ?J []) (\<lambda>e. ?I)"
    unfolding sys_truncate_def
    by (rule steps_effect) (use upd data in \<open>auto simp: inode_data_update truncate_inode_def dest!: data\<close>)
  have sk: "steps c (?J []) (sys_seek_start p) (\<lambda>_. ?J []) (\<lambda>e. ?I)"
    by (rule steps_reads [OF reads_seek]) auto
  have wr: "steps c (?J []) (sys_write_all p ?b) (\<lambda>_. ?J ?b) (\<lambda>e. ?I)"
    unfolding sys_write_all_def
    by (rule steps_effect) (use upd in \<open>auto simp: inode_data_update extend_inode_def inode_data_def\<close>)
  have rw: "steps c ?I (rewrite_file D p ?b x) (\<lambda>_. ?J ?b) (\<lambda>e. ?I)"
    unfolding rewrite_file_def
    by (intro steps_tracked [OF D] steps_mbind [OF t] steps_mbind [OF sk] wr) auto
  have ba: "steps c (?J ?b) (barrier_file D p y) (\<lambda>_ s. ?I s \<and> durable_file s (join_path dir PUBLISH_FILE_NAME) p ?b) (\<lambda>e. ?I)"
    unfolding barrier_file_def sys_sync_all_def
    by (intro steps_tracked [OF D] steps_effect) (use set bar in auto)
  show ?thesis
    unfolding rewrite_witness_def classify_io_def
    by (intro steps_mbind [OF steps_mmap_err [OF steps_weaken [OF rw]]] steps_mmap_err [OF steps_weaken [OF ba]])
      (use E in auto)
qed

section \<open>Writing the record\<close>

lemma steps_append_record:
  fixes S :: "('s, 'b) StoreSerde_scheme"
  assumes D: "c \<Longrightarrow> good_hooks D" and E: "\<And>m l s. writing S c a dir d j p k cb (bs @ l) s \<Longrightarrow> E (classify u m) s"
  shows "steps c (writing S c a dir d j p k cb bs) (mmap_err (classify_io u m1) (append_file D j line x)) (\<lambda>_. writing S c a dir d j p k cb (bs @ line)) E"
    and "steps c (writing S c a dir d j p k cb (bs @ line)) (mmap_err (classify_io u m2) (barrier_file D j y))
      (\<lambda>_. logged S c a dir d j p k cb (bs @ line)) E"
proof -
  have j: "vis s (join_path dir JOURNAL_FILE_NAME) = Some j" "j \<noteq> d" if "writing S c a dir d j p k cb b s" for b s
    using that framed_names(3,5) [of c a dir d j p s] by (auto simp: writing_def holding_def)
  have upd: "writing S c a dir d j p k cb (b @ l) (update_inode j (extend_inode l) s)" if h: "writing S c a dir d j p k cb b s" for b l s
    using holding_update [of S c a dir d j p k cb s _ JOURNAL_FILE_NAME j] h j [OF h]
    by (auto simp: writing_def data_at_def inode_data_update inode_data_def extend_inode_def)
  have wr: "steps c (writing S c a dir d j p k cb bs) (sys_write_all j line) (\<lambda>_. writing S c a dir d j p k cb (bs @ line)) (\<lambda>e s. \<exists>l. writing S c a dir d j p k cb (bs @ l) s)"
    unfolding sys_write_all_def by (rule steps_effect) (use upd in blast)+
  have nil: "writing S c a dir d j p k cb bs s \<Longrightarrow> writing S c a dir d j p k cb (bs @ []) s" for s by simp
  have ap: "steps c (writing S c a dir d j p k cb bs) (append_file D j line x) (\<lambda>_. writing S c a dir d j p k cb (bs @ line)) (\<lambda>e s. \<exists>l. writing S c a dir d j p k cb (bs @ l) s)"
    unfolding append_file_def by (rule steps_tracked [OF D wr]) (use nil in blast)+
  then show "steps c (writing S c a dir d j p k cb bs) (mmap_err (classify_io u m1) (append_file D j line x)) (\<lambda>_. writing S c a dir d j p k cb (bs @ line)) E"
    unfolding classify_io_def by (intro steps_mmap_err) (erule steps_weaken; use E in blast)
  have set: "logged S c a dir d j p k cb b (settle j s)"
    if h: "writing S c a dir d j p k cb b s" for b s
    using h j [OF h] settle_durable [of s "join_path dir JOURNAL_FILE_NAME" j b]
    by (auto simp: writing_def logged_def holding_settle data_at_def)
  have "steps c (writing S c a dir d j p k cb (bs @ line)) (barrier_file D j y)
      (\<lambda>_. logged S c a dir d j p k cb (bs @ line))
      (\<lambda>e s. writing S c a dir d j p k cb (bs @ line) s)"
    unfolding barrier_file_def sys_sync_all_def
    by (rule steps_tracked [OF D steps_effect]) (use set logged_writing in auto)
  then show "steps c (writing S c a dir d j p k cb (bs @ line)) (mmap_err (classify_io u m2) (barrier_file D j y))
      (\<lambda>_. logged S c a dir d j p k cb (bs @ line)) E"
    unfolding classify_io_def by (intro steps_mmap_err) (erule steps_weaken; use E in blast)
qed

section \<open>Publishing the commit point\<close>

lemma reads_path_entry_exists:
  "reads c s (path_entry_exists q) (\<lambda>b. b \<longleftrightarrow> entry_at s q \<noteq> None)"
  by (auto simp: reads_def triple_def path_entry_exists_def sys_symlink_metadata_def query_def syscall_def at_state_def
      split: list.splits Fault.splits option.splits prod.splits)

lemma framed_entry: "framed c a dir d j p s \<Longrightarrow> entry_at s (join_path dir n) = None \<longleftrightarrow> vis s (join_path dir n) = None"
  by (auto simp: framed_def layout_def entry_at_def split: option.splits)

lemma logged_framed: "logged S c a dir d j p k cb bs s \<Longrightarrow> framed c a dir d j p s"
  by (simp add: logged_def holding_def)

text \<open>A change of the temporary name and of its own file only.\<close>

lemma logged_temp_change:
  assumes "logged S c a dir d j p k cb bs s" "framed c' a dir d j p t" "dur t = dur s"
    and "\<And>n. n \<noteq> COMMIT_TEMP_FILE_NAME \<Longrightarrow> vis t (join_path dir n) = vis s (join_path dir n)"
    and "\<And>i n. n \<noteq> COMMIT_TEMP_FILE_NAME \<Longrightarrow> vis s (join_path dir n) = Some i \<Longrightarrow> inodes t i = inodes s i"
  shows "logged S c' a dir d j p k cb bs t"
proof -
  have "durable_file t (join_path dir n) i b"
    if "durable_file s (join_path dir n) i b" "n \<noteq> COMMIT_TEMP_FILE_NAME" for n i b
    using that assms(3) assms(4) [OF that(2)] assms(5) [OF that(2)] by (simp add: durable_file_def)
  note d = this [OF _ file_names_distinct(3)] this [OF _ file_names_distinct(6)] this [OF _ file_names_distinct(9)]
  then show ?thesis
    using assms(1,2) unfolding logged_def holding_def by blast
qed

lemma logged_remove_temp:
  assumes "logged S c a dir d j p k cb bs s"
  shows "logged S c a dir d j p k cb bs (s\<lparr>vis := (vis s)(join_path dir COMMIT_TEMP_FILE_NAME := None)\<rparr>)"
  by (rule logged_temp_change [OF assms framed_remove_temp [OF logged_framed [OF assms]]]) auto

text \<open>The temporary file as an open replacement.\<close>

definition temp_open ::
  "('s, 'a) StoreSerde_scheme \<Rightarrow> bool \<Rightarrow> bool \<Rightarrow> Path \<Rightarrow> nat \<Rightarrow> nat \<Rightarrow> nat \<Rightarrow> nat \<Rightarrow> bytes \<Rightarrow> bytes \<Rightarrow> nat \<Rightarrow> bytes \<Rightarrow> System \<Rightarrow> bool" where
  "temp_open S c a dir d j p k cb bs f x s \<longleftrightarrow>
     logged S c a dir d j p k cb bs s \<and> vis s (join_path dir COMMIT_TEMP_FILE_NAME) = Some f \<and>
     inode_data s f = Some x \<and> f \<noteq> d \<and> (c \<longrightarrow> opened s dir COMMIT_TEMP_FILE_NAME f)"

lemma logged_new_temp:
  fixes s dir mode
  defines "t \<equiv> new_entry (join_path dir COMMIT_TEMP_FILE_NAME) Regular mode s"
  assumes l: "logged S c a dir d j p k cb bs s" and v: "vis s (join_path dir COMMIT_TEMP_FILE_NAME) = None"
  shows "logged S False a dir d j p k cb bs t"
    and "temp_open S c a dir d j p k cb bs (next_ino s) [] (update_inode (next_ino s) (set_mode mode_0600) t)"
proof -
  note f = logged_framed [OF l]
  note n = framed_new_temp [OF f v, of mode] and fresh = framed_fresh [OF f]
  show "logged S False a dir d j p k cb bs t"
    unfolding t_def by (rule logged_temp_change [OF l n(1)]) (use fresh in \<open>auto simp: new_entry_def\<close>)
  have "logged S c a dir d j p k cb bs (update_inode (next_ino s) (set_mode mode_0600) t)"
    unfolding t_def by (rule logged_temp_change [OF l n(2)]) (use fresh in \<open>auto simp: new_entry_def\<close>)
  then show "temp_open S c a dir d j p k cb bs (next_ino s) [] (update_inode (next_ino s) (set_mode mode_0600) t)"
    using n(3) fresh(4) unfolding temp_open_def t_def
    by (auto simp: new_entry_def inode_data_def set_mode_def)
qed

lemma owner_of_temp:
  "owner_of (s\<lparr>vis := (vis s)(join_path dir n := None)\<rparr>) dir = owner_of s dir"
  "vis s dir \<noteq> Some (next_ino s) \<Longrightarrow> owner_of (new_entry (join_path dir n) kd mode s) dir = owner_of s dir"
  "vis s dir \<noteq> Some f \<Longrightarrow> owner_of (update_inode f g s) dir = owner_of s dir"
  by (auto simp: owner_of_def entry_at_def new_entry_def split: option.splits)

lemma steps_replace_private_writable:
  fixes S :: "('s, 'b) StoreSerde_scheme"
  assumes D: "c \<Longrightarrow> good_hooks D"
    and E: "\<And>e s. logged S False a dir d j p k cb bs s \<Longrightarrow> E e s"
  shows "steps c (\<lambda>s. logged S c a dir d j p k cb bs s \<and> owner_of s dir = w \<and>
      (stale \<longleftrightarrow> vis s (join_path dir COMMIT_TEMP_FILE_NAME) \<noteq> None))
    (replace_private_writable D (join_path dir COMMIT_TEMP_FILE_NAME) stale art)
    (\<lambda>f s. temp_open S c a dir d j p k cb bs f [] s \<and> owner_of s dir = w) E"
proof -
  let ?q = "join_path dir COMMIT_TEMP_FILE_NAME"
  let ?L = "\<lambda>s. logged S c a dir d j p k cb bs s \<and> owner_of s dir = w"
  let ?N = "\<lambda>s. ?L s \<and> vis s ?q = None"
  let ?T = "\<lambda>f s. temp_open S c a dir d j p k cb bs f [] s \<and> owner_of s dir = w"
  let ?C = "\<lambda>f t. logged S False a dir d j p k cb bs t \<and> ?T f (update_inode f (set_mode mode_0600) t)"
  have weak: "logged S False a dir d j p k cb bs s" if "logged S c a dir d j p k cb bs s" for s
    using that framed_weaken by (auto simp: logged_def holding_def)
  have new: "?C (next_ino s) (new_entry ?q Regular mode s)" if n: "?N s" for s mode
  proof -
    note fresh = framed_fresh(3,4) [OF logged_framed]
    have "vis (new_entry ?q Regular mode s) dir \<noteq> Some (next_ino s)"
      using n fresh [of S c a dir d j p k cb bs s] by (auto simp: new_entry_def)
    then show ?thesis
      using n logged_new_temp [of S c a dir d j p k cb bs s mode] fresh [of S c a dir d j p k cb bs s]
      by (simp add: owner_of_temp)
  qed
  have rm: "steps c (\<lambda>s. logged S c a dir d j p k cb bs s \<and> owner_of s dir = w \<and> (stale \<longleftrightarrow> vis s ?q \<noteq> None)) (if stale then sys_remove_file ?q else mret ()) (\<lambda>_. ?N) E"
  proof (cases stale)
    case True
    have "steps c (\<lambda>s. ?L s \<and> vis s ?q \<noteq> None) (sys_remove_file ?q) (\<lambda>_. ?N) E"
      unfolding sys_remove_file_def
      by (rule steps_syscall) (auto simp: owner_of_temp intro!: logged_remove_temp E weak)
    with True show ?thesis by simp
  qed (auto intro!: steps_mret)
  have cr: "steps c ?N (open_private_writable ?q True) ?C E"
    unfolding open_private_writable_def sys_open_writable_def if_True
  proof (rule steps_syscall)
    fix s k' m assume n: "?N s"
    show "E (OtherError m) (if k' = 0 then s else snd (create_entry ?q Regular mode_0600 s))"
      using n new [OF n] weak by (auto simp: create_entry_def intro!: E)
  next
    fix s x t assume n: "?N s" and x: "create_entry ?q Regular mode_0600 s = (Inr x, t)"
    then show "?C x t" using new [OF n, of mode_0600] by (auto simp: create_entry_def split: if_splits)
  next
    fix s e t assume n: "?N s" and x: "create_entry ?q Regular mode_0600 s = (Inl e, t)"
    have "parent_ino s ?q = Some d"
      using framed_names(1,7) [OF logged_framed, of S c a dir d j p k cb bs s] n by (simp add: parent_ino_def)
    with n x show "\<not> c \<and> E e t" by (auto simp: create_entry_def split: if_splits)
  qed
  have no: "steps c (?C f) (normalize_private_file D f art) (\<lambda>_. ?T f) E" for f
    unfolding normalize_private_file_def sys_fchmod_def
    by (rule steps_mbind [OF steps_effect steps_primitive [OF D]]) (auto simp: temp_open_def intro: E weak)
  show ?thesis
    unfolding replace_private_writable_def
    apply (rule steps_mbind [OF rm])
    apply (rule steps_mbind [OF cr])
    apply (rule steps_mbind [OF steps_primitive [OF D]])
    subgoal by simp
    subgoal by (rule E) simp
    by (rule steps_mbind [OF no steps_mret])
qed

lemma steps_replace_temp:
  fixes S :: "('s, 'b) StoreSerde_scheme"
  assumes D: "c \<Longrightarrow> good_hooks D"
    and E: "\<And>e s. logged S False a dir d j p k cb bs s \<Longrightarrow> E e s"
  shows "steps c (logged S c a dir d j p k cb bs) (open_private_replace_file D (join_path dir COMMIT_TEMP_FILE_NAME))
    (\<lambda>f. temp_open S c a dir d j p k cb bs f []) E"
proof -
  let ?q = "join_path dir COMMIT_TEMP_FILE_NAME"
  let ?L = "\<lambda>w s. logged S c a dir d j p k cb bs s \<and> owner_of s dir = w"
  let ?P = "\<lambda>w b s. logged S c a dir d j p k cb bs s \<and> owner_of s dir = w \<and> (b \<longleftrightarrow> vis s ?q \<noteq> None)"
  have weak: "logged S False a dir d j p k cb bs s" if "logged S c a dir d j p k cb bs s" for s
    using that framed_weaken by (auto simp: logged_def holding_def)
  have dir: "dir \<noteq> []" "c \<Longrightarrow> private_dir s dir"
      "c \<Longrightarrow> vis s ?q \<noteq> None \<Longrightarrow> private_file s dir COMMIT_TEMP_FILE_NAME"
      if "logged S c a dir d j p k cb bs s" for s
    using logged_framed [OF that] by (auto simp: framed_def layout_def openable_def)
  have ow: "steps c (logged S c a dir d j p k cb bs) (private_parent_owner ?q) ?L E"
    by (rule steps_reads [OF reads_private_parent_owner]) (use dir weak E in auto)
  have ex: "steps c (?L w) (path_entry_exists ?q) (?P w) E" for w
    by (rule steps_reads [OF reads_path_entry_exists])
      (use weak E framed_entry [OF logged_framed, of S c a dir d j p k cb bs _ COMMIT_TEMP_FILE_NAME] in auto)
  have ch: "steps c (?P w b) (if b
        then mbind (inspect_private_file ?q w) (\<lambda>expected.
             mbind (mmap_err (io_unavailable m) (sys_open_read ?q)) (\<lambda>stale.
             check_opened_private_file stale w (Some expected)))
        else mret ()) (\<lambda>_. ?P w b) E" for w b m
  proof (rule steps_reads [where R = "\<lambda>_ _. True"])
    fix s assume p: "?P w b s"
    show "reads c s (if b
        then mbind (inspect_private_file ?q w) (\<lambda>expected.
             mbind (mmap_err (io_unavailable m) (sys_open_read ?q)) (\<lambda>stale.
             check_opened_private_file stale w (Some expected)))
        else mret ()) (\<lambda>_. True)"
      apply (rule reads_if)
       apply (rule reads_mbind [OF reads_inspect_private_file])
      subgoal using dir(3) p by (auto simp: private_file_def)
       apply (rule reads_mbind [OF reads_mmap_err [OF reads_open_read]])
      subgoal by (auto simp: private_inode_def)
       apply (rule reads_weaken [OF reads_check_opened_private_file])
      by (auto simp: entry_at_vis intro: reads_mret)
  qed (use weak E in auto)
  have fin: "steps c (\<lambda>s. temp_open S c a dir d j p k cb bs f [] s \<and> owner_of s dir = w) (check_opened_private_file f w None)
      (\<lambda>_. temp_open S c a dir d j p k cb bs f []) E" for f w
    by (rule steps_reads [OF reads_check_opened_private_file])
      (use weak E in \<open>auto simp: temp_open_def opened_def entry_at_vis\<close>)
  show ?thesis
    unfolding open_private_replace_file_def
    apply (rule steps_mbind [OF ow])
    apply (rule steps_mbind [OF ex])
    apply (rule steps_mbind [OF ch])
    apply (rule steps_mbind [OF steps_mmap_err [OF steps_replace_private_writable [OF D]]])
    subgoal by simp
    subgoal by (rule E)
    by (rule steps_mbind [OF fin steps_mret])
qed

text \<open>The new commit point under its name, with the old or the new binding on stable storage.\<close>

definition renamed ::
  "('s, 'a) StoreSerde_scheme \<Rightarrow> bool \<Rightarrow> bool \<Rightarrow> Path \<Rightarrow> nat \<Rightarrow> nat \<Rightarrow> nat \<Rightarrow> nat \<Rightarrow> bytes \<Rightarrow> bytes \<Rightarrow> System \<Rightarrow> bool" where
  "renamed S c a dir d j p k cb bs s \<longleftrightarrow>
     framed c a dir d j p s \<and> durable_file s (join_path dir PUBLISH_FILE_NAME) p (PublishWitness_encode S (prepared k)) \<and>
     durable_file s (join_path dir JOURNAL_FILE_NAME) j bs \<and>
     (\<exists>f n. vis s (join_path dir COMMIT_FILE_NAME) = Some f \<and> inodes s f = Some n \<and> i_data n = cb \<and> i_clean n)"

lemma temp_open_update:
  assumes "temp_open S c a dir d j p k cb bs f x s"
  shows "temp_open S c a dir d j p k cb bs f (x @ y) (update_inode f (extend_inode y) s)"
proof -
  have v: "vis s (join_path dir COMMIT_TEMP_FILE_NAME) = Some f" "f \<noteq> d" "logged S c a dir d j p k cb bs s"
    using assms by (simp_all add: temp_open_def)
  have "j \<noteq> f"
    using framed_names(8) [OF logged_framed [OF v(3)], of COMMIT_TEMP_FILE_NAME] v(1) by auto
  then have "logged S c a dir d j p k cb bs (update_inode f (extend_inode y) s)"
    using v holding_update [of S c a dir d j p k cb s "extend_inode y" COMMIT_TEMP_FILE_NAME f]
    by (auto simp: logged_def intro: durable_update)
  then show ?thesis
    using assms by (auto simp: temp_open_def inode_data_update inode_data_def extend_inode_def)
qed

lemma temp_open_settle:
  assumes "temp_open S c a dir d j p k cb bs f x s"
  shows "temp_open S c a dir d j p k cb bs f x (settle f s)" "\<exists>n. inodes (settle f s) f = Some n \<and> i_clean n"
proof -
  let ?u = "update_inode f (\<lambda>n. n\<lparr>i_clean := True\<rparr>) s"
  have k: "keeps (\<lambda>n. n\<lparr>i_clean := True\<rparr>)" by (simp add: keeps_def)
  have "opened (settle f s) dir COMMIT_TEMP_FILE_NAME f = opened s dir COMMIT_TEMP_FILE_NAME f"
    using same_files(3) [of "settle f s" ?u dir] k by simp
  then show "temp_open S c a dir d j p k cb bs f x (settle f s)"
    using assms by (auto simp: temp_open_def logged_def durable_settle holding_settle inode_data_def)
  show "\<exists>n. inodes (settle f s) f = Some n \<and> i_clean n"
    using assms by (auto simp: temp_open_def inode_data_def)
qed

lemma temp_open_rename:
  fixes dir s
  defines "t \<equiv> rename_entry (join_path dir COMMIT_TEMP_FILE_NAME) (join_path dir COMMIT_FILE_NAME) s"
  assumes "temp_open S c a dir d j p k cb bs f x s" "inodes s f = Some n" "i_clean n"
  shows "renamed S c a dir d j p k x bs t"
proof -
  have l: "logged S c a dir d j p k cb bs s" using assms(2) by (simp add: temp_open_def)
  have "framed c a dir d j p t"
    unfolding t_def using assms(2)
    by (intro framed_rename_temp [OF logged_framed [OF l]]) (auto simp: temp_open_def private_file_opened)
  moreover have "durable_file t (join_path dir m) i b"
    if "durable_file s (join_path dir m) i b" "m \<noteq> COMMIT_TEMP_FILE_NAME" "m \<noteq> COMMIT_FILE_NAME" for m i b
    using that by (auto simp: durable_file_def t_def rename_entry_def)
  moreover have "vis t (join_path dir COMMIT_FILE_NAME) = Some f" "inodes t = inodes s"
    using assms(2) by (simp_all add: t_def rename_entry_def temp_open_def)
  moreover have "i_data n = x" using assms(2,3) by (simp add: temp_open_def inode_data_def)
  ultimately show ?thesis
    using l assms(3,4) unfolding renamed_def logged_def holding_def
    by (metis file_names_distinct(1,3,8,9))
qed

text \<open>After the directory barrier the new prefix is committed.\<close>

lemma renamed_settle:
  assumes "renamed S c a dir d j p k (CommitPoint_encode S (point_of S es)) (journal_bytes es) s" "wf_entries es"
  shows "idle S c a dir d j p es (settle d s)"
    "durable_file (settle d s) (join_path dir PUBLISH_FILE_NAME) p (PublishWitness_encode S (prepared k))"
proof -
  have f: "framed c a dir d j p s" using assms(1) by (simp add: renamed_def)
  have d: "dur (settle d s) (join_path dir n) = vis s (join_path dir n)" for n
    using f framed_names(1,7) [OF f] by (auto simp: dur_settle framed_def entry_at_vis parent_ino_def)
  have "\<exists>f. durable_file (settle d s) (join_path dir COMMIT_FILE_NAME) f (CommitPoint_encode S (point_of S es))"
    using assms(1) d by (auto simp: renamed_def durable_file_def)
  then show "idle S c a dir d j p es (settle d s)"
    using assms d framed_settle [OF f] durable_settle [of s "join_path dir JOURNAL_FILE_NAME" j "journal_bytes es" d]
    by (auto simp: renamed_def idle_def committed_def)
  show "durable_file (settle d s) (join_path dir PUBLISH_FILE_NAME) p (PublishWitness_encode S (prepared k))"
    using assms(1) durable_settle by (auto simp: renamed_def)
qed

definition published ::
  "('s, 'a) StoreSerde_scheme \<Rightarrow> bool \<Rightarrow> bool \<Rightarrow> Path \<Rightarrow> nat \<Rightarrow> nat \<Rightarrow> nat \<Rightarrow> nat \<Rightarrow> JournalEntry list \<Rightarrow> System \<Rightarrow> bool" where
  "published S c a dir d j p k es s \<longleftrightarrow>
     idle S c a dir d j p es s \<and>
     durable_file s (join_path dir PUBLISH_FILE_NAME) p (PublishWitness_encode S (prepared k))"

lemma published_view:
  assumes "published S c a dir d j p k es s" "store_serde_laws S"
  shows "dir \<noteq> []" "c \<Longrightarrow> private_dir s dir \<and> private_file s dir COMMIT_FILE_NAME"
    "opened s dir COMMIT_FILE_NAME f \<Longrightarrow> \<exists>b. inode_data s f = Some b \<and> CommitPoint_decode S b MAX_JOURNAL_BYTES = Inr (point_of S es)"
proof -
  have i: "framed c a dir d j p s" "committed S s dir es" using assms(1) by (simp_all add: published_def idle_def)
  show "dir \<noteq> []" by (rule framed_names(1) [OF i(1)])
  show "c \<Longrightarrow> private_dir s dir \<and> private_file s dir COMMIT_FILE_NAME"
    using i(1) by (simp add: framed_def openable_def)
  show "\<exists>b. inode_data s f = Some b \<and> CommitPoint_decode S b MAX_JOURNAL_BYTES = Inr (point_of S es)"
    if "opened s dir COMMIT_FILE_NAME f"
    using opened_data [OF that] i(2) decode_point_of [OF assms(2)]
    by (auto simp: committed_def dest!: durable_data)
qed

lemma steps_publish_commit:
  fixes S :: "('s, 'b) StoreSerde_scheme"
  assumes laws: "store_serde_laws S" and D: "c \<Longrightarrow> good_hooks D" and P: "c \<Longrightarrow> accepts_profile P prof" and w: "wf_entries es"
    and E: "\<And>m s. logged S False a dir d j p k cb (journal_bytes es) s \<Longrightarrow> E (classify u m) s"
      "\<And>m s. renamed S c a dir d j p k (CommitPoint_encode S (point_of S es)) (journal_bytes es) s \<Longrightarrow> E (classify u m) s"
      "\<And>m s. published S c a dir d j p k es s \<Longrightarrow> E (classify u m) s"
  shows "steps c (logged S c a dir d j p k cb (journal_bytes es))
    (publish_commit S D P d prof (join_path dir COMMIT_FILE_NAME) (point_of S es) u)
    (\<lambda>_. published S c a dir d j p k es) E"
proof -
  let ?T = "\<lambda>f x. temp_open S c a dir d j p k cb (journal_bytes es) f x"
  let ?b = "CommitPoint_encode S (point_of S es)"
  let ?C = "\<lambda>f s. ?T f ?b s \<and> (\<exists>n. inodes s f = Some n \<and> i_clean n)"
  let ?R = "renamed S c a dir d j p k ?b (journal_bytes es)" and ?P = "published S c a dir d j p k es"
  have T: "logged S False a dir d j p k cb (journal_bytes es) s" if "?T f x s" for f x s
    using that framed_weaken by (auto simp: temp_open_def logged_def holding_def)
  have te: "steps c (logged S c a dir d j p k cb (journal_bytes es)) (open_private_replace_file D (join_path dir COMMIT_TEMP_FILE_NAME))
      (\<lambda>f. ?T f []) (\<lambda>e s. \<forall>m. E (classify u m) s)"
    by (rule steps_replace_temp [OF D]) (use E(1) in auto)
  have pr: "steps c (?T f []) (require_same_profile P f prof) (\<lambda>_. ?T f []) (\<lambda>e s. \<forall>m. E (classify u m) s)" for f
    by (rule steps_reads [OF reads_require_same_profile [OF P]]) (use E(1) T in auto)
  have wr: "steps c (?T f []) (write_file D f ?b x) (\<lambda>_. ?T f ?b) (\<lambda>e s. \<forall>m. E (classify u m) s)" for f x
    unfolding write_file_def sys_write_all_def
    by (intro steps_tracked [OF D] steps_effect)
      (use E(1) T temp_open_update [of S c a dir d j p k cb "journal_bytes es" f "[]", simplified] in blast)+
  have ba: "steps c (?T f ?b) (barrier_file D f x) (\<lambda>_. ?C f) (\<lambda>e s. \<forall>m. E (classify u m) s)" for f x
    unfolding barrier_file_def sys_sync_all_def
  proof (intro steps_tracked [OF D] steps_effect)
    show "?C f (settle f s)" if "?T f ?b s" for s using temp_open_settle [OF that] by blast
  qed (use E(1) T in blast)+
  have ren: "vis s (join_path dir COMMIT_TEMP_FILE_NAME) \<noteq> None \<and>
      ?R (rename_entry (join_path dir COMMIT_TEMP_FILE_NAME) (join_path dir COMMIT_FILE_NAME) s)" if c: "?C f s" for f s
  proof -
    from c obtain n where "inodes s f = Some n" "i_clean n" by blast
    with c show ?thesis using temp_open_rename by (fastforce simp: temp_open_def)
  qed
  have CE: "E (classify u m) s" if "?C f s" for f s m using that E(1) T by blast
  have re: "steps c (?C f) (rename_file D (join_path dir COMMIT_TEMP_FILE_NAME) (join_path dir COMMIT_FILE_NAME) x)
      (\<lambda>_. ?R) (\<lambda>e s. \<forall>m. E (classify u m) s)" for f x
    unfolding rename_file_def sys_rename_def
    by (intro steps_tracked [OF D] steps_syscall) (use ren E(2) CE in \<open>auto split: if_splits\<close>)
  have bd: "steps c ?R (barrier_directory D d x) (\<lambda>_. ?P) (\<lambda>e s. \<forall>m. E (classify u m) s)" for x
    unfolding barrier_directory_def sys_sync_all_def
    by (intro steps_tracked [OF D] steps_effect)
      (use E(2,3) renamed_settle [OF _ w] in \<open>auto simp: published_def\<close>)
  have op: "steps c ?P (open_private_read_file (join_path dir COMMIT_FILE_NAME)) (\<lambda>f s. ?P s \<and> opened s dir COMMIT_FILE_NAME f)
      (\<lambda>e s. \<forall>m. E (classify u m) s)"
    by (rule steps_reads [OF reads_open_private_read_file]) (use E(3) published_view [OF _ laws] in auto)
  have p2: "steps c (\<lambda>s. ?P s \<and> opened s dir COMMIT_FILE_NAME f) (require_same_profile P f prof)
      (\<lambda>_ s. ?P s \<and> opened s dir COMMIT_FILE_NAME f) (\<lambda>e s. \<forall>m. E (classify u m) s)" for f
    by (rule steps_reads [OF reads_require_same_profile [OF P]]) (use E(3) in auto)
  have rd: "steps c (\<lambda>s. ?P s \<and> opened s dir COMMIT_FILE_NAME f) (read_commit_point S f)
      (\<lambda>q s. ?P s \<and> q = point_of S es) (\<lambda>e s. \<forall>m. E (classify u m) s)" for f
    by (rule steps_reads [OF reads_read_commit_point]) (use E(3) published_view [OF _ laws] in fastforce)+
  have fi: "steps c (\<lambda>s. ?P s \<and> q = point_of S es) (if q \<noteq> point_of S es then mfail e else mret ()) (\<lambda>_. ?P) E" for q e
    by (rule steps_pure [where q = "q = point_of S es"]) (auto intro: steps_mret)
  show ?thesis
    unfolding publish_commit_def Let_def join_path_simps classify_io_def classify_journal_def
    apply (rule steps_mbind [OF steps_mmap_err [OF steps_weaken [OF te]]], assumption, assumption, blast)
    apply (rule steps_mbind [OF steps_mmap_err [OF steps_weaken [OF pr]]], assumption, assumption, blast)
    apply (rule steps_mbind [OF steps_mmap_err [OF steps_weaken [OF wr]]], assumption, assumption, blast)
    apply (rule steps_mbind [OF steps_mmap_err [OF steps_weaken [OF ba]]], assumption, assumption, blast)
    apply (rule steps_mbind [OF steps_mmap_err [OF steps_weaken [OF re]]], assumption, assumption, blast)
    apply (rule steps_mbind [OF steps_mmap_err [OF steps_weaken [OF bd]]], assumption, assumption, blast)
    apply (rule steps_mbind [OF steps_mmap_err [OF steps_weaken [OF op]]], assumption, assumption, blast)
    apply (rule steps_mbind [OF steps_mmap_err [OF steps_weaken [OF p2]]], assumption, assumption, blast)
    apply (rule steps_mbind [OF steps_mmap_err [OF steps_weaken [OF rd]]], assumption, assumption, blast)
    by (rule fi)
qed

section \<open>The whole append\<close>

lemma steps_reads_bind:
  assumes "reads c s0 m R" "\<And>x. R x \<Longrightarrow> steps c (\<lambda>s. s = s0) (f x) B E" "\<And>e. E e s0"
  shows "steps c (\<lambda>s. s = s0) (mbind m f) B E"
proof (rule steps_mbind)
  show "steps c (\<lambda>s. s = s0) m (\<lambda>x s. R x \<and> s = s0) E"
    by (rule steps_reads [where R = "\<lambda>_. R"]) (use assms(1,3) in auto)
  show "steps c (\<lambda>s. R x \<and> s = s0) (f x) B E" for x
    by (rule steps_pure [where q = "R x"]) (auto intro: steps_weaken [OF assms(2)])
qed

lemma encode_entry_text:
  "record_serde_laws S \<Longrightarrow> wf_entry e \<Longrightarrow> 0 < seq e \<Longrightarrow> seq e \<le> MAX_JOURNAL_ENTRIES \<Longrightarrow>
     encode_entry S e = Inr (record_text (entry_record e))"
  using entry_record_plain [of e] by (simp add: encode_entry_def record_serde_laws_def)

lemma reads_verify:
  assumes "publish_serde_laws S" "wf_witness w" "inode_data s f = Some (PublishWitness_encode S w)"
  shows "reads c s (verify_opened_witness S f w) (\<lambda>_. True)"
  by (rule reads_weaken [OF reads_verify_opened_witness]) (use assms decode_encode_witness in auto)

lemma steps_verify:
  assumes "publish_serde_laws S" "wf_witness w" "\<And>s. A s \<Longrightarrow> inode_data s f = Some (PublishWitness_encode S w)"
    and "\<And>m s. A s \<Longrightarrow> E (OutcomeUnknown m) s"
  shows "steps c A (mmap_err (outcome_unknown_because m) (verify_opened_witness S f w)) (\<lambda>_. A) E"
  by (rule steps_mmap_err, rule steps_reads [OF reads_verify [OF assms(1,2)]])
    (use assms(3,4) in \<open>auto simp: outcome_unknown_because_def\<close>)

lemma durable_inode: "durable_file s q f bs \<Longrightarrow> inode_data s f = Some bs"
  by (auto simp: durable_file_def inode_data_def)

text \<open>The part of an append that changes files, from the rewriting of the witness on.\<close>

definition publish_entry ::
  "('s, 'a) StoreSerde_scheme \<Rightarrow> 'h DurabilityOps \<Rightarrow> 'h ProfileOps \<Rightarrow> Path \<Rightarrow> nat \<Rightarrow> QualifiedProfile \<Rightarrow> nat \<Rightarrow> nat \<Rightarrow>
   'h observe \<Rightarrow> JournalEntry list \<Rightarrow> JournalEntry \<Rightarrow> ('h, JournalError, JournalEntry) run" where
  "publish_entry S D P dir d prof p j ob es e =
     (let k = Suc (Suc (length es)); line = record_text (entry_record e) @ [CHR 0x0A] in
      mbind (rewrite_witness S D p (prepared k) PreparedWriteComplete PreparedBarrierComplete True) (\<lambda>_.
      mbind (mmap_err (outcome_unknown_because ''PREPARED verification failed: '')
               (verify_opened_witness S p (prepared k))) (\<lambda>_.
      mbind (mmap_err (classify_io True ''journal write failed: '')
               (append_file D j line JournalRecordWriteComplete)) (\<lambda>_.
      mbind (mmap_err (classify_io True ''journal barrier failed: '')
               (barrier_file D j JournalBarrierComplete)) (\<lambda>_.
      mbind (observe_stage ob PublishPrefixHash (mret (for_prefix S (journal_bytes es @ line) (Suc (length es))))) (\<lambda>q.
      mbind (publish_commit S D P d prof (join_path dir COMMIT_FILE_NAME) q True) (\<lambda>_.
      mbind (rewrite_witness S D p (clean k) CleanWriteComplete CleanBarrierComplete True) (\<lambda>_.
      mbind (mmap_err (outcome_unknown_because ''CLEAN verification failed: '')
               (verify_opened_witness S p (clean k))) (\<lambda>_.
      mbind (mmap_err (classify_io True ''append completion failed: '') (note_point D DurableAppendComplete)) (\<lambda>_.
      mret e))))))))))"

lemma steps_publish_entry:
  fixes S :: "('s, 'b) StoreSerde_scheme" and es e
  defines "es' \<equiv> es @ [e]"
  assumes laws: "store_serde_laws S" and D: "c \<Longrightarrow> good_hooks D" and P: "c \<Longrightarrow> accepts_profile P prof" and w: "wf_entries es'"
    and E: "\<And>m s. residue S a dir d j p es es' s \<Longrightarrow> E (OutcomeUnknown m) s"
  shows "steps c (idle S c a dir d j p es) (publish_entry S D P dir d prof p j ob es e)
    (\<lambda>x s. x = e \<and> framed c a dir d j p s \<and> at_rest S s dir es') E"
proof -
  let ?k = "Suc (Suc (length es))" and ?line = "record_text (entry_record e) @ [CHR 0x0A]"
  let ?cb = "CommitPoint_encode S (point_of S es)" and ?q = "join_path dir PUBLISH_FILE_NAME"
  let ?Q = "published S c a dir d j p ?k es" and ?Q' = "published S c a dir d j p ?k es'"
  let ?R = "\<lambda>s. idle S c a dir d j p es' s \<and> durable_file s ?q p (PublishWitness_encode S (clean ?k))"
  have w0: "wf_entries es" "length es < MAX_JOURNAL_ENTRIES" using w by (simp_all add: es'_def wf_entries_snoc)
  have jb: "journal_bytes es' = journal_bytes es @ ?line" by (simp add: es'_def)
  have pt: "for_prefix S (journal_bytes es @ ?line) (Suc (length es)) = point_of S es'"
    by (simp add: point_of_def jb es'_def)
  have k: "2 \<le> ?k" "?k \<le> MAX_JOURNAL_ENTRIES + 1" using w0 by auto
  note wfw = prepared_wf [OF k] clean_wf [of ?k, OF _ k(2), simplified]
  have pl: "publish_serde_laws S" using laws by (simp add: store_serde_laws_def)
  have Ecl: "residue S a dir d j p es es' s \<Longrightarrow> E (classify True m) s" for m s
    using E by (simp add: classify_def)
  have Ei: "residue S a dir d j p es es' s" if "idle S c a dir d j p es s \<or> idle S c a dir d j p es' s" for s
    using that by (auto simp: idle_def intro: residueI)
  have Ew: "residue S a dir d j p es es' s" if "writing S c' a dir d j p ?k ?cb (journal_bytes es @ l) s" for c' l s
  proof -
    have h: "holding S c' a dir d j p ?k ?cb s" using that by (simp add: writing_def)
    have "shows_entries S s dir es" using that w0(1) holding_commit [OF h] by (simp add: writing_def shows_entries_def)
    then show ?thesis by (rule residueI(3) [OF holding_framed [OF h] holding_stuck [OF h k]])
  qed
  have El: "residue S a dir d j p es es' s" if "logged S c' a dir d j p ?k ?cb (journal_bytes es') s" for c' s
    using Ew [of c' ?line s] logged_writing [OF that] jb by simp
  have Er: "residue S a dir d j p es es' s"
    if r: "renamed S c a dir d j p ?k (CommitPoint_encode S (point_of S es')) (journal_bytes es') s" for s
  proof -
    have "stuck S s dir" using r k unfolding renamed_def stuck_def by blast
    moreover have "shows_entries S s dir es'"
      using r w by (auto simp: renamed_def shows_entries_def data_at_def inode_data_def dest!: durable_data)
    ultimately show ?thesis using r residueI(4) by (auto simp: renamed_def)
  qed
  have s1: "steps c (idle S c a dir d j p es) (rewrite_witness S D p (prepared ?k) x y True) (\<lambda>_. ?Q) E" for x y
    unfolding published_def by (rule steps_rewrite_witness [OF D]) (use Ecl Ei in auto)
  have s2: "steps c ?Q (mmap_err (outcome_unknown_because m) (verify_opened_witness S p (prepared ?k))) (\<lambda>_. ?Q) E" for m
    by (rule steps_verify [OF pl wfw(1)]) (use E Ei durable_inode in \<open>auto simp: published_def\<close>)
  have Qw: "writing S c a dir d j p ?k ?cb (journal_bytes es) s" if "?Q s" for s
    using that framed_names(5) [of c a dir d j p s]
    by (auto simp: published_def idle_def committed_def writing_def holding_def dest: durable_data)
      (auto simp: durable_file_def)
  note ap = steps_append_record [where S = S and c = c and D = D and a = a and dir = dir and d = d and j = j and p = p and
      k = ?k and cb = ?cb and bs = "journal_bytes es" and line = ?line and u = True and E = E, OF D Ecl [OF Ew]]
  have s3: "steps c ?Q (mmap_err (classify_io True m) (append_file D j ?line x))
      (\<lambda>_. writing S c a dir d j p ?k ?cb (journal_bytes es @ ?line)) E" for m x
    by (rule steps_weaken [OF ap(1)]) (use Qw in auto)
  have s4: "steps c (writing S c a dir d j p ?k ?cb (journal_bytes es @ ?line))
      (mmap_err (classify_io True m) (barrier_file D j x)) (\<lambda>_. logged S c a dir d j p ?k ?cb (journal_bytes es')) E" for m x
    unfolding jb by (rule ap(2)) auto
  have s5: "steps c (logged S c a dir d j p ?k ?cb (journal_bytes es'))
      (observe_stage ob PublishPrefixHash (mret (point_of S es')))
      (\<lambda>q s. q = point_of S es' \<and> logged S c a dir d j p ?k ?cb (journal_bytes es') s) E"
    by (intro steps_observe_stage steps_mret) simp
  have s6: "steps c (\<lambda>s. q = point_of S es' \<and> logged S c a dir d j p ?k ?cb (journal_bytes es') s)
      (publish_commit S D P d prof (join_path dir COMMIT_FILE_NAME) q True) (\<lambda>_. ?Q') E" for q
  proof (rule steps_pure [where q = "q = point_of S es'"])
    assume q: "q = point_of S es'"
    show "steps c (\<lambda>s. q = point_of S es' \<and> logged S c a dir d j p ?k ?cb (journal_bytes es') s)
      (publish_commit S D P d prof (join_path dir COMMIT_FILE_NAME) q True) (\<lambda>_. ?Q') E"
      unfolding q by (rule steps_weaken [OF steps_publish_commit [OF laws D P w]])
        (use Ecl El Er Ei in \<open>auto simp: published_def\<close>)
  qed auto
  have s7: "steps c ?Q' (rewrite_witness S D p (clean ?k) x y True) (\<lambda>_. ?R) E" for x y
    by (rule steps_weaken [OF steps_rewrite_witness [OF D]]) (use Ecl Ei in \<open>auto simp: published_def\<close>)
  have s8: "steps c ?R (mmap_err (outcome_unknown_because m) (verify_opened_witness S p (clean ?k))) (\<lambda>_. ?R) E" for m
    by (rule steps_verify [OF pl wfw(2)]) (use E Ei durable_inode in auto)
  have s9: "steps c ?R (mmap_err (classify_io True m) (note_point D x)) (\<lambda>_. ?R) E" for m x
    by (intro steps_mmap_err steps_note_point [OF D]) (use Ecl Ei in \<open>auto simp: classify_io_def\<close>)
  have fin: "steps c ?R (mret e) (\<lambda>x s. x = e \<and> framed c a dir d j p s \<and> at_rest S s dir es') E"
    by (rule steps_mret) (auto simp: idle_def at_rest_def es'_def)
  show ?thesis
    unfolding publish_entry_def Let_def pt
    apply (rule steps_mbind [OF s1])
    apply (rule steps_mbind [OF s2])
    apply (rule steps_mbind [OF s3])
    apply (rule steps_mbind [OF s4])
    apply (rule steps_mbind [OF s5])
    apply (rule steps_mbind [OF s6])
    by (intro steps_mbind [OF s7] steps_mbind [OF s8] steps_mbind [OF s9] fin)
qed

text \<open>The reading part leaves the files alone whatever happens.\<close>

lemma steps_append_prefix:
  fixes S :: "('s, 'b) StoreSerde_scheme"
  assumes dir: "state_dir jn \<noteq> []"
    and c: "c \<Longrightarrow> openable s0 (state_dir jn) \<and> opened s0 (state_dir jn) LOCK_FILE_NAME (lock_file jn) \<and> good_profile P"
    and v: "c \<Longrightarrow> \<exists>snap. view S s0 (state_dir jn) snap \<and> generation (point snap) \<noteq> MAX_JOURNAL_ENTRIES + 1"
    and go: "\<And>d n prof snap p j. entry_at s0 (state_dir jn) = Some (d, n) \<Longrightarrow> (c \<Longrightarrow> accepts_profile P prof) \<Longrightarrow>
      view S s0 (state_dir jn) snap \<Longrightarrow> generation (point snap) \<noteq> MAX_JOURNAL_ENTRIES + 1 \<Longrightarrow>
      opened s0 (state_dir jn) PUBLISH_FILE_NAME p \<Longrightarrow> opened s0 (state_dir jn) JOURNAL_FILE_NAME j \<Longrightarrow>
      steps c (\<lambda>s. s = s0) (append_entry S D P (state_dir jn) ob d prof snap p j ev t) B E"
    and E: "\<And>e. E e s0"
  shows "steps c (\<lambda>s. s = s0) (append_with_ops S D P jn ob ev t) B E"
proof -
  have fail: "steps c (\<lambda>s. s = s0) (mfail e) B E" if "\<not> c" for e
    using that E by (simp add: steps_def triple_def mfail_def)
  note rb = steps_reads_bind [where E = E and B = B and c = c and ?s0.0 = s0, OF _ _ E]
  show ?thesis
    unfolding append_with_ops_def Let_def
    apply (rule rb [OF reads_open_existing_private_dir])
    subgoal using c by (simp add: openable_def)
    apply (rule rb [OF reads_qualify_directory])
    subgoal using c by simp
    apply (rule rb [OF reads_revalidate_lock [OF dir]])
    subgoal using c by (simp add: openable_def)
    apply (rule rb [OF reads_read_snapshot [OF dir]])
    subgoal using c v by blast
    subgoal for d prof u snap
      apply (rule steps_if)
      subgoal using v by (intro fail) (metis view_unique)
      apply (rule rb [OF reads_open_private_existing(1) [OF dir]])
      subgoal using c by (simp add: openable_def)
      apply (rule rb [OF reads_require_same_profile])
      subgoal using c by blast
      apply (rule rb [OF reads_read_publish_witness])
      subgoal using opened_data by (fastforce simp: view_def)
      subgoal for p u current
        apply (rule steps_if)
        subgoal using opened_data by (intro fail) (fastforce simp: view_def)
        apply (rule rb [OF reads_open_private_existing(2) [OF dir]])
        subgoal using c by (simp add: openable_def)
        apply (rule rb [OF reads_require_same_profile])
        subgoal using c by blast
        by (elim exE conjE, rule go) (use c in auto)
      done
    done
qed


lemma append_entry_publish:
  assumes "record_serde_laws S" "wf_entries (es @ [e])" "e = \<lparr>seq = Suc (length es), at = t, event = ev\<rparr>"
  shows "append_entry S D P dir ob d prof
      \<lparr>point = point_of S es, snapshot_bytes = journal_bytes es, snapshot_entries = es\<rparr> p j ev t =
    publish_entry S D P dir d prof p j ob es e"
proof -
  have "encode_entry S e = Inr (record_text (entry_record e))"
    using assms by (intro encode_entry_text) (auto simp: wf_entries_snoc)
  then have "mbind (mlift (encode_entry S e)) f = f (record_text (entry_record e))" for f :: "string \<Rightarrow> ('z, JournalError, JournalEntry) run"
    by (simp add: mbind_def mlift_def fun_eq_iff)
  then show ?thesis
    by (simp add: append_entry_def publish_entry_def Let_def assms(3))
qed

text \<open>From a store that is committed: success appends exactly the next entry; an error leaves the files
  as they were, or reports an unknown outcome.\<close>

lemma steps_append:
  fixes S :: "('s, 'b) StoreSerde_scheme" and es t ev
  defines "e \<equiv> \<lparr>seq = Suc (length es), at = t, event = ev\<rparr>"
  assumes laws: "store_serde_laws S" and s0: "idle S c a (state_dir jn) d j p es s0" and e: "wf_entry e"
    and c: "c \<Longrightarrow> at_rest S s0 (state_dir jn) es \<and> opened s0 (state_dir jn) LOCK_FILE_NAME (lock_file jn) \<and>
      good_profile P \<and> good_hooks D \<and> length es < MAX_JOURNAL_ENTRIES"
  shows "steps c (\<lambda>s. s = s0) (append_with_ops S D P jn ob ev t)
    (\<lambda>x s. x = e \<and> framed c a (state_dir jn) d j p s \<and> at_rest S s (state_dir jn) (es @ [e]))
    (\<lambda>x s. s = s0 \<or> (\<exists>m. x = OutcomeUnknown m) \<and> residue S a (state_dir jn) d j p es (es @ [e]) s)"
proof (rule steps_append_prefix)
  let ?snap = "\<lparr>point = point_of S es, snapshot_bytes = journal_bytes es, snapshot_entries = es\<rparr>"
  have f: "framed c a (state_dir jn) d j p s0" and cm: "committed S s0 (state_dir jn) es"
    using s0 by (simp_all add: idle_def)
  show "state_dir jn \<noteq> []" by (rule framed_names(1) [OF f])
  show "openable s0 (state_dir jn) \<and> opened s0 (state_dir jn) LOCK_FILE_NAME (lock_file jn) \<and> good_profile P" if c
    using c [OF that] f that by (simp add: framed_def)
  show "\<exists>snap. view S s0 (state_dir jn) snap \<and> generation (point snap) \<noteq> MAX_JOURNAL_ENTRIES + 1" if c
    using view_at_rest [OF laws] c [OF that] by (intro exI [of _ ?snap]) auto
  fix d' n prof snap p' j'
  assume a: "entry_at s0 (state_dir jn) = Some (d', n)" "c \<Longrightarrow> accepts_profile P prof" "view S s0 (state_dir jn) snap"
    "generation (point snap) \<noteq> MAX_JOURNAL_ENTRIES + 1" "opened s0 (state_dir jn) PUBLISH_FILE_NAME p'"
    "opened s0 (state_dir jn) JOURNAL_FILE_NAME j'"
  have id: "d' = d" "p' = p" "j' = j"
    using a f by (auto simp: framed_def dest: opened_unique)
  have sn: "snap = ?snap" by (rule view_committed [OF laws cm a(3)])
  have w: "wf_entries (es @ [e])"
    using a(4) cm e by (auto simp: sn wf_entries_snoc committed_def wf_entries_def e_def)
  have r: "record_serde_laws S" using laws by (simp add: store_serde_laws_def)
  show "steps c (\<lambda>s. s = s0) (append_entry S D P (state_dir jn) ob d' prof snap p' j' ev t)
    (\<lambda>x s. x = e \<and> framed c a (state_dir jn) d j p s \<and> at_rest S s (state_dir jn) (es @ [e]))
    (\<lambda>x s. s = s0 \<or> (\<exists>m. x = OutcomeUnknown m) \<and> residue S a (state_dir jn) d j p es (es @ [e]) s)"
    unfolding id sn append_entry_publish [OF r w e_def [THEN meta_eq_to_obj_eq]]
    by (rule steps_weaken [OF steps_publish_entry [OF laws _ a(2) w]]) (use c s0 in auto)
qed simp

text \<open>A PREPARED store refuses: the append fails and changes nothing.\<close>

lemma steps_append_stuck:
  assumes "store_serde_laws S" "stuck S s0 (state_dir jn)" "state_dir jn \<noteq> []"
  shows "steps False (\<lambda>s. s = s0) (append_with_ops S D P jn ob ev t) (\<lambda>_ _. False) (\<lambda>_ s. s = s0)"
  by (rule steps_append_prefix [OF assms(3)]) (use view_not_stuck [OF assms(1,2)] in auto)

end
