(* ===== verification/Store_Guarantees.thy ===== *)
theory Store_Guarantees
  imports Store_Append Memory_Journal
begin

text \<open>
  What the append and load operations of \<^verbatim>\<open>journal.rs\<close> guarantee: to their caller under every fault
  script, to a reader after a power loss, and to the engine, whose journal contract the file store
  satisfies. A process killed inside an append is covered: every point between two system calls is
  the state some fault script stops the append in, since an error ends it without another change.
\<close>

section \<open>Running\<close>

lemma steps_run:
  assumes "steps c A m B E" "A (system w)" "c \<Longrightarrow> faults w = []" "m w = (r, w')"
  shows "r = Inr x \<Longrightarrow> B x (system w') \<and> (c \<longrightarrow> faults w' = [])" "r = Inl e \<Longrightarrow> \<not> c \<and> E e (system w')"
  using assms by (auto simp: steps_def triple_def dest!: spec [of _ w])

lemma steps_run_calm:
  assumes "steps True A m B E" "A (system w)" "faults w = []"
  obtains x w' where "m w = (Inr x, w')" "B x (system w')" "faults w' = []"
  using assms by (cases "m w"; cases "fst (m w)") (auto simp: steps_def triple_def dest!: spec [of _ w])

lemma reads_run:
  assumes "reads c (system w) m R" "c \<Longrightarrow> faults w = []" "m w = (r, w')"
  shows "system w' = system w" "r = Inr x \<Longrightarrow> R x" "r = Inl e \<Longrightarrow> \<not> c"
  using assms by (cases r; auto simp: reads_def triple_def at_state_def dest!: spec [of _ w])+

lemma reads_run_calm:
  assumes "reads True (system w) m R" "faults w = []"
  obtains x w' where "m w = (Inr x, w')" "R x" "system w' = system w" "faults w' = []"
  using assms by (cases "m w"; cases "fst (m w)") (auto simp: reads_def triple_def at_state_def dest!: spec [of _ w])

lemma next_entry_record: "next_entry es ev t = \<lparr>seq = Suc (length es), at = t, event = ev\<rparr>"
  by (simp add: next_entry_def)

lemma next_entry_wf:
  "wf_BoundedTimestamp t \<Longrightarrow> wf_signal (event_signal ev) \<Longrightarrow> wf_entry (next_entry es ev t)"
  by (simp add: wf_entry_def next_entry_def)

lemma idle_weaken: "idle S c a dir d j p es s \<Longrightarrow> idle S False a dir d j p es s"
  by (auto simp: idle_def intro: framed_weaken)

lemma idle_dir: "idle S c a dir d j p es s \<Longrightarrow> dir \<noteq> []"
  by (auto simp: idle_def dest: framed_names(1))

lemma crash_image_refl: "crash_image s s"
  by (simp add: crash_image_def)

lemma append_run:
  assumes "store_serde_laws S" "idle S c a (state_dir jn) d j p es (system w)"
    "wf_BoundedTimestamp t" "wf_signal (event_signal ev)" "append_with_ops S D P jn ob ev t w = (r, w')"
  defines "e \<equiv> next_entry es ev t"
  shows "r = Inr x \<Longrightarrow> x = e \<and> at_rest S (system w') (state_dir jn) (es @ [e]) \<and>
      idle S False a (state_dir jn) d j p (es @ [e]) (system w')"
    and "r = Inl err \<Longrightarrow> system w' = system w \<or>
      (\<exists>m. err = OutcomeUnknown m) \<and> residue S a (state_dir jn) d j p es (es @ [e]) (system w')"
proof -
  have i: "idle S False a (state_dir jn) d j p es (system w)" using assms(2) by (rule idle_weaken)
  note st = steps_append [OF assms(1) i next_entry_wf [OF assms(3,4), of es, unfolded next_entry_record],
      where P = P and D = D and ob = ob, folded next_entry_record, folded e_def]
  note run = steps_run [OF st refl _ assms(5)]
  show "r = Inr x \<Longrightarrow> x = e \<and> at_rest S (system w') (state_dir jn) (es @ [e]) \<and>
      idle S False a (state_dir jn) d j p (es @ [e]) (system w')"
    using run(1) [of x] by (simp add: idle_def at_rest_def)
  show "r = Inl err \<Longrightarrow> system w' = system w \<or>
      (\<exists>m. err = OutcomeUnknown m) \<and> residue S a (state_dir jn) d j p es (es @ [e]) (system w')"
    using run(2) [of err] by simp
qed

lemma append_run_calm:
  assumes "store_serde_laws S" "idle S True a (state_dir jn) d j p es (system w)" "at_rest S (system w) (state_dir jn) es"
    "opened (system w) (state_dir jn) LOCK_FILE_NAME (lock_file jn)" "good_profile P" "good_hooks D" "faults w = []"
    "wf_BoundedTimestamp t" "wf_signal (event_signal ev)" "length es < MAX_JOURNAL_ENTRIES"
  shows "\<exists>w'. append_with_ops S D P jn ob ev t w = (Inr (next_entry es ev t), w') \<and> faults w' = [] \<and>
    idle S True a (state_dir jn) d j p (es @ [next_entry es ev t]) (system w') \<and>
    at_rest S (system w') (state_dir jn) (es @ [next_entry es ev t])"
proof -
  note st = steps_append [OF assms(1,2) next_entry_wf [OF assms(8,9), of es, unfolded next_entry_record],
      where P = P and D = D and ob = ob, folded next_entry_record]
  show ?thesis
    by (rule steps_run_calm [OF st refl assms(7)]) (use assms in \<open>auto simp: idle_def at_rest_def\<close>)
qed

lemma reads_load_committed_run:
  assumes "state_dir jn \<noteq> []" "load_committed_observed_by_store S P jn ob w = (r, w')"
  shows "system w' = system w" "r = Inr es \<Longrightarrow> \<exists>snap. view S (system w) (state_dir jn) snap \<and> es = snapshot_entries snap"
  using reads_run [OF reads_load_committed [OF assms(1), where c = False and S = S and P = P and ob = ob] _ assms(2)] by auto

lemma load_run_calm:
  assumes "state_dir jn \<noteq> []" "openable (system w) (state_dir jn)" "opened (system w) (state_dir jn) LOCK_FILE_NAME (lock_file jn)"
    "good_profile P" "view S (system w) (state_dir jn) snap" "faults w = []"
  shows "\<exists>w'. load_committed_observed_by_store S P jn ob w = (Inr (snapshot_entries snap), w')"
proof -
  have "reads True (system w) (load_committed_observed_by_store S P jn ob)
      (\<lambda>es. \<exists>snap. view S (system w) (state_dir jn) snap \<and> es = snapshot_entries snap)"
    by (rule reads_load_committed) (use assms in auto)
  from reads_run_calm [OF this assms(6)] show ?thesis
    using view_unique [OF assms(5)] by metis
qed

section \<open>A full store\<close>

lemma append_full:
  assumes "state_dir jn \<noteq> []" "openable (system w) (state_dir jn)" "opened (system w) (state_dir jn) LOCK_FILE_NAME (lock_file jn)"
    "good_profile P" "view S (system w) (state_dir jn) snap" "generation (point snap) = MAX_JOURNAL_ENTRIES + 1" "faults w = []"
  shows "\<exists>w'. append_with_ops S D P jn ob ev t w = (Inl (BoundExceeded MAX_JOURNAL_ENTRIES), w') \<and> system w' = system w"
proof -
  let ?s = "system w" and ?dir = "state_dir jn"
  have o: "private_dir ?s ?dir" using assms(2) by (simp add: openable_def)
  have r1: "reads True ?s (open_existing_private_dir ?dir) (\<lambda>i. \<exists>n. entry_at ?s ?dir = Some (i, n) \<and> i_kind n = Directory)"
    by (rule reads_open_existing_private_dir) (rule o)
  obtain d w1 where 1: "open_existing_private_dir ?dir w = (Inr d, w1)" "system w1 = ?s" "faults w1 = []"
    by (rule reads_run_calm [OF r1 assms(7)])
  have r2: "reads True (system w1) (qualify_directory P d) (\<lambda>prof. good_profile P \<longrightarrow> accepts_profile P prof)"
    by (rule reads_qualify_directory) (rule assms(4))
  obtain prof w2 where 2: "qualify_directory P d w1 = (Inr prof, w2)" "accepts_profile P prof" "system w2 = ?s" "faults w2 = []"
    by (rule reads_run_calm [OF r2 1(3)]) (use assms(4) 1(2) in auto)
  have r3: "reads True (system w2) (revalidate_lock P ?dir (lock_file jn) prof) (\<lambda>_. opened (system w2) ?dir LOCK_FILE_NAME (lock_file jn))"
    by (rule reads_revalidate_lock [OF assms(1)]) (use o assms(3) 2 in auto)
  obtain w3 where 3: "revalidate_lock P ?dir (lock_file jn) prof w2 = (Inr (), w3)" "system w3 = ?s" "faults w3 = []"
    by (rule reads_run_calm [OF r3 2(4)]) (use 2(3) in auto)
  have r4: "reads True (system w3) (read_snapshot_observed S P ?dir prof ob) (view S (system w3) ?dir)"
    by (rule reads_read_snapshot [OF assms(1)]) (use assms(2,5) 2(2) 3(2) in auto)
  obtain x w4 where 4: "read_snapshot_observed S P ?dir prof ob w3 = (Inr x, w4)" "view S ?s ?dir x" "system w4 = ?s"
    by (rule reads_run_calm [OF r4 3(3)]) (use 3(2) in auto)
  have "x = snap" using view_unique [OF 4(2) assms(5)] .
  with 1 2 3 4 assms(6) show ?thesis
    by (simp add: append_with_ops_def Let_def mbind_def mfail_def)
qed

section \<open>The engine's journal\<close>

text \<open>The contract of the engine port, for the production operations: the entries are those the visible
  commit point names, and the store is committed or left PREPARED.\<close>

definition jsonl_entries :: "('s, 'a) StoreSerde_scheme \<Rightarrow> Path \<Rightarrow> 'h World \<Rightarrow> JournalEntry list" where
  "jsonl_entries S dir w = visible_entries S (system w) dir"

definition jsonl_invar :: "('s, 'a) StoreSerde_scheme \<Rightarrow> Path \<Rightarrow> 'h World \<Rightarrow> bool" where
  "jsonl_invar S dir w \<longleftrightarrow>
     (\<exists>d j p es. framed False False dir d j p (system w) \<and>
        (committed S (system w) dir es \<or> stuck S (system w) dir \<and> shows_entries S (system w) dir es))"

definition jsonl_fits :: "WorkflowEvent \<Rightarrow> BoundedTimestamp \<Rightarrow> bool" where
  "jsonl_fits ev t \<longleftrightarrow> wf_BoundedTimestamp t \<and> wf_signal (event_signal ev)"

lemma jsonl_invar_system: "system w' = system w \<Longrightarrow> jsonl_invar S dir w' = jsonl_invar S dir w"
  "system w' = system w \<Longrightarrow> jsonl_entries S dir w' = jsonl_entries S dir w"
  by (simp_all add: jsonl_invar_def jsonl_entries_def)

lemma jsonl_load:
  assumes "store_serde_laws S" "jsonl_invar S (state_dir jn) w" "load_committed_observed_by_store S P jn ob w = (r, w')"
  shows "system w' = system w" "r = Inr es \<Longrightarrow> es = jsonl_entries S (state_dir jn) w"
proof -
  obtain d j p fs where f: "framed False False (state_dir jn) d j p (system w)"
    and s: "committed S (system w) (state_dir jn) fs \<or> stuck S (system w) (state_dir jn) \<and> shows_entries S (system w) (state_dir jn) fs"
    using assms(2) by (auto simp: jsonl_invar_def)
  note run = reads_load_committed_run [OF framed_names(1) [OF f] assms(3)]
  show "system w' = system w" by (rule run(1))
  show "es = jsonl_entries S (state_dir jn) w" if r: "r = Inr es"
  proof -
    obtain snap where v: "view S (system w) (state_dir jn) snap" "es = snapshot_entries snap" using run(2) [OF r] by blast
    then have "committed S (system w) (state_dir jn) fs" using s view_not_stuck [OF assms(1)] by blast
    then show ?thesis
      using view_committed [OF assms(1) _ v(1)] v(2) shows_visible [OF assms(1) committed_shows]
      by (simp add: jsonl_entries_def)
  qed
qed

lemma jsonl_append:
  assumes laws: "store_serde_laws S" and inv: "jsonl_invar S (state_dir jn) w" and fit: "jsonl_fits ev t"
    and run: "append_with_ops S D P jn ob ev t w = (r, w')"
  defines "es \<equiv> jsonl_entries S (state_dir jn) w"
  shows "jsonl_invar S (state_dir jn) w'"
    and "r = Inr x \<Longrightarrow> x = next_entry es ev t \<and> jsonl_entries S (state_dir jn) w' = es @ [x]"
    and "r = Inl err \<Longrightarrow> jsonl_entries S (state_dir jn) w' = es \<or>
      JournalError_code err = ''JOURNAL_OUTCOME_UNKNOWN'' \<and> jsonl_entries S (state_dir jn) w' = es @ [next_entry es ev t]"
proof -
  obtain d j p fs where f: "framed False False (state_dir jn) d j p (system w)"
    and s: "committed S (system w) (state_dir jn) fs \<or> stuck S (system w) (state_dir jn) \<and> shows_entries S (system w) (state_dir jn) fs"
    using inv by (auto simp: jsonl_invar_def)
  have es: "es = fs" using s shows_visible [OF laws] committed_shows unfolding es_def jsonl_entries_def by metis
  let ?dir = "state_dir jn" and ?e = "next_entry es ev t"
  have vis: "jsonl_entries S ?dir w' = gs \<and> jsonl_invar S ?dir w'"
    if "framed False False ?dir d j p (system w')"
      "committed S (system w') ?dir gs \<or> stuck S (system w') ?dir \<and> shows_entries S (system w') ?dir gs" for gs
    using that shows_visible [OF laws] committed_shows unfolding jsonl_entries_def jsonl_invar_def by blast
  have "(case r of Inr x \<Rightarrow> x = ?e \<and> jsonl_entries S ?dir w' = es @ [x]
      | Inl err \<Rightarrow> jsonl_entries S ?dir w' = es \<or>
          JournalError_code err = ''JOURNAL_OUTCOME_UNKNOWN'' \<and> jsonl_entries S ?dir w' = es @ [?e]) \<and> jsonl_invar S ?dir w'"
  proof (cases "committed S (system w) ?dir fs")
    case True
    then have i: "idle S False False ?dir d j p es (system w)" using f by (simp add: idle_def es)
    note ap = append_run [OF laws i _ _ run]
    show ?thesis
    proof (cases r)
      case (Inr x)
      then show ?thesis using ap(1) [OF _ _ Inr] fit vis [of "es @ [?e]"] by (auto simp: jsonl_fits_def idle_def)
    next
      case (Inl err)
      then consider "system w' = system w" | m where "err = OutcomeUnknown m" "residue S False ?dir d j p es (es @ [?e]) (system w')"
        using ap(2) [OF _ _ Inl] fit by (auto simp: jsonl_fits_def)
      then show ?thesis
      proof cases
        case 1
        then show ?thesis using Inl inv by (simp add: es_def jsonl_invar_system [OF 1])
      next
        case 2
        then show ?thesis using Inl vis [of es] vis [of "es @ [?e]"] by (auto simp: residue_def)
      qed
    qed
  next
    case False
    then have "stuck S (system w) ?dir" using s by blast
    from steps_run [OF steps_append_stuck [OF laws this framed_names(1) [OF f]] refl _ run]
    have "system w' = system w \<and> (\<exists>err. r = Inl err)" by (cases r) auto
    then show ?thesis using inv by (auto simp: es_def jsonl_invar_system [of w' w])
  qed
  then show "jsonl_invar S (state_dir jn) w'" "r = Inr x \<Longrightarrow> x = ?e \<and> jsonl_entries S ?dir w' = es @ [x]"
    "r = Inl err \<Longrightarrow> jsonl_entries S ?dir w' = es \<or>
      JournalError_code err = ''JOURNAL_OUTCOME_UNKNOWN'' \<and> jsonl_entries S ?dir w' = es @ [?e]"
    by auto
qed

lemma jsonl_ports [simp]:
  "load_committed (jsonl_journal S sys jn ob) = load_committed_observed_by_store S (ProductionProfile sys) jn ob"
  "append_event (jsonl_journal S sys jn ob) = append_with_ops S ProductionDurability (ProductionProfile sys) jn ob"
  by (simp_all add: jsonl_journal_def)

lemma jsonl_is_journal:
  assumes "store_serde_laws S"
  shows "journal (jsonl_journal S sys jn ob) (jsonl_entries S (state_dir jn)) (jsonl_invar S (state_dir jn)) jsonl_fits"
proof (unfold_locales, unfold jsonl_ports)
  fix w es w' r assume i: "jsonl_invar S (state_dir jn) w"
    and l: "load_committed_observed_by_store S (ProductionProfile sys) jn ob w = (r, w')"
  show "jsonl_entries S (state_dir jn) w' = jsonl_entries S (state_dir jn) w \<and> jsonl_invar S (state_dir jn) w'"
    using i by (simp add: jsonl_invar_system [OF jsonl_load(1) [OF assms i l]])
qed (rule jsonl_load(2) [OF assms _ _ refl] jsonl_append(2) [OF assms _ _ _ refl] jsonl_append(3) [OF assms _ _ _ refl]
    jsonl_append(1) [OF assms]; assumption)+

section \<open>An example store\<close>

text \<open>A freshly initialized store in the directory \<open>d\<close>, as the witnesses use it.\<close>

definition example_inode :: "FileKind \<Rightarrow> nat \<Rightarrow> bytes \<Rightarrow> Inode" where
  "example_inode kd mode bs =
     \<lparr>i_kind = kd, i_dev = 1, i_uid = 1000, i_nlink = 1, i_mode = mode, i_data = bs, i_clean = True\<rparr>"

definition example_names :: "Path \<Rightarrow> nat option" where
  "example_names =
     [[''d''] \<mapsto> 0, [''d'', LOCK_FILE_NAME] \<mapsto> 1, [''d'', JOURNAL_FILE_NAME] \<mapsto> 2,
      [''d'', COMMIT_FILE_NAME] \<mapsto> 3, [''d'', PUBLISH_FILE_NAME] \<mapsto> 4]"

definition example_files :: System where
  "example_files =
     \<lparr>vis = example_names, dur = example_names,
      inodes = [0 \<mapsto> example_inode Directory mode_0700 [], 1 \<mapsto> example_inode Regular mode_0600 [],
                2 \<mapsto> example_inode Regular mode_0600 [],
                3 \<mapsto> example_inode Regular mode_0600 (CommitPoint_encode example_store_serde (point_of example_store_serde [])),
                4 \<mapsto> example_inode Regular mode_0600 (PublishWitness_encode example_store_serde (clean 1))],
      next_ino = 5, locks = (\<lambda>_. Unlocked), creation_mode = (\<lambda>m. m), proc_uid = 1000\<rparr>"

definition example_world :: "unit World" where
  "example_world = \<lparr>system = example_files, faults = [], hooks = ()\<rparr>"

definition example_journal :: JsonlJournal where
  "example_journal = \<lparr>state_dir = [''d''], journal_path = [''d'', JOURNAL_FILE_NAME], lock_file = 1\<rparr>"

lemma example_names_simps:
  "example_names [''d''] = Some 0" "example_names (join_path [''d''] LOCK_FILE_NAME) = Some 1"
  "example_names (join_path [''d''] JOURNAL_FILE_NAME) = Some 2" "example_names (join_path [''d''] COMMIT_FILE_NAME) = Some 3"
  "example_names (join_path [''d''] PUBLISH_FILE_NAME) = Some 4" "example_names (join_path [''d''] COMMIT_TEMP_FILE_NAME) = None"
  by (simp_all add: example_names_def join_path_def)

lemma example_names_cases:
  "example_names (join_path [''d''] n) = Some i \<longleftrightarrow>
     (n = LOCK_FILE_NAME \<and> i = 1) \<or> (n = JOURNAL_FILE_NAME \<and> i = 2) \<or> (n = COMMIT_FILE_NAME \<and> i = 3) \<or> (n = PUBLISH_FILE_NAME \<and> i = 4)"
  by (auto simp: example_names_def join_path_def)

lemma example_files_simps:
  "vis example_files = example_names" "dur example_files = example_names" "next_ino example_files = 5"
  "proc_uid example_files = 1000" "inodes example_files 0 = Some (example_inode Directory mode_0700 [])"
  "inodes example_files (Suc 0) = Some (example_inode Regular mode_0600 [])"
  "inodes example_files 2 = Some (example_inode Regular mode_0600 [])"
  "inodes example_files 3 = Some (example_inode Regular mode_0600 (CommitPoint_encode example_store_serde (point_of example_store_serde [])))"
  "inodes example_files 4 = Some (example_inode Regular mode_0600 (PublishWitness_encode example_store_serde (clean 1)))"
  by (simp_all add: example_files_def)

lemma example_layout: "layout example_files [''d'']"
  by (auto simp: layout_def example_files_simps example_names_cases) (auto simp: example_files_def split: if_splits)

lemma example_entries:
  "entry_at example_files [''d''] = Some (0, example_inode Directory mode_0700 [])"
  "owner_of example_files [''d''] = 1000"
  by (simp_all add: entry_at_vis owner_of_def example_files_simps example_names_simps)
    (simp add: entry_at_def example_files_simps example_names_simps example_inode_def)

lemma example_private: "private_inode 1000 (example_inode Regular mode_0600 bs)" "mode_0700 mod 4096 = mode_0700"
  by (simp_all add: private_inode_def example_inode_def mode_0600_def mode_0700_def)

lemma example_opened:
  "opened example_files [''d''] LOCK_FILE_NAME 1" "opened example_files [''d''] JOURNAL_FILE_NAME 2"
  "opened example_files [''d''] COMMIT_FILE_NAME 3" "opened example_files [''d''] PUBLISH_FILE_NAME 4"
  using example_private(1)
  by (simp_all add: opened_def entry_at_vis example_files_simps example_names_simps example_entries(2))

lemma example_framed: "framed True True [''d''] 0 2 4 example_files"
proof -
  have "openable example_files [''d'']"
    using example_opened example_private(2)
    by (auto simp: openable_def private_file_opened private_dir_def example_entries) (simp_all add: example_inode_def)
  moreover have "anchored example_files [''d'']"
    by (simp add: anchored_def example_files_simps example_names_simps) (simp add: example_inode_def)
  ultimately show ?thesis
    using example_layout example_opened example_entries
    by (simp add: framed_def example_files_simps example_names_simps) (simp add: example_inode_def)
qed

lemma example_at_rest: "at_rest example_store_serde example_files [''d''] []"
  by (auto simp: at_rest_def committed_def durable_file_def example_files_simps example_names_simps)
    (simp_all add: example_inode_def)

lemma example_idle: "idle example_store_serde True True [''d''] 0 2 4 [] example_files"
  using example_framed example_at_rest by (simp add: idle_def at_rest_def)

lemma example_good_profile: "good_profile (ProductionProfile example_system)"
  using example_profile unfolding good_profile_def ProductionProfile_def by (metis fst_conv)

lemma example_event: "wf_BoundedTimestamp example_time" "wf_signal (event_signal (SignalAccepted example_signal))"
  using example_wf(1) by (simp_all add: wf_BoundedTimestamp_def example_time_def MIN_UNIX_SECONDS_def MAX_UNIX_SECONDS_def)

text \<open>One append to it, without faults.\<close>

definition example_after :: "unit World" where
  "example_after = snd (append_with_ops example_store_serde ProductionDurability (ProductionProfile example_system)
     example_journal None (SignalAccepted example_signal) example_time example_world)"

lemma example_append:
  "append_with_ops example_store_serde ProductionDurability (ProductionProfile example_system)
     example_journal None (SignalAccepted example_signal) example_time example_world =
   (Inr (next_entry [] (SignalAccepted example_signal) example_time), example_after)"
  "at_rest example_store_serde (system example_after) [''d''] [next_entry [] (SignalAccepted example_signal) example_time]"
  "idle example_store_serde True True [''d''] 0 2 4 [next_entry [] (SignalAccepted example_signal) example_time] (system example_after)"
  "faults example_after = []"
proof -
  have "\<exists>w'. append_with_ops example_store_serde ProductionDurability (ProductionProfile example_system)
     example_journal None (SignalAccepted example_signal) example_time example_world =
       (Inr (next_entry [] (SignalAccepted example_signal) example_time), w') \<and> faults w' = [] \<and>
     idle example_store_serde True True (state_dir example_journal) 0 2 4 ([] @ [next_entry [] (SignalAccepted example_signal) example_time]) (system w') \<and>
     at_rest example_store_serde (system w') (state_dir example_journal) ([] @ [next_entry [] (SignalAccepted example_signal) example_time])"
    by (rule append_run_calm [OF example_store_serde_laws])
      (use example_idle example_at_rest example_opened example_good_profile example_event in
        \<open>simp_all add: example_world_def example_journal_def MAX_JOURNAL_ENTRIES_def\<close>)
  then obtain w' where w: "append_with_ops example_store_serde ProductionDurability (ProductionProfile example_system)
     example_journal None (SignalAccepted example_signal) example_time example_world =
       (Inr (next_entry [] (SignalAccepted example_signal) example_time), w')" "faults w' = []"
     "idle example_store_serde True True [''d''] 0 2 4 [next_entry [] (SignalAccepted example_signal) example_time] (system w')"
     "at_rest example_store_serde (system w') [''d''] [next_entry [] (SignalAccepted example_signal) example_time]"
    by (auto simp: example_journal_def)
  then have "w' = example_after" by (simp add: example_after_def)
  with w show "append_with_ops example_store_serde ProductionDurability (ProductionProfile example_system)
     example_journal None (SignalAccepted example_signal) example_time example_world =
       (Inr (next_entry [] (SignalAccepted example_signal) example_time), example_after)"
     "at_rest example_store_serde (system example_after) [''d''] [next_entry [] (SignalAccepted example_signal) example_time]"
     "idle example_store_serde True True [''d''] 0 2 4 [next_entry [] (SignalAccepted example_signal) example_time] (system example_after)"
     "faults example_after = []"
    by simp_all
qed

lemma example_reopened:
  obtains jr :: JsonlJournal where "state_dir jr = state_dir example_journal" "openable (system example_after) (state_dir jr)"
    "opened (system example_after) (state_dir jr) LOCK_FILE_NAME (lock_file jr)"
proof -
  have o: "openable (system example_after) [''d'']" using example_append(3) by (simp add: idle_def framed_def)
  then obtain l where "opened (system example_after) [''d''] LOCK_FILE_NAME l"
    by (auto simp: openable_def private_file_opened)
  with o that [of "example_journal\<lparr>lock_file := l\<rparr>"] show ?thesis by (simp add: example_journal_def)
qed

lemma example_load:
  obtains jr v' where "state_dir jr = state_dir example_journal"
    "load_committed_observed_by_store example_store_serde (ProductionProfile example_system) jr None example_after =
      (Inr [next_entry [] (SignalAccepted example_signal) example_time], v')"
proof -
  obtain jr :: JsonlJournal where j: "state_dir jr = state_dir example_journal" "openable (system example_after) (state_dir jr)"
    "opened (system example_after) (state_dir jr) LOCK_FILE_NAME (lock_file jr)" by (rule example_reopened)
  have "state_dir jr \<noteq> []" using j(1) by (simp add: example_journal_def)
  from load_run_calm [OF this j(2,3) example_good_profile _ example_append(4)] view_at_rest [OF example_store_serde_laws example_append(2)] j(1)
  show ?thesis using that by (fastforce simp: example_journal_def)
qed

section \<open>Properties\<close>

text \<open>C5: one append, under every fault script, hook and profile behaviour. Success appends exactly the
  event as the entry with the next sequence number and leaves journal, commit point and clean witness
  for it on stable storage; an error other than the unknown outcome leaves every file as it was; and
  an unknown outcome leaves a store that is committed to the old or to the new entries, or is held by
  a PREPARED witness on stable storage and shows one of the two.\<close>

theorem append_exact:
  assumes "store_serde_laws S" and "idle S False a (state_dir jn) d j p es (system w)"
    and "wf_BoundedTimestamp t" and "wf_signal (event_signal ev)"
    and "append_with_ops S D P jn ob ev t w = (r, w')"
  shows "case r of
      Inr e \<Rightarrow> e = \<lparr>seq = Suc (length es), at = t, event = ev\<rparr> \<and>
        at_rest S (system w') (state_dir jn) (es @ [e]) \<and> idle S False a (state_dir jn) d j p (es @ [e]) (system w')
    | Inl err \<Rightarrow> system w' = system w \<or>
        (\<exists>m. err = OutcomeUnknown m) \<and>
        residue S a (state_dir jn) d j p es (es @ [\<lparr>seq = Suc (length es), at = t, event = ev\<rparr>]) (system w')"
  using append_run [OF assms] by (auto simp: next_entry_record split: sum.splits)

theorem append_exact_witness:
  "at_rest example_store_serde (system example_after) [''d'']
     [\<lparr>seq = 1, at = example_time, event = SignalAccepted example_signal\<rparr>]"
  using append_exact [OF example_store_serde_laws _ example_event example_append(1), of True 0 2 4 "[]"]
    idle_weaken [OF example_idle]
  by (simp add: example_world_def example_journal_def) (simp add: next_entry_record)

text \<open>C11: an append succeeds whenever nothing goes wrong. On a store at rest that the process can open,
  with the lock held, no faults to come, an accepted profile and well-behaved hooks, an append below
  the bound returns the next entry and leaves the store at rest with it, ready for the next append;
  at 10,000 entries it returns the bound error and changes nothing.\<close>

theorem append_succeeds:
  assumes "store_serde_laws S" and "idle S True a (state_dir jn) d j p es (system w)"
    and "at_rest S (system w) (state_dir jn) es"
    and "opened (system w) (state_dir jn) LOCK_FILE_NAME (lock_file jn)"
    and "good_profile P" and "good_hooks D" and "faults w = []"
    and "wf_BoundedTimestamp t" and "wf_signal (event_signal ev)"
  shows "if length es < MAX_JOURNAL_ENTRIES
    then \<exists>w'. append_with_ops S D P jn ob ev t w = (Inr (next_entry es ev t), w') \<and> faults w' = [] \<and>
      idle S True a (state_dir jn) d j p (es @ [next_entry es ev t]) (system w') \<and>
      at_rest S (system w') (state_dir jn) (es @ [next_entry es ev t])
    else \<exists>w'. append_with_ops S D P jn ob ev t w = (Inl (BoundExceeded MAX_JOURNAL_ENTRIES), w') \<and>
      system w' = system w"
proof (cases "length es < MAX_JOURNAL_ENTRIES")
  case True
  with append_run_calm [OF assms True] show ?thesis by simp
next
  case False
  have f: "framed True a (state_dir jn) d j p (system w)" "wf_entries es"
    using assms(2) by (simp_all add: idle_def committed_def)
  then have "length es = MAX_JOURNAL_ENTRIES" using False by (simp add: wf_entries_def)
  with append_full [OF framed_names(1) [OF f(1)] _ assms(4,5) view_at_rest [OF assms(1,3)] _ assms(7)] f(1) False
  show ?thesis by (simp add: framed_def)
qed

theorem append_succeeds_witness:
  "\<exists>w'. append_with_ops example_store_serde ProductionDurability (ProductionProfile example_system)
     example_journal None (SignalAccepted example_signal) example_time example_world =
     (Inr (next_entry [] (SignalAccepted example_signal) example_time), w') \<and>
     at_rest example_store_serde (system w') [''d''] [next_entry [] (SignalAccepted example_signal) example_time]"
  using append_succeeds [OF example_store_serde_laws, of True example_journal 0 2 4 "[]" example_world
      "ProductionProfile example_system" ProductionDurability, OF _ _ _ example_good_profile _ _ example_event, of None]
    example_idle example_at_rest example_opened(1)
  by (auto simp: example_world_def example_journal_def MAX_JOURNAL_ENTRIES_def)

text \<open>C2: no torn or phantom entries after a power loss. Stop an append anywhere, let a power loss keep
  any mixture of synchronized and unsynchronized state, and read: a load that returns entries returns
  the old ones or the old ones and exactly the appended one, the latter for sure when the append had
  reported success; and reading changes no file.\<close>

theorem append_crash_safe:
  assumes "store_serde_laws S" and "idle S False a (state_dir jn) d j p es (system w)"
    and "wf_BoundedTimestamp t" and "wf_signal (event_signal ev)"
    and "append_with_ops S D P jn ob ev t w = (r, w')"
    and "crash_image (system w') (system v)"
    and "state_dir jr = state_dir jn" and "load_committed_observed_by_store S P' jr ob' v = (Inr got, v')"
  shows "(got = es \<or> got = es @ [next_entry es ev t]) \<and> (is_ok r \<longrightarrow> got = es @ [next_entry es ev t]) \<and>
    system v' = system v"
proof -
  let ?dir = "state_dir jn" and ?e = "next_entry es ev t"
  have dir: "state_dir jr \<noteq> []" unfolding assms(7) by (rule idle_dir [OF assms(2)])
  note ld = reads_load_committed_run [OF dir assms(8)]
  obtain snap where v: "view S (system v) ?dir snap" "got = snapshot_entries snap"
    using ld(2) [OF refl] assms(7) by auto
  have c: "got = gs" if "committed S (system w') ?dir gs" for gs
    using crash_committed_view [OF assms(1) that assms(6) v(1)] v(2) by simp
  have u: "\<not> stuck S (system w') ?dir" using crash_stuck_view [OF assms(1) _ assms(6)] v(1) by blast
  have "(got = es \<or> got = es @ [?e]) \<and> (is_ok r \<longrightarrow> got = es @ [?e])"
  proof (cases r)
    case (Inr x)
    then show ?thesis using append_run(1) [OF assms(1-5) Inr] c by (auto simp: idle_def)
  next
    case (Inl err)
    then show ?thesis using append_run(2) [OF assms(1-5) Inl] c u assms(2)
      by (auto simp: residue_def idle_def)
  qed
  with ld(1) show ?thesis by simp
qed

theorem append_crash_safe_witness:
  "\<exists>jr v'. load_committed_observed_by_store example_store_serde (ProductionProfile example_system) jr None example_after =
     (Inr [next_entry [] (SignalAccepted example_signal) example_time], v') \<and> system v' = system example_after"
proof -
  obtain jr v' where l: "state_dir jr = state_dir example_journal"
    "load_committed_observed_by_store example_store_serde (ProductionProfile example_system) jr None example_after =
      (Inr [next_entry [] (SignalAccepted example_signal) example_time], v')"
    by (rule example_load)
  with append_crash_safe [OF example_store_serde_laws _ example_event example_append(1) crash_image_refl l, of True 0 2 4 "[]"]
    idle_weaken [OF example_idle]
  show ?thesis by (auto simp: example_world_def example_journal_def)
qed



text \<open>C23: a PREPARED store on stable storage refuses every load and append, before and after any power
  loss, and changes nothing while it refuses.\<close>

theorem prepared_store_refuses:
  assumes "store_serde_laws S" and "stuck S s (state_dir jn)" and "state_dir jn \<noteq> []"
    and "system w = s \<or> crash_image s (system w)"
  shows "(\<exists>err w'. load_committed_observed_by_store S P jn ob w = (Inl err, w') \<and> system w' = system w) \<and>
    (\<exists>err w'. append_with_ops S D P jn ob ev t w = (Inl err, w') \<and> system w' = system w)"
proof -
  have nv: "\<not> view S (system w) (state_dir jn) snap" for snap
    using assms(4) view_not_stuck [OF assms(1)] crash_stuck_view [OF assms(1,2)] assms(2) by blast
  obtain r w' where l: "load_committed_observed_by_store S P jn ob w = (r, w')" by fastforce
  have "\<exists>err. r = Inl err" "system w' = system w"
    using reads_load_committed_run [OF assms(3) l] nv by (cases r; auto)+
  moreover obtain q v where a: "append_with_ops S D P jn ob ev t w = (q, v)" by fastforce
  have "steps False (\<lambda>s. s = system w) (append_with_ops S D P jn ob ev t) (\<lambda>_ _. False) (\<lambda>_ s. s = system w)"
    by (rule steps_append_prefix [OF assms(3)]) (use nv in auto)
  from steps_run [OF this refl _ a] have "\<exists>err. q = Inl err" "system v = system w" by (cases q; auto)+
  ultimately show ?thesis using l a by auto
qed

theorem prepared_store_refuses_witness:
  "\<exists>err w'. append_with_ops example_store_serde ProductionDurability (ProductionProfile example_system)
     example_journal None (SignalAccepted example_signal) example_time
     (example_world\<lparr>system := update_inode 4 (i_data_update (\<lambda>_. PublishWitness_encode example_store_serde (prepared 2))) example_files\<rparr>) =
     (Inl err, w')"
proof -
  let ?s = "update_inode 4 (i_data_update (\<lambda>_. PublishWitness_encode example_store_serde (prepared 2))) example_files"
  have "durable_file ?s (join_path [''d''] PUBLISH_FILE_NAME) 4 (PublishWitness_encode example_store_serde (prepared 2))"
    by (simp add: durable_file_def example_files_simps example_names_simps) (simp add: example_inode_def)
  then have "stuck example_store_serde ?s (state_dir example_journal)"
    unfolding stuck_def by (intro exI [of _ 4] exI [of _ 2]) (simp add: example_journal_def MAX_JOURNAL_ENTRIES_def)
  from prepared_store_refuses [OF example_store_serde_laws this, of "example_world\<lparr>system := ?s\<rparr>" "ProductionProfile example_system" None
      ProductionDurability "SignalAccepted example_signal" example_time]
  show ?thesis by (auto simp: example_journal_def)
qed

text \<open>C24: whatever is on the disk, a load that returns entries returns at most 10,000, numbered from one
  without gaps, each with a valid timestamp and signal, read from a journal file of at most 64 MiB;
  and no load, failed ones included, changes a file.\<close>

theorem load_bounded:
  assumes "state_dir jn \<noteq> []" and "load_committed_observed_by_store S P jn ob w = (r, w')"
  shows "system w' = system w \<and>
    (\<forall>es. r = Inr es \<longrightarrow> length es \<le> MAX_JOURNAL_ENTRIES \<and> map seq es = [1..<Suc (length es)] \<and> list_all wf_entry es \<and>
       (\<exists>bs. data_at (system w) (join_path (state_dir jn) JOURNAL_FILE_NAME) = Some bs \<and> length bs \<le> MAX_JOURNAL_BYTES))"
proof (intro conjI allI impI)
  note run = reads_load_committed_run [OF assms]
  show "system w' = system w" by (rule run(1))
  fix es assume "r = Inr es"
  then obtain snap where v: "view S (system w) (state_dir jn) snap" and es: "es = snapshot_entries snap"
    using run(2) by blast
  have "\<exists>text. decode_contents S text = Inr es"
    using v by (auto simp: view_def decode_committed_prefix_def and_then_eq_Inr es split: if_splits)
  then have w: "wf_entries es" using decode_contents_sound by blast
  then show "length es \<le> MAX_JOURNAL_ENTRIES" "map seq es = [1..<Suc (length es)]" "list_all wf_entry es"
    by (simp_all add: wf_entries_def contiguous_def)
  have "committed_bytes (point snap) \<le> MAX_JOURNAL_BYTES"
    using v by (auto simp: view_def wf_point_def dest!: CommitPoint_decode_wf)
  then show "\<exists>bs. data_at (system w) (join_path (state_dir jn) JOURNAL_FILE_NAME) = Some bs \<and> length bs \<le> MAX_JOURNAL_BYTES"
    using v by (auto simp: view_def)
qed

theorem load_bounded_witness:
  "\<exists>jr v'. load_committed_observed_by_store example_store_serde (ProductionProfile example_system) jr None example_after =
     (Inr [next_entry [] (SignalAccepted example_signal) example_time], v') \<and> system v' = system example_after \<and>
     wf_entry (next_entry [] (SignalAccepted example_signal) example_time)"
proof -
  obtain jr v' where l: "state_dir jr = state_dir example_journal"
    "load_committed_observed_by_store example_store_serde (ProductionProfile example_system) jr None example_after =
      (Inr [next_entry [] (SignalAccepted example_signal) example_time], v')"
    by (rule example_load)
  with load_bounded [OF _ l(2)] show ?thesis by (auto simp: example_journal_def)
qed

text \<open>C6: the file store is a journal. One submission over it, under every fault script, changes the
  committed entries and reports exactly as the submit contract allows, and keeps the store in the
  states from which the next submission does so too.\<close>

theorem jsonl_submit_exact:
  assumes "store_serde_laws S" and "jsonl_invar S (state_dir jn) w"
    and "wf_signal s" and "\<And>t. now = Inr t \<Longrightarrow> wf_BoundedTimestamp t"
    and "handle_workflow_signal (jsonl_journal S sys jn ob) now (SubmitSignal s x) w = (r, w')"
  shows "submit_allowed now s x (jsonl_entries S (state_dir jn) w) r (jsonl_entries S (state_dir jn) w') \<and>
    jsonl_invar S (state_dir jn) w'"
  by (rule journal.handle_allowed [OF jsonl_is_journal [OF assms(1)] assms(2) _ assms(5)])
    (use assms(3,4) in \<open>auto simp: jsonl_fits_def\<close>)

lemma example_jsonl_invar: "jsonl_invar example_store_serde (state_dir example_journal) example_world"
  "jsonl_entries example_store_serde (state_dir example_journal) example_world = []"
proof -
  have c: "committed example_store_serde example_files [''d''] []" using example_at_rest by (simp add: at_rest_def)
  moreover have "framed False False [''d''] 0 2 4 example_files" using example_framed by (simp add: framed_def)
  ultimately show "jsonl_invar example_store_serde (state_dir example_journal) example_world"
    unfolding jsonl_invar_def example_world_def example_journal_def by auto
  show "jsonl_entries example_store_serde (state_dir example_journal) example_world = []"
    using shows_visible [OF example_store_serde_laws committed_shows [OF c]]
    by (simp add: jsonl_entries_def example_world_def example_journal_def)
qed

theorem jsonl_submit_exact_witness:
  "\<exists>r w'. handle_workflow_signal (jsonl_journal example_store_serde example_system example_journal None) (Inr example_time)
       (SubmitSignal example_signal example_expected) example_world = (r, w') \<and>
     submit_allowed (Inr example_time) example_signal example_expected [] r
       (jsonl_entries example_store_serde (state_dir example_journal) w')"
proof -
  obtain r w' where h: "handle_workflow_signal (jsonl_journal example_store_serde example_system example_journal None) (Inr example_time)
       (SubmitSignal example_signal example_expected) example_world = (r, w')" by fastforce
  from jsonl_submit_exact [OF example_store_serde_laws example_jsonl_invar(1) _ _ h] example_event h
  show ?thesis by (auto simp: example_jsonl_invar(2))
qed

text \<open>C8: reconciliation over the file store resolves an unknown outcome: after a submission of a fresh
  signal that ended in a journal error, a reconciliation that succeeds answers accepted exactly when
  the entry is committed and absent exactly when it is not.\<close>

theorem jsonl_reconcile_resolves:
  assumes "store_serde_laws S" and "jsonl_invar S (state_dir jn) w"
    and "wf_signal s" and "\<And>t. now = Inr t \<Longrightarrow> wf_BoundedTimestamp t"
    and "handle_workflow_signal (jsonl_journal S sys jn ob) now (SubmitSignal s x) w = (Inl (HandleJournal e), w1)"
    and "engine_reconcile_workflow_signal (jsonl_journal S sys jn ob) s w1 = (Inr dn, w2)"
    and "signal_event_id s \<notin> set (keys_of (jsonl_entries S (state_dir jn) w))"
  shows "(dn = ReconciledAccepted \<longleftrightarrow>
        length (jsonl_entries S (state_dir jn) w1) = Suc (length (jsonl_entries S (state_dir jn) w))) \<and>
    (dn = ReconciledAbsent \<longleftrightarrow> jsonl_entries S (state_dir jn) w1 = jsonl_entries S (state_dir jn) w) \<and>
    dn \<noteq> ReconciledConflict"
  by (rule journal.reconcile_after_unknown [OF jsonl_is_journal [OF assms(1)] assms(2) _ assms(5,6,7)])
    (use assms(3,4) in \<open>auto simp: jsonl_fits_def\<close>)

text \<open>The first system call of a submission fails, the reconciliation runs without faults.\<close>

lemma example_faulty_submit:
  "handle_workflow_signal (jsonl_journal example_store_serde example_system example_journal None) (Inr example_time)
     (SubmitSignal example_signal example_expected) (example_world\<lparr>faults := [Fault ''Input/output error (os error 5)'' 0]\<rparr>) =
   (Inl (HandleJournal (Unavailable ''cannot stat state directory: Input/output error (os error 5)'')), example_world)"
  by (simp add: handle_core submit_core_def load_committed_observed_by_store_def open_existing_private_dir_def mbind_def
      mmap_err_def sys_symlink_metadata_def query_def syscall_def io_unavailable_def example_world_def)

lemma example_reconcile:
  obtains dn w2 where "engine_reconcile_workflow_signal (jsonl_journal example_store_serde example_system example_journal None)
    example_signal example_world = (Inr dn, w2)"
proof -
  have o: "openable example_files [''d'']" using example_framed by (simp add: framed_def)
  have "\<exists>w'. load_committed_observed_by_store example_store_serde (ProductionProfile example_system) example_journal None example_world =
      (Inr (snapshot_entries \<lparr>point = point_of example_store_serde [], snapshot_bytes = journal_bytes [], snapshot_entries = []\<rparr>), w')"
    by (rule load_run_calm)
      (use o example_opened(1) example_good_profile view_at_rest [OF example_store_serde_laws example_at_rest] in
        \<open>simp_all add: example_world_def example_journal_def\<close>)
  then show ?thesis
    using that by (auto simp: reconcile_core reconcile_core_def replay_def WorkflowState_new_def)
qed

theorem jsonl_reconcile_resolves_witness:
  "\<exists>w2. engine_reconcile_workflow_signal (jsonl_journal example_store_serde example_system example_journal None)
     example_signal example_world = (Inr ReconciledAbsent, w2)"
proof -
  obtain dn w2 where r: "engine_reconcile_workflow_signal (jsonl_journal example_store_serde example_system example_journal None)
    example_signal example_world = (Inr dn, w2)" by (rule example_reconcile)
  let ?w = "example_world\<lparr>faults := [Fault ''Input/output error (os error 5)'' 0]\<rparr>"
  have w: "jsonl_invar example_store_serde (state_dir example_journal) ?w"
    "jsonl_entries example_store_serde (state_dir example_journal) ?w = []"
    using example_jsonl_invar by (simp_all add: jsonl_invar_system [of ?w example_world])
  from jsonl_reconcile_resolves [OF example_store_serde_laws w(1) _ _ example_faulty_submit r] example_event r
  show ?thesis by (auto simp: w(2) example_jsonl_invar(2) keys_of_def)
qed

end
