(* ===== verification/Store_Open.thy ===== *)
theory Store_Open
  imports Store_Guarantees
begin

text \<open>
  Opening a store (\<^verbatim>\<open>open_with_ops\<close> and \<^verbatim>\<open>open_with_profile\<close> of \<^verbatim>\<open>journal.rs\<close>): what an open does to a
  store that exists, under every fault script, and whom the ownership lock keeps out.
\<close>

section \<open>Locks and files\<close>

text \<open>The lock table is apart from the files.\<close>

lemma entry_at_locks [simp]: "entry_at (s\<lparr>locks := l\<rparr>) = entry_at s"
  by (rule same_files) simp_all

lemma locks_update_simps [simp]:
  "owner_of (s\<lparr>locks := l\<rparr>) dir = owner_of s dir" "opened (s\<lparr>locks := l\<rparr>) dir = opened s dir"
  "private_dir (s\<lparr>locks := l\<rparr>) dir = private_dir s dir" "openable (s\<lparr>locks := l\<rparr>) dir = openable s dir"
  "layout (s\<lparr>locks := l\<rparr>) dir = layout s dir" "data_at (s\<lparr>locks := l\<rparr>) = data_at s"
  "durable_file (s\<lparr>locks := l\<rparr>) = durable_file s" "anchored (s\<lparr>locks := l\<rparr>) dir = anchored s dir"
  by (auto simp: same_files [of "s\<lparr>locks := l\<rparr>" s] durable_file_def anchored_def fun_eq_iff)

lemma committed_locks [simp]:
  "committed S (s\<lparr>locks := l\<rparr>) dir es = committed S s dir es" "stuck S (s\<lparr>locks := l\<rparr>) dir = stuck S s dir"
  "shows_entries S (s\<lparr>locks := l\<rparr>) dir es = shows_entries S s dir es" "at_rest S (s\<lparr>locks := l\<rparr>) dir es = at_rest S s dir es"
  "framed c a dir d j p (s\<lparr>locks := l\<rparr>) = framed c a dir d j p s"
  "visible_entries S (s\<lparr>locks := l\<rparr>) dir = visible_entries S s dir"
  by (simp_all add: committed_def stuck_def shows_entries_def at_rest_def framed_def private_file_opened visible_entries_def)

lemma idle_locks [simp]: "idle S c a dir d j p es (s\<lparr>locks := l\<rparr>) = idle S c a dir d j p es s"
  by (simp add: idle_def)

lemma release_lock_files:
  "idle S c a dir d j p es (release_lock f s) = idle S c a dir d j p es s"
  "committed S (release_lock f s) dir es = committed S s dir es" "stuck S (release_lock f s) dir = stuck S s dir"
  "shows_entries S (release_lock f s) dir es = shows_entries S s dir es"
  "framed c a dir d j p (release_lock f s) = framed c a dir d j p s"
  "visible_entries S (release_lock f s) dir = visible_entries S s dir"
  by (simp_all add: release_lock_def)

lemma steps_with_lock:
  assumes "steps c A m B (\<lambda>e s. E e (release_lock f s))" shows "steps c A (with_lock f m) B E"
  using assms
  by (auto simp: steps_def triple_def with_lock_def drop_lock_def split: prod.splits sum.splits)

lemma steps_mfail: "\<not> c \<Longrightarrow> (\<And>s. A s \<Longrightarrow> E e s) \<Longrightarrow> steps c A (mfail e) B E"
  by (simp add: steps_def triple_def mfail_def)

section \<open>Resuming\<close>

lemma reads_all:
  assumes "reads c s m R" shows "steps c (\<lambda>t. t = s) m (\<lambda>_ t. t = s) (\<lambda>_ t. t = s)"
  by (rule steps_reads [where R = "\<lambda>_. R"]) (use assms in auto)

lemma stuck_witness:
  assumes "store_serde_laws S" "stuck S s dir" "opened s dir PUBLISH_FILE_NAME f" "inode_data s f = Some bs"
    "PublishWitness_decode S bs = Inr w"
  shows "\<not> is_initializing w" "is_prepared_successor w"
proof -
  obtain g k where k: "2 \<le> k" "k \<le> MAX_JOURNAL_ENTRIES + 1"
    "durable_file s (join_path dir PUBLISH_FILE_NAME) g (PublishWitness_encode S (prepared k))"
    using assms(2) by (auto simp: stuck_def)
  have "g = f" using k(3) assms(3) by (auto simp: durable_file_def opened_def entry_at_vis)
  with k(3) assms(4) have "bs = PublishWitness_encode S (prepared k)" using durable_inode by fastforce
  moreover have "wf_witness (prepared k)" using k by (simp add: wf_witness_def prepared_def)
  ultimately have "w = prepared k"
    using assms(1,5) decode_encode_witness [of S "prepared k"] by (auto simp: store_serde_laws_def)
  with k show "\<not> is_initializing w" "is_prepared_successor w"
    by (auto simp: is_initializing_def is_prepared_successor_def prepared_def)
qed

lemma steps_keep:
  "(\<And>s. A s \<Longrightarrow> reads c s m (R s)) \<Longrightarrow> (\<And>e s. A s \<Longrightarrow> E e s) \<Longrightarrow> steps c A m (\<lambda>x s. A s \<and> R s x) E"
  by (rule steps_reads [where R = R]) auto

text \<open>Completing an interrupted initialization: only the witness and the barriers change anything.\<close>

lemma steps_complete_initialization:
  fixes S :: "('s, 'b) StoreSerde_scheme"
  assumes dir: "dir \<noteq> []"
  shows "steps False (idle S False a dir d j p es)
    (mbind (opened_identity p) (\<lambda>identity.
     mbind (mmap_err g (barrier_file D p PreparedBarrierComplete)) (\<lambda>_.
     mbind (verify_opened_witness S p initializing) (\<lambda>_.
     mbind (barrier_directory_untracked D dir False art1) (\<lambda>_.
     mbind (open_private_update_file D (join_path dir PUBLISH_FILE_NAME) False art2) (\<lambda>reopened.
     mbind (require_same_profile P reopened prof) (\<lambda>_.
     mbind (opened_identity reopened) (\<lambda>again.
     if again \<noteq> identity then mfail err
     else
       mbind (verify_opened_witness S reopened initializing) (\<lambda>_.
       mbind (rewrite_witness S D reopened (clean 1) CleanWriteComplete CleanBarrierComplete False) (\<lambda>_.
       verify_opened_witness S reopened (clean 1)))))))))))
    (\<lambda>_. idle S False a dir d j p es) (\<lambda>_. idle S False a dir d j p es)"
proof -
  let ?I = "idle S False a dir d j p es"
  have set: "?I (settle i s)" if "?I s" for i s using that by (simp add: idle_def framed_settle committed_settle)
  have keep: "steps False ?I m (\<lambda>_. ?I) (\<lambda>_. ?I)" if "\<And>s. reads False s m (R s)" for m :: "('h, 'e, 'x) run" and R
    by (rule steps_weaken [OF steps_keep [where A = ?I, OF that, where E = "\<lambda>_. ?I"]]) auto
  have bf: "steps False ?I (barrier_file D p PreparedBarrierComplete) (\<lambda>_. ?I) (\<lambda>_. ?I)"
    unfolding barrier_file_def sys_sync_all_def by (intro steps_tracked steps_effect) (auto intro: set)
  have be: "steps False ?I (barrier_directory_evidence D i art1) (\<lambda>_. ?I) (\<lambda>_. ?I)" for i
    unfolding barrier_directory_evidence_def sys_sync_all_def
    by (intro steps_mbind [where R = "\<lambda>_. ?I"] steps_effect steps_primitive) (auto intro: set)
  have bd: "steps False ?I (barrier_directory_untracked D dir False art1) (\<lambda>_. ?I) (\<lambda>_. ?I)"
    unfolding barrier_directory_untracked_def
    by (intro steps_mbind [where R = "\<lambda>_. ?I"] steps_mmap_err keep [OF reads_open_directory_no_follow] be) simp
  have op: "steps False ?I (open_private_update_file D (join_path dir PUBLISH_FILE_NAME) False art2)
      (\<lambda>f s. ?I s \<and> opened s dir PUBLISH_FILE_NAME f) (\<lambda>_. ?I)"
    by (rule steps_keep [OF reads_open_private_existing(1) [OF dir]]) auto
  have one: "f = p" if "?I s" "opened s dir PUBLISH_FILE_NAME f" for f s
    using that by (auto simp: idle_def framed_def dest: opened_unique)
  have rw: "steps False ?I (rewrite_witness S D p (clean 1) CleanWriteComplete CleanBarrierComplete False) (\<lambda>_. ?I) (\<lambda>_. ?I)"
    by (rule steps_weaken [OF steps_rewrite_witness]) auto
  have ver: "steps False ?I (verify_opened_witness S f w) (\<lambda>_. ?I) (\<lambda>_. ?I)" for f w
    by (rule keep [OF reads_verify_opened_witness]) simp
  have idn: "steps False ?I (opened_identity f) (\<lambda>_. ?I) (\<lambda>_. ?I)" for f
    by (rule keep [OF reads_opened_identity]) simp
  let ?tail = "\<lambda>f identity. mbind (require_same_profile P f prof) (\<lambda>_.
       mbind (opened_identity f) (\<lambda>again.
       if again \<noteq> identity then mfail err
       else
         mbind (verify_opened_witness S f initializing) (\<lambda>_.
         mbind (rewrite_witness S D f (clean 1) CleanWriteComplete CleanBarrierComplete False) (\<lambda>_.
         verify_opened_witness S f (clean 1)))))"
  have at_p: "steps False ?I (?tail p identity) (\<lambda>_. ?I) (\<lambda>_. ?I)" for identity
    by (intro steps_mbind [OF keep [OF reads_require_same_profile]] steps_mbind [OF idn] steps_if steps_mfail
        steps_mbind [OF ver] steps_mbind [OF rw] ver) simp_all
  have tail: "steps False (\<lambda>s. ?I s \<and> opened s dir PUBLISH_FILE_NAME f) (?tail f identity) (\<lambda>_. ?I) (\<lambda>_. ?I)" for f identity
  proof (rule steps_pure [where q = "f = p"])
    assume "f = p"
    show "steps False (\<lambda>s. ?I s \<and> opened s dir PUBLISH_FILE_NAME f) (?tail f identity) (\<lambda>_. ?I) (\<lambda>_. ?I)"
      unfolding \<open>f = p\<close> by (rule steps_weaken [OF at_p]) auto
  qed (use one in blast)
  show ?thesis
    by (intro steps_mbind [OF idn] steps_mbind [OF steps_mmap_err [where E = "\<lambda>_. ?I", OF bf]] steps_mbind [OF ver] steps_mbind [OF bd]
        steps_mbind [OF op] tail)
qed

lemma reads_file_len_path: "dir \<noteq> [] \<Longrightarrow> reads False s (file_len_path (join_path dir name)) (\<lambda>_. True)"
  unfolding file_len_path_def
  by (rule reads_mbind [OF reads_open_private_read_file reads_weaken [OF reads_file_len]]) auto

lemma reads_nonempty_check:
  "dir \<noteq> [] \<Longrightarrow> reads False s (if q then mret True else mbind (file_len_path (join_path dir name)) (\<lambda>n. mret (n \<noteq> 0))) (\<lambda>_. True)"
  by (intro reads_if reads_mret reads_mbind [OF reads_file_len_path]) auto

text \<open>Without an initializing witness nothing is written, and success means a committed view.\<close>

lemma reads_resume:
  assumes dir: "dir \<noteq> []"
    and c: "c \<Longrightarrow> openable s dir \<and> accepts_profile P prof \<and> (\<exists>snap. view S s dir snap)"
    and wit: "\<And>q bs w. opened s dir PUBLISH_FILE_NAME q \<Longrightarrow> inode_data s q = Some bs \<Longrightarrow> PublishWitness_decode S bs = Inr w \<Longrightarrow>
      \<not> is_initializing w"
  shows "reads c s (resume_or_validate_existing S D P dir prof) (\<lambda>_. \<exists>snap. view S s dir snap)"
  unfolding resume_or_validate_existing_def Let_def
  apply (rule reads_mbind [OF reads_open_private_read_file [OF dir]])
  subgoal using c by (simp add: openable_def)
  apply (rule reads_mbind [OF reads_require_same_profile])
  subgoal using c by simp
  apply (rule reads_mbind [OF reads_read_commit_point])
  subgoal using c by (auto simp: view_def dest!: opened_data)
  apply (rule reads_mbind [OF reads_open_private_existing(1) [OF dir]])
  subgoal using c by (simp add: openable_def)
  apply (rule reads_mbind [OF reads_require_same_profile])
  subgoal using c by simp
  apply (rule reads_mbind [OF reads_read_publish_witness])
  subgoal using c by (auto simp: view_def dest!: opened_data)
  apply (rule reads_if)
  subgoal using wit by blast
  apply (rule reads_if)
  subgoal premises prems for cf u pt q u' w
  proof -
    have nc: "\<not> c"
    proof
      assume c
      then obtain snap where "view S s dir snap" using c by blast
      then have "w = clean (generation (point snap))" using prems opened_data by (fastforce simp: view_def)
      with prems show False by simp
    qed
    show ?thesis
      by (intro reads_mbind [OF reads_mlift [where A = "\<lambda>_. True"]] reads_mbind [OF reads_mmap_err [OF reads_open_private_read_file [OF dir]]]
          reads_mbind [OF reads_mmap_err [OF reads_require_same_profile]] reads_mbind [OF reads_validate_prepared] reads_mfail)
        (use nc in auto)
  qed
  unfolding read_snapshot_def
  apply (rule reads_mbind [OF reads_read_snapshot [OF dir]])
  subgoal using c by blast
  by (rule reads_mret) blast

text \<open>A committed store after \<open>resume_or_validate_existing\<close>: its entries are committed as before.\<close>

lemma steps_resume:
  fixes S :: "('s, 'b) StoreSerde_scheme"
  assumes s0: "idle S False a dir d j p es s0"
  shows "steps False (\<lambda>s. s = s0) (resume_or_validate_existing S D P dir prof)
    (\<lambda>_. idle S False a dir d j p es) (\<lambda>_. idle S False a dir d j p es)"
    (is "steps False ?A _ ?B ?E")
proof -
  have f: "framed False a dir d j p s0" using s0 by (simp add: idle_def)
  note dir = framed_names(1) [OF f]
  have E: "?E e s0" for e using s0 .
  note rb = steps_reads_bind [where E = ?E and B = ?B and c = False and ?s0.0 = s0, OF _ _ E]
  show ?thesis
  proof (cases "\<exists>bs w. inode_data s0 p = Some bs \<and> PublishWitness_decode S bs = Inr w \<and> is_initializing w")
    case False
    have "reads False s0 (resume_or_validate_existing S D P dir prof) (\<lambda>_. \<exists>snap. view S s0 dir snap)"
      by (rule reads_resume [OF dir]) (use f False in \<open>auto simp: framed_def dest: opened_unique\<close>)
    from steps_keep [where A = ?A and R = "\<lambda>_ _. \<exists>snap. view S s0 dir snap" and E = ?E and c = False] this s0 show ?thesis
      by (intro steps_weaken [OF steps_keep [where A = ?A and R = "\<lambda>_ _. \<exists>snap. view S s0 dir snap" and E = ?E and c = False]]) auto
  next
    case True
    show ?thesis
      unfolding resume_or_validate_existing_def Let_def
      apply (rule rb [OF reads_open_private_read_file [OF dir]], simp)
      apply (rule rb [OF reads_require_same_profile], simp)
      apply (rule rb [OF reads_read_commit_point], simp)
      apply (rule rb [OF reads_open_private_existing(1) [OF dir]], simp)
      apply (rule rb [OF reads_require_same_profile], simp)
      apply (rule rb [OF reads_read_publish_witness], simp)
      subgoal premises prems for cf u pt q u' w
      proof -
        have q: "q = p" using prems f by (auto simp: framed_def dest: opened_unique)
        then have w: "is_initializing w" using prems True by auto
        show ?thesis
          unfolding q if_P [OF w]
          apply (rule rb [OF reads_nonempty_check [OF dir]])
          apply (rule steps_if)
           apply (rule steps_mfail; use s0 in simp)
          by (rule steps_weaken [OF steps_complete_initialization [OF dir]]) (use s0 in auto)
      qed
      done
  qed
qed

section \<open>Opening an existing store\<close>

lemma reads_ensure_existing:
  assumes "entry_at s dir \<noteq> None" "c \<Longrightarrow> private_dir s dir \<and> good_profile P"
  shows "reads c s (ensure_state_directory D P dir) (\<lambda>prof. good_profile P \<longrightarrow> accepts_profile P prof)"
  unfolding ensure_state_directory_def
  apply (rule reads_mbind [OF reads_path_entry_exists])
  apply (rule reads_if)
   apply (rule reads_mbind [OF reads_open_existing_private_dir])
  subgoal using assms(2) by simp
   apply (rule reads_qualify_directory)
  subgoal using assms(2) by simp
  using assms(1) by simp

definition locked :: "nat \<Rightarrow> System \<Rightarrow> System" where
  "locked l s = s\<lparr>locks := (locks s)(l := Exclusive)\<rparr>"

lemma release_locked [simp]: "locks s l = Unlocked \<Longrightarrow> release_lock l (locked l s) = s"
  by (simp add: release_lock_def locked_def fun_upd_idem)

lemma locked_files [simp]:
  "opened (locked l s) dir = opened s dir" "idle S c a dir d j p es (locked l s) = idle S c a dir d j p es s"
  "at_rest S (locked l s) dir es = at_rest S s dir es" "stuck S (locked l s) dir = stuck S s dir" "openable (locked l s) dir = openable s dir"
  "entry_at (locked l s) = entry_at s" "private_dir (locked l s) dir = private_dir s dir"
  "data_at (locked l s) = data_at s" "locks (locked l s) l = Exclusive"
  by (simp_all add: locked_def)

lemma steps_try_lock:
  assumes "c \<Longrightarrow> locks s0 l = Unlocked" "\<And>e. E e s0"
  shows "steps c (\<lambda>s. s = s0) (acquire_exclusive l) (\<lambda>x s. x = l \<and> locks s0 l = Unlocked \<and> s = locked l s0) E"
  unfolding acquire_exclusive_def sys_try_lock_def
  by (intro steps_mbind [where R = "\<lambda>_ s. locks s0 l = Unlocked \<and> s = locked l s0"] steps_mmap_err steps_mret steps_syscall)
    (use assms in \<open>auto simp: locked_def split: if_splits\<close>)

lemma steps_open_existing:
  fixes S :: "('s, 'b) StoreSerde_scheme"
  assumes dir: "dir \<noteq> []" "entry_at s0 dir \<noteq> None" "entry_at s0 (join_path dir JOURNAL_FILE_NAME) \<noteq> None"
    "entry_at s0 (join_path dir PUBLISH_FILE_NAME) \<noteq> None"
    and c: "c \<Longrightarrow> openable s0 dir \<and> good_profile P \<and> good_hooks D \<and> (\<forall>l. opened s0 dir LOCK_FILE_NAME l \<longrightarrow> locks s0 l = Unlocked) \<and>
      (\<exists>snap. view S s0 dir snap)"
    and go: "\<And>l prof. opened s0 dir LOCK_FILE_NAME l \<Longrightarrow> locks s0 l = Unlocked \<Longrightarrow> (c \<Longrightarrow> accepts_profile P prof) \<Longrightarrow>
      steps c (\<lambda>s. s = locked l s0) (resume_or_validate_existing S D P dir prof) (\<lambda>_. B l) (\<lambda>e s. E e (release_lock l s))"
    and E: "\<And>e. E e s0"
  shows "steps c (\<lambda>s. s = s0) (open_with_ops S D P dir)
    (\<lambda>jn s. state_dir jn = dir \<and> opened s0 dir LOCK_FILE_NAME (lock_file jn) \<and> locks s0 (lock_file jn) = Unlocked \<and>
       B (lock_file jn) s) E"
    (is "steps c ?A _ ?B E")
proof -
  note rb = steps_reads_bind [where E = E and B = ?B and c = c and ?s0.0 = s0, OF _ _ E]
  have commit: "entry_at s0 (join_path dir COMMIT_FILE_NAME) \<noteq> None" "entry_at s0 (join_path dir LOCK_FILE_NAME) \<noteq> None" if c
    using c [OF that] by (auto simp: openable_def private_file_def)
  have inner: "steps c (\<lambda>s. s = locked l s0)
      (open_existing_or_initialize S D P dir prof l True True True) (\<lambda>_. B l) (\<lambda>e s. E e (release_lock l s))"
    if l: "opened s0 dir LOCK_FILE_NAME l" "locks s0 l = Unlocked" and pr: "c \<Longrightarrow> accepts_profile P prof" for l prof
  proof -
    have E': "E e (release_lock l (locked l s0))" for e using E l(2) by simp
    note rl = steps_reads_bind [where E = "\<lambda>e s. E e (release_lock l s)" and B = "\<lambda>_. B l" and c = c and ?s0.0 = "locked l s0", OF _ _ E']
    show ?thesis
      unfolding open_existing_or_initialize_def if_True simp_thms
      apply (rule steps_mbind [where R = "\<lambda>_ s. s = locked l s0"])
       apply (rule steps_mmap_err, rule steps_primitive)
      subgoal using c by simp
      subgoal using E' by simp
      apply (rule rl [OF reads_open_private_existing(2) [OF dir(1)]])
      subgoal using c by (simp add: openable_def private_file_opened)
      apply (rule rl [OF reads_require_same_profile])
      subgoal using pr .
      apply (rule rl [OF reads_open_private_read_file [OF dir(1)]])
      subgoal using c by (simp add: openable_def private_file_opened)
      apply (rule rl [OF reads_require_same_profile])
      subgoal using pr .
      apply (rule rl [OF reads_read_commit_point])
      subgoal using c by (auto simp: view_def dest!: opened_data) (use opened_data in \<open>fastforce simp: locked_def inode_data_def\<close>)
      by (rule go [OF l pr])
  qed
  have rest: "steps c (\<lambda>s. s = s0)
      (mbind (open_private_update_file D (join_path dir LOCK_FILE_NAME) False ''lock'') (\<lambda>f.
       mbind (require_same_profile P f prof) (\<lambda>_.
       mbind (acquire_exclusive f) (\<lambda>lock.
       with_lock lock
         (mbind (open_existing_or_initialize S D P dir prof lock True True True) (\<lambda>_.
          mret \<lparr>state_dir = dir, journal_path = join_path dir JOURNAL_FILE_NAME, lock_file = lock\<rparr>)))))) ?B E"
    if pr: "c \<Longrightarrow> accepts_profile P prof" for prof
    apply (rule rb [OF reads_open_private_existing(1) [OF dir(1)]])
    subgoal using c by (simp add: openable_def)
    apply (rule rb [OF reads_require_same_profile])
    subgoal using pr .
    subgoal for l
      apply (rule steps_mbind [OF steps_try_lock [where E = E]])
      subgoal using c by simp
      subgoal using E .
      subgoal for l'
        apply (rule steps_pure [where q = "l' = l \<and> locks s0 l = Unlocked"], simp)
        apply (erule conjE, hypsubst)
        apply (rule steps_with_lock)
        apply (rule steps_mbind [where R = "\<lambda>_. B l"])
         apply (rule steps_weaken [OF inner [of l prof]])
        by (auto intro!: steps_mret pr)
      done
    done
  show ?thesis
    unfolding open_with_ops_def Let_def
    apply (rule rb [OF reads_ensure_existing [OF dir(2)]])
    subgoal using c by (simp add: openable_def)
    apply (rule rb [OF reads_path_entry_exists])
    apply (rule rb [OF reads_path_entry_exists])
    apply (rule rb [OF reads_path_entry_exists])
    apply (rule rb [OF reads_path_entry_exists])
    subgoal premises prems for prof le je ce pe
    proof (cases "le \<and> ce")
      case True
      then have "je" "pe" "le" "ce" "c \<Longrightarrow> accepts_profile P prof" using prems dir c by auto
      then show ?thesis using rest by simp
    next
      case False
      then have "\<not> c" "je" "pe" using commit prems dir by auto
      with False show ?thesis by (auto intro!: steps_mfail E)
    qed
    done
qed

lemma framed_present:
  assumes "framed c a dir d j p s"
  shows "entry_at s dir \<noteq> None" "entry_at s (join_path dir JOURNAL_FILE_NAME) \<noteq> None" "entry_at s (join_path dir PUBLISH_FILE_NAME) \<noteq> None"
  using assms by (auto simp: framed_def opened_def)

text \<open>A committed store stays committed, a PREPARED store refuses and is left alone, and a store at rest
  opens and only its lock changes.\<close>

lemma steps_open_committed:
  assumes "idle S False a dir d j p es s0"
  shows "steps False (\<lambda>s. s = s0) (open_with_ops S D P dir)
    (\<lambda>jn s. state_dir jn = dir \<and> idle S False a dir d j p es s) (\<lambda>_. idle S False a dir d j p es)"
proof -
  have f: "framed False a dir d j p s0" using assms by (simp add: idle_def)
  have "steps False (\<lambda>s. s = s0) (open_with_ops S D P dir)
    (\<lambda>jn s. state_dir jn = dir \<and> opened s0 dir LOCK_FILE_NAME (lock_file jn) \<and> locks s0 (lock_file jn) = Unlocked \<and>
      idle S False a dir d j p es s) (\<lambda>_. idle S False a dir d j p es)"
    by (rule steps_open_existing [where B = "\<lambda>_. idle S False a dir d j p es", OF framed_names(1) [OF f] framed_present [OF f]])
      (use assms in \<open>auto simp: release_lock_files intro!: steps_resume\<close>)
  then show ?thesis by (rule steps_weaken) auto
qed

lemma steps_open_stuck:
  assumes laws: "store_serde_laws S" and st: "stuck S s0 dir" and f: "framed False a dir d j p s0"
  shows "steps False (\<lambda>s. s = s0) (open_with_ops S D P dir) (\<lambda>_ _. False) (\<lambda>_ s. s = s0)"
proof -
  note dir = framed_names(1) [OF f]
  have no: "steps False (\<lambda>s. s = locked l s0) (resume_or_validate_existing S D P dir prof) (\<lambda>_ _. False) (\<lambda>_ s. s = locked l s0)" for l prof
  proof -
    have "reads False (locked l s0) (resume_or_validate_existing S D P dir prof) (\<lambda>_. \<exists>snap. view S (locked l s0) dir snap)"
      by (rule reads_resume [OF dir]) (use stuck_witness(1) [OF laws, of "locked l s0" dir] st in auto)
    then show ?thesis
      by (intro steps_reads [where R = "\<lambda>_ _. \<exists>snap. view S (locked l s0) dir snap"])
        (use view_not_stuck [OF laws, of "locked l s0" dir] st in auto)
  qed
  have "steps False (\<lambda>s. s = s0) (open_with_ops S D P dir)
    (\<lambda>jn s. state_dir jn = dir \<and> opened s0 dir LOCK_FILE_NAME (lock_file jn) \<and> locks s0 (lock_file jn) = Unlocked \<and> False)
    (\<lambda>_ s. s = s0)"
    by (rule steps_open_existing [where B = "\<lambda>_ _. False", OF dir framed_present [OF f]])
      (auto intro!: steps_weaken [OF no])
  then show ?thesis by (rule steps_weaken) auto
qed

lemma steps_open_at_rest:
  assumes laws: "store_serde_laws S" and r: "at_rest S s0 dir es" and f: "framed True a dir d j p s0"
    and g: "good_profile P" "good_hooks D" "opened s0 dir LOCK_FILE_NAME l" "locks s0 l = Unlocked"
  shows "steps True (\<lambda>s. s = s0) (open_with_ops S D P dir)
    (\<lambda>jn s. state_dir jn = dir \<and> lock_file jn = l \<and> s = locked l s0) (\<lambda>_ _. False)"
proof -
  note dir = framed_names(1) [OF f]
  have v: "\<exists>snap. view S s0 dir snap" using view_at_rest [OF laws r] by blast
  have o: "openable s0 dir" using f by (simp add: framed_def)
  have vl: "view S (locked k s0) dir snap = view S s0 dir snap" for k snap by (simp add: view_def)
  have "steps True (\<lambda>s. s = locked k s0) (resume_or_validate_existing S D P dir prof) (\<lambda>_ s. s = locked k s0) (\<lambda>_ _. True)"
    if "accepts_profile P prof" for k prof
  proof -
    have "reads True (locked k s0) (resume_or_validate_existing S D P dir prof) (\<lambda>_. \<exists>snap. view S (locked k s0) dir snap)"
    proof (rule reads_resume [OF dir])
      fix q bs w assume "opened (locked k s0) dir PUBLISH_FILE_NAME q" "inode_data (locked k s0) q = Some bs" "PublishWitness_decode S bs = Inr w"
      moreover obtain snap where "view S (locked k s0) dir snap" using v vl by blast
      ultimately have "w = clean (generation (point snap))" using opened_data by (fastforce simp: view_def)
      then show "\<not> is_initializing w" by simp
    qed (use o v vl that in auto)
    then show ?thesis by (intro steps_reads [where R = "\<lambda>_ _. \<exists>snap. view S (locked k s0) dir snap"]) auto
  qed
  then have "steps True (\<lambda>s. s = s0) (open_with_ops S D P dir)
    (\<lambda>jn s. state_dir jn = dir \<and> opened s0 dir LOCK_FILE_NAME (lock_file jn) \<and> locks s0 (lock_file jn) = Unlocked \<and>
      s = locked (lock_file jn) s0) (\<lambda>_ _. True)"
    by (intro steps_open_existing [where B = "\<lambda>k s. s = locked k s0", OF dir framed_present [OF f]])
      (use g o v in \<open>auto dest: opened_unique\<close>)
  then show ?thesis
    unfolding steps_def by (rule triple_weaken) (use g(3) in \<open>auto dest: opened_unique\<close>)
qed

section \<open>The reader\<close>

lemma steps_acquire_shared:
  assumes "\<And>e. E e s0"
  shows "steps False (\<lambda>s. s = s0) (acquire_shared l) (\<lambda>x s. x = l \<and> locks s0 l \<noteq> Exclusive \<and> (\<exists>k. s = s0\<lparr>locks := k\<rparr>)) E"
  unfolding acquire_shared_def sys_try_lock_shared_def
  by (intro steps_mbind [where R = "\<lambda>_ s. locks s0 l \<noteq> Exclusive \<and> (\<exists>k. s = s0\<lparr>locks := k\<rparr>)"] steps_mmap_err steps_mret steps_syscall)
    (use assms in \<open>auto split: LockState.splits\<close>)

lemma reads_require_existing_path: "reads False s (require_existing_path q label) (\<lambda>_. entry_at s q \<noteq> None)"
  unfolding require_existing_path_def
  by (rule reads_mbind [OF reads_path_entry_exists]) (auto intro!: reads_if reads_mret reads_mfail)

text \<open>Opening the reader changes no file, whatever it finds, and nothing at all when it fails.\<close>

lemma steps_reader_open:
  assumes dir: "dir \<noteq> []"
  shows "steps False (\<lambda>s. s = s0) (reader_open_with_profile S P dir)
    (\<lambda>jn s. state_dir jn = dir \<and> opened s0 dir LOCK_FILE_NAME (lock_file jn) \<and> locks s0 (lock_file jn) \<noteq> Exclusive \<and>
       (\<exists>k. s = s0\<lparr>locks := k\<rparr>)) (\<lambda>_ s. s = s0)"
    (is "steps False _ _ ?B ?E")
proof -
  note rb = steps_reads_bind [where E = ?E and B = ?B and c = False and ?s0.0 = s0, OF _ _ refl]
  show ?thesis
    unfolding reader_open_with_profile_def
    apply (rule rb [OF reads_open_existing_private_dir], simp)
    apply (rule rb [OF reads_qualify_directory], simp)
    apply (rule rb [OF reads_require_existing_path])
    apply (rule rb [OF reads_require_existing_path])
    apply (rule rb [OF reads_require_existing_path])
    apply (rule rb [OF reads_open_private_read_file [OF dir]], simp)
    apply (rule rb [OF reads_require_same_profile], simp)
    apply (rule rb [OF reads_open_private_read_file [OF dir]], simp)
    apply (rule rb [OF reads_require_same_profile], simp)
    apply (rule rb [OF reads_open_private_read_file [OF dir]], simp)
    apply (rule rb [OF reads_require_same_profile], simp)
    apply (rule rb [OF reads_read_commit_point], simp)
    apply (rule rb [OF reads_require_existing_path])
    apply (rule rb [OF reads_open_private_read_file [OF dir]], simp)
    apply (rule rb [OF reads_require_same_profile], simp)
    apply (rule steps_mbind [OF steps_acquire_shared], simp)
    by (rule steps_mret) auto
qed

section \<open>The engine's journal between opens\<close>

text \<open>Opening and closing, under every fault script, keep the invariant and the committed entries of a
  store that exists.\<close>

lemma jsonl_open:
  assumes laws: "store_serde_laws S" and inv: "jsonl_invar S dir w" and run: "open_with_ops S D P dir w = (r, w')"
  shows "jsonl_invar S dir w'" "jsonl_entries S dir w' = jsonl_entries S dir w" "r = Inr jn \<Longrightarrow> state_dir jn = dir"
proof -
  obtain d j p es where f: "framed False False dir d j p (system w)"
    and s: "committed S (system w) dir es \<or> stuck S (system w) dir \<and> shows_entries S (system w) dir es"
    using inv by (auto simp: jsonl_invar_def)
  have "jsonl_invar S dir w' \<and> jsonl_entries S dir w' = jsonl_entries S dir w \<and> (\<forall>jn. r = Inr jn \<longrightarrow> state_dir jn = dir)"
  proof (cases "committed S (system w) dir es")
    case True
    then have i: "idle S False False dir d j p es (system w)" using f by (simp add: idle_def)
    note st = steps_run [OF steps_open_committed [OF i] refl _ run]
    have i': "idle S False False dir d j p es (system w')" using st by (cases r) auto
    then have "committed S (system w') dir es" by (simp add: idle_def)
    with True have "jsonl_entries S dir w' = jsonl_entries S dir w"
      using shows_visible [OF laws committed_shows] by (simp add: jsonl_entries_def)
    moreover have "jsonl_invar S dir w'" using i' unfolding jsonl_invar_def idle_def by blast
    ultimately show ?thesis using st(1) by auto
  next
    case False
    with s have "stuck S (system w) dir" by blast
    note st = steps_run [OF steps_open_stuck [OF laws this f] refl _ run]
    have "system w' = system w \<and> (\<exists>e. r = Inl e)" using st by (cases r) auto
    then show ?thesis using inv jsonl_invar_system [of w' w] by auto
  qed
  then show "jsonl_invar S dir w'" "jsonl_entries S dir w' = jsonl_entries S dir w" "r = Inr jn \<Longrightarrow> state_dir jn = dir" by auto
qed

lemma jsonl_locks:
  "jsonl_invar S dir (w\<lparr>system := system w\<lparr>locks := k\<rparr>\<rparr>) = jsonl_invar S dir w"
  "jsonl_entries S dir (w\<lparr>system := system w\<lparr>locks := k\<rparr>\<rparr>) = jsonl_entries S dir w"
  by (simp_all add: jsonl_invar_def jsonl_entries_def)

lemma jsonl_drop_lock [simp]:
  "jsonl_invar S dir (drop_lock f w) = jsonl_invar S dir w" "jsonl_entries S dir (drop_lock f w) = jsonl_entries S dir w"
  by (simp_all add: drop_lock_def release_lock_def jsonl_locks)

lemma jsonl_reader_open:
  assumes inv: "jsonl_invar S dir w" and run: "reader_open_with_profile S P dir w = (r, w')"
  shows "jsonl_invar S dir w'" "jsonl_entries S dir w' = jsonl_entries S dir w" "r = Inr jn \<Longrightarrow> state_dir jn = dir"
proof -
  have dir: "dir \<noteq> []" using inv by (auto simp: jsonl_invar_def dest: framed_names(1))
  note st = steps_run [OF steps_reader_open [OF dir] refl _ run]
  have "\<exists>k. system w' = system w\<lparr>locks := k\<rparr>" using st by (cases r) (auto intro: exI [of _ "locks (system w)"])
  then obtain k where k: "system w' = system (w\<lparr>system := system w\<lparr>locks := k\<rparr>\<rparr>)" by auto
  show "jsonl_invar S dir w'" "jsonl_entries S dir w' = jsonl_entries S dir w"
    using inv by (simp_all add: jsonl_invar_system [OF k] jsonl_locks)
  show "r = Inr jn \<Longrightarrow> state_dir jn = dir" using st(1) by simp
qed

section \<open>Exclusion\<close>

lemma bind_run:
  assumes "reads True (system w) m R" "faults w = []"
    "\<And>x w'. R x \<Longrightarrow> system w' = system w \<Longrightarrow> faults w' = [] \<Longrightarrow> Q (f x w')"
  shows "Q (mbind m f w)"
  by (rule reads_run_calm [OF assms(1,2)]) (simp add: mbind_def assms(3))

text \<open>C22: The ownership lock excludes. While the lock file of an existing store is locked, opening a
  writer fails under every fault script and changes nothing; without faults it fails with the locked
  error. While it is locked exclusively, the same holds of opening a reader, which never changes a
  file.\<close>

theorem lock_excludes:
  assumes "framed True a dir d j p (system w)" "opened (system w) dir LOCK_FILE_NAME l" "locks (system w) l \<noteq> Unlocked"
    "open_with_ops S D P dir w = (r, w')" "reader_open_with_profile S P dir w = (q, w'')"
  shows "(\<exists>e. r = Inl e) \<and> system w' = system w \<and>
    (faults w = [] \<and> good_profile P \<longrightarrow> r = Inl Locked) \<and>
    (locks (system w) l = Exclusive \<longrightarrow> (\<exists>e. q = Inl e) \<and> system w'' = system w)"
proof -
  note f = framed_weaken [OF assms(1)] and dir = framed_names(1) [OF assms(1)]
  have "steps False (\<lambda>s. s = system w) (open_with_ops S D P dir)
      (\<lambda>jn s. state_dir jn = dir \<and> opened (system w) dir LOCK_FILE_NAME (lock_file jn) \<and> locks (system w) (lock_file jn) = Unlocked \<and> True)
      (\<lambda>_ s. s = system w)"
    by (rule steps_open_existing [where B = "\<lambda>_ _. True", OF dir framed_present [OF f]])
      (use assms(2,3) in \<open>auto dest: opened_unique\<close>)
  from steps_run [OF this refl _ assms(4)] have writer: "(\<exists>e. r = Inl e) \<and> system w' = system w"
    using assms(2,3) by (cases r) (auto dest: opened_unique)
  from steps_run [OF steps_reader_open [OF dir] refl _ assms(5)]
  have reader: "(\<exists>e. q = Inl e) \<and> system w'' = system w" if "locks (system w) l = Exclusive"
    using assms(2) that by (cases q) (auto dest: opened_unique)
  have o: "openable (system w) dir" "private_dir (system w) dir" "private_file (system w) dir LOCK_FILE_NAME"
    using assms(1) by (auto simp: framed_def openable_def)
  have calm: "r = Inl Locked" if g: "good_profile P" and c: "faults w = []"
  proof -
    have "fst (open_with_ops S D P dir w) = Inl Locked"
      unfolding open_with_ops_def Let_def
      apply (rule bind_run [OF reads_ensure_existing [OF framed_present(1) [OF f]] c])
      subgoal using o g by simp
      apply (rule bind_run [OF reads_path_entry_exists], assumption)
      apply (rule bind_run [OF reads_path_entry_exists], assumption)
      apply (rule bind_run [OF reads_path_entry_exists], assumption)
      apply (rule bind_run [OF reads_path_entry_exists], assumption)
      subgoal premises prems for prof w1 le w2 je w3 ce w4 pe w5
      proof -
        have e: "le" "je" "ce" "pe" using prems framed_present [OF f] o(1) by (auto simp: openable_def private_file_def)
        have s: "system w5 = system w" using prems by simp
        show ?thesis
          unfolding e [THEN eqTrueI] simp_thms if_False not_True_eq_False
          apply (rule bind_run [OF reads_open_private_existing(1) [OF dir]])
          subgoal using o s by simp
          subgoal using prems by simp
          apply (rule bind_run [OF reads_require_same_profile])
          subgoal using prems g by simp
          subgoal by assumption
          subgoal premises pr for k w6 u w7
          proof -
            have "k = l" using pr(1) assms(2) s by (auto dest: opened_unique)
            moreover have "locks (system w7) l \<noteq> Unlocked" "faults w7 = []" using pr s assms(3) by auto
            ultimately show ?thesis
              by (simp add: mbind_def mmap_err_def acquire_exclusive_def sys_try_lock_def syscall_def)
          qed
          done
      qed
      done
    with assms(4) show ?thesis by simp
  qed
  show ?thesis using writer reader calm by blast
qed

theorem lock_excludes_witness:
  "\<exists>w'. open_with_ops example_store_serde ProductionDurability (ProductionProfile example_system) [''d'']
     (example_world\<lparr>system := locked 1 example_files\<rparr>) = (Inl Locked, w')"
proof -
  let ?w = "example_world\<lparr>system := locked 1 example_files\<rparr>"
  obtain r w' where r: "open_with_ops example_store_serde ProductionDurability (ProductionProfile example_system) [''d''] ?w = (r, w')"
    by fastforce
  obtain q w'' where q: "reader_open_with_profile example_store_serde (ProductionProfile example_system) [''d''] ?w = (q, w'')"
    by fastforce
  have "framed True True [''d''] 0 2 4 (system ?w)" "opened (system ?w) [''d''] LOCK_FILE_NAME 1" "locks (system ?w) 1 \<noteq> Unlocked"
    using example_framed example_opened(1) by (simp_all add: locked_def)
  from lock_excludes [OF this r q] have "r = Inl Locked"
    by (simp add: example_world_def example_good_profile)
  with r show ?thesis by blast
qed

end
