(* ===== verification/Store_Init.thy ===== *)
theory Store_Init
  imports Store_Open
begin

text \<open>
  Initializing a store (\<^verbatim>\<open>ensure_state_directory\<close>, \<^verbatim>\<open>initialize_fresh_store\<close> and \<^verbatim>\<open>initialize_witness\<close> of
  \<^verbatim>\<open>journal.rs\<close>) under every pattern of faults, hook failures and power losses. \<open>staged\<close> says which of
  the reserved names of the state directory are bound; the phases are what the initialization has
  made durable so far, and \<open>harmless\<close> is what each of them has in common: no reader can find an entry.
\<close>

section \<open>A state directory under construction\<close>

definition reserved :: "string set" where
  "reserved = {LOCK_FILE_NAME, JOURNAL_FILE_NAME, COMMIT_FILE_NAME, PUBLISH_FILE_NAME, COMMIT_TEMP_FILE_NAME}"

lemma reserved_names [simp]:
  "LOCK_FILE_NAME \<in> reserved" "JOURNAL_FILE_NAME \<in> reserved" "COMMIT_FILE_NAME \<in> reserved"
  "PUBLISH_FILE_NAME \<in> reserved" "COMMIT_TEMP_FILE_NAME \<in> reserved"
  by (simp_all add: reserved_def)

text \<open>The reserved names are bound as \<open>F\<close> says; under \<open>c\<close> directory and files can be opened by the
  process, under \<open>a\<close> the directory is on stable storage.\<close>

definition staged :: "bool \<Rightarrow> bool \<Rightarrow> Path \<Rightarrow> nat \<Rightarrow> (string \<Rightarrow> nat option) \<Rightarrow> System \<Rightarrow> bool" where
  "staged c a dir d F s \<longleftrightarrow>
     layout s dir \<and> (\<exists>n. entry_at s dir = Some (d, n) \<and> i_kind n = Directory) \<and>
     (\<forall>n \<in> reserved. vis s (join_path dir n) = F n \<and> F n \<noteq> Some d) \<and>
     (c \<longrightarrow> private_dir s dir \<and> proc_uid s = owner_of s dir \<and> (\<forall>n \<in> reserved. F n \<noteq> None \<longrightarrow> private_file s dir n)) \<and>
     (a \<longrightarrow> dur s dir = Some d \<and> (\<exists>n. inodes s d = Some n \<and> i_clean n))"

lemma staged_weaken: "staged c a dir d F s \<Longrightarrow> staged False a dir d F s"
  by (simp add: staged_def)

lemma staged_dir: "staged c a dir d F s \<Longrightarrow> dir \<noteq> [] \<and> vis s dir = Some d"
  by (auto simp: staged_def layout_def entry_at_vis)

lemma staged_vis: "staged c a dir d F s \<Longrightarrow> n \<in> reserved \<Longrightarrow> vis s (join_path dir n) = F n \<and> F n \<noteq> Some d"
  by (simp add: staged_def)

lemma staged_inode:
  assumes "staged c a dir d F s" "n \<in> reserved" "F n = Some f"
  shows "\<exists>m. inodes s f = Some m" "f < next_ino s"
proof -
  have "inodes s f \<noteq> None" using assms unfolding staged_def layout_def by metis
  then show "\<exists>m. inodes s f = Some m" "f < next_ino s" using assms by (auto simp: staged_def layout_def)
qed

lemma staged_inj:
  assumes "staged c a dir d F s" "n \<in> reserved" "m \<in> reserved" "F n = Some f" "F m = Some f"
  shows "n = m"
  using assms unfolding staged_def layout_def by metis

lemma staged_opened:
  assumes "staged c a dir d F s" c "n \<in> reserved" "F n = Some f" shows "opened s dir n f"
proof -
  have "private_file s dir n" "vis s (join_path dir n) = Some f" using assms by (auto simp: staged_def)
  then show ?thesis by (auto simp: private_file_def opened_def entry_at_vis)
qed

lemma staged_fresh:
  assumes "staged c a dir d F s"
  shows "inodes s (next_ino s) = None" "vis s (join_path dir n) \<noteq> Some (next_ino s)" "next_ino s \<noteq> d"
proof -
  have l: "layout s dir" using assms by (simp add: staged_def)
  then show new: "inodes s (next_ino s) = None" by (meson layout_def less_irrefl not_None_eq)
  then show "vis s (join_path dir n) \<noteq> Some (next_ino s)" using l unfolding layout_def by metis
  show "next_ino s \<noteq> d" using new assms by (auto simp: staged_def entry_at_vis)
qed

lemma staged_update:
  assumes "staged c a dir d F s" "keeps g" "n \<in> reserved" "F n = Some f"
  shows "staged c a dir d F (update_inode f g s)"
proof -
  have "f \<noteq> d" using assms by (auto simp: staged_def)
  then show ?thesis
    using assms by (auto simp: staged_def entry_at_update private_file_opened)
qed

lemma staged_settle:
  assumes "staged c a dir d F s" shows "staged c a dir d F (settle i s)"
proof -
  let ?u = "update_inode i (\<lambda>n. n\<lparr>i_clean := True\<rparr>) s"
  have k: "keeps (\<lambda>n. n\<lparr>i_clean := True\<rparr>)" by (simp add: keeps_def)
  note sf = same_files [of "settle i s" ?u, simplified]
  have "dur (settle i s) dir = Some d" if "dur s dir = Some d"
    using that assms by (simp add: dur_settle staged_dir)
  then show ?thesis
    using assms k by (auto simp: staged_def sf private_file_opened entry_at_vis)
qed

lemma staged_locks [simp]: "staged c a dir d F (s\<lparr>locks := l\<rparr>) = staged c a dir d F s"
  by (simp add: staged_def private_file_opened)

text \<open>A change of some names only: the others and the directory stay.\<close>

lemma staged_rebind:
  assumes s: "staged c a dir d F s" and l: "layout t dir" and p: "proc_uid t = proc_uid s" and du: "dur t dir = dur s dir"
    and ed: "entry_at t dir = entry_at s dir"
    and v: "\<And>n. n \<in> reserved \<Longrightarrow> vis t (join_path dir n) = G n \<and> G n \<noteq> Some d"
    and pf: "\<And>n. c' \<Longrightarrow> n \<in> reserved \<Longrightarrow> G n \<noteq> None \<Longrightarrow> private_file t dir n"
    and c: "c' \<Longrightarrow> c"
  shows "staged c' a dir d G t"
proof -
  have "owner_of t dir = owner_of s dir" "private_dir t dir = private_dir s dir"
    using ed by (simp_all add: owner_of_def private_dir_def)
  moreover have "inodes t d = inodes s d"
    using ed s by (auto simp: staged_def entry_at_def split: option.splits)
  ultimately show ?thesis
    using s l p du ed v pf c by (auto simp: staged_def)
qed

definition created :: "Path \<Rightarrow> string \<Rightarrow> System \<Rightarrow> System" where
  "created dir n s = update_inode (next_ino s) (set_mode mode_0600) (new_entry (join_path dir n) Regular mode_0600 s)"

lemma new_entry_simps:
  "vis (new_entry q k m s) = (vis s)(q \<mapsto> next_ino s)" "dur (new_entry q k m s) = dur s"
  "next_ino (new_entry q k m s) = Suc (next_ino s)" "proc_uid (new_entry q k m s) = proc_uid s"
  "locks (new_entry q k m s) = locks s"
  "i \<noteq> next_ino s \<Longrightarrow> inodes (new_entry q k m s) i = inodes s i"
  "inodes (new_entry q k m s) (next_ino s) =
     Some \<lparr>i_kind = k, i_dev = (case Option.bind (parent_ino s q) (inodes s) of None \<Rightarrow> 0 | Some n \<Rightarrow> i_dev n),
       i_uid = proc_uid s, i_nlink = 1, i_mode = creation_mode s m, i_data = [], i_clean = False\<rparr>"
  by (simp_all add: new_entry_def)

lemma created_simps:
  "vis (created dir n s) = (vis s)(join_path dir n \<mapsto> next_ino s)" "dur (created dir n s) = dur s"
  "next_ino (created dir n s) = Suc (next_ino s)" "proc_uid (created dir n s) = proc_uid s"
  "i \<noteq> next_ino s \<Longrightarrow> inodes (created dir n s) i = inodes s i"
  "inode_data (created dir n s) (next_ino s) = Some []"
  by (simp_all add: created_def new_entry_simps inode_data_def set_mode_def)

lemma staged_new:
  assumes s: "staged c a dir d F s" and n: "n \<in> reserved" "F n = None"
  shows "staged False a dir d (F(n \<mapsto> next_ino s)) (new_entry (join_path dir n) Regular mode_0600 s)" (is "staged _ _ _ _ ?G ?t")
    and "staged c a dir d (F(n \<mapsto> next_ino s)) (created dir n s)"
proof -
  note fresh = staged_fresh [OF s]
  have dv: "vis s dir = Some d" using staged_dir [OF s] by simp
  have l: "layout ?t dir"
    using s fresh by (auto simp: staged_def layout_def new_entry_simps less_Suc_eq split: if_splits) (auto simp: new_entry_def split: if_splits)
  have v: "vis ?t (join_path dir m) = ?G m \<and> ?G m \<noteq> Some d" if "m \<in> reserved" for m
    using that s fresh(3) by (auto simp: staged_def new_entry_simps)
  have e: "entry_at ?t q = entry_at s q" "entry_at (created dir n s) q = entry_at s q"
    if "q \<noteq> join_path dir n" "vis s q \<noteq> Some (next_ino s)" for q
    using that by (auto simp: entry_at_def created_simps new_entry_simps split: option.splits)
  note ed = e [OF join_path_simps(3)] and en = e [OF _ fresh(2)]
  show "staged False a dir d ?G ?t"
    by (rule staged_rebind [OF s l _ _ ed(1) v]) (use dv fresh in \<open>auto simp: new_entry_simps\<close>)
  have o: "owner_of (created dir n s) dir = owner_of s dir" using ed(2) dv fresh(3) by (simp add: owner_of_def)
  have lc: "layout (created dir n s) dir" using l by (simp add: created_def)
  show "staged c a dir d ?G (created dir n s)"
  proof (rule staged_rebind [OF s lc])
    show "vis (created dir n s) (join_path dir m) = ?G m \<and> ?G m \<noteq> Some d" if "m \<in> reserved" for m
      using v [OF that] by (simp add: created_simps new_entry_simps)
    fix m assume m: "c" "m \<in> reserved" "?G m \<noteq> None"
    show "private_file (created dir n s) dir m"
    proof (cases "m = n")
      case True
      have "entry_at (created dir n s) (join_path dir n) = Some (next_ino s, set_mode mode_0600 (the (inodes ?t (next_ino s))))"
        by (simp add: entry_at_def created_def new_entry_simps)
      then show ?thesis
        using m s True o by (auto simp: private_file_def private_inode_def new_entry_simps set_mode_def staged_def mode_0600_def)
    next
      case False
      then have "private_file s dir m" using m s by (auto simp: staged_def)
      then show ?thesis using en(2) [of m] False o by (simp add: private_file_def)
    qed
  qed (use dv fresh ed in \<open>auto simp: created_simps\<close>)
qed

lemma staged_rename:
  assumes s: "staged c a dir d F s" and f: "F COMMIT_TEMP_FILE_NAME = Some f"
  shows "staged c a dir d (F(COMMIT_TEMP_FILE_NAME := None, COMMIT_FILE_NAME \<mapsto> f))
    (rename_entry (join_path dir COMMIT_TEMP_FILE_NAME) (join_path dir COMMIT_FILE_NAME) s)" (is "staged _ _ _ _ ?G ?t")
proof -
  have vt: "vis s (join_path dir COMMIT_TEMP_FILE_NAME) = Some f" "f \<noteq> d" using s f by (auto simp: staged_def)
  have e: "entry_at ?t q = (if q = join_path dir COMMIT_FILE_NAME then entry_at s (join_path dir COMMIT_TEMP_FILE_NAME)
      else if q = join_path dir COMMIT_TEMP_FILE_NAME then None else entry_at s q)" for q
    by (simp add: entry_at_def rename_entry_def split: option.splits)
  have o: "owner_of ?t dir = owner_of s dir" by (simp add: owner_of_def e)
  have "layout s dir" using s by (simp add: staged_def)
  then have l: "layout ?t dir" by (auto simp: layout_def rename_entry_def split: if_splits)
  show ?thesis
  proof (rule staged_rebind [OF s l])
    show "vis ?t (join_path dir n) = ?G n \<and> ?G n \<noteq> Some d" if "n \<in> reserved" for n
      using that s vt by (auto simp: staged_def rename_entry_def)
    show "private_file ?t dir n" if "c" "n \<in> reserved" "?G n \<noteq> None" for n
    proof -
      have "private_file s dir (if n = COMMIT_FILE_NAME then COMMIT_TEMP_FILE_NAME else n)"
        using that s f by (auto simp: staged_def split: if_splits)
      then show ?thesis using that(3) o by (auto simp: private_file_def e split: if_splits)
    qed
  qed (auto simp: e, auto simp: rename_entry_def)
qed

section \<open>Creating and rewriting files\<close>

lemma steps_each: "(\<And>s0. A s0 \<Longrightarrow> steps c (\<lambda>s. s = s0) m B E) \<Longrightarrow> steps c A m B E"
  by (rule steps_weaken [OF steps_ex [where A = "\<lambda>s0 s. A s0 \<and> s = s0"]])
    (auto intro: steps_pure [where q = "A s0" for s0] steps_weaken)

lemma steps_new_private:
  fixes s0 F
  assumes s: "staged c a dir d F s0" and n: "n \<in> reserved" "F n = None" and D: "c \<Longrightarrow> good_hooks D"
    and E: "\<And>e. E e s0" "\<And>e. E e (new_entry (join_path dir n) Regular mode_0600 s0)" "\<And>e. E e (created dir n s0)"
  shows "steps c (\<lambda>s. s = s0) (open_private_writable (join_path dir n) True)
      (\<lambda>f s. f = next_ino s0 \<and> s = new_entry (join_path dir n) Regular mode_0600 s0) E"
    and "steps c (\<lambda>s. s = new_entry (join_path dir n) Regular mode_0600 s0) (primitive D x)
      (\<lambda>_ s. s = new_entry (join_path dir n) Regular mode_0600 s0) E"
    and "steps c (\<lambda>s. s = new_entry (join_path dir n) Regular mode_0600 s0)
      (normalize_private_file D (next_ino s0) art) (\<lambda>_ s. s = created dir n s0) E"
proof -
  have none: "vis s0 (join_path dir n) = None" using staged_vis [OF s n(1)] n(2) by simp
  show "steps c (\<lambda>s. s = s0) (open_private_writable (join_path dir n) True)
      (\<lambda>f s. f = next_ino s0 \<and> s = new_entry (join_path dir n) Regular mode_0600 s0) E"
    unfolding open_private_writable_def sys_open_writable_def if_True
    by (rule steps_syscall) (use E none staged_dir [OF s] in \<open>auto simp: create_entry_def parent_ino_def split: if_splits\<close>)
  show "steps c (\<lambda>s. s = new_entry (join_path dir n) Regular mode_0600 s0) (primitive D x)
      (\<lambda>_ s. s = new_entry (join_path dir n) Regular mode_0600 s0) E"
    by (rule steps_primitive [OF D]) (use E in auto)
  show "steps c (\<lambda>s. s = new_entry (join_path dir n) Regular mode_0600 s0)
      (normalize_private_file D (next_ino s0) art) (\<lambda>_ s. s = created dir n s0) E"
    unfolding normalize_private_file_def sys_fchmod_def
    by (rule steps_mbind [where R = "\<lambda>_ s. s = created dir n s0", OF steps_effect steps_primitive [OF D]])
      (use E in \<open>auto simp: created_def\<close>)
qed

lemma reads_created:
  assumes s: "staged c a dir d F s0" and n: "n \<in> reserved" "F n = None"
  shows "reads c (created dir n s0) (check_opened_private_file (next_ino s0) (owner_of s0 dir) None) (\<lambda>_. True)"
proof -
  have "opened (created dir n s0) dir n (next_ino s0)" if c
    by (rule staged_opened [OF staged_new(2) [OF s n] that n(1)]) simp
  moreover have "owner_of (created dir n s0) dir = owner_of s0 dir"
    using staged_dir [OF s] staged_fresh(3) [OF s] by (auto simp: owner_of_def entry_at_def created_simps split: option.splits)
  ultimately show ?thesis
    by (intro reads_weaken [OF reads_check_opened_private_file]) (auto simp: opened_def entry_at_vis)
qed

lemma steps_create_private:
  fixes s0 F
  assumes s: "staged c a dir d F s0" and n: "n \<in> reserved" "F n = None" and D: "c \<Longrightarrow> good_hooks D"
    and E: "\<And>e. E e s0" "\<And>e. E e (new_entry (join_path dir n) Regular mode_0600 s0)" "\<And>e. E e (created dir n s0)"
  shows "steps c (\<lambda>s. s = s0) (open_private_writable_file D (join_path dir n) True art)
    (\<lambda>f s. f = next_ino s0 \<and> s = created dir n s0) E" (is "steps c ?A _ ?B E")
proof -
  let ?t = "new_entry (join_path dir n) Regular mode_0600 s0"
  note dir = staged_dir [OF s]
  have none: "entry_at s0 (join_path dir n) = None"
    using staged_vis [OF s n(1)] n(2) by (simp add: entry_at_def)
  note rb = steps_reads_bind [where E = E and B = ?B and c = c and ?s0.0 = s0, OF _ _ E(1)]
  have new: "steps c ?A (open_private_writable (join_path dir n) True) (\<lambda>f s. f = next_ino s0 \<and> s = ?t) (\<lambda>e. E (g e))"
    "steps c (\<lambda>s. s = ?t) (primitive D x) (\<lambda>_ s. s = ?t) (\<lambda>e. E (g e))"
    "steps c (\<lambda>s. s = ?t) (normalize_private_file D (next_ino s0) art) (\<lambda>_ s. s = created dir n s0) (\<lambda>e. E (g e))" for g x art
    using steps_new_private [where E = "\<lambda>e. E (g e)", OF s n D E] by auto
  have fin: "steps c (\<lambda>s. s = created dir n s0) (mbind (check_opened_private_file (next_ino s0) (owner_of s0 dir) None) (\<lambda>_. mret (next_ino s0))) ?B E"
    by (rule steps_reads_bind [OF reads_created [OF s n]]) (use E in \<open>auto intro!: steps_mret\<close>)
  show ?thesis
    unfolding open_private_writable_file_def if_True
    apply (rule rb [OF reads_private_parent_owner])
    subgoal using dir by simp
    subgoal using s by (simp add: staged_def)
    apply (rule steps_mbind [where R = "\<lambda>x s. x = None \<and> s = s0"])
     apply (rule steps_reads_bind [OF reads_path_entry_exists])
      apply (simp add: none steps_mret)
     apply (rule E)
    apply (rule steps_pure [where q = "x = None" for x], simp)
    apply (rule steps_weaken [where A' = ?A], rule steps_mbind [OF steps_mmap_err [OF new(1)]])
       apply (rule steps_pure [where q = "x = next_ino s0" for x], simp)
       apply (rule steps_mbind [where R = "\<lambda>_ s. s = created dir n s0"])
        apply (rule steps_mbind [where R = "\<lambda>_ s. s = ?t"])
         apply (rule steps_weaken [OF steps_mmap_err [OF new(2)]], simp, simp, assumption)
        apply (simp, rule steps_mmap_err [OF new(3)])
    using fin by simp_all
qed

text \<open>The replacement of a temporary file that is not there.\<close>

lemma steps_replace_fresh:
  fixes s0 F
  assumes s: "staged c a dir d F s0" and n: "n \<in> reserved" "F n = None" and D: "c \<Longrightarrow> good_hooks D"
    and E: "\<And>e. E e s0" "\<And>e. E e (new_entry (join_path dir n) Regular mode_0600 s0)" "\<And>e. E e (created dir n s0)"
  shows "steps c (\<lambda>s. s = s0) (open_private_replace_file D (join_path dir n))
    (\<lambda>f s. f = next_ino s0 \<and> s = created dir n s0) E" (is "steps c ?A _ ?B E")
proof -
  let ?t = "new_entry (join_path dir n) Regular mode_0600 s0"
  note dir = staged_dir [OF s]
  have none: "entry_at s0 (join_path dir n) = None"
    using staged_vis [OF s n(1)] n(2) by (simp add: entry_at_def)
  note rb = steps_reads_bind [where E = E and B = ?B and c = c and ?s0.0 = s0, OF _ _ E(1)]
  have new: "steps c ?A (open_private_writable (join_path dir n) True) (\<lambda>f s. f = next_ino s0 \<and> s = ?t) (\<lambda>e. E (g e))"
    "steps c (\<lambda>s. s = ?t) (primitive D x) (\<lambda>_ s. s = ?t) (\<lambda>e. E (g e))"
    "steps c (\<lambda>s. s = ?t) (normalize_private_file D (next_ino s0) art) (\<lambda>_ s. s = created dir n s0) (\<lambda>e. E (g e))" for g x art
    using steps_new_private [where E = "\<lambda>e. E (g e)", OF s n D E] by auto
  have rep: "steps c ?A (mmap_err g (replace_private_writable D (join_path dir n) False art)) ?B E" for g art
    unfolding replace_private_writable_def if_False
    apply (rule steps_mmap_err)
    apply (rule steps_mbind [where R = "\<lambda>_. ?A"], rule steps_mret, assumption)
    apply (rule steps_mbind [OF new(1)])
    apply (rule steps_pure [where q = "x = next_ino s0" for x], simp)
    apply (rule steps_mbind [where R = "\<lambda>_ s. s = ?t"], rule steps_weaken [OF new(2)], simp, simp, assumption)
    apply (rule steps_mbind [where R = "\<lambda>_ s. s = created dir n s0"], simp, rule new(3))
    by (rule steps_mret) simp
  have fin: "steps c (\<lambda>s. s = created dir n s0) (mbind (check_opened_private_file (next_ino s0) (owner_of s0 dir) None) (\<lambda>_. mret (next_ino s0))) ?B E"
    by (rule steps_reads_bind [OF reads_created [OF s n]]) (use E in \<open>auto intro!: steps_mret\<close>)
  show ?thesis
    unfolding open_private_replace_file_def
    apply (rule rb [OF reads_private_parent_owner])
    subgoal using dir by simp
    subgoal using s by (simp add: staged_def)
    apply (rule rb [OF reads_path_entry_exists])
    apply (simp add: none)
    apply (rule steps_mbind [where R = "\<lambda>_. ?A"], rule steps_mret, assumption)
    apply (rule steps_mbind [OF rep])
    apply (rule steps_pure [where q = "x = next_ino s0" for x], simp)
    using fin by simp
qed

text \<open>Rewriting a file under an invariant that does not depend on its content.\<close>

lemma steps_rewrite_file:
  fixes S :: "('s, 'b) StoreSerde_scheme"
  assumes D: "c \<Longrightarrow> good_hooks D"
    and upd: "\<And>s g. I s \<Longrightarrow> keeps g \<Longrightarrow> I (update_inode p g s)" and set: "\<And>s. I s \<Longrightarrow> I (settle p s)"
    and data: "\<And>s. I s \<Longrightarrow> \<exists>n. inodes s p = Some n" and E: "\<And>m s. I s \<Longrightarrow> E (classify u m) s"
  shows "steps c I (rewrite_witness S D p w x y u)
    (\<lambda>_ s. I s \<and> (\<exists>n. inodes s p = Some n \<and> i_data n = PublishWitness_encode S w \<and> i_clean n)) E"
proof -
  let ?b = "PublishWitness_encode S w"
  let ?J = "\<lambda>bs s. I s \<and> inode_data s p = Some bs"
  have t: "steps c I (sys_truncate p) (\<lambda>_. ?J []) (\<lambda>e. I)"
    unfolding sys_truncate_def
    by (rule steps_effect) (use upd data in \<open>auto simp: inode_data_update truncate_inode_def dest!: data\<close>)
  have sk: "steps c (?J []) (sys_seek_start p) (\<lambda>_. ?J []) (\<lambda>e. I)"
    by (rule steps_reads [OF reads_seek]) auto
  have wr: "steps c (?J []) (sys_write_all p ?b) (\<lambda>_. ?J ?b) (\<lambda>e. I)"
    unfolding sys_write_all_def
    by (rule steps_effect) (use upd in \<open>auto simp: inode_data_update extend_inode_def inode_data_def\<close>)
  have rw: "steps c I (rewrite_file D p ?b x) (\<lambda>_. ?J ?b) (\<lambda>e. I)"
    unfolding rewrite_file_def
    by (intro steps_tracked [OF D] steps_mbind [OF t] steps_mbind [OF sk] wr) auto
  have ba: "steps c (?J ?b) (barrier_file D p y) (\<lambda>_ s. I s \<and> (\<exists>n. inodes s p = Some n \<and> i_data n = ?b \<and> i_clean n)) (\<lambda>e. I)"
    unfolding barrier_file_def sys_sync_all_def
    by (intro steps_tracked [OF D] steps_effect) (use set in \<open>auto simp: inode_data_def\<close>)
  show ?thesis
    unfolding rewrite_witness_def classify_io_def
    by (intro steps_mbind [OF steps_mmap_err [OF steps_weaken [OF rw]]] steps_mmap_err [OF steps_weaken [OF ba]])
      (use E in auto)
qed

text \<open>The barrier of the state directory by its path.\<close>

lemma steps_barrier_state_directory:
  assumes D: "c \<Longrightarrow> good_hooks D" and dirs: "\<And>s. I s \<Longrightarrow> \<exists>n. entry_at s dir = Some (d, n) \<and> i_kind n = Directory"
    and set: "\<And>s. I s \<Longrightarrow> B (settle d s)" and E: "\<And>m s. I s \<Longrightarrow> E (classify u m) s" "\<And>m s. B s \<Longrightarrow> E (classify u m) s"
  shows "steps c I (barrier_directory_untracked D dir u art) (\<lambda>_. B) E"
proof -
  have op: "steps c I (open_directory_no_follow dir) (\<lambda>i s. i = d \<and> I s) (\<lambda>_. I)"
    by (rule steps_reads [OF reads_open_directory_no_follow]) (use dirs in fastforce)+
  have ba: "steps c I (barrier_directory_evidence D d art) (\<lambda>_. B) (\<lambda>_ s. I s \<or> B s)"
    unfolding barrier_directory_evidence_def sys_sync_all_def
    by (rule steps_mbind [where R = "\<lambda>_. B", OF steps_effect steps_primitive [OF D]]) (use set in auto)
  show ?thesis
    unfolding barrier_directory_untracked_def classify_io_def classify_journal_def
    apply (rule steps_mbind [OF steps_mmap_err [OF steps_weaken [OF op]]], assumption, assumption)
    subgoal using E by blast
    apply (rule steps_pure [where q = "x = d" for x], simp)
    apply (hypsubst, rule steps_mmap_err, rule steps_weaken [OF ba])
    using E by auto
qed

section \<open>The phases of an initialization\<close>

text \<open>No commit point, or the empty one over an empty journal on stable storage: nothing that a power
  loss leaves shows an entry.\<close>

definition harmless :: "('s, 'a) StoreSerde_scheme \<Rightarrow> System \<Rightarrow> Path \<Rightarrow> bool" where
  "harmless S s dir \<longleftrightarrow>
     vis s (join_path dir COMMIT_FILE_NAME) = None \<and> dur s (join_path dir COMMIT_FILE_NAME) = None \<or>
     (\<exists>j. durable_file s (join_path dir JOURNAL_FILE_NAME) j []) \<and>
     (\<forall>f. vis s (join_path dir COMMIT_FILE_NAME) = Some f \<or> dur s (join_path dir COMMIT_FILE_NAME) = Some f \<longrightarrow>
        (\<exists>n. inodes s f = Some n \<and> i_data n = CommitPoint_encode S (CommitPoint_empty S) \<and> i_clean n))"

lemma harmless_view:
  assumes laws: "store_serde_laws S" and h: "harmless S s dir" and t: "crash_image s t" and v: "view S t dir snap"
  shows "snapshot_entries snap = []"
proof -
  obtain cb jb where b: "data_at t (join_path dir COMMIT_FILE_NAME) = Some cb" "data_at t (join_path dir JOURNAL_FILE_NAME) = Some jb"
    and p: "CommitPoint_decode S cb MAX_JOURNAL_BYTES = Inr (point snap)"
    "decode_committed_prefix S (point snap) (snapshot_bytes snap) = Inr (snapshot_entries snap)" "snapshot_bytes snap = jb"
    using v by (auto simp: view_def)
  obtain f where f: "vis t (join_path dir COMMIT_FILE_NAME) = Some f"
    using b(1) by (cases "vis t (join_path dir COMMIT_FILE_NAME)") (auto simp: data_at_def)
  then have fs: "vis s (join_path dir COMMIT_FILE_NAME) = Some f \<or> dur s (join_path dir COMMIT_FILE_NAME) = Some f"
    using t unfolding crash_image_def by metis
  with h obtain j n where j: "durable_file s (join_path dir JOURNAL_FILE_NAME) j []"
    and n: "inodes s f = Some n" "i_data n = CommitPoint_encode S (CommitPoint_empty S)" "i_clean n"
    unfolding harmless_def by auto
  have "inodes t f = Some n" using t n by (auto simp: crash_image_def)
  then have "cb = CommitPoint_encode S (point_of S [])"
    using b(1) f n(2) by (simp add: data_at_def inode_data_def point_of_Nil)
  moreover have "jb = journal_bytes []" using crash_durable [OF t j] b(2) by simp
  ultimately show ?thesis
    using p decode_point_of [OF laws, of "[]"] decode_prefix_point_of [OF laws, of "[]"] by auto
qed

lemma harmless_locks [simp]: "harmless S (s\<lparr>locks := l\<rparr>) dir = harmless S s dir"
  by (simp add: harmless_def)

lemma harmless_release [simp]: "harmless S (release_lock f s) dir = harmless S s dir"
  by (simp add: release_lock_def)

text \<open>Lock and empty journal are on stable storage.\<close>

definition based :: "bool \<Rightarrow> bool \<Rightarrow> Path \<Rightarrow> nat \<Rightarrow> nat \<Rightarrow> nat \<Rightarrow> (string \<Rightarrow> nat option) \<Rightarrow> System \<Rightarrow> bool" where
  "based c a dir d l j F s \<longleftrightarrow>
     staged c a dir d F s \<and> F LOCK_FILE_NAME = Some l \<and> F JOURNAL_FILE_NAME = Some j \<and>
     (\<exists>b. durable_file s (join_path dir LOCK_FILE_NAME) l b) \<and> durable_file s (join_path dir JOURNAL_FILE_NAME) j []"

lemma based_staged: "based c a dir d l j F s \<Longrightarrow> staged c a dir d F s"
  by (simp add: based_def)

lemma based_update:
  assumes b: "based c a dir d l j F s" and g: "keeps g" and n: "n \<in> reserved" "F n = Some f" "n \<noteq> LOCK_FILE_NAME" "n \<noteq> JOURNAL_FILE_NAME"
  shows "based c a dir d l j F (update_inode f g s)"
proof -
  have s: "staged c a dir d F s" "F LOCK_FILE_NAME = Some l" "F JOURNAL_FILE_NAME = Some j" using b by (simp_all add: based_def)
  have "l \<noteq> f" using staged_inj [OF s(1) n(1) _ n(2), of LOCK_FILE_NAME] n(3) s(2) by auto
  moreover have "j \<noteq> f" using staged_inj [OF s(1) n(1) _ n(2), of JOURNAL_FILE_NAME] n(4) s(3) by auto
  ultimately show ?thesis
    using b staged_update [OF s(1) g n(1,2)] by (auto simp: based_def intro: durable_update)
qed

lemma based_settle: "based c a dir d l j F s \<Longrightarrow> based c a dir d l j F (settle i s)"
  by (auto simp: based_def intro: staged_settle durable_settle)

lemma based_new:
  assumes b: "based c a dir d l j F s" and n: "n \<in> reserved" "F n = None"
  shows "based False a dir d l j (F(n \<mapsto> next_ino s)) (new_entry (join_path dir n) Regular mode_0600 s)"
    and "based c a dir d l j (F(n \<mapsto> next_ino s)) (created dir n s)"
proof -
  have s: "staged c a dir d F s" "F LOCK_FILE_NAME = Some l" "F JOURNAL_FILE_NAME = Some j" using b by (simp_all add: based_def)
  have x: "l \<noteq> next_ino s" "j \<noteq> next_ino s" "n \<noteq> LOCK_FILE_NAME" "n \<noteq> JOURNAL_FILE_NAME"
    using staged_inode(2) [OF s(1) _ s(2)] staged_inode(2) [OF s(1) _ s(3)] s n by auto
  show "based False a dir d l j (F(n \<mapsto> next_ino s)) (new_entry (join_path dir n) Regular mode_0600 s)"
    using b staged_new(1) [OF s(1) n] x by (auto simp: based_def durable_file_def new_entry_simps)
  show "based c a dir d l j (F(n \<mapsto> next_ino s)) (created dir n s)"
    using b staged_new(2) [OF s(1) n] x by (auto simp: based_def durable_file_def created_simps)
qed

lemma based_rename:
  assumes b: "based c a dir d l j F s" and f: "F COMMIT_TEMP_FILE_NAME = Some f"
  shows "based c a dir d l j (F(COMMIT_TEMP_FILE_NAME := None, COMMIT_FILE_NAME \<mapsto> f))
    (rename_entry (join_path dir COMMIT_TEMP_FILE_NAME) (join_path dir COMMIT_FILE_NAME) s)"
  using b staged_rename [OF based_staged [OF b] f]
  by (auto simp: based_def durable_file_def) (auto simp: rename_entry_def)

lemma based_settle_dir:
  assumes "based c a dir d l j F s" "n \<in> reserved" shows "dur (settle d s) (join_path dir n) = F n"
  using assms staged_dir [OF based_staged [OF assms(1)]]
  by (auto simp: dur_settle based_def staged_def entry_at_vis parent_ino_def)

text \<open>The commit point: not there, in its temporary file, under its name, on stable storage.\<close>

definition unmarked :: "bool \<Rightarrow> bool \<Rightarrow> Path \<Rightarrow> nat \<Rightarrow> nat \<Rightarrow> nat \<Rightarrow> (string \<Rightarrow> nat option) \<Rightarrow> System \<Rightarrow> bool" where
  "unmarked c a dir d l j F s \<longleftrightarrow>
     based c a dir d l j F s \<and> F COMMIT_FILE_NAME = None \<and> dur s (join_path dir COMMIT_FILE_NAME) = None"

definition marker ::
  "('s, 'b) StoreSerde_scheme \<Rightarrow> bool \<Rightarrow> bool \<Rightarrow> Path \<Rightarrow> nat \<Rightarrow> nat \<Rightarrow> nat \<Rightarrow> (string \<Rightarrow> nat option) \<Rightarrow> nat \<Rightarrow> System \<Rightarrow> bool" where
  "marker S c a dir d l j F f s \<longleftrightarrow>
     based c a dir d l j F s \<and> F COMMIT_FILE_NAME = Some f \<and>
     (\<exists>n. inodes s f = Some n \<and> i_data n = CommitPoint_encode S (CommitPoint_empty S) \<and> i_clean n) \<and>
     (dur s (join_path dir COMMIT_FILE_NAME) = None \<or> dur s (join_path dir COMMIT_FILE_NAME) = Some f)"

definition marked ::
  "('s, 'b) StoreSerde_scheme \<Rightarrow> bool \<Rightarrow> bool \<Rightarrow> Path \<Rightarrow> nat \<Rightarrow> nat \<Rightarrow> nat \<Rightarrow> (string \<Rightarrow> nat option) \<Rightarrow> nat \<Rightarrow> System \<Rightarrow> bool" where
  "marked S c a dir d l j F f s \<longleftrightarrow> marker S c a dir d l j F f s \<and> dur s (join_path dir COMMIT_FILE_NAME) = Some f"

lemma unmarked_harmless:
  assumes "unmarked c a dir d l j F s" shows "harmless S s dir"
  using assms staged_vis [of c a dir d F s COMMIT_FILE_NAME] by (simp add: unmarked_def based_def harmless_def)

lemma marker_harmless:
  assumes "marker S c a dir d l j F f s" shows "harmless S s dir"
proof -
  have "vis s (join_path dir COMMIT_FILE_NAME) = Some f"
    using assms staged_vis [of c a dir d F s COMMIT_FILE_NAME] by (simp add: marker_def based_def)
  then show ?thesis using assms by (auto simp: marker_def based_def harmless_def)
qed

lemma marked_harmless: "marked S c a dir d l j F f s \<Longrightarrow> harmless S s dir"
  by (auto simp: marked_def dest: marker_harmless)

section \<open>Publishing the empty commit point\<close>

lemma unmarked_update:
  assumes "unmarked c a dir d l j F s" "keeps g" "n \<in> reserved" "F n = Some f" "n \<noteq> LOCK_FILE_NAME" "n \<noteq> JOURNAL_FILE_NAME"
  shows "unmarked c a dir d l j F (update_inode f g s)"
  using assms based_update [of c a dir d l j F s g n f] by (auto simp: unmarked_def)

lemma unmarked_settle:
  assumes "unmarked c a dir d l j F s" "n \<in> reserved" "F n = Some f"
  shows "unmarked c a dir d l j F (settle f s)"
proof -
  have "F COMMIT_FILE_NAME = None" "vis s (join_path dir COMMIT_FILE_NAME) = None"
    using assms staged_vis [of c a dir d F s COMMIT_FILE_NAME] by (auto simp: unmarked_def based_def)
  then show ?thesis
    using assms based_settle by (auto simp: unmarked_def dur_settle)
qed

lemma steps_publish_initial:
  fixes S :: "('s, 'b) StoreSerde_scheme" and F :: "string \<Rightarrow> nat option"
  assumes laws: "store_serde_laws S" and D: "c \<Longrightarrow> good_hooks D" and P: "c \<Longrightarrow> accepts_profile P prof"
    and T: "F COMMIT_TEMP_FILE_NAME = None"
    and E: "\<And>m G s. unmarked False a dir d l j G s \<Longrightarrow> E (classify u m) s"
      "\<And>m f s. marker S c a dir d l j (F(COMMIT_FILE_NAME \<mapsto> f)) f s \<Longrightarrow> E (classify u m) s"
  shows "steps c (unmarked c a dir d l j F)
    (publish_commit S D P d prof (join_path dir COMMIT_FILE_NAME) (CommitPoint_empty S) u)
    (\<lambda>_ s. \<exists>f. marked S c a dir d l j (F(COMMIT_FILE_NAME \<mapsto> f)) f s) E"
proof -
  let ?U = "unmarked c a dir d l j"
  let ?T = "\<lambda>f x s. ?U (F(COMMIT_TEMP_FILE_NAME \<mapsto> f)) s \<and> inode_data s f = Some x"
  let ?b = "CommitPoint_encode S (CommitPoint_empty S)"
  let ?C = "\<lambda>f s. ?T f ?b s \<and> (\<exists>n. inodes s f = Some n \<and> i_clean n)"
  let ?R = "\<lambda>f. marker S c a dir d l j (F(COMMIT_FILE_NAME \<mapsto> f)) f"
  let ?P = "\<lambda>f. marked S c a dir d l j (F(COMMIT_FILE_NAME \<mapsto> f)) f"
  let ?E = "\<lambda>e s. \<forall>m. E (classify u m) s"
  have weak: "unmarked False a dir d l j G s" if "?U G s" for G s
    using that staged_weaken by (auto simp: unmarked_def based_def)
  have EU: "?E e s" if "?U G s" for G s and e :: 'z using E(1) weak that by blast
  have te: "steps c (?U F) (open_private_replace_file D (join_path dir COMMIT_TEMP_FILE_NAME)) (\<lambda>f. ?T f []) ?E"
  proof (rule steps_each)
    fix s0 assume s0: "?U F s0"
    then have b: "based c a dir d l j F s0" by (simp add: unmarked_def)
    note st = based_staged [OF b] and nw = based_new [OF b _ T, simplified]
    have "unmarked False a dir d l j (F(COMMIT_TEMP_FILE_NAME \<mapsto> next_ino s0)) (new_entry (join_path dir COMMIT_TEMP_FILE_NAME) Regular mode_0600 s0)"
      "?U (F(COMMIT_TEMP_FILE_NAME \<mapsto> next_ino s0)) (created dir COMMIT_TEMP_FILE_NAME s0)"
      using nw s0 by (auto simp: unmarked_def new_entry_simps created_simps)
    then show "steps c (\<lambda>s. s = s0) (open_private_replace_file D (join_path dir COMMIT_TEMP_FILE_NAME)) (\<lambda>f. ?T f []) ?E"
      by (intro steps_weaken [OF steps_replace_fresh [where E = ?E, OF st _ T D]])
        (use E(1) EU s0 in \<open>auto simp: created_simps\<close>)
  qed
  have pr: "steps c (?T f []) (require_same_profile P f prof) (\<lambda>_. ?T f []) ?E" for f
    by (rule steps_reads [OF reads_require_same_profile [OF P]]) (use EU in auto)
  have upd: "?T f y (update_inode f (extend_inode y) s)" if "?T f [] s" for f y s
    using that unmarked_update [of c a dir d l j "F(COMMIT_TEMP_FILE_NAME \<mapsto> f)" s "extend_inode y" COMMIT_TEMP_FILE_NAME f]
    by (auto simp: inode_data_update inode_data_def extend_inode_def)
  have wr: "steps c (?T f []) (write_file D f ?b x) (\<lambda>_. ?T f ?b) ?E" for f x
    unfolding write_file_def sys_write_all_def
    by (intro steps_tracked [OF D] steps_effect) (use EU upd in blast)+
  have ba: "steps c (?T f ?b) (barrier_file D f x) (\<lambda>_. ?C f) ?E" for f x
    unfolding barrier_file_def sys_sync_all_def
  proof (intro steps_tracked [OF D] steps_effect)
    show "?C f (settle f s)" if "?T f ?b s" for s
      using that unmarked_settle [of c a dir d l j "F(COMMIT_TEMP_FILE_NAME \<mapsto> f)" s COMMIT_TEMP_FILE_NAME f]
      by (auto simp: inode_data_def)
  qed (use EU in blast)+
  have ren: "vis s (join_path dir COMMIT_TEMP_FILE_NAME) \<noteq> None \<and>
      ?R f (rename_entry (join_path dir COMMIT_TEMP_FILE_NAME) (join_path dir COMMIT_FILE_NAME) s)" if c: "?C f s" for f s
  proof -
    have b: "based c a dir d l j (F(COMMIT_TEMP_FILE_NAME \<mapsto> f)) s" using c by (simp add: unmarked_def)
    have "(F(COMMIT_TEMP_FILE_NAME \<mapsto> f))(COMMIT_TEMP_FILE_NAME := None, COMMIT_FILE_NAME \<mapsto> f) = F(COMMIT_FILE_NAME \<mapsto> f)"
      using T by (auto simp: fun_eq_iff)
    with based_rename [OF b] c show ?thesis
      using staged_vis [OF based_staged [OF b], of COMMIT_TEMP_FILE_NAME]
      by (auto simp: marker_def unmarked_def inode_data_def) (simp_all add: rename_entry_def)
  qed
  have renE: "?E e (rename_entry (join_path dir COMMIT_TEMP_FILE_NAME) (join_path dir COMMIT_FILE_NAME) s)" if "?C f s" for f s and e :: 'z
    using E(2) ren [OF that] by blast
  have re: "steps c (?C f) (rename_file D (join_path dir COMMIT_TEMP_FILE_NAME) (join_path dir COMMIT_FILE_NAME) x) (\<lambda>_. ?R f) ?E" for f x
    unfolding rename_file_def sys_rename_def
    by (intro steps_tracked [OF D] steps_syscall) (use ren renE E(2) EU in \<open>auto split: if_splits\<close>)
  have mk: "?P f (settle d s)" if "?R f s" for f s
    using that based_settle_dir [of c a dir d l j _ s COMMIT_FILE_NAME] based_settle
    by (auto simp: marker_def marked_def)
  have PR: "?R f s" if "?P f s" for f s using that by (simp add: marked_def)
  have PE: "?E e s" if "?P f s" for f s and e :: 'z using E(2) PR [OF that] by blast
  have bd: "steps c (?R f) (barrier_directory D d x) (\<lambda>_. ?P f) ?E" for f x
    unfolding barrier_directory_def sys_sync_all_def
    by (intro steps_tracked [OF D] steps_effect) (use E(2) mk PR in blast)+
  have dir: "dir \<noteq> []" if "?P f s" for f s
    using that staged_dir unfolding marked_def marker_def based_def by metis
  have pv: "c \<Longrightarrow> private_dir s dir \<and> private_file s dir COMMIT_FILE_NAME" if "?P f s" for f s
    using that by (auto simp: marked_def marker_def based_def staged_def)
  have ov: "\<exists>bs. inode_data s g = Some bs \<and> CommitPoint_decode S bs MAX_JOURNAL_BYTES = Inr (CommitPoint_empty S)"
    if "?P f s" "opened s dir COMMIT_FILE_NAME g" for f g s
  proof -
    have "g = f" "inode_data s f = Some ?b"
      using that staged_vis [of c a dir d _ s COMMIT_FILE_NAME] by (fastforce simp: marked_def marker_def based_def opened_def entry_at_vis inode_data_def)+
    then show ?thesis using decode_point_of [OF laws, of "[]"] by (simp add: point_of_Nil)
  qed
  have op: "steps c (?P f) (open_private_read_file (join_path dir COMMIT_FILE_NAME)) (\<lambda>g s. ?P f s \<and> opened s dir COMMIT_FILE_NAME g) ?E" for f
    by (rule steps_reads [OF reads_open_private_read_file]) (use PE dir pv in blast)+
  have p2: "steps c (\<lambda>s. ?P f s \<and> opened s dir COMMIT_FILE_NAME g) (require_same_profile P g prof)
      (\<lambda>_ s. ?P f s \<and> opened s dir COMMIT_FILE_NAME g) ?E" for f g
    by (rule steps_reads [OF reads_require_same_profile [OF P]]) (use PE in blast)+
  have rd: "steps c (\<lambda>s. ?P f s \<and> opened s dir COMMIT_FILE_NAME g) (read_commit_point S g)
      (\<lambda>q s. ?P f s \<and> q = CommitPoint_empty S) ?E" for f g
    by (rule steps_reads [OF reads_read_commit_point]) (use PE ov in fastforce)+
  have fi: "steps c (\<lambda>s. ?P f s \<and> q = CommitPoint_empty S) (if q \<noteq> CommitPoint_empty S then mfail e else mret ()) (\<lambda>_ s. \<exists>f. ?P f s) E" for f q e
    by (rule steps_pure [where q = "q = CommitPoint_empty S"]) (auto intro: steps_mret)
  show ?thesis
    unfolding publish_commit_def Let_def join_path_simps classify_io_def classify_journal_def
    apply (rule steps_mbind [OF steps_mmap_err [OF steps_weaken [OF te]]], assumption, assumption, blast)
    apply (rule steps_mbind [OF steps_mmap_err [OF steps_weaken [OF pr]]], assumption, assumption, blast)
    apply (rule steps_mbind [OF steps_mmap_err [OF steps_weaken [OF wr]]], assumption, assumption, blast)
    apply (rule steps_mbind [OF steps_mmap_err [OF steps_weaken [OF ba]]], assumption, assumption, blast)
    apply (rule steps_mbind [OF steps_mmap_err [OF steps_weaken [OF re]]], assumption, assumption, blast)
    apply (rule steps_mbind [OF steps_mmap_err [OF steps_weaken [OF bd]]], assumption, assumption, blast)
    apply (rule steps_mbind [OF steps_mmap_err [OF steps_weaken [OF op]]], assumption, assumption, blast)
    apply (rule steps_mbind [OF steps_mmap_err [OF steps_weaken [OF p2]]], assumption, assumption, blast)
    apply (rule steps_mbind [OF steps_mmap_err [OF steps_weaken [OF rd]]], assumption, assumption, blast)
    by (rule fi)
qed

section \<open>Creating the witness\<close>

lemma marked_based:
  assumes "marked S c a dir d l j F f s" shows "based c a dir d l j F s" "staged c a dir d F s" "F COMMIT_FILE_NAME = Some f"
  using assms by (simp_all add: marked_def marker_def based_def)

lemma marked_weaken: "marked S c a dir d l j F f s \<Longrightarrow> marked S False a dir d l j F f s"
  using staged_weaken by (auto simp: marked_def marker_def based_def)

lemma marked_update:
  assumes m: "marked S c a dir d l j F f s" and g: "keeps g"
    and n: "n \<in> reserved" "F n = Some i" "n \<noteq> LOCK_FILE_NAME" "n \<noteq> JOURNAL_FILE_NAME" "n \<noteq> COMMIT_FILE_NAME"
  shows "marked S c a dir d l j F f (update_inode i g s)"
proof -
  note b = marked_based [OF m]
  have "f \<noteq> i" using staged_inj [OF b(2) n(1) _ n(2), of COMMIT_FILE_NAME] b(3) n(5) by auto
  then show ?thesis
    using m based_update [OF b(1) g n(1-4)] by (auto simp: marked_def marker_def)
qed

lemma marked_settle:
  assumes m: "marked S c a dir d l j F f s" shows "marked S c a dir d l j F f (settle i s)"
proof -
  have "vis s (join_path dir COMMIT_FILE_NAME) = Some f"
    using marked_based [OF m] staged_vis [of c a dir d F s COMMIT_FILE_NAME] by simp
  then show ?thesis
    using m by (auto simp: marked_def marker_def dur_settle intro: based_settle)
qed

lemma marked_new:
  assumes m: "marked S c a dir d l j F f s" and n: "n \<in> reserved" "F n = None"
  shows "marked S False a dir d l j (F(n \<mapsto> next_ino s)) f (new_entry (join_path dir n) Regular mode_0600 s)"
    and "marked S c a dir d l j (F(n \<mapsto> next_ino s)) f (created dir n s)"
proof -
  note b = marked_based [OF m]
  have x: "f \<noteq> next_ino s" "n \<noteq> COMMIT_FILE_NAME"
    using staged_inode(2) [OF b(2) _ b(3)] b n by auto
  show "marked S False a dir d l j (F(n \<mapsto> next_ino s)) f (new_entry (join_path dir n) Regular mode_0600 s)"
    using m x based_new(1) [OF b(1) n] by (auto simp: marked_def marker_def new_entry_simps)
  show "marked S c a dir d l j (F(n \<mapsto> next_ino s)) f (created dir n s)"
    using m x based_new(2) [OF b(1) n] by (auto simp: marked_def marker_def created_simps)
qed

text \<open>The witness exists; its device is the one its open saw.\<close>

definition attested ::
  "('s, 'b) StoreSerde_scheme \<Rightarrow> bool \<Rightarrow> bool \<Rightarrow> Path \<Rightarrow> nat \<Rightarrow> nat \<Rightarrow> nat \<Rightarrow> (string \<Rightarrow> nat option) \<Rightarrow> nat \<Rightarrow> nat \<Rightarrow> nat \<Rightarrow> System \<Rightarrow> bool" where
  "attested S c a dir d l j F f p dv s \<longleftrightarrow>
     marked S c a dir d l j F f s \<and> F PUBLISH_FILE_NAME = Some p \<and> (\<exists>n. inodes s p = Some n \<and> i_dev n = dv)"

lemma attested_update: "attested S c a dir d l j F f p dv s \<Longrightarrow> keeps g \<Longrightarrow> attested S c a dir d l j F f p dv (update_inode p g s)"
  using marked_update [of S c a dir d l j F f s g PUBLISH_FILE_NAME p] by (auto simp: attested_def keeps_def)

lemma attested_settle: "attested S c a dir d l j F f p dv s \<Longrightarrow> attested S c a dir d l j F f p dv (settle i s)"
  by (auto simp: attested_def intro: marked_settle)

lemma attested_inode: "attested S c a dir d l j F f p dv s \<Longrightarrow> \<exists>n. inodes s p = Some n"
  by (auto simp: attested_def)

lemma attested_settle_dir:
  "attested S c a dir d l j F f p dv s \<Longrightarrow> dur (settle d s) (join_path dir PUBLISH_FILE_NAME) = Some p"
  using based_settle_dir [of c a dir d l j F s PUBLISH_FILE_NAME] marked_based [of S c a dir d l j F f s] by (simp add: attested_def)

lemma attested_opened:
  assumes "attested S c a dir d l j F f p dv s" shows "opened s dir PUBLISH_FILE_NAME q \<Longrightarrow> q = p"
    "dir \<noteq> []" "c \<Longrightarrow> private_dir s dir \<and> private_file s dir PUBLISH_FILE_NAME"
    "\<exists>n. entry_at s dir = Some (d, n) \<and> i_kind n = Directory"
proof -
  have s: "staged c a dir d F s" "F PUBLISH_FILE_NAME = Some p"
    using assms marked_based(2) unfolding attested_def by metis+
  then show "opened s dir PUBLISH_FILE_NAME q \<Longrightarrow> q = p" "dir \<noteq> []" "\<exists>n. entry_at s dir = Some (d, n) \<and> i_kind n = Directory"
    using staged_dir [OF s(1)] staged_vis [OF s(1), of PUBLISH_FILE_NAME] by (auto simp: opened_def entry_at_vis staged_def)
  show "c \<Longrightarrow> private_dir s dir \<and> private_file s dir PUBLISH_FILE_NAME" using s by (simp add: staged_def)
qed

lemma initial_witness_wf: "wf_witness initializing" "wf_witness (clean 1)"
  by (auto simp: wf_witness_def initializing_def clean_def)

text \<open>From the durable PREPARED witness to the clean one: shared by a first and a resumed initialization.\<close>

lemma steps_finish_witness:
  fixes S :: "('s, 'b) StoreSerde_scheme"
  assumes laws: "store_serde_laws S" and D: "c \<Longrightarrow> good_hooks D" and P: "c \<Longrightarrow> accepts_profile P prof"
    and E: "\<And>e s. attested S c a dir d l j F f p dv s \<Longrightarrow> E e s"
  shows "steps c (\<lambda>s. attested S c a dir d l j F f p dv s \<and> inode_data s p = Some (PublishWitness_encode S initializing))
    (mbind (verify_opened_witness S p initializing) (\<lambda>_.
     mbind (barrier_directory_untracked D dir False art1) (\<lambda>_.
     mbind (open_private_update_file D (join_path dir PUBLISH_FILE_NAME) False art2) (\<lambda>reopened.
     mbind (require_same_profile P reopened prof) (\<lambda>_.
     mbind (opened_identity reopened) (\<lambda>again.
     if again \<noteq> (dv, p) then mfail err
     else
       mbind (verify_opened_witness S reopened initializing) (\<lambda>_.
       mbind (rewrite_witness S D reopened (clean 1) CleanWriteComplete CleanBarrierComplete False) (\<lambda>_.
       verify_opened_witness S reopened (clean 1)))))))))
    (\<lambda>_ s. attested S c a dir d l j F f p dv s \<and>
       durable_file s (join_path dir PUBLISH_FILE_NAME) p (PublishWitness_encode S (clean 1))) E"
proof -
  let ?A = "attested S c a dir d l j F f p dv" and ?q = "join_path dir PUBLISH_FILE_NAME"
  let ?W = "\<lambda>w s. ?A s \<and> inode_data s p = Some (PublishWitness_encode S w)"
  let ?N = "\<lambda>s. ?A s \<and> dur s ?q = Some p"
  let ?V = "\<lambda>w s. ?N s \<and> inode_data s p = Some (PublishWitness_encode S w)"
  let ?B = "\<lambda>s. ?A s \<and> durable_file s ?q p (PublishWitness_encode S (clean 1))"
  have pl: "publish_serde_laws S" using laws by (simp add: store_serde_laws_def)
  have ver: "steps c (\<lambda>s. I s \<and> inode_data s p = Some (PublishWitness_encode S w)) (verify_opened_witness S p w)
      (\<lambda>_ s. I s \<and> inode_data s p = Some (PublishWitness_encode S w)) E"
    if "wf_witness w" "\<And>s. I s \<Longrightarrow> ?A s" for I w
    by (rule steps_reads [OF reads_verify [OF pl that(1)]]) (use E that(2) in auto)
  have bd: "steps c (?W initializing) (barrier_directory_untracked D dir False art1) (\<lambda>_. ?V initializing) E"
    by (rule steps_barrier_state_directory [OF D, where d = d])
      (use E attested_opened(4) attested_settle attested_settle_dir in \<open>auto simp: inode_data_def\<close>)
  have op: "steps c (?V initializing) (open_private_update_file D ?q False art2) (\<lambda>g s. g = p \<and> ?V initializing s) E"
    by (rule steps_reads [OF reads_open_private_existing(1)])
      (use E attested_opened(2,3) in blast, use attested_opened(3) in blast, use attested_opened(1) in blast, use E in blast)
  have pr: "steps c (?V initializing) (require_same_profile P p prof) (\<lambda>_. ?V initializing) E"
    by (rule steps_reads [OF reads_require_same_profile [OF P]]) (use E in auto)
  have idn: "steps c (?V initializing) (opened_identity p) (\<lambda>x s. x = (dv, p) \<and> ?V initializing s) E"
    by (rule steps_reads [OF reads_opened_identity]) (use E in \<open>auto simp: attested_def\<close>)
  have vp: "vis s ?q = Some p" if "?A s" for s
    using that marked_based(2) [of S c a dir d l j F f s] staged_vis [of c a dir d F s PUBLISH_FILE_NAME]
    by (auto simp: attested_def)
  have rw: "steps c ?N (rewrite_witness S D p (clean 1) CleanWriteComplete CleanBarrierComplete False)
      (\<lambda>_ s. ?N s \<and> (\<exists>n. inodes s p = Some n \<and> i_data n = PublishWitness_encode S (clean 1) \<and> i_clean n)) E"
  proof (rule steps_rewrite_file [OF D])
    show "?N (settle p s)" if "?N s" for s
      using that attested_settle [of S c a dir d l j F f p dv s p] vp by (simp add: dur_settle)
  qed (use E attested_update attested_inode in auto)
  have last: "steps c (\<lambda>s. ?N s \<and> (\<exists>n. inodes s p = Some n \<and> i_data n = PublishWitness_encode S (clean 1) \<and> i_clean n))
      (verify_opened_witness S p (clean 1)) (\<lambda>_. ?B) E"
    by (rule steps_reads [OF reads_verify [OF pl initial_witness_wf(2)]])
      (use E vp in \<open>auto simp: inode_data_def durable_file_def\<close>)
  have tail: "steps c (?V initializing) (mbind (verify_opened_witness S p initializing) (\<lambda>_.
       mbind (rewrite_witness S D p (clean 1) CleanWriteComplete CleanBarrierComplete False) (\<lambda>_.
       verify_opened_witness S p (clean 1)))) (\<lambda>_. ?B) E"
    apply (rule steps_mbind [OF ver [OF initial_witness_wf(1)]], simp)
    apply (rule steps_weaken [where A' = ?N], rule steps_mbind [OF rw last])
    by auto
  show ?thesis
    apply (rule steps_mbind [OF ver [OF initial_witness_wf(1)]], assumption)
    apply (rule steps_mbind [OF bd])
    apply (rule steps_mbind [OF op])
    apply (rule steps_pure [where q = "x = p" for x], simp)
    apply (hypsubst, rule steps_weaken [where A' = "?V initializing" and B' = "\<lambda>_. ?B"])
    apply (rule steps_mbind [OF pr])
    apply (rule steps_mbind [OF idn])
     apply (rule steps_pure [where q = "x = (dv, p)" for x], simp)
     apply (hypsubst, subst if_not_P, simp, rule steps_weaken [OF tail])
    by auto
qed

lemma attested_harmless: "attested S c a dir d l j F f p dv s \<Longrightarrow> harmless S s dir"
  by (auto simp: attested_def dest: marked_harmless)

text \<open>What an initialized store has on stable storage.\<close>

definition initialized ::
  "('s, 'b) StoreSerde_scheme \<Rightarrow> bool \<Rightarrow> bool \<Rightarrow> Path \<Rightarrow> nat \<Rightarrow> nat \<Rightarrow> System \<Rightarrow> bool" where
  "initialized S c a dir d l s \<longleftrightarrow>
     (\<exists>j F f p dv. attested S c a dir d l j F f p dv s \<and> F COMMIT_TEMP_FILE_NAME = None \<and>
        durable_file s (join_path dir PUBLISH_FILE_NAME) p (PublishWitness_encode S (clean 1)))"

lemma steps_initialize_witness:
  fixes S :: "('s, 'b) StoreSerde_scheme" and F :: "string \<Rightarrow> nat option"
  assumes laws: "store_serde_laws S" and D: "c \<Longrightarrow> good_hooks D" and P: "c \<Longrightarrow> accepts_profile P prof"
    and F: "F PUBLISH_FILE_NAME = None" "F COMMIT_TEMP_FILE_NAME = None" and E: "\<And>e s. harmless S s dir \<Longrightarrow> E e s"
  shows "steps c (marked S c a dir d l j F f) (initialize_witness S D P dir prof (join_path dir PUBLISH_FILE_NAME))
    (\<lambda>_. initialized S c a dir d l) E"
proof (rule steps_each)
  fix s0 assume m: "marked S c a dir d l j F f s0"
  let ?p = "next_ino s0" and ?G = "F(PUBLISH_FILE_NAME \<mapsto> next_ino s0)"
  note new = marked_new [OF m _ F(1), simplified]
  have st: "staged c a dir d F s0" using marked_based(2) [OF m] .
  obtain dv where att: "attested S c a dir d l j ?G f ?p dv (created dir PUBLISH_FILE_NAME s0)"
    using new(2) created_simps(6) [of dir PUBLISH_FILE_NAME s0] by (auto simp: attested_def inode_data_def)
  let ?A = "attested S c a dir d l j ?G f ?p dv"
  have EA: "E e s" if "?A s" for e s using E attested_harmless [OF that] .
  have cr: "steps c (\<lambda>s. s = s0) (open_private_update_file D (join_path dir PUBLISH_FILE_NAME) True art) (\<lambda>i s. i = ?p \<and> ?A s) E" for art
    unfolding open_private_update_file_def
    by (rule steps_weaken [OF steps_create_private [where E = E, OF st _ F(1) D]])
      (use E new m att EA in \<open>auto dest: marked_harmless\<close>)
  have pr: "steps c ?A (require_same_profile P ?p prof) (\<lambda>_. ?A) E"
    by (rule steps_reads [OF reads_require_same_profile [OF P]]) (use EA in auto)
  have idn: "steps c ?A (opened_identity ?p) (\<lambda>x s. x = (dv, ?p) \<and> ?A s) E"
    by (rule steps_reads [OF reads_opened_identity]) (use EA in \<open>auto simp: attested_def\<close>)
  have rw: "steps c ?A (rewrite_witness S D ?p initializing x y False)
      (\<lambda>_ s. ?A s \<and> inode_data s ?p = Some (PublishWitness_encode S initializing)) E" for x y
    by (rule steps_weaken [OF steps_rewrite_file [where I = ?A and E = E, OF D]])
      (use EA attested_update attested_settle attested_inode in \<open>auto simp: inode_data_def\<close>)
  have fin: "initialized S c a dir d l s"
    if "?A s" "durable_file s (join_path dir PUBLISH_FILE_NAME) ?p (PublishWitness_encode S (clean 1))" for s
    using that F(2) unfolding initialized_def by (metis file_names_distinct(12) fun_upd_other)
  show "steps c (\<lambda>s. s = s0) (initialize_witness S D P dir prof (join_path dir PUBLISH_FILE_NAME)) (\<lambda>_. initialized S c a dir d l) E"
    unfolding initialize_witness_def
    apply (rule steps_mbind [OF cr])
    apply (rule steps_pure [where q = "x = ?p" for x], simp)
    apply (hypsubst, rule steps_weaken [where A' = ?A and
        B' = "\<lambda>_ s. ?A s \<and> durable_file s (join_path dir PUBLISH_FILE_NAME) ?p (PublishWitness_encode S (clean 1))"])
       apply (rule steps_mbind [OF pr])
       apply (rule steps_mbind [OF idn])
    subgoal for x u identity
      apply (rule steps_pure [where q = "identity = (dv, ?p)"], simp)
      apply (hypsubst, rule steps_weaken [where A' = ?A])
         apply (rule steps_mbind [OF rw])
         apply (rule steps_finish_witness [OF laws D P EA])
      by auto
    using fin by auto
qed

section \<open>A fresh store\<close>

definition begun :: "bool \<Rightarrow> bool \<Rightarrow> Path \<Rightarrow> nat \<Rightarrow> nat \<Rightarrow> nat \<Rightarrow> (string \<Rightarrow> nat option) \<Rightarrow> System \<Rightarrow> bool" where
  "begun c a dir d l j F s \<longleftrightarrow>
     staged c a dir d F s \<and> F LOCK_FILE_NAME = Some l \<and> F JOURNAL_FILE_NAME = Some j \<and> F COMMIT_FILE_NAME = None \<and>
     dur s (join_path dir COMMIT_FILE_NAME) = None \<and> inode_data s j = Some []"

lemma begun_harmless: "begun c a dir d l j F s \<Longrightarrow> harmless S s dir"
  using staged_vis [of c a dir d F s COMMIT_FILE_NAME] by (simp add: begun_def harmless_def)

lemma begun_settle:
  assumes "begun c a dir d l j F s" shows "begun c a dir d l j F (settle i s)"
  using assms staged_vis [of c a dir d F s COMMIT_FILE_NAME]
  by (auto simp: begun_def dur_settle inode_data_def intro: staged_settle)

lemma steps_initialize_fresh:
  fixes S :: "('s, 'b) StoreSerde_scheme" and F :: "string \<Rightarrow> nat option"
  assumes laws: "store_serde_laws S" and D: "c \<Longrightarrow> good_hooks D" and P: "c \<Longrightarrow> accepts_profile P prof"
    and F: "F PUBLISH_FILE_NAME = None" "F COMMIT_TEMP_FILE_NAME = None" and E: "\<And>e s. harmless S s dir \<Longrightarrow> E e s"
  shows "steps c (begun c a dir d l j F) (initialize_fresh_store S D P dir prof l j) (\<lambda>_. initialized S c a dir d l) E"
proof -
  let ?B = "begun c a dir d l j F" and ?U = "unmarked c a dir d l j F"
  let ?C = "\<lambda>i s. \<exists>n. inodes s i = Some n \<and> i_clean n"
  have EB: "E e s" if "?B s" for e s using E begun_harmless [OF that] .
  have EU: "E e s" if "unmarked c' a dir d l j G s" for e s c' G using E unmarked_harmless [OF that] .
  have ino: "\<exists>n. inodes s l = Some n" "\<exists>n. inodes s j = Some n" if "?B s" for s
    using that staged_inode(1) [of c a dir d F s LOCK_FILE_NAME] staged_inode(1) [of c a dir d F s JOURNAL_FILE_NAME]
    by (auto simp: begun_def)
  have cl: "?C l (settle l s)" "?C j (settle j s)" if "?B s" for s using ino [OF that] by auto
  have keep: "?C i (settle k s)" if "?C i s" for i k s using that by auto
  have b1: "steps c ?B (mmap_err g (barrier_file_evidence D l art)) (\<lambda>_ s. ?B s \<and> ?C l s) E" for g art
    unfolding barrier_file_evidence_def sys_sync_all_def
    by (rule steps_mmap_err, rule steps_mbind [where R = "\<lambda>_ s. ?B s \<and> ?C l s", OF steps_effect steps_primitive [OF D]])
      (use EB begun_settle cl in auto)
  have b2: "steps c (\<lambda>s. ?B s \<and> ?C l s) (mmap_err g (barrier_file_evidence D j art)) (\<lambda>_ s. ?B s \<and> ?C l s \<and> ?C j s) E" for g art
    unfolding barrier_file_evidence_def sys_sync_all_def
    by (rule steps_mmap_err, rule steps_mbind [where R = "\<lambda>_ s. ?B s \<and> ?C l s \<and> ?C j s", OF steps_effect steps_primitive [OF D]])
      (use EB begun_settle cl keep in auto)
  have set: "?U (settle d s)" if s: "?B s \<and> ?C l s \<and> ?C j s" for s
  proof -
    have st: "staged c a dir d F s" using s by (simp add: begun_def)
    have "parent_ino s (join_path dir n) = Some d" for n using staged_dir [OF st] by (simp add: parent_ino_def)
    moreover have "\<exists>n. inodes s d = Some n \<and> i_kind n = Directory" using st by (auto simp: staged_def entry_at_vis)
    ultimately have du: "dur (settle d s) (join_path dir n) = vis s (join_path dir n)" for n by (simp add: dur_settle)
    show ?thesis
      using s staged_settle [OF st, of d] staged_vis [OF st]
      by (auto simp: unmarked_def based_def begun_def durable_file_def du inode_data_def)
  qed
  have b3: "steps c (\<lambda>s. ?B s \<and> ?C l s \<and> ?C j s) (barrier_directory_untracked D dir False art) (\<lambda>_. ?U) E" for art
    by (rule steps_barrier_state_directory [OF D, where d = d])
      (use EB EU set in \<open>auto simp: begun_def staged_def\<close>)
  have op: "steps c ?U (open_directory_no_follow dir) (\<lambda>i s. i = d \<and> ?U s) E"
    by (rule steps_reads [OF reads_open_directory_no_follow]) (use EU in \<open>fastforce simp: unmarked_def based_def staged_def\<close>)+
  have pc: "steps c ?U (publish_commit S D P d prof (join_path dir COMMIT_FILE_NAME) (CommitPoint_empty S) False)
      (\<lambda>_ s. \<exists>f. marked S c a dir d l j (F(COMMIT_FILE_NAME \<mapsto> f)) f s) E"
    by (rule steps_publish_initial [where F = F, OF laws D P F(2)]) (use E EU in \<open>auto dest: marker_harmless\<close>)
  have iw: "steps c (\<lambda>s. \<exists>f. marked S c a dir d l j (F(COMMIT_FILE_NAME \<mapsto> f)) f s)
      (initialize_witness S D P dir prof (join_path dir PUBLISH_FILE_NAME)) (\<lambda>_. initialized S c a dir d l) E"
    by (rule steps_ex, rule steps_initialize_witness [OF laws D P]) (use F E in auto)
  show ?thesis
    unfolding initialize_fresh_store_def Let_def
    apply (rule steps_mbind [OF b1])
    apply (rule steps_mbind [OF b2])
    apply (rule steps_mbind [OF b3])
    apply (rule steps_mbind [OF op])
    apply (rule steps_pure [where q = "x = d" for x], simp)
    apply (hypsubst, rule steps_weaken [where A' = ?U], rule steps_mbind [OF pc iw])
    by auto
qed

section \<open>The state directory\<close>

text \<open>A place for a store: no reserved name is bound, and no commit point survives a power loss. Under
  \<open>c\<close> the process can create the directory or owns the empty one, under \<open>a\<close> the parent is the
  directory that holds its name.\<close>

definition vacant :: "Path \<Rightarrow> System \<Rightarrow> bool" where
  "vacant dir s \<longleftrightarrow>
     layout s dir \<and> (\<forall>n \<in> reserved. vis s (join_path dir n) = None) \<and> dur s (join_path dir COMMIT_FILE_NAME) = None"

definition ready_parent :: "Path \<Rightarrow> System \<Rightarrow> bool" where
  "ready_parent dir s \<longleftrightarrow>
     vis s dir = None \<and>
     (\<exists>q r n. parent_path dir = Some q \<and> q \<noteq> [] \<and> entry_at s q = Some (r, n) \<and> i_kind n = Directory)"

definition ready_directory :: "Path \<Rightarrow> System \<Rightarrow> bool" where
  "ready_directory dir s \<longleftrightarrow> private_dir s dir \<and> proc_uid s = owner_of s dir"

lemma vacant_harmless: "vacant dir s \<Longrightarrow> harmless S s dir"
  by (simp add: vacant_def harmless_def)

lemma reads_nearest_loop:
  assumes "c \<Longrightarrow> \<exists>i n. entry_at s q = Some (i, n) \<and> i_kind n = Directory"
  shows "reads c s (nearest_loop q) (\<lambda>p. entry_at s q \<noteq> None \<longrightarrow> p = q)"
proof -
  have "case nearest_loop q w of (Inl e, w') \<Rightarrow> \<not> c \<and> at_state c s w'
      | (Inr p, w') \<Rightarrow> (entry_at s q \<noteq> None \<longrightarrow> p = q) \<and> at_state c s w'"
    if "at_state c s w" "c \<Longrightarrow> \<exists>i n. entry_at s q = Some (i, n) \<and> i_kind n = Directory" for w :: "'h World"
    using that
  proof (induction q w rule: nearest_loop.induct)
    case (1 q w)
    have r: "case sys_symlink_metadata q w of (Inl e, w') \<Rightarrow> \<not> c \<and> at_state c s w' \<and> (e = NotFound \<longrightarrow> entry_at s q = None)
        | (Inr m, w') \<Rightarrow> entry_at s q = Some m \<and> at_state c s w'"
      using "1.prems"
      by (auto simp: sys_symlink_metadata_def query_def syscall_def at_state_def
          split: list.splits Fault.splits option.splits)
    show ?case
    proof (cases "sys_symlink_metadata q w")
      case (Pair x w')
      show ?thesis
      proof (cases x)
        case (Inr m)
        with Pair r "1.prems" show ?thesis by (cases m) auto
      next
        case (Inl e)
        with Pair r have w': "\<not> c" "at_state c s w'" by auto
        show ?thesis
        proof (cases "e = NotFound \<and> parent_path q \<noteq> None")
          case True
          then obtain p where p: "parent_path q = Some p" by auto
          note ih = "1.IH"(1) [OF Pair [symmetric] Inl _ p w'(2)]
          have "entry_at s q = None" using True Pair Inl r by simp
          then show ?thesis
            using ih w' True Pair Inl p by (auto split: prod.splits sum.splits)
        next
          case False
          then show ?thesis using Pair Inl w' by (cases e) auto
        qed
      qed
    qed
  qed
  from this [OF _ assms] show ?thesis unfolding reads_def triple_def by (intro allI impI)
qed

definition made_directory :: "Path \<Rightarrow> System \<Rightarrow> System" where
  "made_directory dir s = update_inode (next_ino s) (set_mode mode_0700) (new_entry dir Directory mode_0700 s)"

lemma made_directory_simps:
  "vis (made_directory dir s) = (vis s)(dir \<mapsto> next_ino s)" "dur (made_directory dir s) = dur s"
  "next_ino (made_directory dir s) = Suc (next_ino s)" "proc_uid (made_directory dir s) = proc_uid s"
  "locks (made_directory dir s) = locks s" "i \<noteq> next_ino s \<Longrightarrow> inodes (made_directory dir s) i = inodes s i"
  by (simp_all add: made_directory_def new_entry_simps update_inode_def)

lemma made_directory_staged:
  assumes v: "vacant dir s" "vis s dir = None"
  shows "staged True False dir (next_ino s) Map.empty (made_directory dir s)"
proof -
  have l: "layout s dir" using v by (simp add: vacant_def)
  have e: "entry_at (made_directory dir s) dir = Some (next_ino s, set_mode mode_0700 (the (inodes (new_entry dir Directory mode_0700 s) (next_ino s))))"
    by (simp add: entry_at_def made_directory_def new_entry_simps)
  have "inodes s (next_ino s) = None" using l by (meson layout_def less_irrefl not_None_eq)
  then have "layout (new_entry dir Directory mode_0700 s) dir"
    using l by (auto simp: layout_def new_entry_def less_Suc_eq split: if_splits)
  then have "layout (made_directory dir s) dir" by (simp add: made_directory_def)
  moreover have "private_dir (made_directory dir s) dir" "owner_of (made_directory dir s) dir = proc_uid s"
    by (simp_all add: private_dir_def owner_of_def e new_entry_simps set_mode_def mode_0700_def)
  ultimately show ?thesis
    using v by (auto simp: staged_def vacant_def made_directory_simps e) (simp_all add: new_entry_simps set_mode_def)
qed

text \<open>Whatever the directory was, an open that gets past it has an empty state directory.\<close>

definition empty_store :: "bool \<Rightarrow> bool \<Rightarrow> Path \<Rightarrow> nat \<Rightarrow> System \<Rightarrow> bool" where
  "empty_store c a dir d s \<longleftrightarrow>
     staged c a dir d Map.empty s \<and> dur s (join_path dir COMMIT_FILE_NAME) = None \<and>
     (c \<longrightarrow> (\<forall>i \<ge> next_ino s. locks s i = Unlocked))"

lemma empty_store_harmless: "empty_store c a dir d s \<Longrightarrow> harmless S s dir"
  using staged_vis [of c a dir d Map.empty s COMMIT_FILE_NAME] by (simp add: empty_store_def harmless_def)

lemma settle_locks [simp]: "locks (settle i s) = locks s" "locks (update_inode i g s) = locks s"
  by (simp_all add: settle_def update_inode_def split: option.splits)

lemma empty_store_settle:
  assumes "empty_store c a dir d s" shows "empty_store c a dir d (settle i s)"
  using assms staged_vis [of c a dir d Map.empty s COMMIT_FILE_NAME]
  by (auto simp: empty_store_def dur_settle intro: staged_settle)

lemma steps_make_directory:
  fixes D :: "'h DurabilityOps" and P :: "'h ProfileOps"
  assumes v: "vacant dir s0" "entry_at s0 dir = None" and D: "c \<Longrightarrow> good_hooks D" and P: "c \<Longrightarrow> good_profile P"
    and c: "c \<Longrightarrow> ready_parent dir s0 \<and> (\<forall>i \<ge> next_ino s0. locks s0 i = Unlocked)"
    and a: "a \<Longrightarrow> ready_parent dir s0" and E: "\<And>e s. harmless S s dir \<Longrightarrow> E e s"
  shows "steps c (\<lambda>s. s = s0) (ensure_state_directory D P dir)
    (\<lambda>prof s. (c \<longrightarrow> accepts_profile P prof) \<and> empty_store c a dir (next_ino s0) s) E" (is "steps c ?A _ ?B E")
proof -
  let ?d = "next_ino s0" and ?t = "new_entry dir Directory mode_0700 s0" and ?m = "made_directory dir s0"
  let ?E = "\<lambda>e s. \<forall>e. E e s"
  let ?H = "\<lambda>s. empty_store c False dir ?d s"
  have h: "harmless S s0 dir" "harmless S ?t dir"
    using vacant_harmless [OF v(1)] v(1) by (auto simp: vacant_def harmless_def new_entry_simps)
  have dir: "dir \<noteq> []" using v(1) by (simp add: vacant_def layout_def)
  define cand where "cand = (case parent_path dir of Some q \<Rightarrow> if q = [] then [''.''] else q | None \<Rightarrow> [''.''])"
  have ca: "\<exists>r n. entry_at s0 cand = Some (r, n) \<and> i_kind n = Directory \<and> parent_ino s0 dir = Some r" if "ready_parent dir s0"
    using that by (auto simp: ready_parent_def cand_def parent_ino_def entry_at_vis)
  note rb = steps_reads_bind [where E = E and B = ?B and c = c and ?s0.0 = s0]
  have H: "?H ?m" if "vis s0 dir = None"
    using made_directory_staged [OF v(1) that] v(1) c
    by (auto simp: empty_store_def vacant_def made_directory_simps staged_def)
  have mk: "steps c ?A (create_state_directory D dir) (\<lambda>_ s. s = ?t \<and> vis s0 dir = None) ?E"
    unfolding create_state_directory_def sys_create_dir_def
    by (intro steps_mbind [where R = "\<lambda>_ s. s = ?t \<and> vis s0 dir = None"] steps_syscall steps_primitive [OF D])
      (use E h c ca in \<open>auto simp: create_entry_def ready_parent_def split: if_splits\<close>)
  have no: "steps c (\<lambda>s. s = ?t \<and> vis s0 dir = None) (normalize_state_directory D dir) (\<lambda>_ s. s = ?m \<and> ?H s) ?E"
    unfolding normalize_state_directory_def sys_chmod_def
    by (intro steps_mbind [where R = "\<lambda>_ s. s = ?m \<and> ?H s"] steps_syscall steps_primitive [OF D])
      (use E h H in \<open>auto simp: made_directory_def new_entry_simps dest: empty_store_harmless\<close>)
  have ev: "steps c A (barrier_directory_evidence D i art) (\<lambda>_. B) ?E"
    if "\<And>s. A s \<Longrightarrow> B (settle i s)" "\<And>s. A s \<Longrightarrow> harmless S s dir" "\<And>s. B s \<Longrightarrow> harmless S s dir" for A B i art
    unfolding barrier_directory_evidence_def sys_sync_all_def
    by (rule steps_mbind [where R = "\<lambda>_. B", OF steps_effect steps_primitive [OF D]]) (use that E in auto)
  have up: "steps c A (mmap_err g m) B E" if "steps c A m B ?E" for A B g and m :: "('h, IoError, 'z) run"
    by (rule steps_mmap_err, rule steps_weaken [OF that]) auto
  have fin: "empty_store c a dir ?d (settle r (settle ?d ?m))"
    if m: "?H ?m" and r: "ready_parent dir s0 \<Longrightarrow> parent_ino s0 dir = Some r \<and> (\<exists>n. inodes s0 r = Some n \<and> i_kind n = Directory)" for r
  proof -
    have b: "?H (settle r (settle ?d ?m))" by (intro empty_store_settle m)
    have "dur (settle r (settle ?d ?m)) dir = Some ?d \<and> (\<exists>n. inodes (settle r (settle ?d ?m)) ?d = Some n \<and> i_clean n)" if aa: "a"
    proof -
      obtain n where n: "parent_ino s0 dir = Some r" "inodes s0 r = Some n" "i_kind n = Directory"
        using r [OF a [OF aa]] by blast
      have "r \<noteq> ?d" using n(2) v(1) by (auto simp: vacant_def layout_def)
      moreover have "parent_ino (settle ?d ?m) dir = parent_ino s0 dir"
        by (auto simp: parent_ino_def made_directory_simps parent_path_def split: option.splits if_splits) (metis length_butlast diff_less dir length_greater_0_conv less_irrefl zero_less_one)
      ultimately show ?thesis
        using n by (auto simp: dur_settle made_directory_simps) (auto simp: made_directory_def new_entry_simps)
    qed
    then show ?thesis using b by (auto simp: empty_store_def staged_def)
  qed
  have tail: "steps c (\<lambda>s. s = ?m \<and> ?H s)
      (mbind (open_existing_private_dir dir) (\<lambda>sd.
       mbind (qualify_directory P sd) (\<lambda>state_profile.
       mbind (require_same_profile P sd parent_profile) (\<lambda>_.
       mbind (mmap_err (io_unavailable m1) (barrier_directory_evidence D sd art1)) (\<lambda>_.
       mbind (mmap_err (io_unavailable m2) (barrier_directory_evidence D r art2)) (\<lambda>_.
       mret state_profile)))))) ?B E"
    if pp: "c \<Longrightarrow> accepts_profile P parent_profile" and r: "ready_parent dir s0 \<Longrightarrow> parent_ino s0 dir = Some r \<and> (\<exists>n. inodes s0 r = Some n \<and> i_kind n = Directory)"
    for parent_profile r m1 m2 art1 art2
  proof (rule steps_each)
    fix s assume s: "s = ?m \<and> ?H s"
    have hs: "harmless S s dir" using s empty_store_harmless by blast
    have dd: "\<exists>n. entry_at s dir = Some (?d, n)" using s by (auto simp: empty_store_def staged_def)
    note rs = steps_reads_bind [where E = E and B = ?B and c = c and ?s0.0 = s, OF _ _ E [OF hs]]
    show "steps c (\<lambda>x. x = s)
      (mbind (open_existing_private_dir dir) (\<lambda>sd.
       mbind (qualify_directory P sd) (\<lambda>state_profile.
       mbind (require_same_profile P sd parent_profile) (\<lambda>_.
       mbind (mmap_err (io_unavailable m1) (barrier_directory_evidence D sd art1)) (\<lambda>_.
       mbind (mmap_err (io_unavailable m2) (barrier_directory_evidence D r art2)) (\<lambda>_.
       mret state_profile)))))) ?B E"
      apply (rule rs [OF reads_open_existing_private_dir])
      subgoal using s by (auto simp: empty_store_def staged_def)
      apply (rule rs [OF reads_qualify_directory [OF P]], assumption)
      apply (rule rs [OF reads_require_same_profile [OF pp]], assumption)
      subgoal premises prems for sd prof u
      proof -
        have sd: "sd = ?d" using prems(1) dd by auto
        have s1: "steps c (\<lambda>x. x = s) (mmap_err (io_unavailable m1) (barrier_directory_evidence D ?d art1)) (\<lambda>_ x. x = settle ?d s) E"
          by (rule up, rule ev)
            (use hs empty_store_harmless [OF empty_store_settle [of c False dir ?d s ?d]] s in auto)
        have s2: "steps c (\<lambda>x. x = settle ?d s) (mmap_err (io_unavailable m2) (barrier_directory_evidence D r art2)) (\<lambda>_. empty_store c a dir ?d) E"
          by (rule up, rule ev)
            (use fin [OF _ r] s empty_store_harmless empty_store_harmless [OF empty_store_settle [of c False dir ?d s ?d]] in auto)
        show ?thesis
          unfolding sd by (intro steps_mbind [OF s1] steps_mbind [OF s2] steps_mret) (use prems P in auto)
      qed
      done
  qed
  show ?thesis
    unfolding ensure_state_directory_def nearest_existing_parent_def cand_def [symmetric]
    apply (rule rb [OF reads_path_entry_exists _ E [OF h(1)]])
    apply (simp only: v not_True_eq_False simp_thms if_False)
    apply (rule rb [OF reads_nearest_loop _ E [OF h(1)]])
    subgoal using c ca by blast
    apply (rule rb [OF reads_open_directory_no_follow _ E [OF h(1)]])
    subgoal using c ca by fastforce
    apply (rule rb [OF reads_qualify_directory [OF P] _ E [OF h(1)]], assumption)
    apply (rule steps_mbind [OF up [OF mk]])
    apply (rule steps_mbind [OF up [OF no]])
    subgoal premises prems for b q r prof u u'
      by (rule tail) (use prems ca P in \<open>auto simp: entry_at_vis\<close>)
    done
qed

lemma reads_ensure_present:
  assumes "entry_at s dir \<noteq> None" "c \<Longrightarrow> private_dir s dir \<and> good_profile P"
  shows "reads c s (ensure_state_directory D P dir)
    (\<lambda>prof. (good_profile P \<longrightarrow> accepts_profile P prof) \<and> (\<exists>d n. entry_at s dir = Some (d, n) \<and> i_kind n = Directory))"
  unfolding ensure_state_directory_def
  apply (rule reads_mbind [OF reads_path_entry_exists])
  apply (rule reads_if)
   apply (rule reads_mbind [OF reads_open_existing_private_dir])
  subgoal using assms(2) by simp
   apply (rule reads_weaken [OF reads_qualify_directory])
  subgoal using assms(2) by simp
  subgoal by blast
  using assms(1) by simp

lemma steps_ensure:
  assumes v: "vacant dir s0" and D: "c \<Longrightarrow> good_hooks D" and P: "c \<Longrightarrow> good_profile P"
    and c: "c \<Longrightarrow> (ready_parent dir s0 \<or> ready_directory dir s0) \<and> (\<forall>i \<ge> next_ino s0. locks s0 i = Unlocked)"
    and a: "a \<Longrightarrow> ready_parent dir s0" and E: "\<And>e s. harmless S s dir \<Longrightarrow> E e s"
  shows "steps c (\<lambda>s. s = s0) (ensure_state_directory D P dir)
    (\<lambda>prof s. (c \<longrightarrow> accepts_profile P prof) \<and> (\<exists>d. empty_store c a dir d s)) E"
proof (cases "entry_at s0 dir")
  case None
  then have "\<not> ready_directory dir s0" by (auto simp: ready_directory_def private_dir_def)
  with c have "c \<Longrightarrow> ready_parent dir s0 \<and> (\<forall>i \<ge> next_ino s0. locks s0 i = Unlocked)" by blast
  then show ?thesis
    by (intro steps_weaken [OF steps_make_directory [where E = E and S = S, OF v None D P _ a E]]) auto
next
  case (Some x)
  then have r: "\<not> ready_parent dir s0" by (auto simp: ready_parent_def entry_at_def)
  have e: "empty_store c a dir d s0" if "entry_at s0 dir = Some (d, n)" "i_kind n = Directory" for d n
    using v that c r a by (auto simp: empty_store_def staged_def vacant_def ready_directory_def)
  show ?thesis
    by (rule steps_reads [OF reads_ensure_present])
      (use Some c r P e E [OF vacant_harmless [OF v]] in \<open>auto simp: ready_directory_def\<close>)
qed

section \<open>Opening a store that is not there\<close>

lemma created_locks [simp]: "locks (created dir n s) = locks s" "locks (new_entry q k m s) = locks s"
  by (simp_all add: created_def new_entry_def)

lemma steps_open_or_initialize_fresh:
  fixes S :: "('s, 'b) StoreSerde_scheme"
  assumes laws: "store_serde_laws S" and D: "c \<Longrightarrow> good_hooks D" and P: "c \<Longrightarrow> accepts_profile P prof"
    and E: "\<And>e s. harmless S s dir \<Longrightarrow> E e s"
  shows "steps c (\<lambda>s. staged c a dir d [LOCK_FILE_NAME \<mapsto> l] s \<and> dur s (join_path dir COMMIT_FILE_NAME) = None)
    (open_existing_or_initialize S D P dir prof l False False False) (\<lambda>_. initialized S c a dir d l) E"
    (is "steps c ?A _ ?B E")
proof -
  let ?F = "\<lambda>j. [LOCK_FILE_NAME \<mapsto> l, JOURNAL_FILE_NAME \<mapsto> j]"
  let ?G = "\<lambda>j. begun c a dir d l j (?F j)"
  have h: "harmless S s dir" if "?A s" for s
    using that staged_vis [of c a dir d "[LOCK_FILE_NAME \<mapsto> l]" s COMMIT_FILE_NAME] by (simp add: harmless_def)
  have pr: "steps c ?A (mmap_err g (primitive D x)) (\<lambda>_. ?A) E" for g x
    by (rule steps_mmap_err, rule steps_primitive [OF D]) (use E h in auto)
  have cr: "steps c ?A (open_private_append_file D (join_path dir JOURNAL_FILE_NAME) True art) ?G E" for art
  proof (rule steps_each)
    fix s0 assume s0: "?A s0"
    then have st: "staged c a dir d [LOCK_FILE_NAME \<mapsto> l] s0" by simp
    have n: "[LOCK_FILE_NAME \<mapsto> l] JOURNAL_FILE_NAME = None" by simp
    have nw: "staged c a dir d (?F (next_ino s0)) (created dir JOURNAL_FILE_NAME s0)"
      using staged_new(2) [where F = "[LOCK_FILE_NAME \<mapsto> l]", OF st reserved_names(2) n] .
    have g: "?G (next_ino s0) (created dir JOURNAL_FILE_NAME s0)"
      using nw s0 by (simp add: begun_def created_simps)
    have "harmless S (new_entry (join_path dir JOURNAL_FILE_NAME) Regular mode_0600 s0) dir"
      using h [OF s0] s0 staged_vis [OF st, of COMMIT_FILE_NAME] by (simp add: harmless_def new_entry_simps)
    then show "steps c (\<lambda>s. s = s0) (open_private_append_file D (join_path dir JOURNAL_FILE_NAME) True art) ?G E"
      unfolding open_private_append_file_def
      by (intro steps_weaken [OF steps_create_private [where E = E, OF st _ n D]])
        (use E h [OF s0] begun_harmless [OF g] g in auto)
  qed
  have sp: "steps c (?G j) (require_same_profile P j prof) (\<lambda>_. ?G j) E" for j
    by (rule steps_reads [OF reads_require_same_profile [OF P]]) (auto intro: E begun_harmless)
  have go: "steps c (?G j) (initialize_fresh_store S D P dir prof l j) ?B E" for j
    by (rule steps_initialize_fresh [OF laws D P]) (use E in auto)
  show ?thesis
    unfolding open_existing_or_initialize_def if_False simp_thms
    by (intro steps_mbind [OF pr] steps_mbind [OF cr] steps_mbind [OF sp] go)
qed

lemma steps_open_vacant:
  fixes S :: "('s, 'b) StoreSerde_scheme"
  assumes laws: "store_serde_laws S" and v: "vacant dir s0" and D: "c \<Longrightarrow> good_hooks D" and P: "c \<Longrightarrow> good_profile P"
    and c: "c \<Longrightarrow> (ready_parent dir s0 \<or> ready_directory dir s0) \<and> (\<forall>i \<ge> next_ino s0. locks s0 i = Unlocked)"
    and a: "a \<Longrightarrow> ready_parent dir s0" and E: "\<And>e s. harmless S s dir \<Longrightarrow> E e s"
  shows "steps c (\<lambda>s. s = s0) (open_with_ops S D P dir)
    (\<lambda>jn s. state_dir jn = dir \<and> (\<exists>d. initialized S c a dir d (lock_file jn) s)) E" (is "steps c _ _ ?B E")
proof -
  let ?L = "\<lambda>d l s. staged c a dir d [LOCK_FILE_NAME \<mapsto> l] s \<and> dur s (join_path dir COMMIT_FILE_NAME) = None"
  have rest: "steps c (\<lambda>s. s = s1)
      (mbind (open_private_update_file D (join_path dir LOCK_FILE_NAME) True ''lock'') (\<lambda>f.
       mbind (require_same_profile P f prof) (\<lambda>_.
       mbind (acquire_exclusive f) (\<lambda>lock.
       with_lock lock
         (mbind (open_existing_or_initialize S D P dir prof lock False False False) (\<lambda>_.
          mret \<lparr>state_dir = dir, journal_path = join_path dir JOURNAL_FILE_NAME, lock_file = lock\<rparr>)))))) ?B E"
    if e: "empty_store c a dir d s1" and pr: "c \<Longrightarrow> accepts_profile P prof" for s1 d prof
  proof -
    have st: "staged c a dir d Map.empty s1" "dur s1 (join_path dir COMMIT_FILE_NAME) = None" using e by (simp_all add: empty_store_def)
    let ?l = "next_ino s1" and ?s = "created dir LOCK_FILE_NAME s1"
    note nw = staged_new [OF st(1) reserved_names(1)]
    have L: "?L d ?l ?s" "?L d ?l (locked ?l ?s)" using nw(2) st(2) by (simp_all add: created_simps locked_def)
    have h: "harmless S s1 dir" "harmless S (new_entry (join_path dir LOCK_FILE_NAME) Regular mode_0600 s1) dir" "harmless S ?s dir"
      using empty_store_harmless [OF e] st staged_vis [OF st(1), of COMMIT_FILE_NAME] by (simp_all add: harmless_def new_entry_simps created_simps)
    have cr: "steps c (\<lambda>s. s = s1) (open_private_update_file D (join_path dir LOCK_FILE_NAME) True ''lock'') (\<lambda>f s. f = ?l \<and> s = ?s) E"
      unfolding open_private_update_file_def
      by (rule steps_create_private [where E = E, OF st(1) _ _ D]) (use E h in auto)
    have sp: "steps c (\<lambda>s. s = ?s) (require_same_profile P ?l prof) (\<lambda>_ s. s = ?s) E"
      by (rule steps_reads [OF reads_require_same_profile [OF pr]]) (use E h in auto)
    have lk: "steps c (\<lambda>s. s = ?s) (acquire_exclusive ?l) (\<lambda>x s. x = ?l \<and> locks ?s ?l = Unlocked \<and> s = locked ?l ?s) E"
      by (rule steps_try_lock) (use e E h in \<open>auto simp: empty_store_def\<close>)
    have ini: "steps c (\<lambda>s. s = locked ?l ?s) (open_existing_or_initialize S D P dir prof ?l False False False)
        (\<lambda>_. initialized S c a dir d ?l) (\<lambda>e s. E e (release_lock ?l s))"
      by (rule steps_weaken [OF steps_open_or_initialize_fresh [where E = "\<lambda>e s. E e (release_lock ?l s)", OF laws D pr]])
        (use L E in auto)
    show ?thesis
      apply (rule steps_mbind [OF cr])
      apply (rule steps_pure [where q = "x = ?l" for x], simp)
      apply (hypsubst, rule steps_weaken [where A' = "\<lambda>s. s = ?s"])
         apply (rule steps_mbind [OF sp])
         apply (rule steps_mbind [OF lk])
         apply (rule steps_pure [where q = "x = ?l" for x], simp)
         apply (hypsubst, rule steps_with_lock)
         apply (rule steps_weaken [where A' = "\<lambda>s. s = locked ?l ?s"])
            apply (rule steps_mbind [OF ini steps_mret])
      by auto
  qed
  have none: "entry_at s (join_path dir n) = None" if "empty_store c a dir d s" "n \<in> reserved" for d s n
    using staged_vis [of c a dir d Map.empty s n] that by (simp add: empty_store_def entry_at_def)
  show ?thesis
    unfolding open_with_ops_def Let_def
    apply (rule steps_mbind [OF steps_ensure [where E = E and S = S, OF v D P c a E]], assumption+)
    subgoal for prof
      apply (rule steps_each, elim conjE exE)
      subgoal premises prems for s1 d
        apply (rule steps_reads_bind [OF reads_path_entry_exists])
        apply (rule steps_reads_bind [OF reads_path_entry_exists])
        apply (rule steps_reads_bind [OF reads_path_entry_exists])
        apply (rule steps_reads_bind [OF reads_path_entry_exists])
        apply (simp add: none [OF prems(2)])
        apply (rule rest [OF prems(2)], use prems(1) in blast)
        by (rule E, rule empty_store_harmless [OF prems(2)])+
      done
    done
qed

lemma initialized_at_rest:
  assumes i: "initialized S True a dir d l s"
  shows "\<exists>j p. framed True a dir d j p s \<and> at_rest S s dir [] \<and> opened s dir LOCK_FILE_NAME l"
proof -
  obtain j F f p dv where att: "attested S True a dir d l j F f p dv s" and T: "F COMMIT_TEMP_FILE_NAME = None"
    and w: "durable_file s (join_path dir PUBLISH_FILE_NAME) p (PublishWitness_encode S (clean 1))"
    using i by (auto simp: initialized_def)
  then have m: "marked S True a dir d l j F f s" and P: "F PUBLISH_FILE_NAME = Some p" by (auto simp: attested_def)
  note st = marked_based(2) [OF m] and b = marked_based(1) [OF m]
  have F: "F LOCK_FILE_NAME = Some l" "F JOURNAL_FILE_NAME = Some j" "F COMMIT_FILE_NAME = Some f"
    using b marked_based(3) [OF m] by (simp_all add: based_def)
  note op = staged_opened [OF st TrueI]
  have o: "opened s dir LOCK_FILE_NAME l" "opened s dir JOURNAL_FILE_NAME j" "opened s dir COMMIT_FILE_NAME f" "opened s dir PUBLISH_FILE_NAME p"
    using op F P by simp_all
  have dc: "durable_file s (join_path dir COMMIT_FILE_NAME) f (CommitPoint_encode S (CommitPoint_empty S))"
    using m staged_vis [OF st, of COMMIT_FILE_NAME] F by (auto simp: marked_def marker_def durable_file_def)
  have "framed True a dir d j p s"
    using st o b T staged_dir [OF st] staged_vis [OF st, of COMMIT_TEMP_FILE_NAME]
    by (auto simp: framed_def staged_def openable_def private_file_opened anchored_def based_def durable_file_def)
  moreover have "at_rest S s dir []"
    using b dc w point_of_Nil [of S] by (auto simp: at_rest_def committed_def based_def durable_file_def)
  ultimately show ?thesis using o by blast
qed

section \<open>Initialization, stopped anywhere and completed\<close>

text \<open>What is synchronized can be opened again after a power loss.\<close>

lemma crash_entry:
  assumes t: "crash_image s t" and v: "vis s q = Some i" "dur s q = Some i" "inodes s i = Some n" "i_clean n"
  shows "entry_at t q = Some (i, n)"
proof -
  have "vis t q = Some i" using t v(1,2) unfolding crash_image_def by metis
  moreover have "inodes t i = Some n" using t v(3,4) by (simp add: crash_image_def)
  ultimately show ?thesis by (simp add: entry_at_vis)
qed

lemma crash_openable:
  assumes t: "crash_image s t" and f: "framed True True dir d j p s" and r: "at_rest S s dir es"
    and l: "opened s dir LOCK_FILE_NAME l"
  shows "openable t dir" "opened t dir LOCK_FILE_NAME l"
proof -
  have an: "anchored s dir" and op: "openable s dir" using f by (simp_all add: framed_def)
  have dd: "entry_at t dir = entry_at s dir"
    using an crash_entry [OF t, of dir] by (auto simp: anchored_def entry_at_vis) (metis entry_at_vis)
  have ow: "owner_of t dir = owner_of s dir" "private_dir t dir = private_dir s dir"
    by (simp_all add: owner_of_def private_dir_def dd)
  have same: "entry_at t (join_path dir n) = entry_at s (join_path dir n)"
    if "\<exists>i m. vis s (join_path dir n) = Some i \<and> dur s (join_path dir n) = Some i \<and> inodes s i = Some m \<and> i_clean m" for n
    using that crash_entry [OF t] by (metis entry_at_vis)
  have "entry_at t (join_path dir n) = entry_at s (join_path dir n)"
    if "n \<in> {LOCK_FILE_NAME, JOURNAL_FILE_NAME, COMMIT_FILE_NAME, PUBLISH_FILE_NAME}" for n
    using that r an by (intro same) (auto simp: at_rest_def committed_def durable_file_def anchored_def)
  then show "openable t dir" "opened t dir LOCK_FILE_NAME l"
    using op l ow by (simp_all add: openable_def private_file_def opened_def)
qed

text \<open>A reader opens a store it can read, and then holds the lock with others.\<close>

lemma steps_reader_open_calm:
  assumes dir: "dir \<noteq> []" and o: "openable s0 dir" and P: "good_profile P" and v: "view S s0 dir snap"
    and l: "\<And>i. locks s0 i = Unlocked"
  shows "steps True (\<lambda>s. s = s0) (reader_open_with_profile S P dir)
    (\<lambda>jn s. state_dir jn = dir \<and> opened s0 dir LOCK_FILE_NAME (lock_file jn) \<and> (\<exists>k. s = s0\<lparr>locks := k\<rparr>)) (\<lambda>_ _. True)"
    (is "steps True _ _ ?B ?E")
proof -
  note rb = steps_reads_bind [where E = ?E and B = ?B and c = True and ?s0.0 = s0, OF _ _ TrueI]
  have ex: "reads True s0 (require_existing_path (join_path dir n) label) (\<lambda>_. True)"
    if "n \<in> {LOCK_FILE_NAME, JOURNAL_FILE_NAME, COMMIT_FILE_NAME, PUBLISH_FILE_NAME}" for n label
    unfolding require_existing_path_def
    by (rule reads_mbind [OF reads_path_entry_exists])
      (use o that in \<open>auto simp: openable_def private_file_def intro!: reads_if reads_mret\<close>)
  have op: "reads True s0 (open_private_read_file (join_path dir n)) (opened s0 dir n)"
    if "n \<in> {LOCK_FILE_NAME, JOURNAL_FILE_NAME, COMMIT_FILE_NAME, PUBLISH_FILE_NAME}" for n
    by (rule reads_open_private_read_file [OF dir]) (use o that in \<open>auto simp: openable_def\<close>)
  have lk: "steps True (\<lambda>s. s = s0) (acquire_shared f) (\<lambda>_ s. \<exists>k. s = s0\<lparr>locks := k\<rparr>) ?E" for f
    unfolding acquire_shared_def sys_try_lock_shared_def
    by (intro steps_mbind [where R = "\<lambda>_ s. \<exists>k. s = s0\<lparr>locks := k\<rparr>"] steps_mmap_err steps_mret steps_syscall)
      (use l in \<open>auto split: LockState.splits\<close>)
  show ?thesis
    unfolding reader_open_with_profile_def
    apply (rule rb [OF reads_open_existing_private_dir])
    subgoal using o by (simp add: openable_def)
    apply (rule rb [OF reads_qualify_directory], rule P)
    apply (rule rb [OF ex], simp)
    apply (rule rb [OF ex], simp)
    apply (rule rb [OF ex], simp)
    apply (rule rb [OF op], simp)
    apply (rule rb [OF reads_require_same_profile], use P in simp)
    apply (rule rb [OF op], simp)
    apply (rule rb [OF reads_require_same_profile], use P in simp)
    apply (rule rb [OF op], simp)
    apply (rule rb [OF reads_require_same_profile], use P in simp)
    apply (rule rb [OF reads_read_commit_point])
    subgoal using v by (auto simp: view_def dest!: opened_data)
    apply (rule rb [OF ex], simp)
    apply (rule rb [OF op], simp)
    apply (rule rb [OF reads_require_same_profile], use P in simp)
    apply (rule steps_mbind [OF lk])
    by (rule steps_mret) auto
qed

lemma reader_serves:
  assumes dir: "dir \<noteq> []" and o: "openable (system v) dir" and P: "good_profile P" and v: "view S (system v) dir snap"
    and l: "\<And>i. locks (system v) i = Unlocked" and f: "faults v = []"
  shows "\<exists>jr v1 v2. reader_open_with_profile S P dir v = (Inr jr, v1) \<and>
    load_committed_observed_by_store S P jr ob v1 = (Inr (snapshot_entries snap), v2)"
proof -
  obtain jr v1 where j: "reader_open_with_profile S P dir v = (Inr jr, v1)" "state_dir jr = dir"
    "opened (system v) dir LOCK_FILE_NAME (lock_file jr)" "\<exists>k. system v1 = (system v)\<lparr>locks := k\<rparr>" "faults v1 = []"
    by (rule steps_run_calm [OF steps_reader_open_calm [OF dir o P v l] refl f]) auto
  then obtain k where k: "system v1 = (system v)\<lparr>locks := k\<rparr>" by blast
  have "view S (system v1) dir snap" using v by (simp add: k view_def)
  then have "\<exists>v2. load_committed_observed_by_store S P jr ob v1 = (Inr (snapshot_entries snap), v2)"
    using j(2,3,5) dir o P by (intro load_run_calm) (auto simp: k)
  with j(1) show ?thesis by blast
qed

text \<open>An empty place, as the witnesses use it: the directory \<open>r\<close> exists, \<open>r/d\<close> does not.\<close>

definition example_blank :: "unit World" where
  "example_blank =
     \<lparr>system = \<lparr>vis = [[''r''] \<mapsto> 0], dur = [[''r''] \<mapsto> 0], inodes = [0 \<mapsto> example_inode Directory mode_0700 []],
        next_ino = 1, locks = (\<lambda>_. Unlocked), creation_mode = (\<lambda>m. m), proc_uid = 1000\<rparr>, faults = [], hooks = ()\<rparr>"

lemma example_blank_simps:
  "faults example_blank = []" "vis (system example_blank) = [[''r''] \<mapsto> 0]" "dur (system example_blank) = [[''r''] \<mapsto> 0]"
  "inodes (system example_blank) = [0 \<mapsto> example_inode Directory mode_0700 []]" "next_ino (system example_blank) = 1"
  "locks (system example_blank) i = Unlocked"
  by (simp_all add: example_blank_def)

lemma example_vacant:
  "vacant [''r'', ''d''] (system example_blank)" "ready_parent [''r'', ''d''] (system example_blank)"
  "\<forall>i \<ge> next_ino (system example_blank). locks (system example_blank) i = Unlocked"
  by (auto simp: vacant_def layout_def ready_parent_def example_blank_simps join_path_def parent_path_def entry_at_def split: if_splits)
    (simp add: example_inode_def)

text \<open>C20: an initialization stopped anywhere is harmless. Open a store where there is none under any
  pattern of faults, hook failures and profile answers, cut the power at any mixture of synchronized
  and unsynchronized state, and read: a load that returns entries returns none.\<close>

theorem initialization_crash_safe:
  assumes "store_serde_laws S" and "vacant dir (system w)" and "open_with_ops S D P dir w = (r, w')"
    and "crash_image (system w') (system v)" and "state_dir jr = dir"
    and "load_committed_observed_by_store S P' jr ob v = (Inr got, v')"
  shows "got = [] \<and> system v' = system v"
proof -
  have dir: "state_dir jr \<noteq> []" using assms(2,5) by (simp add: vacant_def layout_def)
  note ld = reads_load_committed_run [OF dir assms(6)]
  obtain snap where v: "view S (system v) dir snap" "got = snapshot_entries snap" using ld(2) [OF refl] assms(5) by auto
  have st: "steps False (\<lambda>s. s = system w) (open_with_ops S D P dir)
      (\<lambda>jn s. state_dir jn = dir \<and> (\<exists>d. initialized S False False dir d (lock_file jn) s)) (\<lambda>_ s. harmless S s dir)"
    by (rule steps_open_vacant [OF assms(1,2)]) auto
  have "harmless S (system w') dir"
    using steps_run [OF st refl _ assms(3)] attested_harmless by (cases r) (auto simp: initialized_def)
  from harmless_view [OF assms(1) this assms(4) v(1)] v(2) ld(1) show ?thesis by simp
qed

theorem initialization_crash_safe_witness:
  "\<exists>jn w' v'. open_with_ops example_store_serde ProductionDurability (ProductionProfile example_system) [''r'', ''d''] example_blank = (Inr jn, w') \<and>
     load_committed_observed_by_store example_store_serde (ProductionProfile example_system) jn None w' = (Inr [], v') \<and>
     system v' = system w'"
proof -
  note laws = example_store_serde_laws
  have st: "steps True (\<lambda>s. s = system example_blank)
      (open_with_ops example_store_serde ProductionDurability (ProductionProfile example_system) [''r'', ''d''])
      (\<lambda>jn s. state_dir jn = [''r'', ''d''] \<and> (\<exists>d. initialized example_store_serde True True [''r'', ''d''] d (lock_file jn) s))
      (\<lambda>_ s. harmless example_store_serde s [''r'', ''d''])"
    by (rule steps_open_vacant [OF laws example_vacant(1)]) (use example_vacant example_good_profile in auto)
  obtain jn w' d where o: "open_with_ops example_store_serde ProductionDurability (ProductionProfile example_system) [''r'', ''d''] example_blank = (Inr jn, w')"
    "state_dir jn = [''r'', ''d'']" "faults w' = []" "initialized example_store_serde True True (state_dir jn) d (lock_file jn) (system w')"
    by (rule steps_run_calm [OF st refl example_blank_simps(1)]) auto
  from initialized_at_rest [OF o(4)] obtain j p where i: "framed True True (state_dir jn) d j p (system w')"
    "at_rest example_store_serde (system w') (state_dir jn) []" "opened (system w') (state_dir jn) LOCK_FILE_NAME (lock_file jn)"
    by auto
  have "openable (system w') (state_dir jn)" using i(1) by (simp add: framed_def)
  from load_run_calm [OF framed_names(1) [OF i(1)] this i(3) example_good_profile view_at_rest [OF laws i(2)] o(3), of None]
  obtain v' where l: "load_committed_observed_by_store example_store_serde (ProductionProfile example_system) jn None w' = (Inr [], v')"
    by auto
  from initialization_crash_safe [OF laws example_vacant(1) o(1) crash_image_refl o(2) l] o(1) l show ?thesis by blast
qed

text \<open>C21: a fresh store serves and lasts. Where the parent directory exists and nothing fails, opening
  creates and initializes the store, the first append returns entry one, and after any power loss a
  reader without faults opens the store and returns exactly that entry.\<close>

theorem fresh_store_serves:
  assumes "store_serde_laws S" and "vacant dir (system w)" and "ready_parent dir (system w)"
    and "\<forall>i \<ge> next_ino (system w). locks (system w) i = Unlocked"
    and "good_hooks D" and "good_profile P" and "faults w = []"
    and "wf_BoundedTimestamp t" and "wf_signal (event_signal ev)"
  shows "\<exists>jn w1 w2. open_with_ops S D P dir w = (Inr jn, w1) \<and>
    append_with_ops S D P jn ob ev t w1 = (Inr (next_entry [] ev t), w2) \<and>
    (\<forall>v. crash_image (system w2) (system v) \<and> (\<forall>i. locks (system v) i = Unlocked) \<and> faults v = [] \<longrightarrow>
       (\<exists>jr v1 v2. reader_open_with_profile S P dir v = (Inr jr, v1) \<and>
          load_committed_observed_by_store S P jr ob v1 = (Inr [next_entry [] ev t], v2)))"
proof -
  have st: "steps True (\<lambda>s. s = system w) (open_with_ops S D P dir)
      (\<lambda>jn s. state_dir jn = dir \<and> (\<exists>d. initialized S True True dir d (lock_file jn) s)) (\<lambda>_ s. harmless S s dir)"
    by (rule steps_open_vacant [OF assms(1,2)]) (use assms in auto)
  obtain jn w1 d where o: "open_with_ops S D P dir w = (Inr jn, w1)" "state_dir jn = dir" "faults w1 = []"
    "initialized S True True dir d (lock_file jn) (system w1)"
    by (rule steps_run_calm [OF st refl assms(7)]) auto
  from initialized_at_rest [OF o(4)] obtain j p where i: "framed True True (state_dir jn) d j p (system w1)"
    "at_rest S (system w1) (state_dir jn) []" "opened (system w1) (state_dir jn) LOCK_FILE_NAME (lock_file jn)"
    using o(2) by auto
  have "idle S True True (state_dir jn) d j p [] (system w1)" using i by (simp add: idle_def at_rest_def)
  from append_run_calm [OF assms(1) this i(2,3) assms(6,5) o(3) assms(8,9), of ob] obtain w2
    where a: "append_with_ops S D P jn ob ev t w1 = (Inr (next_entry [] ev t), w2)"
      "idle S True True (state_dir jn) d j p [next_entry [] ev t] (system w2)"
      "at_rest S (system w2) (state_dir jn) [next_entry [] ev t]"
    by (auto simp: MAX_JOURNAL_ENTRIES_def)
  have f: "framed True True (state_dir jn) d j p (system w2)" using a(2) by (simp add: idle_def)
  obtain l where l: "opened (system w2) (state_dir jn) LOCK_FILE_NAME l"
    using f by (auto simp: framed_def openable_def private_file_opened)
  have "\<exists>jr v1 v2. reader_open_with_profile S P dir v = (Inr jr, v1) \<and>
      load_committed_observed_by_store S P jr ob v1 = (Inr [next_entry [] ev t], v2)"
    if "crash_image (system w2) (system v)" "\<forall>i. locks (system v) i = Unlocked" "faults v = []" for v
    using reader_serves [OF framed_names(1) [OF f] crash_openable(1) [OF that(1) f a(3) l] assms(6)
        crash_at_rest_view [OF assms(1) a(3) that(1)], of ob] that o(2) by simp
  with o(1) a(1) show ?thesis by blast
qed

theorem fresh_store_serves_witness:
  "\<exists>jn w1 w2 jr v1 v2.
     open_with_ops example_store_serde ProductionDurability (ProductionProfile example_system) [''r'', ''d''] example_blank = (Inr jn, w1) \<and>
     append_with_ops example_store_serde ProductionDurability (ProductionProfile example_system) jn None
       (SignalAccepted example_signal) example_time w1 = (Inr (next_entry [] (SignalAccepted example_signal) example_time), w2) \<and>
     reader_open_with_profile example_store_serde (ProductionProfile example_system) [''r'', ''d'']
       (w2\<lparr>system := (system w2)\<lparr>locks := \<lambda>_. Unlocked\<rparr>, faults := []\<rparr>) = (Inr jr, v1) \<and>
     load_committed_observed_by_store example_store_serde (ProductionProfile example_system) jr None v1 =
       (Inr [next_entry [] (SignalAccepted example_signal) example_time], v2)"
proof -
  note fs = fresh_store_serves [OF example_store_serde_laws example_vacant ProductionDurability_good example_good_profile
      example_blank_simps(1) example_event, of None]
  show ?thesis
    by (rule exE [OF fs], elim exE conjE, drule spec, drule mp, rule conjI [OF _ conjI])
      (auto simp: crash_image_def)
qed

end
