(* ===== verification/Timing.thy ===== *)
theory Timing
  imports Store_World
begin

text \<open>
  \<^verbatim>\<open>crates/aizign-cli/src/timing.rs\<close>: the opt-in timing record of one request and the two observers
  that fill it. An instant is a number of nanoseconds; the readings of the monotonic clock that an
  observer will make are the list it carries. A floating-point number is kept as the exact quotient
  it is computed from, so the rounding of \<^verbatim>\<open>f64\<close> is not modelled.
\<close>

definition TIMING_ENV :: string where "TIMING_ENV = ''AIZIGN_TIMING_JSON''"

definition timing_enabled :: "(string \<Rightarrow> string option) \<Rightarrow> bool" where
  "timing_enabled env \<longleftrightarrow> env TIMING_ENV = Some ''1''"

type_synonym f64 = "nat \<times> nat"

definition milliseconds :: "nat \<Rightarrow> f64" where
  "milliseconds duration = (duration, 10 ^ 6)"

definition microseconds :: "nat \<Rightarrow> f64" where
  "microseconds duration = (duration, 10 ^ 3)"

record EngineTiming =
  journal_entries :: "nat option"
  journal_load_decode_ms :: "f64 option"
  replay_ms :: "f64 option"
  decide_us :: "f64 option"
  append_sync_ms :: "f64 option"

record StoreTiming =
  journal_open_ms :: "f64 option"
  journal_physical_bytes :: "nat option"
  committed_prefix_read_ms :: "f64 option"
  committed_prefix_hash_ms :: "f64 option"
  committed_prefix_decode_ms :: "f64 option"
  publish_prefix_hash_ms :: "f64 option"

record HandlerTiming =
  request_read_ms :: "f64 option"
  decode_ms :: "f64 option"
  engine_timing :: EngineTiming
  store_timing :: StoreTiming
  response_encode_ms :: "f64 option"
  response_write_ms :: "f64 option"
  handler_total_ms :: "f64 option"
  outcome :: "string option"
  error_code :: "string option"
  operation_kind :: "string option"

definition EngineTiming_default :: EngineTiming where
  "EngineTiming_default =
     \<lparr>journal_entries = None, journal_load_decode_ms = None, replay_ms = None, decide_us = None, append_sync_ms = None\<rparr>"

definition StoreTiming_default :: StoreTiming where
  "StoreTiming_default =
     \<lparr>journal_open_ms = None, journal_physical_bytes = None, committed_prefix_read_ms = None,
      committed_prefix_hash_ms = None, committed_prefix_decode_ms = None, publish_prefix_hash_ms = None\<rparr>"

definition HandlerTiming_default :: HandlerTiming where
  "HandlerTiming_default =
     \<lparr>request_read_ms = None, decode_ms = None, engine_timing = EngineTiming_default,
      store_timing = StoreTiming_default, response_encode_ms = None, response_write_ms = None,
      handler_total_ms = None, outcome = None, error_code = None, operation_kind = None\<rparr>"

section \<open>The emitted record\<close>

datatype MetricValue = MetricFloat f64 | MetricNat nat | MetricString string

type_synonym Metric = "(string \<times> MetricValue) list"

definition insert_f64 :: "string \<Rightarrow> f64 option \<Rightarrow> Metric \<Rightarrow> Metric" where
  "insert_f64 name value m = (case value of None \<Rightarrow> m | Some x \<Rightarrow> m @ [(name, MetricFloat x)])"

definition insert_u64 :: "string \<Rightarrow> nat option \<Rightarrow> Metric \<Rightarrow> Metric" where
  "insert_u64 name value m = (case value of None \<Rightarrow> m | Some x \<Rightarrow> m @ [(name, MetricNat x)])"

definition insert_str :: "string \<Rightarrow> string option \<Rightarrow> Metric \<Rightarrow> Metric" where
  "insert_str name value m = (case value of None \<Rightarrow> m | Some x \<Rightarrow> m @ [(name, MetricString x)])"

definition metric :: "HandlerTiming \<Rightarrow> Metric" where
  "metric t =
     (let m = [(''schema_version'', MetricNat 1)];
          m = insert_f64 ''request_read_ms'' (request_read_ms t) m;
          m = insert_f64 ''decode_ms'' (decode_ms t) m;
          m = insert_f64 ''journal_open_ms'' (journal_open_ms (store_timing t)) m;
          m = insert_u64 ''journal_physical_bytes'' (journal_physical_bytes (store_timing t)) m;
          m = insert_u64 ''journal_entries'' (journal_entries (engine_timing t)) m;
          m = insert_f64 ''journal_load_decode_ms'' (journal_load_decode_ms (engine_timing t)) m;
          m = insert_f64 ''committed_prefix_read_ms'' (committed_prefix_read_ms (store_timing t)) m;
          m = insert_f64 ''committed_prefix_hash_ms'' (committed_prefix_hash_ms (store_timing t)) m;
          m = insert_f64 ''committed_prefix_decode_ms'' (committed_prefix_decode_ms (store_timing t)) m;
          m = insert_f64 ''replay_ms'' (replay_ms (engine_timing t)) m;
          m = insert_f64 ''decide_us'' (decide_us (engine_timing t)) m;
          m = insert_f64 ''append_sync_ms'' (append_sync_ms (engine_timing t)) m;
          m = insert_f64 ''publish_prefix_hash_ms'' (publish_prefix_hash_ms (store_timing t)) m;
          m = insert_f64 ''response_encode_ms'' (response_encode_ms t) m;
          m = insert_f64 ''response_write_ms'' (response_write_ms t) m;
          m = insert_f64 ''handler_total_ms'' (handler_total_ms t) m;
          m = insert_str ''outcome'' (outcome t) m;
          m = insert_str ''error_code'' (error_code t) m
      in insert_str ''operation_kind'' (operation_kind t) m)"

text \<open>The line on stderr; the serializer of the map is a parameter.\<close>

definition emit :: "(Metric \<Rightarrow> (string, string) result) \<Rightarrow> HandlerTiming \<Rightarrow> string list" where
  "emit to_string t = (case to_string (metric t) of Inl _ \<Rightarrow> [] | Inr encoded \<Rightarrow> [''aizign_timing:'' @ encoded])"

section \<open>The observers\<close>

fun read_instant :: "nat list \<Rightarrow> nat \<times> nat list" where
  "read_instant [] = (0, [])"
| "read_instant (t # ts) = (t, ts)"

record ('s, 't) TimingObserver =
  to_timing :: 't
  to_active :: "('s \<times> nat) list"
  to_instants :: "nat list"

definition TimingObserver_new :: "'t \<Rightarrow> nat list \<Rightarrow> ('s, 't) TimingObserver" where
  "TimingObserver_new t ts = \<lparr>to_timing = t, to_active = [], to_instants = ts\<rparr>"

definition push_stage :: "'s \<Rightarrow> ('s, 't) TimingObserver \<Rightarrow> ('s, 't) TimingObserver" where
  "push_stage stage ob =
     (case read_instant (to_instants ob) of (now, ts) \<Rightarrow>
        ob\<lparr>to_active := (stage, now) # to_active ob, to_instants := ts\<rparr>)"

text \<open>The pop of \<open>stage_finished\<close>: the last active stage, with the time since it started when it is
  the stage that finished. The vector is kept with its last element first.\<close>

definition pop_stage :: "'s \<Rightarrow> (nat \<Rightarrow> 't \<Rightarrow> 't) \<Rightarrow> ('s, 't) TimingObserver \<Rightarrow> ('s, 't) TimingObserver" where
  "pop_stage stage record_elapsed ob =
     (case to_active ob of
        [] \<Rightarrow> ob
      | (active, started) # rest \<Rightarrow>
          if active \<noteq> stage then ob\<lparr>to_active := rest\<rparr>
          else (case read_instant (to_instants ob) of (now, ts) \<Rightarrow>
            ob\<lparr>to_timing := record_elapsed (now - started) (to_timing ob), to_active := rest, to_instants := ts\<rparr>))"

fun record_engine_stage :: "EngineStage \<Rightarrow> nat option \<Rightarrow> nat \<Rightarrow> EngineTiming \<Rightarrow> EngineTiming" where
  "record_engine_stage JournalLoadDecode entries elapsed t =
     (let t = t\<lparr>journal_load_decode_ms := Some (milliseconds elapsed)\<rparr>
      in case entries of None \<Rightarrow> t | Some n \<Rightarrow> t\<lparr>journal_entries := Some n\<rparr>)"
| "record_engine_stage Replay _ elapsed t = t\<lparr>replay_ms := Some (milliseconds elapsed)\<rparr>"
| "record_engine_stage Decide _ elapsed t = t\<lparr>decide_us := Some (microseconds elapsed)\<rparr>"
| "record_engine_stage AppendSync _ elapsed t = t\<lparr>append_sync_ms := Some (milliseconds elapsed)\<rparr>"

definition EngineTimingObserver :: "(EngineStage, EngineTiming) TimingObserver EngineObserver" where
  "EngineTimingObserver =
     \<lparr>on_stage_started = (\<lambda>stage ob. (push_stage stage ob, False)),
      on_stage_finished = (\<lambda>stage n ob. (pop_stage stage (record_engine_stage stage n) ob, False))\<rparr>"

fun record_store_stage :: "StoreStage \<Rightarrow> nat \<Rightarrow> StoreTiming \<Rightarrow> StoreTiming" where
  "record_store_stage JournalOpen elapsed t = t\<lparr>journal_open_ms := Some (milliseconds elapsed)\<rparr>"
| "record_store_stage CommittedPrefixRead elapsed t = t\<lparr>committed_prefix_read_ms := Some (milliseconds elapsed)\<rparr>"
| "record_store_stage CommittedPrefixHash elapsed t = t\<lparr>committed_prefix_hash_ms := Some (milliseconds elapsed)\<rparr>"
| "record_store_stage CommittedPrefixDecode elapsed t = t\<lparr>committed_prefix_decode_ms := Some (milliseconds elapsed)\<rparr>"
| "record_store_stage PublishPrefixHash elapsed t = t\<lparr>publish_prefix_hash_ms := Some (milliseconds elapsed)\<rparr>"

fun StoreTimingObserver_observe :: "(StoreStage, StoreTiming) TimingObserver StoreObserver" where
  "StoreTimingObserver_observe (StageStarted stage) ob = (False, push_stage stage ob)"
| "StoreTimingObserver_observe (StageFinished stage) ob = (False, pop_stage stage (record_store_stage stage) ob)"
| "StoreTimingObserver_observe (JournalPhysicalBytes n) ob =
     (False, ob\<lparr>to_timing := (to_timing ob)\<lparr>journal_physical_bytes := Some n\<rparr>\<rparr>)"

section \<open>Properties\<close>

lemma metric_keys:
  "map fst (insert_f64 name x m) = map fst m @ (if x = None then [] else [name])"
  "map fst (insert_u64 name y m) = map fst m @ (if y = None then [] else [name])"
  "map fst (insert_str name z m) = map fst m @ (if z = None then [] else [name])"
  by (simp_all add: insert_f64_def insert_u64_def insert_str_def split: option.splits)

end
