(* ===== verification/Cli.thy ===== *)
theory Cli
  imports Envelope Store_Guarantees Timing
begin

text \<open>
  \<^verbatim>\<open>crates/aizign-cli/src/run.rs\<close> and \<^verbatim>\<open>main.rs\<close>: framing of standard input, the dispatch gate, one
  request from frame to response over the file store, and the command line. The environment the
  process reads (variables, the wall clock, the chunks its reads return, whether its writes succeed)
  is an argument; what it writes to its two output streams is part of the result. Store operations
  run in the world of the store theories.
\<close>

section \<open>Protocol errors and the clock\<close>

text \<open>A panic is \<open>None\<close>, here and in every function that may meet one.\<close>

definition protocol_error :: "string \<Rightarrow> string \<Rightarrow> ProtocolError option" where
  "protocol_error c m = (case ProtocolError_try_new c m of Inl _ \<Rightarrow> None | Inr e \<Rightarrow> Some e)"

definition SystemClock_now :: "(unit, u64) result \<Rightarrow> Clock" where
  "SystemClock_now since_epoch =
     and_then (map_err (\<lambda>_. OutOfRange) since_epoch) (\<lambda>seconds.
     map_err (\<lambda>_. OutOfRange) (from_unix_seconds seconds))"

definition CLI_HANDLER_TIMEOUT_MS :: nat where "CLI_HANDLER_TIMEOUT_MS = 10 * 1000"

definition handler_timeout :: "(string \<Rightarrow> string option) \<Rightarrow> nat" where
  "handler_timeout env =
     (case Option.bind (env ''AIZIGN_HANDLE_TIMEOUT_MS'') parse_u64 of
        None \<Rightarrow> CLI_HANDLER_TIMEOUT_MS
      | Some ms \<Rightarrow> if 1 \<le> ms \<and> ms \<le> 600000 then ms else CLI_HANDLER_TIMEOUT_MS)"

section \<open>The dispatch gate\<close>

type_synonym u8 = "8 word"

definition DISPATCH_READING :: u8 where "DISPATCH_READING = 0"
definition DISPATCHING :: u8 where "DISPATCHING = 1"
definition DISPATCH_TIMED_OUT :: u8 where "DISPATCH_TIMED_OUT = 2"

lemmas dispatch_defs = DISPATCH_READING_def DISPATCHING_def DISPATCH_TIMED_OUT_def

datatype TimeoutPhase = BeforeDispatch | AfterDispatch

definition compare_exchange :: "u8 \<Rightarrow> u8 \<Rightarrow> u8 \<Rightarrow> (u8, u8) result \<times> u8" where
  "compare_exchange current new state = (if state = current then (Inr state, new) else (Inl state, state))"

definition DispatchGate_new :: u8 where "DispatchGate_new = DISPATCH_READING"

definition claim_dispatch :: "u8 \<Rightarrow> bool \<times> u8" where
  "claim_dispatch state = (case compare_exchange DISPATCH_READING DISPATCHING state of (r, state) \<Rightarrow> (is_ok r, state))"

text \<open>\<open>None\<close> is the unreachable branch.\<close>

definition claim_timeout :: "u8 \<Rightarrow> TimeoutPhase option \<times> u8" where
  "claim_timeout state =
     (case compare_exchange DISPATCH_READING DISPATCH_TIMED_OUT state of
        (Inr _, state) \<Rightarrow> (Some BeforeDispatch, state)
      | (Inl s, state) \<Rightarrow>
          (if s = DISPATCH_TIMED_OUT then Some BeforeDispatch
           else if s = DISPATCHING then Some AfterDispatch else None, state))"

section \<open>Standard input\<close>

datatype Stdin = Frame bytes | Invalid | TooLarge

text \<open>The loop over one chunk: the frame and whether the newline was seen, or the early answer.\<close>

fun read_chunk :: "bytes \<Rightarrow> bool \<Rightarrow> bytes \<Rightarrow> (Stdin, bytes \<times> bool) result" where
  "read_chunk frame newline_seen [] = Inr (frame, newline_seen)"
| "read_chunk frame newline_seen (b # bs) =
     (if newline_seen then Inl Invalid
      else if b = CHR 0x0A then
        (if frame = [] \<or> last frame = CHR 0x0D then Inl Invalid else read_chunk frame True bs)
      else if length frame = MAX_REQUEST_BYTES then Inl TooLarge
      else read_chunk (frame @ [b]) False bs)"

text \<open>The reads return chunks, an empty one at the end of the stream, or fail; \<open>None\<close> is a stream that
  stays open with no more to read.\<close>

fun read_stdin_loop :: "bytes \<Rightarrow> bool \<Rightarrow> (string, bytes) result list \<Rightarrow> (string, Stdin) result option" where
  "read_stdin_loop frame newline_seen [] = None"
| "read_stdin_loop frame newline_seen (Inl e # rs) = Some (Inl e)"
| "read_stdin_loop frame newline_seen (Inr chunk # rs) =
     (if chunk = [] then Some (Inr (if newline_seen then Frame frame else Invalid))
      else case read_chunk frame newline_seen chunk of
        Inl answer \<Rightarrow> Some (Inr answer)
      | Inr (frame, newline_seen) \<Rightarrow> read_stdin_loop frame newline_seen rs)"

definition read_stdin :: "(string, bytes) result list \<Rightarrow> (string, Stdin) result option" where
  "read_stdin rs = read_stdin_loop [] False rs"

section \<open>Responses\<close>

text \<open>\<open>str::trim_end_matches\<close> removes the suffix as often as it occurs.\<close>

function trim_end_matches :: "string \<Rightarrow> string \<Rightarrow> string" where
  "trim_end_matches suffix s =
     (if suffix \<noteq> [] \<and> length suffix \<le> length s \<and> drop (length s - length suffix) s = suffix
      then trim_end_matches suffix (take (length s - length suffix) s) else s)"
  by pat_completeness auto
termination
  by (relation "measure (\<lambda>(_, s). length s)") (auto intro!: diff_less)

declare trim_end_matches.simps [simp del]

definition CARGO_PKG_NAME :: string where "CARGO_PKG_NAME = ''aizign-cli''"
definition CARGO_PKG_VERSION :: string where "CARGO_PKG_VERSION = ''0.1.0''"

definition hello_info :: "bool \<Rightarrow> HelloInfo" where
  "hello_info supported =
     \<lparr>protocol_version = PROTOCOL_VERSION,
      journal_schema_version = (if JOURNAL_SCHEMA_VERSION < 2 ^ 32 then of_nat JOURNAL_SCHEMA_VERSION else 0xFFFFFFFF),
      capabilities =
        (if supported then [CAPABILITY_WORKFLOW_SIGNAL_SUBMIT, CAPABILITY_WORKFLOW_SIGNAL_RECONCILE] else []),
      package = \<lparr>package_name = trim_end_matches ''-cli'' CARGO_PKG_NAME, package_version = CARGO_PKG_VERSION\<rparr>\<rparr>"

definition log_line :: "string \<Rightarrow> string option \<Rightarrow> string option \<Rightarrow> string \<Rightarrow> string" where
  "log_line stage rid kd out =
     ''aizign: stage='' @ stage @ '' requestId='' @ (case rid of None \<Rightarrow> ''-'' | Some i \<Rightarrow> i) @
     '' kind='' @ (case kd of None \<Rightarrow> ''-'' | Some k \<Rightarrow> k) @ '' outcome='' @ out"

definition bootstrap_error :: "ProtocolError \<Rightarrow> Response" where
  "bootstrap_error e =
     \<lparr>response_version = ResponseVersion_bootstrap, response_request_id = None, response_kind = None,
      response_body = BodyError e\<rparr>"

text \<open>What a request comes to: the response, the timing record when there is one, and the lines written
  to standard error.\<close>

record WorkerResponse =
  wr_response :: Response
  wr_timing :: "HandlerTiming option"
  wr_stderr :: "string list"

definition framing_error :: "string \<Rightarrow> string \<Rightarrow> HandlerTiming option \<Rightarrow> WorkerResponse option" where
  "framing_error c m timing =
     map_option (\<lambda>e.
       \<lparr>wr_response = bootstrap_error e,
        wr_timing = map_option
          (\<lambda>t. t\<lparr>operation_kind := Some ''unknown'', outcome := Some ''rejected'', error_code := Some c\<rparr>) timing,
        wr_stderr = [log_line ''framing'' None None c]\<rparr>) (protocol_error c m)"

definition timeout_response :: "nat \<Rightarrow> TimeoutPhase \<Rightarrow> bool \<Rightarrow> WorkerResponse option" where
  "timeout_response elapsed phase timed =
     (let (m, out, line) =
        (if phase = AfterDispatch
         then (''processing exceeded '' @ show_nat elapsed @ ''ms after dispatch; the outcome is unknown'', ''unknown'',
               ''aizign: processing exceeded '' @ show_nat elapsed @ ''ms after dispatch; an effect may have occurred'')
         else (''request framing exceeded '' @ show_nat elapsed @ ''ms before dispatch'', ''rejected'',
               ''aizign: request framing exceeded '' @ show_nat elapsed @ ''ms before dispatch; no state effect occurred''))
      in map_option (\<lambda>e.
           \<lparr>wr_response = bootstrap_error e,
            wr_timing =
              (if timed then Some (HandlerTiming_default\<lparr>operation_kind := Some ''unknown'', outcome := Some out,
                                     error_code := Some HANDLER_TIMEOUT\<rparr>) else None),
            wr_stderr = [line]\<rparr>) (protocol_error HANDLER_TIMEOUT m))"

definition observed_operation_kind :: "string option \<Rightarrow> string" where
  "observed_operation_kind kd =
     (case kd of
        None \<Rightarrow> ''unknown''
      | Some k \<Rightarrow>
          if k = KIND_HELLO then KIND_HELLO
          else if k = KIND_WORKFLOW_SIGNAL_SUBMIT then KIND_WORKFLOW_SIGNAL_SUBMIT
          else if k = KIND_WORKFLOW_SIGNAL_RECONCILE then KIND_WORKFLOW_SIGNAL_RECONCILE
          else ''unknown'')"

definition store_capability_unsupported :: "string \<Rightarrow> ProtocolError option" where
  "store_capability_unsupported kd =
     protocol_error CAPABILITY_UNSUPPORTED (kd @ '' is unavailable on this unverified storage platform'')"

fun handle_error :: "HandleError \<Rightarrow> ProtocolError option" where
  "handle_error (HandleRejected e) = Some (ProtocolError_from_WorkflowError e)"
| "handle_error e = protocol_error (HandleError_code e) (show_HandleError e)"

definition reconcile_error :: "ReconcileError \<Rightarrow> ProtocolError option" where
  "reconcile_error e = protocol_error (ReconcileError_code e) (show_ReconcileError e)"

fun disposition_name :: "Disposition \<Rightarrow> string" where
  "disposition_name DispositionAccepted = ''accepted''"
| "disposition_name DispositionDuplicate = ''duplicate''"

fun reconciliation_name :: "ReconciliationDisposition \<Rightarrow> string" where
  "reconciliation_name ReconciliationAccepted = ''accepted''"
| "reconciliation_name ReconciliationConflict = ''conflict''"
| "reconciliation_name ReconciliationAbsent = ''absent''"

text \<open>The word of the log line, and what the timing record may say of the outcome.\<close>

fun body_outcome :: "ResponseBody \<Rightarrow> string" where
  "body_outcome (BodyHello _) = ''ok''"
| "body_outcome (BodyWorkflowSignal r) = disposition_name (disposition r)"
| "body_outcome (BodyReconciliation r) = reconciliation_name (reconciliation_disposition r)"
| "body_outcome (BodyError e) = ShortErrorCode_as_str (code e)"

fun record_semantic_outcome :: "string \<Rightarrow> ResponseBody \<Rightarrow> HandlerTiming \<Rightarrow> HandlerTiming" where
  "record_semantic_outcome kd (BodyHello _) t = t\<lparr>outcome := Some ''ok''\<rparr>"
| "record_semantic_outcome kd (BodyWorkflowSignal r) t = t\<lparr>outcome := Some (disposition_name (disposition r))\<rparr>"
| "record_semantic_outcome kd (BodyReconciliation r) t = t\<lparr>outcome := Some (reconciliation_name (reconciliation_disposition r))\<rparr>"
| "record_semantic_outcome kd (BodyError e) t =
     (let c = ShortErrorCode_as_str (code e); fixed = is_current_fixed_error_code c in
      t\<lparr>error_code := (if fixed then Some c else None),
        outcome := Some
          (if \<not> fixed \<or> kd = KIND_WORKFLOW_SIGNAL_RECONCILE \<or>
              c \<in> set [''INTERNAL'', ''HANDLER_TIMEOUT'', ''JOURNAL_OUTCOME_UNKNOWN''] then ''unknown''
           else if kd = KIND_HELLO then ''error''
           else if c = ''EVENT_CONFLICT'' then ''conflict''
           else ''rejected'')\<rparr>)"

section \<open>Executing a request\<close>

text \<open>The environment of one request: whether the platform has the verified store profile, what the
  profile system calls answer, the wall clock, and the readings of the monotonic clock.\<close>

record CliEnv =
  store_platform_supported :: bool
  profile_system :: ProfileSystem
  since_epoch :: "(unit, u64) result"
  engine_instants :: "nat list"
  store_instants :: "nat list"
  read_elapsed :: nat
  decode_elapsed :: nat
  encode_elapsed :: nat
  write_elapsed :: nat
  total_elapsed :: nat

text \<open>The timing observer of the store lives in the hook state of the world, where the untimed run
  leaves it alone.\<close>

type_synonym CliHooks = "(StoreStage, StoreTiming) TimingObserver BestEffortStoreObserver"

definition store_observe :: "CliHooks observe" where
  "store_observe = Some (BestEffortStoreObserver_observe StoreTimingObserver_observe)"

definition start_store_observer :: "CliEnv \<Rightarrow> HandlerTiming \<Rightarrow> CliHooks World \<Rightarrow> CliHooks World" where
  "start_store_observer env t w =
     w\<lparr>hooks := BestEffortStoreObserver_new (TimingObserver_new (store_timing t) (store_instants env))\<rparr>"

definition end_store_observer :: "HandlerTiming \<Rightarrow> CliHooks World \<Rightarrow> HandlerTiming" where
  "end_store_observer t w = t\<lparr>store_timing := to_timing (BestEffortStoreObserver.inner (hooks w))\<rparr>"

fun end_engine_observer ::
  "HandlerTiming \<Rightarrow> (EngineStage, EngineTiming) TimingObserver SubmitMode \<Rightarrow> HandlerTiming" where
  "end_engine_observer t Plain = t"
| "end_engine_observer t (Observed b) = t\<lparr>engine_timing := to_timing (BestEffortObserver.inner b)\<rparr>"

definition JsonlJournal_open ::
  "('s, 'a) StoreSerde_scheme \<Rightarrow> CliEnv \<Rightarrow> Path \<Rightarrow> (CliHooks, JournalError, JsonlJournal) run" where
  "JsonlJournal_open S env dir = open_with_ops S ProductionDurability (ProductionProfile (profile_system env)) dir"

definition JsonlJournalReader_open ::
  "('s, 'a) StoreSerde_scheme \<Rightarrow> CliEnv \<Rightarrow> Path \<Rightarrow> (CliHooks, JournalError, JsonlJournal) run" where
  "JsonlJournalReader_open S env dir = reader_open_with_profile S (ProductionProfile (profile_system env)) dir"

definition open_error_body :: "JournalError \<Rightarrow> ResponseBody option" where
  "open_error_body e = map_option BodyError (protocol_error (JournalError_code e) (show_JournalError e))"

fun submit_body :: "(HandleError, SignalOutcome) result \<Rightarrow> ResponseBody option" where
  "submit_body (Inr (OutcomeAccepted entry)) =
     (case event entry of SignalAccepted signal \<Rightarrow>
        Some (BodyWorkflowSignal \<lparr>disposition = DispositionAccepted, result_event_id = signal_event_id signal\<rparr>))"
| "submit_body (Inr (OutcomeDuplicate i)) =
     Some (BodyWorkflowSignal \<lparr>disposition = DispositionDuplicate, result_event_id = i\<rparr>)"
| "submit_body (Inl e) = map_option BodyError (handle_error e)"

text \<open>Leaving the block that holds the journal drops it and releases its lock.\<close>

definition submit_response ::
  "('s, 'a) StoreSerde_scheme \<Rightarrow> CliEnv \<Rightarrow> Command \<Rightarrow> Path \<Rightarrow> HandlerTiming option \<Rightarrow> CliHooks World \<Rightarrow>
   ResponseBody option \<times> HandlerTiming option \<times> CliHooks World" where
  "submit_response S env command state timing w =
     (let clock = SystemClock_now (since_epoch env) in
      case timing of
        Some t \<Rightarrow>
          (case open_observed store_observe (JsonlJournal_open S env state) (start_store_observer env t w) of
             (Inl e, w) \<Rightarrow> (open_error_body e, Some (end_store_observer t w), w)
           | (Inr j, w) \<Rightarrow>
               (case handle_workflow_signal_observed (jsonl_journal S (profile_system env) j store_observe) clock
                       command EngineTimingObserver (TimingObserver_new (engine_timing t) (engine_instants env)) w of
                  (handled, mode, w) \<Rightarrow>
                    (submit_body handled, Some (end_store_observer (end_engine_observer t mode) w),
                     drop_lock (lock_file j) w)))
      | None \<Rightarrow>
          (case JsonlJournal_open S env state w of
             (Inl e, w) \<Rightarrow> (open_error_body e, None, w)
           | (Inr j, w) \<Rightarrow>
               (case handle_workflow_signal (jsonl_journal S (profile_system env) j None) clock command w of
                  (handled, w) \<Rightarrow> (submit_body handled, None, drop_lock (lock_file j) w))))"

fun reconciliation_of :: "SignalReconciliation \<Rightarrow> ReconciliationDisposition" where
  "reconciliation_of ReconciledAccepted = ReconciliationAccepted"
| "reconciliation_of ReconciledConflict = ReconciliationConflict"
| "reconciliation_of ReconciledAbsent = ReconciliationAbsent"

definition reconcile_body ::
  "WorkflowSignal \<Rightarrow> (ReconcileError, SignalReconciliation) result \<Rightarrow> ResponseBody option" where
  "reconcile_body signal r =
     (case r of
        Inr d \<Rightarrow> Some (BodyReconciliation
          \<lparr>reconciliation_disposition = reconciliation_of d, reconciliation_event_id = signal_event_id signal\<rparr>)
      | Inl e \<Rightarrow> map_option BodyError (reconcile_error e))"

definition reconcile_response ::
  "('s, 'a) StoreSerde_scheme \<Rightarrow> CliEnv \<Rightarrow> WorkflowSignal \<Rightarrow> Path \<Rightarrow> HandlerTiming option \<Rightarrow> CliHooks World \<Rightarrow>
   ResponseBody option \<times> HandlerTiming option \<times> CliHooks World" where
  "reconcile_response S env signal state timing w =
     (case timing of
        Some t \<Rightarrow>
          (case open_observed store_observe (JsonlJournalReader_open S env state) (start_store_observer env t w) of
             (Inl e, w) \<Rightarrow> (open_error_body e, Some (end_store_observer t w), w)
           | (Inr j, w) \<Rightarrow>
               (case reconcile_workflow_signal_observed (jsonl_reader S (profile_system env) j store_observe) signal
                       EngineTimingObserver (TimingObserver_new (engine_timing t) (engine_instants env)) w of
                  (reconciled, mode, w) \<Rightarrow>
                    (reconcile_body signal reconciled, Some (end_store_observer (end_engine_observer t mode) w),
                     drop_lock (lock_file j) w)))
      | None \<Rightarrow>
          (case JsonlJournalReader_open S env state w of
             (Inl e, w) \<Rightarrow> (open_error_body e, None, w)
           | (Inr j, w) \<Rightarrow>
               (case engine_reconcile_workflow_signal (jsonl_reader S (profile_system env) j None) signal w of
                  (reconciled, w) \<Rightarrow> (reconcile_body signal reconciled, None, drop_lock (lock_file j) w))))"

definition execute_request ::
  "('s, 'a) StoreSerde_scheme \<Rightarrow> CliEnv \<Rightarrow> RequestKind \<Rightarrow> string \<Rightarrow> Path \<Rightarrow> HandlerTiming option \<Rightarrow> CliHooks World \<Rightarrow>
   ResponseBody option \<times> HandlerTiming option \<times> CliHooks World" where
  "execute_request S env kd kind_name state timing w =
     (case kd of
        Hello \<Rightarrow> (Some (BodyHello (hello_info (store_platform_supported env))), timing, w)
      | SubmitWorkflowSignal command \<Rightarrow>
          if \<not> store_platform_supported env
          then (map_option BodyError (store_capability_unsupported kind_name), timing, w)
          else submit_response S env command state timing w
      | ReconcileWorkflowSignal signal \<Rightarrow>
          if \<not> store_platform_supported env
          then (map_option BodyError (store_capability_unsupported kind_name), timing, w)
          else reconcile_response S env signal state timing w)"

section \<open>One request\<close>

text \<open>\<open>respond\<close> in its three parts, which the watchdog may separate: up to the decoded request, the loss
  of the gate, and what follows the won gate. \<open>R\<close> is the serde parameter of the protocol.\<close>

definition decode_rejection ::
  "('v, 'm, 'b) Serde_scheme \<Rightarrow> DecodeFailure \<Rightarrow> HandlerTiming option \<Rightarrow> WorkerResponse option" where
  "decode_rejection R fl timing =
     (let safe_kind = observed_operation_kind (failed_kind fl);
          c = ShortErrorCode_as_str (code (failed_error fl));
          response =
            \<lparr>response_version = failed_version fl, response_request_id = failed_request_id fl,
             response_kind = failed_kind fl, response_body = BodyError (failed_error fl)\<rparr>;
          answer = (\<lambda>response.
            \<lparr>wr_response = response,
             wr_timing = map_option
               (\<lambda>t. t\<lparr>operation_kind := Some safe_kind, outcome := Some ''rejected'', error_code := Some c\<rparr>) timing,
             wr_stderr = [log_line ''decode'' (failed_request_id fl) (Some safe_kind) c]\<rparr>)
      in if is_ok (encode_response R response) then Some (answer response)
         else map_option
           (\<lambda>e. answer (response\<lparr>response_kind := None, response_body := BodyError e\<rparr>))
           (protocol_error c ''request rejected; recovered correlation was not safe to echo''))"

definition respond_decode ::
  "('v, 'm, 'b) Serde_scheme \<Rightarrow> CliEnv \<Rightarrow> bytes \<Rightarrow> HandlerTiming option \<Rightarrow>
   (WorkerResponse option, Request \<times> HandlerTiming option) result" where
  "respond_decode R env frame timing =
     (let timing = map_option (\<lambda>t. t\<lparr>decode_ms := Some (milliseconds (decode_elapsed env))\<rparr>) timing in
      case decode_request R frame of
        None \<Rightarrow> Inl None
      | Some (Inl fl) \<Rightarrow> Inl (decode_rejection R fl timing)
      | Some (Inr request) \<Rightarrow>
          Inr (request, map_option (\<lambda>t. t\<lparr>operation_kind := Some (RequestKind_name (request_kind request))\<rparr>) timing))"

definition respond_undispatched :: "HandlerTiming option \<Rightarrow> WorkerResponse option" where
  "respond_undispatched timing =
     map_option (\<lambda>e. \<lparr>wr_response = bootstrap_error e, wr_timing = timing, wr_stderr = []\<rparr>)
       (protocol_error HANDLER_TIMEOUT ''request timed out before dispatch'')"

definition respond_dispatched ::
  "('s, 'a) StoreSerde_scheme \<Rightarrow> CliEnv \<Rightarrow> Path \<Rightarrow> Request \<Rightarrow> HandlerTiming option \<Rightarrow> CliHooks World \<Rightarrow>
   WorkerResponse option \<times> CliHooks World" where
  "respond_dispatched S env state request timing w =
     (let kind_name = RequestKind_name (request_kind request) in
      case execute_request S env (request_kind request) kind_name state timing w of
        (body, timing, w) \<Rightarrow>
          (map_option (\<lambda>body.
             \<lparr>wr_response =
                \<lparr>response_version =
                   (if request_kind request = Hello then ResponseVersion_bootstrap else ResponseVersion_operation),
                 response_request_id = Some (request_id request), response_kind = Some kind_name,
                 response_body = body\<rparr>,
              wr_timing = map_option (record_semantic_outcome kind_name body) timing,
              wr_stderr = [log_line ''handle'' (Some (request_id request)) (Some kind_name) (body_outcome body)]\<rparr>) body,
           w))"

definition respond ::
  "('v, 'm, 'b) Serde_scheme \<Rightarrow> ('s, 'a) StoreSerde_scheme \<Rightarrow> CliEnv \<Rightarrow> bytes \<Rightarrow> Path \<Rightarrow> HandlerTiming option \<Rightarrow> u8 \<Rightarrow>
   CliHooks World \<Rightarrow> WorkerResponse option \<times> u8 \<times> CliHooks World" where
  "respond R S env frame state timing gate w =
     (case respond_decode R env frame timing of
        Inl answer \<Rightarrow> (answer, gate, w)
      | Inr (request, timing) \<Rightarrow>
          (case claim_dispatch gate of
             (won, gate) \<Rightarrow>
               if \<not> won then (respond_undispatched timing, gate, w)
               else (case respond_dispatched S env state request timing w of (answer, w) \<Rightarrow> (answer, gate, w))))"

section \<open>Writing the response (run.rs, main.rs)\<close>

definition exit_OK :: u8 where "exit_OK = 0"
definition exit_USAGE :: u8 where "exit_USAGE = 2"
definition exit_IO :: u8 where "exit_IO = 3"

record Output =
  exit_code :: u8
  stdout_bytes :: bytes
  stderr_lines :: "string list"

text \<open>Writing and flushing standard output: it succeeds, or fails with a message after some bytes.\<close>

datatype WriteResult = Written | WriteFailed string nat

fun written_bytes :: "WriteResult \<Rightarrow> bytes \<Rightarrow> bytes" where
  "written_bytes Written bs = bs"
| "written_bytes (WriteFailed _ k) bs = take k bs"

fun write_exit :: "WriteResult \<Rightarrow> u8 \<times> string list" where
  "write_exit Written = (exit_OK, [])"
| "write_exit (WriteFailed e _) = (exit_IO, [''aizign: cannot write response frame: '' @ e])"

definition cannot_encode :: "ProtocolError \<Rightarrow> string" where
  "cannot_encode e = ''aizign: cannot encode response frame: '' @ show_ProtocolError e"

definition write_frame :: "('v, 'm, 'b) Serde_scheme \<Rightarrow> Response \<Rightarrow> WriteResult \<Rightarrow> Output" where
  "write_frame R response wres =
     (case encode_response R response of
        Inl e \<Rightarrow> \<lparr>exit_code = exit_IO, stdout_bytes = [], stderr_lines = [cannot_encode e]\<rparr>
      | Inr line \<Rightarrow>
          \<lparr>exit_code = fst (write_exit wres), stdout_bytes = written_bytes wres (line @ [CHR 0x0A]),
           stderr_lines = snd (write_exit wres)\<rparr>)"

definition write_measured_frame ::
  "('v, 'm, 'b) Serde_scheme \<Rightarrow> (Metric \<Rightarrow> (string, string) result) \<Rightarrow> CliEnv \<Rightarrow> Response \<Rightarrow> HandlerTiming \<Rightarrow> WriteResult \<Rightarrow>
   Output" where
  "write_measured_frame R to_string env response t wres =
     (let t = t\<lparr>response_encode_ms := Some (milliseconds (encode_elapsed env))\<rparr> in
      case encode_response R response of
        Inl e \<Rightarrow>
          (let t = t\<lparr>handler_total_ms := Some (milliseconds (total_elapsed env))\<rparr> in
           \<lparr>exit_code = exit_IO, stdout_bytes = [], stderr_lines = emit to_string t @ [cannot_encode e]\<rparr>)
      | Inr line \<Rightarrow>
          (let t = t\<lparr>response_write_ms := Some (milliseconds (write_elapsed env)),
                     handler_total_ms := Some (milliseconds (total_elapsed env))\<rparr> in
           \<lparr>exit_code = fst (write_exit wres), stdout_bytes = written_bytes wres (line @ [CHR 0x0A]),
            stderr_lines = emit to_string t @ snd (write_exit wres)\<rparr>))"

definition hello :: "('v, 'm, 'b) Serde_scheme \<Rightarrow> bool \<Rightarrow> WriteResult \<Rightarrow> Output" where
  "hello R supported wres =
     write_frame R
       \<lparr>response_version = ResponseVersion_bootstrap, response_request_id = None, response_kind = Some KIND_HELLO,
        response_body = BodyHello (hello_info supported)\<rparr> wres"

text \<open>The tail of \<open>handle\<close>: the worker's lines came before.\<close>

definition answer ::
  "('v, 'm, 'b) Serde_scheme \<Rightarrow> (Metric \<Rightarrow> (string, string) result) \<Rightarrow> CliEnv \<Rightarrow> WorkerResponse \<Rightarrow> WriteResult \<Rightarrow> Output" where
  "answer R to_string env handled wres =
     (let out = (case wr_timing handled of
          Some t \<Rightarrow> write_measured_frame R to_string env (wr_response handled) t wres
        | None \<Rightarrow> write_frame R (wr_response handled) wres)
      in out\<lparr>stderr_lines := wr_stderr handled @ stderr_lines out\<rparr>)"

section \<open>The worker and the watchdog\<close>

text \<open>\<open>handle\<close> runs two threads that share the gate and a channel. A state holds what each has come
  to; a step is one action of one of them. \<open>Killed\<close> is a dispatched worker that the end of the
  process stops at any point of its work: a fault script says where.\<close>

datatype WorkerState =
    WorkerReading
  | WorkerDecoded Request "HandlerTiming option"
  | WorkerDispatched Request "HandlerTiming option"
  | WorkerSent "(string, WorkerResponse) result"
  | WorkerPanicked
  | WorkerKilled

datatype ParentState =
    ParentWaiting
  | ParentExpired
  | ParentReceived "(string, WorkerResponse) result"
  | ParentTimedOut TimeoutPhase
  | ParentDisconnected

record HandleState =
  worker_state :: WorkerState
  parent_state :: ParentState
  gate_state :: u8
  world_state :: "CliHooks World"

definition handle_start :: "CliHooks World \<Rightarrow> HandleState" where
  "handle_start w =
     \<lparr>worker_state = WorkerReading, parent_state = ParentWaiting, gate_state = DispatchGate_new, world_state = w\<rparr>"

definition worker_sends :: "WorkerResponse option \<Rightarrow> WorkerState" where
  "worker_sends r = (case r of None \<Rightarrow> WorkerPanicked | Some a \<Rightarrow> WorkerSent (Inr a))"

text \<open>The worker after its read returned.\<close>

definition stdin_answer ::
  "('v, 'm, 'b) Serde_scheme \<Rightarrow> CliEnv \<Rightarrow> bool \<Rightarrow> Stdin \<Rightarrow> (WorkerResponse option, Request \<times> HandlerTiming option) result" where
  "stdin_answer R env timed stdin =
     (let timing = (if timed then Some (HandlerTiming_default\<lparr>request_read_ms := Some (milliseconds (read_elapsed env))\<rparr>)
                    else None) in
      case stdin of
        Frame frame \<Rightarrow> respond_decode R env frame timing
      | Invalid \<Rightarrow> Inl (framing_error INVALID_ENVELOPE
          ''stdin must be one non-empty body followed by LF and immediate EOF'' timing)
      | TooLarge \<Rightarrow> Inl (framing_error REQUEST_TOO_LARGE
          (''request body exceeds '' @ show_nat MAX_REQUEST_BYTES @ '' bytes'') timing))"

definition worker_read ::
  "('v, 'm, 'b) Serde_scheme \<Rightarrow> CliEnv \<Rightarrow> bool \<Rightarrow> (string, Stdin) result \<Rightarrow> WorkerState" where
  "worker_read R env timed r =
     (case r of
        Inl e \<Rightarrow> WorkerSent (Inl e)
      | Inr stdin \<Rightarrow>
          (case stdin_answer R env timed stdin of
             Inl a \<Rightarrow> worker_sends a
           | Inr (request, timing) \<Rightarrow> WorkerDecoded request timing))"

text \<open>The worker's closure without a watchdog, from the framed input on.\<close>

definition handle_worker ::
  "('v, 'm, 'b) Serde_scheme \<Rightarrow> ('s, 'a) StoreSerde_scheme \<Rightarrow> CliEnv \<Rightarrow> bool \<Rightarrow> Path \<Rightarrow> Stdin \<Rightarrow> u8 \<Rightarrow> CliHooks World \<Rightarrow>
   WorkerResponse option \<times> u8 \<times> CliHooks World" where
  "handle_worker R S env timed dir stdin gate w =
     (let timing = (if timed then Some (HandlerTiming_default\<lparr>request_read_ms := Some (milliseconds (read_elapsed env))\<rparr>)
                    else None) in
      case stdin of
        Frame frame \<Rightarrow> respond R S env frame dir timing gate w
      | Invalid \<Rightarrow> (framing_error INVALID_ENVELOPE
          ''stdin must be one non-empty body followed by LF and immediate EOF'' timing, gate, w)
      | TooLarge \<Rightarrow> (framing_error REQUEST_TOO_LARGE
          (''request body exceeds '' @ show_nat MAX_REQUEST_BYTES @ '' bytes'') timing, gate, w))"

definition undisturbed ::
  "('v, 'm, 'b) Serde_scheme \<Rightarrow> ('s, 'a) StoreSerde_scheme \<Rightarrow> CliEnv \<Rightarrow> bool \<Rightarrow> (string, bytes) result list \<Rightarrow> Path \<Rightarrow>
   CliHooks World \<Rightarrow> (WorkerState \<times> CliHooks World) option" where
  "undisturbed R S env timed input dir w =
     (case read_stdin input of
        None \<Rightarrow> None
      | Some (Inl e) \<Rightarrow> Some (WorkerSent (Inl e), w)
      | Some (Inr stdin) \<Rightarrow>
          (case handle_worker R S env timed dir stdin DispatchGate_new w of (r, _, w) \<Rightarrow> Some (worker_sends r, w)))"

fun answered :: "ParentState \<Rightarrow> bool" where
  "answered ParentWaiting = False"
| "answered ParentExpired = False"
| "answered _ = True"

inductive handle_step ::
  "('v, 'm, 'b) Serde_scheme \<Rightarrow> ('s, 'a) StoreSerde_scheme \<Rightarrow> CliEnv \<Rightarrow> bool \<Rightarrow> (string, bytes) result list \<Rightarrow> Path \<Rightarrow>
   HandleState \<Rightarrow> HandleState \<Rightarrow> bool"
  for R S env timed input dir where
  read: "worker_state c = WorkerReading \<Longrightarrow> read_stdin input = Some r \<Longrightarrow>
    handle_step R S env timed input dir c (c\<lparr>worker_state := worker_read R env timed r\<rparr>)"
| claim_won: "worker_state c = WorkerDecoded request timing \<Longrightarrow> claim_dispatch (gate_state c) = (True, g) \<Longrightarrow>
    handle_step R S env timed input dir c (c\<lparr>worker_state := WorkerDispatched request timing, gate_state := g\<rparr>)"
| claim_lost: "worker_state c = WorkerDecoded request timing \<Longrightarrow> claim_dispatch (gate_state c) = (False, g) \<Longrightarrow>
    handle_step R S env timed input dir c
      (c\<lparr>worker_state := worker_sends (respond_undispatched timing), gate_state := g\<rparr>)"
| execute: "worker_state c = WorkerDispatched request timing \<Longrightarrow>
    respond_dispatched S env dir request timing (world_state c) = (r, w) \<Longrightarrow>
    handle_step R S env timed input dir c (c\<lparr>worker_state := worker_sends r, world_state := w\<rparr>)"
| killed: "worker_state c = WorkerDispatched request timing \<Longrightarrow> answered (parent_state c) \<Longrightarrow>
    respond_dispatched S env dir request timing ((world_state c)\<lparr>faults := fs\<rparr>) = (r, w) \<Longrightarrow>
    handle_step R S env timed input dir c (c\<lparr>worker_state := WorkerKilled, world_state := w\<rparr>)"
| receive: "parent_state c = ParentWaiting \<Longrightarrow> worker_state c = WorkerSent r \<Longrightarrow>
    handle_step R S env timed input dir c (c\<lparr>parent_state := ParentReceived r\<rparr>)"
| disconnect: "parent_state c = ParentWaiting \<Longrightarrow> worker_state c = WorkerPanicked \<Longrightarrow>
    handle_step R S env timed input dir c (c\<lparr>parent_state := ParentDisconnected\<rparr>)"
| expire: "parent_state c = ParentWaiting \<Longrightarrow>
    handle_step R S env timed input dir c (c\<lparr>parent_state := ParentExpired\<rparr>)"
| claim_timeout: "parent_state c = ParentExpired \<Longrightarrow> claim_timeout (gate_state c) = (Some phase, g) \<Longrightarrow>
    handle_step R S env timed input dir c (c\<lparr>parent_state := ParentTimedOut phase, gate_state := g\<rparr>)"

text \<open>What the process writes and exits with, once the parent has its answer.\<close>

fun handle_output ::
  "('v, 'm, 'b) Serde_scheme \<Rightarrow> (Metric \<Rightarrow> (string, string) result) \<Rightarrow> CliEnv \<Rightarrow> nat \<Rightarrow> bool \<Rightarrow> WriteResult \<Rightarrow> ParentState \<Rightarrow>
   Output option" where
  "handle_output R to_string env timeout timed wres (ParentReceived (Inr handled)) = Some (answer R to_string env handled wres)"
| "handle_output R to_string env timeout timed wres (ParentReceived (Inl e)) =
     Some \<lparr>exit_code = exit_IO, stdout_bytes = [], stderr_lines = [''aizign: cannot read request frame: '' @ e]\<rparr>"
| "handle_output R to_string env timeout timed wres (ParentTimedOut phase) =
     map_option (\<lambda>handled. answer R to_string env handled wres) (timeout_response timeout phase timed)"
| "handle_output R to_string env timeout timed wres ParentDisconnected =
     Some \<lparr>exit_code = exit_IO, stdout_bytes = [],
           stderr_lines = [''aizign: request worker stopped without a response'']\<rparr>"
| "handle_output R to_string env timeout timed wres _ = None"

section \<open>The command line (main.rs)\<close>

definition parse_state :: "string list \<Rightarrow> string option" where
  "parse_state args =
     (case args of
        [flag, value] \<Rightarrow> if flag = ''--state'' \<and> value \<noteq> [] then Some value else None
      | [combined] \<Rightarrow>
          (case strip_prefix combined ''--state='' of
             Some v \<Rightarrow> if v \<noteq> [] then Some v else None
           | None \<Rightarrow> None)
      | _ \<Rightarrow> None)"

datatype CliCommand = CmdHello | CmdHandle string | CmdVersion | CmdHelp | CmdUsage

text \<open>The branch \<open>main\<close> takes on the arguments after the program name.\<close>

definition main_command :: "string list \<Rightarrow> CliCommand" where
  "main_command args =
     (case args of
        [] \<Rightarrow> CmdUsage
      | a # rest \<Rightarrow>
          if a = ''hello'' \<and> length args = 1 then CmdHello
          else if a = ''handle'' then (case parse_state rest of Some dir \<Rightarrow> CmdHandle dir | None \<Rightarrow> CmdUsage)
          else if a = ''--version'' \<or> a = ''-V'' then CmdVersion
          else if a = ''--help'' \<or> a = ''-h'' \<or> a = ''help'' then CmdHelp
          else CmdUsage)"

definition USAGE :: string where
  "USAGE =
     join_lines (CHR 0x0A)
       [''usage:'',
        ''  aizign hello                    print the hello response (protocol version, capabilities)'',
        ''  aizign handle --state <dir>     read one request frame from stdin, write one response frame to stdout'',
        ''  aizign --version'']"

definition usage :: Output where
  "usage = \<lparr>exit_code = exit_USAGE, stdout_bytes = [], stderr_lines = [USAGE]\<rparr>"

text \<open>\<open>print!\<close> panics when standard output cannot be written.\<close>

definition print_output :: "WriteResult \<Rightarrow> string \<Rightarrow> Output option" where
  "print_output wres text =
     (case wres of
        Written \<Rightarrow> Some \<lparr>exit_code = exit_OK, stdout_bytes = text, stderr_lines = []\<rparr>
      | WriteFailed _ _ \<Rightarrow> None)"

text \<open>\<open>main\<close>, with what \<open>handle\<close> comes to on a state directory as an argument.\<close>

definition main_output ::
  "('v, 'm, 'b) Serde_scheme \<Rightarrow> bool \<Rightarrow> WriteResult \<Rightarrow> (string \<Rightarrow> Output option) \<Rightarrow> string list \<Rightarrow> Output option" where
  "main_output R supported wres handle args =
     (case main_command args of
        CmdHello \<Rightarrow> Some (hello R supported wres)
      | CmdHandle dir \<Rightarrow> handle dir
      | CmdVersion \<Rightarrow> print_output wres (''aizign '' @ CARGO_PKG_VERSION @ [CHR 0x0A])
      | CmdHelp \<Rightarrow> print_output wres USAGE
      | CmdUsage \<Rightarrow> Some usage)"

end
