(* ===== verification/Cli_Guarantees.thy ===== *)
theory Cli_Guarantees
  imports Cli
begin

text \<open>
  What the command line interface guarantees: how standard input is framed whatever the sizes of its
  reads, what the race between worker and watchdog may come to, and that no request makes the worker
  panic.
\<close>

section \<open>Framing\<close>

text \<open>The framing of a whole stream: a body of at most the bound, a line feed, and nothing after it.\<close>

definition stdin_spec :: "bytes \<Rightarrow> Stdin" where
  "stdin_spec bs =
     (let body = takeWhile (\<lambda>b. b \<noteq> CHR 0x0A) bs; rest = drop (length body) bs in
      if length body > MAX_REQUEST_BYTES then TooLarge
      else if body = [] \<or> last body = CHR 0x0D \<or> length rest \<noteq> 1 then Invalid
      else Frame body)"

lemma takeWhile_frame:
  "CHR 0x0A \<notin> set f \<Longrightarrow> takeWhile (\<lambda>b. b \<noteq> CHR 0x0A) (f @ bs) = f @ takeWhile (\<lambda>b. b \<noteq> CHR 0x0A) bs"
  by (induction f) auto

lemma stdin_spec_frame:
  "stdin_spec bs = Frame f \<longleftrightarrow>
     bs = f @ [CHR 0x0A] \<and> f \<noteq> [] \<and> CHR 0x0A \<notin> set f \<and> last f \<noteq> CHR 0x0D \<and> length f \<le> MAX_REQUEST_BYTES"
  (is "?l \<longleftrightarrow> ?r")
proof
  assume ?l
  let ?p = "\<lambda>b. b \<noteq> CHR 0x0A"
  from \<open>?l\<close> have f: "f = takeWhile ?p bs" "length (drop (length f) bs) = 1" "f \<noteq> []" "last f \<noteq> CHR 0x0D"
    "length f \<le> MAX_REQUEST_BYTES"
    by (auto simp: stdin_spec_def Let_def split: if_splits)
  then have d: "drop (length f) bs = dropWhile ?p bs" by (simp add: dropWhile_eq_drop)
  with f obtain c where c: "dropWhile ?p bs = [c]" by (metis length_0_conv length_Suc_conv One_nat_def)
  then have "c = CHR 0x0A" using hd_dropWhile [of ?p bs] by auto
  moreover have "bs = f @ dropWhile ?p bs" using f(1) by simp
  moreover have "CHR 0x0A \<notin> set f" using f(1) by (auto dest: set_takeWhileD)
  ultimately show ?r using c f by metis
next
  assume r: ?r
  then have "takeWhile (\<lambda>b. b \<noteq> CHR 0x0A) bs = f"
    by (simp add: takeWhile_frame)
  with r show ?l by (simp add: stdin_spec_def Let_def)
qed

text \<open>The bytes seen so far: no line feed but, at the end of a frame, one.\<close>

definition reading :: "bytes \<Rightarrow> bool \<Rightarrow> bytes \<Rightarrow> bool" where
  "reading frame newline_seen seen \<longleftrightarrow>
     CHR 0x0A \<notin> set frame \<and> length frame \<le> MAX_REQUEST_BYTES \<and> seen = frame @ (if newline_seen then [CHR 0x0A] else []) \<and>
     (newline_seen \<longrightarrow> frame \<noteq> [] \<and> last frame \<noteq> CHR 0x0D)"

lemma read_chunk_spec:
  assumes "reading frame nl seen"
  shows "case read_chunk frame nl bs of
      Inl a \<Rightarrow> \<forall>more. stdin_spec (seen @ bs @ more) = a
    | Inr (frame', nl') \<Rightarrow> reading frame' nl' (seen @ bs)"
  using assms
proof (induction frame nl bs arbitrary: seen rule: read_chunk.induct)
  case (2 frame nl b bs)
  let ?n = "CHR 0x0A"
  have r: "?n \<notin> set frame" "length frame \<le> MAX_REQUEST_BYTES" "seen = frame @ (if nl then [?n] else [])"
    "nl \<Longrightarrow> frame \<noteq> []" "nl \<Longrightarrow> last frame \<noteq> CHR 0x0D"
    using "2.prems" by (auto simp: reading_def)
  consider "nl" | "\<not> nl" "b = ?n" "frame = [] \<or> last frame = CHR 0x0D"
    | "\<not> nl" "b = ?n" "\<not> (frame = [] \<or> last frame = CHR 0x0D)"
    | "\<not> nl" "b \<noteq> ?n" "length frame = MAX_REQUEST_BYTES"
    | "\<not> nl" "b \<noteq> ?n" "length frame \<noteq> MAX_REQUEST_BYTES" by blast
  then show ?case
  proof cases
    case 3
    then have "reading frame True (seen @ [b])" using r by (simp add: reading_def)
    from "2.IH"(1) [OF 3 this] 3 show ?thesis by (simp split: sum.splits prod.splits)
  next
    case 5
    then have "reading (frame @ [b]) False (seen @ [b])" using r by (simp add: reading_def)
    from "2.IH"(2) [OF 5 this] 5 show ?thesis by (simp split: sum.splits prod.splits)
  qed (use r in \<open>auto simp: stdin_spec_def Let_def takeWhile_frame\<close>)
qed (simp add: reading_def)

lemma read_stdin_loop_spec:
  assumes "reading frame nl seen" "[] \<notin> set cs"
  shows "read_stdin_loop frame nl (map Inr cs @ Inr [] # rest) = Some (Inr (stdin_spec (seen @ concat cs)))"
  using assms
proof (induction cs arbitrary: frame nl seen)
  case Nil
  then show ?case by (auto simp: reading_def stdin_spec_def Let_def takeWhile_frame)
next
  case (Cons c cs)
  then have c: "c \<noteq> []" "[] \<notin> set cs" by auto
  note rc = read_chunk_spec [OF Cons.prems(1), of c]
  show ?case
  proof (cases "read_chunk frame nl c")
    case (Inl a)
    with c rc show ?thesis by simp
  next
    case (Inr fn)
    then obtain f' nl' where fn: "read_chunk frame nl c = Inr (f', nl')" by (cases fn) auto
    with rc have "reading f' nl' (seen @ c)" by simp
    from Cons.IH [OF this c(2)] fn c show ?thesis by simp
  qed
qed

text \<open>C27: Reading standard input returns, for a stream that ends, and its answer is a function of the
  bytes alone: any division into non-empty reads gives the same. The answer is the frame \<open>f\<close> exactly
  when the stream is \<open>f\<close> and one line feed, with \<open>f\<close> not empty, free of line feeds, not ending in a
  carriage return and at most 65,536 bytes long.\<close>

theorem read_stdin_exact:
  assumes "[] \<notin> set cs"
  shows "read_stdin (map Inr cs @ Inr [] # rest) = Some (Inr (stdin_spec (concat cs))) \<and>
    (read_stdin (map Inr cs @ Inr [] # rest) = Some (Inr (Frame f)) \<longleftrightarrow>
       concat cs = f @ [CHR 0x0A] \<and> f \<noteq> [] \<and> CHR 0x0A \<notin> set f \<and> last f \<noteq> CHR 0x0D \<and> length f \<le> MAX_REQUEST_BYTES)"
proof -
  have "reading [] False []" by (simp add: reading_def)
  from read_stdin_loop_spec [OF this assms] show ?thesis
    by (simp add: read_stdin_def stdin_spec_frame)
qed

theorem read_stdin_exact_witness:
  "read_stdin (map Inr [''ab'', ''c'', [CHR 0x0A]] @ [Inr []]) = Some (Inr (Frame ''abc''))"
  by (subst conjunct2 [OF read_stdin_exact]) (simp_all add: MAX_REQUEST_BYTES_def MAX_FRAME_BYTES_def)

section \<open>The gate\<close>

abbreviation (input) reaches where
  "reaches R S env timed input dir \<equiv> (handle_step R S env timed input dir)\<^sup>*\<^sup>*"

lemma claim_dispatch_simps [simp]:
  "claim_dispatch g = (True, g') \<longleftrightarrow> g = DISPATCH_READING \<and> g' = DISPATCHING"
  "claim_dispatch g = (False, g') \<longleftrightarrow> g \<noteq> DISPATCH_READING \<and> g' = g"
  by (auto simp: claim_dispatch_def compare_exchange_def is_ok_def)

lemma claim_timeout_simps:
  "claim_timeout g = (Some BeforeDispatch, g') \<longleftrightarrow> g \<in> {DISPATCH_READING, DISPATCH_TIMED_OUT} \<and> g' = DISPATCH_TIMED_OUT"
  "claim_timeout g = (Some AfterDispatch, g') \<longleftrightarrow> g = DISPATCHING \<and> g' = g"
  by (auto simp: claim_timeout_def compare_exchange_def dispatch_defs split: if_splits)

lemma handle_worker_answer:
  "handle_worker R S env timed dir stdin DISPATCH_READING w =
     (case stdin_answer R env timed stdin of
        Inl a \<Rightarrow> (a, DISPATCH_READING, w)
      | Inr (request, timing) \<Rightarrow>
          (case respond_dispatched S env dir request timing w of (r, w) \<Rightarrow> (r, DISPATCHING, w)))"
proof -
  have "claim_dispatch DISPATCH_READING = (True, DISPATCHING)" by simp
  note claim = this
  show ?thesis
    by (cases stdin) (simp_all add: handle_worker_def stdin_answer_def respond_def claim Let_def split: sum.splits)
qed

text \<open>What holds of every state: the gate decides who may act, the world changes only behind a won
  gate, and a worker the watchdog never overtook is where it would be alone.\<close>

definition handle_inv ::
  "('v, 'm, 'b) Serde_scheme \<Rightarrow> ('s, 'a) StoreSerde_scheme \<Rightarrow> CliEnv \<Rightarrow> bool \<Rightarrow> (string, bytes) result list \<Rightarrow> Path \<Rightarrow>
   CliHooks World \<Rightarrow> HandleState \<Rightarrow> bool" where
  "handle_inv R S env timed input dir w0 c \<longleftrightarrow>
     gate_state c \<in> {DISPATCH_READING, DISPATCHING, DISPATCH_TIMED_OUT} \<and>
     (gate_state c \<noteq> DISPATCHING \<longrightarrow> world_state c = w0) \<and>
     (case worker_state c of
        WorkerReading \<Rightarrow> gate_state c \<noteq> DISPATCHING
      | WorkerDecoded request timing \<Rightarrow> gate_state c \<noteq> DISPATCHING \<and>
          (\<exists>stdin. read_stdin input = Some (Inr stdin) \<and> stdin_answer R env timed stdin = Inr (request, timing))
      | WorkerDispatched request timing \<Rightarrow> gate_state c = DISPATCHING \<and> world_state c = w0 \<and>
          (\<exists>stdin. read_stdin input = Some (Inr stdin) \<and> stdin_answer R env timed stdin = Inr (request, timing))
      | WorkerKilled \<Rightarrow> gate_state c = DISPATCHING \<and> answered (parent_state c)
      | x \<Rightarrow> gate_state c \<noteq> DISPATCH_TIMED_OUT \<longrightarrow> undisturbed R S env timed input dir w0 = Some (x, world_state c)) \<and>
     (case parent_state c of
        ParentReceived r \<Rightarrow> worker_state c = WorkerSent r \<and> gate_state c \<noteq> DISPATCH_TIMED_OUT
      | ParentDisconnected \<Rightarrow> worker_state c = WorkerPanicked \<and> gate_state c \<noteq> DISPATCH_TIMED_OUT
      | ParentTimedOut BeforeDispatch \<Rightarrow> gate_state c = DISPATCH_TIMED_OUT
      | ParentTimedOut AfterDispatch \<Rightarrow> gate_state c = DISPATCHING
      | _ \<Rightarrow> gate_state c \<noteq> DISPATCH_TIMED_OUT)"

lemma gate_values [simp]:
  "DISPATCH_READING \<noteq> DISPATCHING" "DISPATCHING \<noteq> DISPATCH_READING" "DISPATCH_READING \<noteq> DISPATCH_TIMED_OUT"
  "DISPATCH_TIMED_OUT \<noteq> DISPATCH_READING" "DISPATCHING \<noteq> DISPATCH_TIMED_OUT" "DISPATCH_TIMED_OUT \<noteq> DISPATCHING"
  by (simp_all add: dispatch_defs)

lemma worker_read_inv:
  assumes "read_stdin input = Some r"
  shows "case worker_read R env timed r of
      WorkerDecoded request timing \<Rightarrow>
        (\<exists>stdin. read_stdin input = Some (Inr stdin) \<and> stdin_answer R env timed stdin = Inr (request, timing))
    | WorkerSent x \<Rightarrow> undisturbed R S env timed input dir w = Some (WorkerSent x, w)
    | WorkerPanicked \<Rightarrow> undisturbed R S env timed input dir w = Some (WorkerPanicked, w)
    | _ \<Rightarrow> False"
  using assms
  by (auto simp: worker_read_def undisturbed_def handle_worker_answer DispatchGate_new_def worker_sends_def
      split: sum.splits option.splits prod.splits)

lemma executed_undisturbed:
  assumes "read_stdin input = Some (Inr stdin)" "stdin_answer R env timed stdin = Inr (request, timing)"
    "respond_dispatched S env dir request timing w = (r, w')"
  shows "undisturbed R S env timed input dir w = Some (worker_sends r, w')"
  using assms by (simp add: undisturbed_def handle_worker_answer DispatchGate_new_def)

lemma handle_inv_start: "handle_inv R S env timed input dir w (handle_start w)"
  by (simp add: handle_inv_def handle_start_def DispatchGate_new_def)

lemma handle_inv_step:
  assumes "handle_step R S env timed input dir c c'" "handle_inv R S env timed input dir w0 c"
  shows "handle_inv R S env timed input dir w0 c'"
  using assms
proof cases
  case (read r)
  then show ?thesis using assms(2) worker_read_inv [OF read(3), of R env timed S dir w0]
    by (auto simp: handle_inv_def split: WorkerState.splits ParentState.splits TimeoutPhase.splits)
next
  case (execute request timing r w)
  then show ?thesis using assms(2) executed_undisturbed [where r = r and w' = w]
    by (auto simp: handle_inv_def worker_sends_def split: option.splits ParentState.splits TimeoutPhase.splits)
next
  case (claim_lost request timing g)
  then show ?thesis using assms(2)
    by (auto simp: handle_inv_def worker_sends_def split: option.splits ParentState.splits TimeoutPhase.splits)
next
  case expire
  then show ?thesis using assms(2) by (auto simp: handle_inv_def split: WorkerState.splits)
next
  case (claim_timeout phase g)
  then show ?thesis using assms(2)
    by (cases phase) (auto simp: handle_inv_def claim_timeout_simps split: WorkerState.splits)
qed (use assms(2) in \<open>auto simp: handle_inv_def split: ParentState.splits TimeoutPhase.splits\<close>)

lemma handle_inv_reaches:
  "reaches R S env timed input dir c c' \<Longrightarrow> handle_inv R S env timed input dir w0 c \<Longrightarrow>
   handle_inv R S env timed input dir w0 c'"
  by (induction rule: rtranclp_induct) (auto intro: handle_inv_step)

lemma handle_inv_reachable:
  "reaches R S env timed input dir (handle_start w) c \<Longrightarrow> handle_inv R S env timed input dir w c"
  using handle_inv_reaches handle_inv_start by metis

lemma timed_out_step:
  "handle_step R S env timed input dir c c' \<Longrightarrow> parent_state c = ParentTimedOut phase \<Longrightarrow> parent_state c' = ParentTimedOut phase"
  by (erule handle_step.cases) auto

lemma timed_out_reaches:
  "reaches R S env timed input dir c c' \<Longrightarrow> parent_state c = ParentTimedOut phase \<Longrightarrow> parent_state c' = ParentTimedOut phase"
  by (induction rule: rtranclp_induct) (auto dest: timed_out_step)

section \<open>An example request\<close>

definition example_env :: CliEnv where
  "example_env =
     \<lparr>store_platform_supported = True, profile_system = example_system, since_epoch = Inr 1700000000,
      engine_instants = [], store_instants = [], read_elapsed = 0, decode_elapsed = 0, encode_elapsed = 0,
      write_elapsed = 0, total_elapsed = 0\<rparr>"

definition example_cli_world :: "CliHooks World" where
  "example_cli_world =
     \<lparr>system = example_files, faults = [],
      hooks = BestEffortStoreObserver_new (TimingObserver_new StoreTiming_default [])\<rparr>"

abbreviation example_step :: "HandleState \<Rightarrow> HandleState \<Rightarrow> bool" where
  "example_step \<equiv> handle_step example_reader example_store_serde example_env False
     [Inr (example_frame @ [CHR 0x0A]), Inr []] [''d'']"

definition example_response :: WorkerResponse where
  "example_response =
     \<lparr>wr_response =
        \<lparr>response_version = ResponseVersion_bootstrap, response_request_id = Some ''req-1'',
         response_kind = Some KIND_HELLO, response_body = BodyHello (hello_info True)\<rparr>,
      wr_timing = None, wr_stderr = [log_line ''handle'' (Some ''req-1'') (Some KIND_HELLO) ''ok'']\<rparr>"

lemma example_typed: "typed_passes_agree example_reader"
  by (auto simp: typed_passes_agree_def example_reader_def split: if_splits)

lemma example_read: "read_stdin [Inr (example_frame @ [CHR 0x0A]), Inr []] = Some (Inr (Frame example_frame))"
proof -
  have "reading [] False []" by (simp add: reading_def)
  from read_stdin_loop_spec [OF this, of "[example_frame @ [CHR 0x0A]]" "[]"]
  have "read_stdin [Inr (example_frame @ [CHR 0x0A]), Inr []] = Some (Inr (stdin_spec (example_frame @ [CHR 0x0A])))"
    by (simp add: read_stdin_def)
  moreover have "stdin_spec (example_frame @ [CHR 0x0A]) = Frame example_frame"
    by (simp add: stdin_spec_frame example_frame_def MAX_REQUEST_BYTES_def MAX_FRAME_BYTES_def)
  ultimately show ?thesis by simp
qed

lemma example_answer:
  "worker_read example_reader example_env False (Inr (Frame example_frame)) =
     WorkerDecoded \<lparr>request_id = ''req-1'', request_kind = Hello\<rparr> None"
  by (simp add: worker_read_def stdin_answer_def respond_decode_def example_decode_request)

lemma example_dispatched:
  "respond_dispatched example_store_serde example_env [''d''] \<lparr>request_id = ''req-1'', request_kind = Hello\<rparr> None w =
     (Some example_response, w)"
  by (simp add: respond_dispatched_def execute_request_def Let_def example_response_def example_env_def)

lemma example_overtaken:
  "example_step\<^sup>*\<^sup>* (handle_start example_cli_world)
     \<lparr>worker_state = WorkerReading, parent_state = ParentTimedOut BeforeDispatch, gate_state = DISPATCH_TIMED_OUT,
      world_state = example_cli_world\<rparr>"
proof -
  have 1: "example_step (handle_start example_cli_world)
      \<lparr>worker_state = WorkerReading, parent_state = ParentExpired, gate_state = DISPATCH_READING, world_state = example_cli_world\<rparr>"
    using handle_step.expire [of "handle_start example_cli_world"] by (simp add: handle_start_def DispatchGate_new_def)
  have 2: "example_step
      \<lparr>worker_state = WorkerReading, parent_state = ParentExpired, gate_state = DISPATCH_READING, world_state = example_cli_world\<rparr>
      \<lparr>worker_state = WorkerReading, parent_state = ParentTimedOut BeforeDispatch, gate_state = DISPATCH_TIMED_OUT,
       world_state = example_cli_world\<rparr>"
    using handle_step.claim_timeout [where phase = BeforeDispatch and g = DISPATCH_TIMED_OUT and
        c = "\<lparr>worker_state = WorkerReading, parent_state = ParentExpired, gate_state = DISPATCH_READING,
              world_state = example_cli_world\<rparr>"]
    by (simp add: claim_timeout_simps)
  from 1 2 show ?thesis by (meson rtranclp.rtrancl_refl rtranclp.rtrancl_into_rtrancl)
qed

lemma example_received:
  "(example_step ^^ 4) (handle_start example_cli_world)
     \<lparr>worker_state = WorkerSent (Inr example_response), parent_state = ParentReceived (Inr example_response),
      gate_state = DISPATCHING, world_state = example_cli_world\<rparr>"
proof -
  let ?q = "\<lparr>request_id = ''req-1'', request_kind = Hello\<rparr>"
  let ?c = "\<lambda>wk p g. \<lparr>worker_state = wk, parent_state = p, gate_state = g, world_state = example_cli_world\<rparr>"
  have 1: "example_step (handle_start example_cli_world) (?c (WorkerDecoded ?q None) ParentWaiting DISPATCH_READING)"
    using handle_step.read [where c = "handle_start example_cli_world", OF _ example_read, of example_reader example_store_serde example_env False "[''d'']"]
    by (simp add: handle_start_def DispatchGate_new_def example_answer)
  have 2: "example_step (?c (WorkerDecoded ?q None) ParentWaiting DISPATCH_READING) (?c (WorkerDispatched ?q None) ParentWaiting DISPATCHING)"
    using handle_step.claim_won [where c = "?c (WorkerDecoded ?q None) ParentWaiting DISPATCH_READING" and request = ?q and timing = None and g = DISPATCHING]
    by simp
  have 3: "example_step (?c (WorkerDispatched ?q None) ParentWaiting DISPATCHING) (?c (WorkerSent (Inr example_response)) ParentWaiting DISPATCHING)"
    using handle_step.execute [where c = "?c (WorkerDispatched ?q None) ParentWaiting DISPATCHING", OF _ example_dispatched]
    by (simp add: worker_sends_def)
  have 4: "example_step (?c (WorkerSent (Inr example_response)) ParentWaiting DISPATCHING)
      (?c (WorkerSent (Inr example_response)) (ParentReceived (Inr example_response)) DISPATCHING)"
    using handle_step.receive [where c = "?c (WorkerSent (Inr example_response)) ParentWaiting DISPATCHING" and r = "Inr example_response"] by simp
  from 1 2 3 4 show ?thesis by (simp add: numeral_eq_Suc relcompp_apply) blast
qed

text \<open>C4: A timeout answered as one before dispatch has had no effect and never will: in every
  interleaving of worker and watchdog that reaches that answer, and in every continuation of it, the
  files are as they were when the process started.\<close>

theorem timeout_before_dispatch_inert:
  assumes "(handle_step R S env timed input dir)\<^sup>*\<^sup>* (handle_start w) c" "parent_state c = ParentTimedOut BeforeDispatch"
    "(handle_step R S env timed input dir)\<^sup>*\<^sup>* c c'"
  shows "world_state c' = w"
proof -
  have "handle_inv R S env timed input dir w c'"
    by (rule handle_inv_reachable) (use assms in simp)
  then show ?thesis using timed_out_reaches [OF assms(3,2)] by (auto simp: handle_inv_def)
qed

theorem timeout_before_dispatch_inert_witness:
  "\<exists>c. example_step\<^sup>*\<^sup>* (handle_start example_cli_world) c \<and> parent_state c = ParentTimedOut BeforeDispatch \<and>
     world_state c = example_cli_world"
  using timeout_before_dispatch_inert [OF example_overtaken _ rtranclp.rtrancl_refl] example_overtaken by fastforce

text \<open>C12: A response the parent receives is the one the worker gives when nothing interferes, and
  the files are then as that run leaves them: the watchdog changes what is answered only by
  answering itself.\<close>

theorem received_is_undisturbed:
  assumes "(handle_step R S env timed input dir)\<^sup>*\<^sup>* (handle_start w) c" "parent_state c = ParentReceived r"
  shows "undisturbed R S env timed input dir w = Some (WorkerSent r, world_state c)"
  using handle_inv_reachable [OF assms(1)] assms(2) by (auto simp: handle_inv_def)

theorem received_is_undisturbed_witness:
  "undisturbed example_reader example_store_serde example_env False [Inr (example_frame @ [CHR 0x0A]), Inr []] [''d'']
     example_cli_world = Some (WorkerSent (Inr example_response), example_cli_world)"
  using received_is_undisturbed [OF relpowp_imp_rtranclp [OF example_received]] by simp

fun worker_rank :: "WorkerState \<Rightarrow> nat" where
  "worker_rank WorkerReading = 3"
| "worker_rank (WorkerDecoded _ _) = 2"
| "worker_rank (WorkerDispatched _ _) = 1"
| "worker_rank _ = 0"

fun parent_rank :: "ParentState \<Rightarrow> nat" where
  "parent_rank ParentWaiting = 2"
| "parent_rank ParentExpired = 1"
| "parent_rank _ = 0"

definition handle_rank :: "HandleState \<Rightarrow> nat" where
  "handle_rank c = worker_rank (worker_state c) + parent_rank (parent_state c)"

lemma handle_rank_step: "handle_step R S env timed input dir c c' \<Longrightarrow> handle_rank c' < handle_rank c"
  by (erule handle_step.cases)
    (auto simp: handle_rank_def worker_read_def worker_sends_def split: sum.splits option.splits)

lemma handle_rank_steps: "(handle_step R S env timed input dir ^^ n) c c' \<Longrightarrow> n + handle_rank c' \<le> handle_rank c"
  by (induction n arbitrary: c') (fastforce dest: handle_rank_step)+

text \<open>C13: The handler always comes to an answer. Every run has at most five steps, whatever arrives on
  standard input and whoever wins the gate, and a run that can go no further has answered: in
  particular the watchdog never meets a gate value it has no answer for.\<close>

theorem handle_always_answers:
  assumes "(handle_step R S env timed input dir ^^ n) (handle_start w) c"
  shows "n \<le> 5 \<and> ((\<nexists>c'. handle_step R S env timed input dir c c') \<longrightarrow> answered (parent_state c))"
proof
  show "n \<le> 5"
    using handle_rank_steps [OF assms] by (simp add: handle_rank_def handle_start_def)
  have inv: "handle_inv R S env timed input dir w c"
    by (rule handle_inv_reachable) (rule relpowp_imp_rtranclp [OF assms])
  show "(\<nexists>c'. handle_step R S env timed input dir c c') \<longrightarrow> answered (parent_state c)"
  proof (cases "parent_state c")
    case ParentWaiting
    then show ?thesis using handle_step.expire [where c = c] by blast
  next
    case ParentExpired
    have "\<exists>phase g. claim_timeout (gate_state c) = (Some phase, g)"
      using inv by (auto simp: handle_inv_def claim_timeout_def compare_exchange_def)
    then show ?thesis using handle_step.claim_timeout [where c = c] ParentExpired by blast
  qed auto
qed

theorem handle_always_answers_witness:
  "\<exists>c. (example_step ^^ 4) (handle_start example_cli_world) c \<and> (4::nat) \<le> 5 \<and> answered (parent_state c)"
  using handle_always_answers [OF example_received] example_received by fastforce

section \<open>No panic\<close>

lemma protocol_error_ok [simp]: "short_code_grammar c \<Longrightarrow> protocol_error c m = Some (from_valid_code c m)"
  by (simp add: protocol_error_def try_new_from_valid_code)

lemma journal_code_grammar [simp]:
  "short_code_grammar (JournalError_code e)" "short_code_grammar ''JOURNAL_CORRUPT''" "short_code_grammar ''INTERNAL''"
  by (cases e; simp add: short_code_grammar_def byte_defs) (simp_all add: short_code_grammar_def byte_defs)

declare short_code_grammar_fixed [simp]

lemma handle_error_ok: "\<exists>p. handle_error e = Some p \<and> code_of p = HandleError_code e"
  by (cases e) (simp_all add: ProtocolError_from_WorkflowError_def)

lemma reconcile_error_ok: "\<exists>p. reconcile_error e = Some p \<and> code_of p = ReconcileError_code e"
  by (cases e) (simp_all add: reconcile_error_def)

lemma bodies_ok: "submit_body h \<noteq> None" "reconcile_body s r \<noteq> None" "open_error_body e \<noteq> None"
proof -
  show "submit_body h \<noteq> None"
    using handle_error_ok by (cases h rule: submit_body.cases) (auto split: WorkflowEvent.splits)
  show "reconcile_body s r \<noteq> None"
    using reconcile_error_ok by (auto simp: reconcile_body_def split: sum.splits)
  show "open_error_body e \<noteq> None" by (simp add: open_error_body_def)
qed

lemma execute_request_ok: "fst (execute_request S env k name dir timing w) \<noteq> None"
  using bodies_ok
  by (simp add: execute_request_def submit_response_def reconcile_response_def store_capability_unsupported_def Let_def
      split: RequestKind.splits option.splits prod.splits sum.splits)

lemma respond_dispatched_ok: "fst (respond_dispatched S env dir request timing w) \<noteq> None"
proof -
  obtain b t w' where "execute_request S env (request_kind request) (RequestKind_name (request_kind request)) dir timing w = (b, t, w')"
    by (rule prod_cases3)
  then show ?thesis
    using execute_request_ok [of S env "request_kind request" "RequestKind_name (request_kind request)" dir timing w]
    by (simp add: respond_dispatched_def Let_def)
qed

lemma decode_rejection_ok:
  "decode_request R frame = Some (Inl fl) \<Longrightarrow> decode_rejection R fl timing \<noteq> None"
  using decode_request_failure_code [of R frame fl] short_code_grammar_fixed
  by (auto simp: decode_rejection_def Let_def)

lemma stdin_answer_ok: "typed_passes_agree R \<Longrightarrow> stdin_answer R env timed stdin \<noteq> Inl None"
  by (auto simp: stdin_answer_def respond_decode_def framing_error_def Let_def
      dest: decode_rejection_ok decode_request_typed [THEN conjunct1, THEN notE] split: Stdin.splits option.splits sum.splits)

lemma no_panic_step:
  assumes "handle_step R S env timed input dir c c'" "typed_passes_agree R" "worker_state c \<noteq> WorkerPanicked"
    "parent_state c \<noteq> ParentDisconnected"
  shows "worker_state c' \<noteq> WorkerPanicked \<and> parent_state c' \<noteq> ParentDisconnected"
  using assms
proof cases
  case (read r)
  then show ?thesis using assms stdin_answer_ok [OF assms(2), of env timed]
    by (auto simp: worker_read_def worker_sends_def split: sum.splits option.splits)
next
  case (execute request timing r w)
  then show ?thesis using assms respond_dispatched_ok [of S env dir request timing "world_state c"]
    by (auto simp: worker_sends_def split: option.splits)
qed (auto simp: worker_sends_def respond_undispatched_def)

lemma no_panic_reaches:
  "reaches R S env timed input dir (handle_start w) c \<Longrightarrow> typed_passes_agree R \<Longrightarrow>
   worker_state c \<noteq> WorkerPanicked \<and> parent_state c \<noteq> ParentDisconnected"
  by (induction rule: rtranclp_induct) (auto simp: handle_start_def dest: no_panic_step)

lemma timeout_response_ok: "timeout_response t phase timed \<noteq> None"
  by (simp add: timeout_response_def Let_def)

lemma answer_output:
  "exit_code (answer R to_string env handled wres) = exit_code (write_frame R (wr_response handled) wres)"
  "stdout_bytes (answer R to_string env handled wres) = stdout_bytes (write_frame R (wr_response handled) wres)"
  by (simp_all add: answer_def write_measured_frame_def write_frame_def Let_def split: option.splits sum.splits)



section \<open>What the timing record discloses\<close>

definition METRIC_KEYS :: "string list" where
  "METRIC_KEYS =
     [''schema_version'', ''request_read_ms'', ''decode_ms'', ''journal_open_ms'', ''journal_physical_bytes'',
      ''journal_entries'', ''journal_load_decode_ms'', ''committed_prefix_read_ms'', ''committed_prefix_hash_ms'',
      ''committed_prefix_decode_ms'', ''replay_ms'', ''decide_us'', ''append_sync_ms'', ''publish_prefix_hash_ms'',
      ''response_encode_ms'', ''response_write_ms'', ''handler_total_ms'', ''outcome'', ''error_code'', ''operation_kind'']"

definition METRIC_WORDS :: "string list" where
  "METRIC_WORDS =
     [''ok'', ''accepted'', ''duplicate'', ''conflict'', ''absent'', ''unknown'', ''error'', ''rejected'',
      ''hello'', ''workflow.signal.submit'', ''workflow.signal.reconcile''] @ CURRENT_FIXED_ERROR_CODES"

definition metadata_only :: "HandlerTiming \<Rightarrow> bool" where
  "metadata_only t \<longleftrightarrow>
     pred_option (\<lambda>x. x \<in> set METRIC_WORDS) (outcome t) \<and> pred_option (\<lambda>x. x \<in> set METRIC_WORDS) (error_code t) \<and>
     pred_option (\<lambda>x. x \<in> set METRIC_WORDS) (operation_kind t)"

lemma metric_strings:
  "MetricString x \<in> snd ` set (insert_f64 name y m) \<longleftrightarrow> MetricString x \<in> snd ` set m"
  "MetricString x \<in> snd ` set (insert_u64 name z m) \<longleftrightarrow> MetricString x \<in> snd ` set m"
  "MetricString x \<in> snd ` set (insert_str name u m) \<longleftrightarrow> MetricString x \<in> snd ` set m \<or> u = Some x"
  by (auto simp: insert_f64_def insert_u64_def insert_str_def split: option.splits)

lemma metric_string: "MetricString x \<in> snd ` set (metric t) \<Longrightarrow> Some x \<in> {outcome t, error_code t, operation_kind t}"
  by (auto simp: metric_def Let_def metric_strings)

lemma metric_strings_safe: "metadata_only t \<Longrightarrow> MetricString x \<in> snd ` set (metric t) \<Longrightarrow> x \<in> set METRIC_WORDS"
  by (drule metric_string) (auto simp: metadata_only_def dest: sym)

definition keyed :: "string list \<Rightarrow> Metric \<Rightarrow> bool" where
  "keyed ks m \<longleftrightarrow> distinct (map fst m) \<and> set (map fst m) \<subseteq> set ks"

lemma keyed_insert:
  assumes "keyed ks m" "name \<notin> set ks"
  shows "keyed (name # ks) (insert_f64 name x m)" "keyed (name # ks) (insert_u64 name y m)" "keyed (name # ks) (insert_str name z m)"
  using assms by (auto simp: keyed_def metric_keys)

lemma metric_keyed: "keyed (rev METRIC_KEYS) (metric t)"
proof -
  have "keyed [''schema_version''] [(''schema_version'', MetricNat 1)]" by (simp add: keyed_def)
  then show ?thesis
    unfolding metric_def Let_def METRIC_KEYS_def rev.simps append.simps by (intro keyed_insert) simp_all
qed

lemma metric_words:
  "x \<in> set CURRENT_FIXED_ERROR_CODES \<Longrightarrow> x \<in> set METRIC_WORDS"
  "''unknown'' \<in> set METRIC_WORDS" "''rejected'' \<in> set METRIC_WORDS" "''ok'' \<in> set METRIC_WORDS" "''error'' \<in> set METRIC_WORDS"
  "''conflict'' \<in> set METRIC_WORDS" "disposition_name d \<in> set METRIC_WORDS" "reconciliation_name r \<in> set METRIC_WORDS"
  "RequestKind_name k \<in> set METRIC_WORDS" "observed_operation_kind o1 \<in> set METRIC_WORDS"
  by (simp_all add: METRIC_WORDS_def observed_operation_kind_def kind_defs split: option.split)
    ((cases d; simp), (cases r; simp), (cases k; simp add: kind_defs))

lemma fixed_words:
  "REQUEST_TOO_LARGE \<in> set METRIC_WORDS" "INVALID_ENVELOPE \<in> set METRIC_WORDS" "HANDLER_TIMEOUT \<in> set METRIC_WORDS"
  "INVALID_PAYLOAD \<in> set METRIC_WORDS" "PROTOCOL_VERSION_UNSUPPORTED \<in> set METRIC_WORDS" "UNKNOWN_KIND \<in> set METRIC_WORDS"
  "INVALID_EXPECTATION \<in> set METRIC_WORDS" "''INVALID_SIGNAL'' \<in> set METRIC_WORDS"
  by (simp_all add: METRIC_WORDS_def CURRENT_FIXED_ERROR_CODES_def)

lemma rejection_metadata:
  assumes "decode_request R frame = Some (Inl fl)" "decode_rejection R fl timing = Some h" "wr_timing h = Some t"
  shows "metadata_only t"
proof -
  have "code_of (failed_error fl) \<in> set METRIC_WORDS"
    using decode_request_failure_code [OF assms(1)] fixed_words by auto
  then show ?thesis
    using assms(2,3) by (auto simp: decode_rejection_def Let_def metadata_only_def metric_words split: if_splits)
qed

lemma stdin_answer_metadata:
  "stdin_answer R env timed stdin = Inl (Some h) \<Longrightarrow> wr_timing h = Some t \<Longrightarrow> metadata_only t"
  "stdin_answer R env timed stdin = Inr (request, Some t) \<Longrightarrow> metadata_only t"
  by (auto simp: stdin_answer_def respond_decode_def framing_error_def Let_def metadata_only_def [of "u" for u] metric_words fixed_words
      HandlerTiming_default_def dest: rejection_metadata [unfolded metadata_only_def] split: Stdin.splits option.splits sum.splits if_splits)

lemma observer_metadata [simp]:
  "metadata_only (end_store_observer t w) = metadata_only t" "metadata_only (end_engine_observer t mode) = metadata_only t"
  by (cases mode; simp add: metadata_only_def end_store_observer_def)+

lemma execute_request_metadata:
  "execute_request S env k name dir timing w = (b, Some t, w') \<Longrightarrow> pred_option metadata_only timing \<Longrightarrow> metadata_only t"
  by (auto simp: execute_request_def submit_response_def reconcile_response_def Let_def
      split: RequestKind.splits option.splits prod.splits sum.splits if_splits)

lemma outcome_metadata: "metadata_only t \<Longrightarrow> metadata_only (record_semantic_outcome name body t)"
  by (cases "(name, body, t)" rule: record_semantic_outcome.cases)
    (auto simp: metadata_only_def Let_def metric_words is_current_fixed_error_code_def)

lemma respond_dispatched_metadata:
  assumes "respond_dispatched S env dir request timing w = (Some h, w')" "pred_option metadata_only timing" "wr_timing h = Some t"
  shows "metadata_only t"
  using assms by (auto simp: respond_dispatched_def Let_def split: prod.splits intro!: outcome_metadata dest!: execute_request_metadata)

lemma stdin_answer_metadata_option:
  "stdin_answer R env timed stdin = Inr (request, timing) \<Longrightarrow> pred_option metadata_only timing"
  by (cases timing) (auto dest: stdin_answer_metadata(2))

lemma undisturbed_metadata:
  assumes "undisturbed R S env timed input dir w = Some (WorkerSent (Inr h), w')" "wr_timing h = Some t"
  shows "metadata_only t"
  using assms
  by (auto simp: undisturbed_def handle_worker_answer DispatchGate_new_def worker_sends_def
      split: option.splits sum.splits prod.splits
      dest: stdin_answer_metadata(1) respond_dispatched_metadata [OF _ stdin_answer_metadata_option assms(2)])

text \<open>C38: The timing record of an answered request discloses metadata only. Its keys are pairwise
  different keys of the fixed list, and every string in it is an outcome word, an operation kind or an
  error code of the fixed lists, never a part of the request, of the journal or of a message.\<close>

theorem timing_discloses_metadata:
  assumes "(handle_step R S env timed input dir)\<^sup>*\<^sup>* (handle_start w) c"
    "parent_state c = ParentReceived (Inr handled) \<or>
     (\<exists>phase. parent_state c = ParentTimedOut phase \<and> timeout_response timeout phase timed = Some handled)"
    "wr_timing handled = Some t"
  shows "let m = metric (t\<lparr>response_encode_ms := a, response_write_ms := b, handler_total_ms := d\<rparr>) in
    distinct (map fst m) \<and> set (map fst m) \<subseteq> set METRIC_KEYS \<and>
    (\<forall>x. MetricString x \<in> snd ` set m \<longrightarrow> x \<in> set METRIC_WORDS)"
proof -
  have "metadata_only t"
    using assms(2)
  proof
    assume "parent_state c = ParentReceived (Inr handled)"
    with handle_inv_reachable [OF assms(1)]
    have "undisturbed R S env timed input dir w = Some (WorkerSent (Inr handled), world_state c)"
      by (auto simp: handle_inv_def)
    then show ?thesis by (rule undisturbed_metadata) (rule assms(3))
  next
    assume "\<exists>phase. parent_state c = ParentTimedOut phase \<and> timeout_response timeout phase timed = Some handled"
    with assms(3) show ?thesis
      by (auto simp: timeout_response_def Let_def metadata_only_def metric_words fixed_words split: if_splits)
  qed
  then have "metadata_only (t\<lparr>response_encode_ms := a, response_write_ms := b, handler_total_ms := d\<rparr>)"
    by (simp add: metadata_only_def)
  with metric_keyed metric_strings_safe show ?thesis
    by (simp add: Let_def keyed_def)
qed

text \<open>A timed-out request under timing.\<close>

theorem timing_discloses_metadata_witness:
  "\<exists>handled t. timeout_response 10000 BeforeDispatch True = Some handled \<and> wr_timing handled = Some t \<and>
     distinct (map fst (metric (t\<lparr>response_encode_ms := None, response_write_ms := None, handler_total_ms := None\<rparr>)))"
proof -
  let ?step = "handle_step example_reader example_store_serde example_env True [] [''d'']"
  obtain handled t where h: "timeout_response 10000 BeforeDispatch True = Some handled" "wr_timing handled = Some t"
    by (simp add: timeout_response_def Let_def)
  let ?c = "\<lparr>worker_state = WorkerReading, parent_state = ParentExpired, gate_state = DISPATCH_READING, world_state = example_cli_world\<rparr>"
  have 1: "?step (handle_start example_cli_world) ?c"
    using handle_step.expire [of "handle_start example_cli_world"] by (simp add: handle_start_def DispatchGate_new_def)
  have 2: "?step ?c (?c\<lparr>parent_state := ParentTimedOut BeforeDispatch, gate_state := DISPATCH_TIMED_OUT\<rparr>)"
    by (rule handle_step.claim_timeout) (simp_all add: claim_timeout_simps)
  have "?step\<^sup>*\<^sup>* (handle_start example_cli_world) (?c\<lparr>parent_state := ParentTimedOut BeforeDispatch, gate_state := DISPATCH_TIMED_OUT\<rparr>)"
    using 1 2 by (meson rtranclp.rtrancl_refl rtranclp.rtrancl_into_rtrancl)
  from timing_discloses_metadata [OF this _ h(2), of 10000 None None None] h show ?thesis
    by (auto simp: Let_def)
qed

end
