(* ===== verification/Cli_Store.thy ===== *)
theory Cli_Store
  imports Cli_Guarantees Store_Open
begin

text \<open>The command line over the file store: what the response to a request says of the committed
  entries, for one process and for any sequence of processes on one state directory.\<close>

section \<open>What a response may say\<close>

text \<open>The contract of one request at the level of the protocol, with the committed entries before
  (\<open>es\<close>) and after (\<open>es'\<close>).\<close>

definition stores_next :: "Clock \<Rightarrow> WorkflowSignal \<Rightarrow> JournalEntry list \<Rightarrow> JournalEntry list \<Rightarrow> bool" where
  "stores_next now s es es' \<longleftrightarrow>
     signal_event_id s \<notin> set (keys_of es) \<and> distinct (keys_of es) \<and>
     (\<exists>t. now = Inr t \<and> es' = es @ [next_entry es (SignalAccepted s) t])"

definition submit_reply :: "Clock \<Rightarrow> WorkflowSignal \<Rightarrow> ExpectedAssignment \<Rightarrow> JournalEntry list \<Rightarrow> ResponseBody \<Rightarrow> JournalEntry list \<Rightarrow> bool" where
  "submit_reply now s x es b es' \<longleftrightarrow>
     (case b of
        BodyWorkflowSignal r \<Rightarrow>
          result_event_id r = signal_event_id s \<and> matches_expected s x \<and>
          (case disposition r of
             DispositionAccepted \<Rightarrow> stores_next now s es es'
           | DispositionDuplicate \<Rightarrow> holds_signal es s \<and> es' = es)
      | BodyError e \<Rightarrow>
          (es' = es \<or> code_of e = ''JOURNAL_OUTCOME_UNKNOWN'' \<and> matches_expected s x \<and> stores_next now s es es') \<and>
          (code_of e = ''EVENT_CONFLICT'' \<longrightarrow>
             matches_expected s x \<and> signal_event_id s \<in> set (keys_of es) \<and> \<not> holds_signal es s)
      | _ \<Rightarrow> False)"

definition reconcile_reply :: "WorkflowSignal \<Rightarrow> JournalEntry list \<Rightarrow> ResponseBody \<Rightarrow> bool" where
  "reconcile_reply s es b \<longleftrightarrow>
     (case b of
        BodyReconciliation r \<Rightarrow>
          reconciliation_event_id r = signal_event_id s \<and> distinct (keys_of es) \<and>
          (reconciliation_disposition r = ReconciliationAccepted \<longleftrightarrow> holds_signal es s) \<and>
          (reconciliation_disposition r = ReconciliationAbsent \<longleftrightarrow> signal_event_id s \<notin> set (keys_of es))
      | BodyError e \<Rightarrow> True
      | _ \<Rightarrow> False)"

fun reply_allowed :: "Clock \<Rightarrow> RequestKind \<Rightarrow> JournalEntry list \<Rightarrow> ResponseBody \<Rightarrow> JournalEntry list \<Rightarrow> bool" where
  "reply_allowed now Hello es b es' \<longleftrightarrow> (\<exists>info. b = BodyHello info) \<and> es' = es"
| "reply_allowed now (SubmitWorkflowSignal (SubmitSignal s x)) es b es' \<longleftrightarrow> submit_reply now s x es b es'"
| "reply_allowed now (ReconcileWorkflowSignal s) es b es' \<longleftrightarrow> reconcile_reply s es b \<and> es' = es"

lemma check_expected_code: "check_expected s x = Inl e \<Longrightarrow> WorkflowError_code e \<noteq> ''EVENT_CONFLICT''"
  by (auto simp: check_expected_def Let_def split: if_splits)

lemma journal_code_conflict: "JournalError_code e \<noteq> ''EVENT_CONFLICT''"
  by (cases e) simp_all

lemma capability_conflict: "CAPABILITY_UNSUPPORTED \<noteq> ''EVENT_CONFLICT''"
  by (simp add: CAPABILITY_UNSUPPORTED_def)

text \<open>The response of a submission says what the engine reported.\<close>

lemma submit_body_reply:
  assumes "submit_allowed now s x es r es'"
  shows "\<exists>b. submit_body r = Some b \<and> submit_reply now s x es b es'"
proof (cases "(now, s, x, es, r, es')" rule: submit_allowed.cases)
  case (6 _ _ _ _ e)
  then show ?thesis
    using assms journal_code_conflict [of e] by (auto simp: submit_reply_def stores_next_def)
qed (use assms check_expected_code in
    \<open>auto simp: submit_reply_def stores_next_def ProtocolError_from_WorkflowError_def next_entry_def\<close>)

lemma open_error_reply:
  "\<exists>b. open_error_body e = Some b \<and> submit_reply now s x es b es \<and> reconcile_reply s es b"
  using journal_code_conflict [of e] by (simp add: open_error_body_def submit_reply_def reconcile_reply_def)

lemma reconcile_body_reply:
  assumes "\<And>d. r = Inr d \<Longrightarrow> distinct (keys_of es) \<and> (d = ReconciledAccepted \<longleftrightarrow> holds_signal es s) \<and>
    (d = ReconciledAbsent \<longleftrightarrow> signal_event_id s \<notin> set (keys_of es))"
  shows "\<exists>b. reconcile_body s r = Some b \<and> reconcile_reply s es b"
proof (cases r)
  case (Inl e)
  then show ?thesis using reconcile_error_ok [of e] by (auto simp: reconcile_body_def reconcile_reply_def)
next
  case (Inr d)
  then show ?thesis using assms by (cases d) (auto simp: reconcile_body_def reconcile_reply_def)
qed

section \<open>Requests over the store\<close>

lemma notify_store_system [simp]: "system (notify_store ob x w) = system w"
  by (simp add: notify_store_def split: option.splits)

lemma open_observed_run:
  assumes "open_observed ob m w = (r, w')"
  obtains w1 w2 where "system w1 = system w" "m w1 = (r, w2)" "system w' = system w2"
proof -
  let ?w = "notify_store ob (StageStarted JournalOpen) w"
  obtain q w2 where m: "m ?w = (q, w2)" by fastforce
  have keeps: "system (snd (sys_symlink_metadata pth v)) = system v" for pth and v :: "'a World"
    by (simp add: sys_symlink_metadata_def query_def syscall_def split: list.splits Fault.splits)
  have "q = r \<and> system w' = system w2"
    using assms m keeps by (auto simp: open_observed_def observe_stage_def split: sum.splits prod.splits) (metis notify_store_system snd_conv)+
  with m that [of ?w w2] show ?thesis by simp
qed

lemma notify_pre_system: "system (start_store_observer env t w) = system w"
  by (simp add: start_store_observer_def)

lemma timed_handle:
  "handle_workflow_signal_observed jr now c ob o1 j = (r, m, j') \<Longrightarrow> handle_workflow_signal jr now c j = (r, j')"
  using execute_workflow_signal_core [of jr ob now c "Observed (BestEffortObserver_new o1)" j]
  by (simp add: handle_workflow_signal_observed_def handle_core)

lemma timed_reconcile:
  "reconcile_workflow_signal_observed jr s ob o1 j = (r, m, j') \<Longrightarrow> engine_reconcile_workflow_signal jr s j = (r, j')"
  using execute_reconciliation_core [of jr ob s "Observed (BestEffortObserver_new o1)" j]
  by (simp add: reconcile_workflow_signal_observed_def reconcile_core)

text \<open>Timed or not, a submission opens the store, submits over it and drops the lock, or answers with
  the error of the open.\<close>

lemma submit_response_runs:
  assumes "submit_response S env c dir timing w = (b, t, w')"
  obtains (Failed) w1 w2 :: "CliHooks World" and e where "system w1 = system w"
      "open_with_ops S ProductionDurability (ProductionProfile (profile_system env)) dir w1 = (Inl e, w2)"
      "system w' = system w2" "b = open_error_body e"
    | (Ran) w1 w2 w3 w4 :: "CliHooks World" and jn ob r where "system w1 = system w"
      "open_with_ops S ProductionDurability (ProductionProfile (profile_system env)) dir w1 = (Inr jn, w2)" "system w3 = system w2"
      "handle_workflow_signal (jsonl_journal S (profile_system env) jn ob) (SystemClock_now (since_epoch env)) c w3 = (r, w4)"
      "w' = drop_lock (lock_file jn) w4" "b = submit_body r"
proof (cases timing)
  case None
  obtain r w2 where o: "JsonlJournal_open S env dir w = (r, w2)" by fastforce
  with assms None Failed [of w _ w2] Ran [of w _ w2 w2] show ?thesis
    by (cases r) (auto simp: submit_response_def JsonlJournal_open_def split: prod.splits)
next
  case (Some tm)
  obtain r w3 where o: "open_observed store_observe (JsonlJournal_open S env dir) (start_store_observer env tm w) = (r, w3)" by fastforce
  obtain w1 w2 where w: "system w1 = system w" "JsonlJournal_open S env dir w1 = (r, w2)" "system w3 = system w2"
    by (rule open_observed_run [OF o]) (auto simp: notify_pre_system)
  show ?thesis
  proof (cases r)
    case (Inl e)
    with assms Some o w Failed [of w1 e w2] show ?thesis
      by (auto simp: submit_response_def JsonlJournal_open_def)
  next
    case (Inr jn)
    with assms Some o obtain h m w4 where h: "handle_workflow_signal_observed (jsonl_journal S (profile_system env) jn store_observe)
        (SystemClock_now (since_epoch env)) c EngineTimingObserver (TimingObserver_new (engine_timing tm) (engine_instants env)) w3 = (h, m, w4)"
      "b = submit_body h" "w' = drop_lock (lock_file jn) w4"
      by (auto simp: submit_response_def split: prod.splits)
    show ?thesis
      using Ran [OF w(1) _ w(3) timed_handle [OF h(1)] h(3,2)] w(2) Inr by (simp add: JsonlJournal_open_def)
  qed
qed

lemma reconcile_response_runs:
  assumes "reconcile_response S env s dir timing w = (b, t, w')"
  obtains (Failed) w1 w2 :: "CliHooks World" and e where "system w1 = system w"
      "reader_open_with_profile S (ProductionProfile (profile_system env)) dir w1 = (Inl e, w2)"
      "system w' = system w2" "b = open_error_body e"
    | (Ran) w1 w2 w3 w4 :: "CliHooks World" and jn ob r where "system w1 = system w"
      "reader_open_with_profile S (ProductionProfile (profile_system env)) dir w1 = (Inr jn, w2)" "system w3 = system w2"
      "engine_reconcile_workflow_signal (jsonl_reader S (profile_system env) jn ob) s w3 = (r, w4)"
      "w' = drop_lock (lock_file jn) w4" "b = reconcile_body s r"
proof (cases timing)
  case None
  obtain r w2 where o: "JsonlJournalReader_open S env dir w = (r, w2)" by fastforce
  with assms None Failed [of w _ w2] Ran [of w _ w2 w2] show ?thesis
    by (cases r) (auto simp: reconcile_response_def JsonlJournalReader_open_def split: prod.splits)
next
  case (Some tm)
  obtain r w3 where o: "open_observed store_observe (JsonlJournalReader_open S env dir) (start_store_observer env tm w) = (r, w3)" by fastforce
  obtain w1 w2 where w: "system w1 = system w" "JsonlJournalReader_open S env dir w1 = (r, w2)" "system w3 = system w2"
    by (rule open_observed_run [OF o]) (auto simp: notify_pre_system)
  show ?thesis
  proof (cases r)
    case (Inl e)
    with assms Some o w Failed [of w1 e w2] show ?thesis
      by (auto simp: reconcile_response_def JsonlJournalReader_open_def)
  next
    case (Inr jn)
    with assms Some o obtain h m w4 where h: "reconcile_workflow_signal_observed (jsonl_reader S (profile_system env) jn store_observe)
        s EngineTimingObserver (TimingObserver_new (engine_timing tm) (engine_instants env)) w3 = (h, m, w4)"
      "b = reconcile_body s h" "w' = drop_lock (lock_file jn) w4"
      by (auto simp: reconcile_response_def split: prod.splits)
    show ?thesis
      using Ran [OF w(1) _ w(3) timed_reconcile [OF h(1)] h(3,2)] w(2) Inr by (simp add: JsonlJournalReader_open_def)
  qed
qed

lemma SystemClock_now_wf: "SystemClock_now se = Inr t \<Longrightarrow> wf_BoundedTimestamp t"
  by (auto simp: SystemClock_now_def and_then_eq_Inr map_err_eq_Inr from_unix_seconds_ok)

lemma jsonl_is_reader:
  assumes "store_serde_laws S"
  shows "journal_reader (jsonl_reader S sys jn ob) (jsonl_entries S (state_dir jn)) (jsonl_invar S (state_dir jn))"
proof (unfold_locales, unfold jsonl_reader_def JournalReader.simps)
  fix w es w' r assume i: "jsonl_invar S (state_dir jn) w"
    and l: "load_committed_observed_by_store S (ProductionProfile sys) jn ob w = (r, w')"
  show "jsonl_entries S (state_dir jn) w' = jsonl_entries S (state_dir jn) w \<and> jsonl_invar S (state_dir jn) w'"
    using i by (simp add: jsonl_invar_system [OF jsonl_load(1) [OF assms i l]])
qed (rule jsonl_load(2) [OF assms _ _ refl])

lemma submit_response_reply:
  assumes "store_serde_laws S" "jsonl_invar S dir w" "wf_signal s"
    "submit_response S env (SubmitSignal s x) dir timing w = (b, t, w')"
  shows "jsonl_invar S dir w' \<and> (\<exists>y. b = Some y \<and>
    submit_reply (SystemClock_now (since_epoch env)) s x (jsonl_entries S dir w) y (jsonl_entries S dir w'))"
  using assms(4)
proof (cases rule: submit_response_runs)
  case (Failed w1 w2 e)
  have "jsonl_invar S dir w1" using assms(2) by (simp add: jsonl_invar_system [OF Failed(1)])
  note j = jsonl_open [OF assms(1) this Failed(2)]
  have "jsonl_invar S dir w'" "jsonl_entries S dir w' = jsonl_entries S dir w"
    using j(1,2) by (simp_all add: jsonl_invar_system [OF Failed(1)] jsonl_invar_system [OF Failed(3)])
  then show ?thesis using Failed(4) open_error_reply by metis
next
  case (Ran w1 w2 w3 w4 jn ob r)
  have "jsonl_invar S dir w1" using assms(2) by (simp add: jsonl_invar_system [OF Ran(1)])
  note j = jsonl_open [OF assms(1) this Ran(2)]
  have d: "state_dir jn = dir" using j(3) by simp
  have i: "jsonl_invar S dir w3" "jsonl_entries S dir w3 = jsonl_entries S dir w"
    using j(1,2) by (simp_all add: jsonl_invar_system [OF Ran(1)] jsonl_invar_system [OF Ran(3)])
  have "submit_allowed (SystemClock_now (since_epoch env)) s x (jsonl_entries S dir w) r (jsonl_entries S dir w4) \<and> jsonl_invar S dir w4"
    using journal.handle_allowed [OF jsonl_is_journal [OF assms(1), of "profile_system env" jn ob] _ _ Ran(4)] i assms(3)
    by (auto simp: d jsonl_fits_def dest: SystemClock_now_wf)
  then show ?thesis using submit_body_reply Ran(5,6) by simp
qed

lemma reconcile_response_reply:
  assumes "store_serde_laws S" "jsonl_invar S dir w" "reconcile_response S env s dir timing w = (b, t, w')"
  shows "jsonl_invar S dir w' \<and> jsonl_entries S dir w' = jsonl_entries S dir w \<and>
    (\<exists>y. b = Some y \<and> reconcile_reply s (jsonl_entries S dir w) y)"
  using assms(3)
proof (cases rule: reconcile_response_runs)
  case (Failed w1 w2 e)
  have "jsonl_invar S dir w1" using assms(2) by (simp add: jsonl_invar_system [OF Failed(1)])
  note j = jsonl_reader_open [OF this Failed(2)]
  have "jsonl_invar S dir w'" "jsonl_entries S dir w' = jsonl_entries S dir w"
    using j(1,2) by (simp_all add: jsonl_invar_system [OF Failed(1)] jsonl_invar_system [OF Failed(3)])
  then show ?thesis using Failed(4) open_error_reply by metis
next
  case (Ran w1 w2 w3 w4 jn ob r)
  have "jsonl_invar S dir w1" using assms(2) by (simp add: jsonl_invar_system [OF Ran(1)])
  note j = jsonl_reader_open [OF this Ran(2)]
  have d: "state_dir jn = dir" using j(3) by simp
  have i: "jsonl_invar S dir w3" "jsonl_entries S dir w3 = jsonl_entries S dir w"
    using j(1,2) by (simp_all add: jsonl_invar_system [OF Ran(1)] jsonl_invar_system [OF Ran(3)])
  note rd = jsonl_is_reader [OF assms(1), of "profile_system env" jn ob, unfolded d]
  from journal_reader.reconcile_keeps [OF rd i(1) Ran(4)] journal_reader.reconcile_exact [OF rd i(1), of s _ w4]
  show ?thesis using Ran(4-6) i(2) reconcile_body_reply [of r "jsonl_entries S dir w" s] by simp
qed

lemma execute_request_reply:
  assumes "store_serde_laws S" "jsonl_invar S dir w" "wf_request_kind k"
    "execute_request S env k name dir timing w = (b, t, w')"
  shows "jsonl_invar S dir w' \<and> (\<exists>y. b = Some y \<and>
    reply_allowed (SystemClock_now (since_epoch env)) k (jsonl_entries S dir w) y (jsonl_entries S dir w'))"
proof (cases k)
  case Hello
  then show ?thesis using assms by (auto simp: execute_request_def)
next
  case (SubmitWorkflowSignal c)
  obtain s x where c: "c = SubmitSignal s x" by (cases c)
  have wf: "wf_signal s" using assms(3) SubmitWorkflowSignal c by simp
  show ?thesis
  proof (cases "store_platform_supported env")
    case True
    then show ?thesis
      using submit_response_reply [OF assms(1,2) wf] assms(4) SubmitWorkflowSignal c by (auto simp: execute_request_def)
  next
    case False
    then show ?thesis
      using assms(2,4) SubmitWorkflowSignal c
      by (auto simp: execute_request_def store_capability_unsupported_def submit_reply_def capability_conflict)
  qed
next
  case (ReconcileWorkflowSignal s)
  then show ?thesis
    using reconcile_response_reply [OF assms(1,2)] assms(2,4)
    by (auto simp: execute_request_def store_capability_unsupported_def reconcile_reply_def split: if_splits)
qed

section \<open>Processes one after another\<close>

text \<open>One process: its environment, what it read from standard input, and what it meets: the locks other
  processes hold when it starts, the fault script of its system calls and its timing hooks.\<close>

record Invocation =
  inv_env :: CliEnv
  inv_frame :: bytes
  inv_timing :: "HandlerTiming option"
  inv_locks :: "nat \<Rightarrow> LockState"
  inv_faults :: "Fault list"
  inv_hooks :: CliHooks

definition invoke ::
  "('v, 'm, 'b) Serde_scheme \<Rightarrow> ('s, 'a) StoreSerde_scheme \<Rightarrow> Path \<Rightarrow> Invocation \<Rightarrow> CliHooks World \<Rightarrow>
   WorkerResponse option \<times> CliHooks World" where
  "invoke R S dir i w =
     (case respond R S (inv_env i) (inv_frame i) dir (inv_timing i) DispatchGate_new
             \<lparr>system = (system w)\<lparr>locks := inv_locks i\<rparr>, faults = inv_faults i, hooks = inv_hooks i\<rparr> of
        (a, _, w) \<Rightarrow> (a, w))"

fun invoke_all ::
  "('v, 'm, 'b) Serde_scheme \<Rightarrow> ('s, 'a) StoreSerde_scheme \<Rightarrow> Path \<Rightarrow> Invocation list \<Rightarrow> CliHooks World \<Rightarrow>
   WorkerResponse option list \<times> CliHooks World" where
  "invoke_all R S dir [] w = ([], w)"
| "invoke_all R S dir (i # is) w =
     (let (a, w) = invoke R S dir i w; (as, w) = invoke_all R S dir is w in (a # as, w))"

text \<open>The contract of one process: a request that decodes is answered as its kind allows, with its own
  identifier and kind; a request that does not changes nothing.\<close>

definition answer_allowed ::
  "('v, 'm, 'b) Serde_scheme \<Rightarrow> CliEnv \<Rightarrow> bytes \<Rightarrow> JournalEntry list \<Rightarrow> WorkerResponse \<Rightarrow> JournalEntry list \<Rightarrow> bool" where
  "answer_allowed R env frame es a es' \<longleftrightarrow>
     (case decode_request R frame of
        Some (Inr request) \<Rightarrow>
          response_request_id (wr_response a) = Some (request_id request) \<and>
          response_kind (wr_response a) = Some (RequestKind_name (request_kind request)) \<and>
          reply_allowed (SystemClock_now (since_epoch env)) (request_kind request) es (response_body (wr_response a)) es'
      | _ \<Rightarrow> (\<exists>e. response_body (wr_response a) = BodyError e) \<and> es' = es)"

lemma claim_dispatch_new [simp]: "claim_dispatch DispatchGate_new = (True, DISPATCHING)"
  by (simp add: claim_dispatch_def compare_exchange_def DispatchGate_new_def)

lemma decode_rejection_body: "decode_rejection R fl timing = Some a \<Longrightarrow> \<exists>e. response_body (wr_response a) = BodyError e"
  by (auto simp: decode_rejection_def Let_def split: if_splits)

lemma respond_allowed:
  assumes "typed_passes_agree R" "store_serde_laws S" "jsonl_invar S dir w"
    "respond R S env frame dir timing DispatchGate_new w = (a, g, w')"
  shows "jsonl_invar S dir w' \<and>
    (\<exists>y. a = Some y \<and> answer_allowed R env frame (jsonl_entries S dir w) y (jsonl_entries S dir w'))"
proof -
  consider (bad) fl where "decode_request R frame = Some (Inl fl)"
    | (good) request where "decode_request R frame = Some (Inr request)" "wf_request_kind (request_kind request)"
    using decode_request_typed [OF assms(1), of frame] by (cases "decode_request R frame") (auto, metis sumE)
  then show ?thesis
  proof cases
    case bad
    let ?t = "map_option (\<lambda>t. t\<lparr>decode_ms := Some (milliseconds (decode_elapsed env))\<rparr>) timing"
    have "a = decode_rejection R fl ?t" "w' = w"
      using assms(4) bad by (simp_all add: respond_def respond_decode_def Let_def)
    then show ?thesis
      using decode_rejection_ok [OF bad, of ?t] decode_rejection_body [of R fl ?t] bad assms(3)
      by (auto simp: answer_allowed_def)
  next
    case good
    let ?k = "request_kind request"
    obtain t b t' w1 where x: "execute_request S env ?k (RequestKind_name ?k) dir t w = (b, t', w1)"
      and a: "w' = w1" "b = Some y \<Longrightarrow> \<exists>z. a = Some z \<and> response_request_id (wr_response z) = Some (request_id request) \<and>
        response_kind (wr_response z) = Some (RequestKind_name ?k) \<and> response_body (wr_response z) = y" for y
      using assms(4) good(1)
      by (auto simp: respond_def respond_decode_def respond_dispatched_def Let_def split: prod.splits)
    show ?thesis
      using execute_request_reply [OF assms(2,3) good(2) x] a good(1) by (fastforce simp: answer_allowed_def)
  qed
qed

lemma invoke_allowed:
  assumes "typed_passes_agree R" "store_serde_laws S" "jsonl_invar S dir w" "invoke R S dir i w = (a, w')"
  shows "jsonl_invar S dir w' \<and> (\<exists>y. a = Some y \<and>
    answer_allowed R (inv_env i) (inv_frame i) (jsonl_entries S dir w) y (jsonl_entries S dir w'))"
proof -
  let ?w = "\<lparr>system = (system w)\<lparr>locks := inv_locks i\<rparr>, faults = inv_faults i, hooks = inv_hooks i\<rparr>"
  have w: "jsonl_invar S dir ?w" "jsonl_entries S dir ?w = jsonl_entries S dir w"
    using assms(3) by (simp_all add: jsonl_invar_def jsonl_entries_def)
  obtain g where "respond R S (inv_env i) (inv_frame i) dir (inv_timing i) DispatchGate_new ?w = (a, g, w')"
    using assms(4) by (auto simp: invoke_def split: prod.splits)
  from respond_allowed [OF assms(1,2) w(1) this] show ?thesis by (simp add: w(2))
qed

lemma answer_allowed_extends:
  assumes "answer_allowed R env frame es a es'"
  shows "\<exists>new. es' = es @ new \<and> length new \<le> 1" "distinct (keys_of es) \<Longrightarrow> distinct (keys_of es')"
    "contiguous es \<Longrightarrow> contiguous es'"
proof -
  have "es' = es \<or> (\<exists>now s. stores_next now s es es')"
    using assms
    by (auto simp: answer_allowed_def submit_reply_def reconcile_reply_def
        split: option.splits sum.splits ResponseBody.splits Disposition.splits elim!: reply_allowed.elims)
  then show "\<exists>new. es' = es @ new \<and> length new \<le> 1" "distinct (keys_of es) \<Longrightarrow> distinct (keys_of es')"
    "contiguous es \<Longrightarrow> contiguous es'"
    by (auto simp: stores_next_def next_entry_def)
qed

text \<open>A response that reports a submission as stored, and to which signal it answers.\<close>

definition reports_stored :: "('v, 'm, 'b) Serde_scheme \<Rightarrow> Invocation \<Rightarrow> WorkerResponse option \<Rightarrow> WorkflowSignal \<Rightarrow> bool" where
  "reports_stored R i a s \<longleftrightarrow>
     (\<exists>q x y r. decode_request R (inv_frame i) = Some (Inr \<lparr>request_id = q, request_kind = SubmitWorkflowSignal (SubmitSignal s x)\<rparr>) \<and>
        a = Some y \<and> response_body (wr_response y) = BodyWorkflowSignal r)"

lemma answer_allowed_stored:
  "answer_allowed R (inv_env i) (inv_frame i) es y es' \<Longrightarrow> reports_stored R i (Some y) s \<Longrightarrow> holds_signal es' s"
  by (auto simp: answer_allowed_def reports_stored_def submit_reply_def stores_next_def holds_signal_def
      split: Disposition.splits)

lemma invoke_all_keeps:
  assumes "typed_passes_agree R" "store_serde_laws S" "jsonl_invar S dir w" "invoke_all R S dir is w = (as, w')"
  shows "length as = length is \<and> None \<notin> set as \<and> jsonl_invar S dir w' \<and>
    (\<exists>new. jsonl_entries S dir w' = jsonl_entries S dir w @ new \<and> length new \<le> length is) \<and>
    (distinct (keys_of (jsonl_entries S dir w)) \<longrightarrow> distinct (keys_of (jsonl_entries S dir w'))) \<and>
    (contiguous (jsonl_entries S dir w) \<longrightarrow> contiguous (jsonl_entries S dir w')) \<and>
    (\<forall>k < length is. \<forall>s. reports_stored R (is ! k) (as ! k) s \<longrightarrow> holds_signal (jsonl_entries S dir w') s)"
  using assms(3,4)
proof (induction "is" arbitrary: w as)
  case (Cons i "is")
  obtain a w1 where i: "invoke R S dir i w = (a, w1)" by fastforce
  obtain as1 where rest: "invoke_all R S dir is w1 = (as1, w')" "as = a # as1"
    using Cons.prems(2) i by (auto split: prod.splits)
  obtain y where y: "jsonl_invar S dir w1" "a = Some y"
    "answer_allowed R (inv_env i) (inv_frame i) (jsonl_entries S dir w) y (jsonl_entries S dir w1)"
    using invoke_allowed [OF assms(1,2) Cons.prems(1) i] by blast
  note ext = answer_allowed_extends [OF y(3)]
  note ih = Cons.IH [OF y(1) rest(1)]
  obtain n1 n2 where n: "jsonl_entries S dir w1 = jsonl_entries S dir w @ n1" "length n1 \<le> 1"
    "jsonl_entries S dir w' = jsonl_entries S dir w1 @ n2" "length n2 \<le> length is"
    using ext(1) ih by blast
  have "holds_signal (jsonl_entries S dir w') s" if "k < length (i # is)" "reports_stored R ((i # is) ! k) (as ! k) s" for k s
    using that rest(2) y(2) ih answer_allowed_stored [OF y(3), of s] n(3) by (cases k) auto
  moreover have "\<exists>new. jsonl_entries S dir w' = jsonl_entries S dir w @ new \<and> length new \<le> length (i # is)"
    using n by (intro exI [of _ "n1 @ n2"]) simp
  ultimately show ?case using ih ext rest(2) y(2) by auto
qed simp

section \<open>A submission frame\<close>

definition submit_frame :: string where
  "submit_frame =
     ''{\"protocol\":\"aizign\",\"version\":1,\"requestId\":\"req-2\",\"kind\":\"workflow.signal.submit\",\"payload\":{}}''"

definition submit_envelope :: "unit RequestEnvelope" where
  "submit_envelope =
     \<lparr>env_protocol = ''aizign'', env_version = 1, env_request_id = ''req-2'', env_kind = KIND_WORKFLOW_SIGNAL_SUBMIT,
      env_payload = ()\<rparr>"

definition submit_reader :: "(example_value, unit) Serde" where
  "submit_reader = example_reader
     \<lparr>from_str_RequestEnvelope := (\<lambda>t. if t = submit_frame then Inr submit_envelope else Inl ''unexpected text''),
      Value_Object := (\<lambda>_. encode_submit example_serde (SubmitSignal example_signal example_expected))\<rparr>"

abbreviation submit_scan :: Scan where
  "submit_scan \<equiv> scan_json_tokens (\<lambda>t. Some (butlast (tl t))) submit_frame"

lemma submit_reader_simps:
  "decode_string submit_reader = (\<lambda>t. Some (butlast (tl t)))"
  "from_str_RequestEnvelope submit_reader = (\<lambda>t. if t = submit_frame then Inr submit_envelope else Inl ''unexpected text'')"
  "Value_Object submit_reader u = encode_submit example_serde (SubmitSignal example_signal example_expected)"
  by (simp_all add: submit_reader_def example_reader_def)

lemma submit_scan_summary:
  "scan_summary submit_scan =
     (None, None, True, Safe, submit_frame, submit_frame, False, False,
      [Some (ProbeString ''aizign''), Some (ProbeNumber ''1''), Some (ProbeString ''req-2''),
       Some (ProbeString ''workflow.signal.submit'')])"
  by code_simp

lemma submit_decode:
  "decode_request submit_reader submit_frame =
     Some (Inr \<lparr>request_id = ''req-2'', request_kind = SubmitWorkflowSignal (SubmitSignal example_signal example_expected)\<rparr>)"
proof (rule decode_request_scanned [where S = submit_reader, unfolded submit_reader_simps, OF _ _ _ submit_scan_summary])
  show "from_utf8 submit_frame = Inr submit_frame" by code_simp
  show "valid_request_id (env_request_id submit_envelope)"
    by (simp add: submit_envelope_def valid_request_id_def MAX_REQUEST_ID_LEN_def byte_defs)
  fix p :: Recovered assume p: "\<not> rec_out_of_range p"
  have "decode_submit submit_reader (encode_submit example_serde (SubmitSignal example_signal example_expected)) =
      Inr (SubmitSignal example_signal example_expected)"
    using example_wf example_expected_wf
    by (simp add: decode_submit_def shape_error_def submit_reader_def example_reader_def example_serde_def)
  then show "decode_request submit_reader submit_frame =
       (case decode_request_kind submit_reader p submit_envelope of
          None \<Rightarrow> None
        | Some (Inl e) \<Rightarrow> Some (Inl (Recovered_fail p e))
        | Some (Inr k) \<Rightarrow> Some (Inr \<lparr>request_id = env_request_id submit_envelope, request_kind = k\<rparr>)) \<Longrightarrow> ?thesis"
    using p by (simp add: decode_request_kind_def submit_envelope_def kind_defs submit_reader_simps)
qed (simp_all add: submit_frame_def MAX_REQUEST_BYTES_def MAX_FRAME_BYTES_def starts_with_def utf8_bom_def
    submit_envelope_def registered_kind_def)

lemma submit_reader_agrees: "typed_passes_agree submit_reader"
  by (auto simp: typed_passes_agree_def submit_reader_simps split: if_splits)

lemma example_cli_invar:
  "jsonl_invar example_store_serde [''d''] example_cli_world" "jsonl_entries example_store_serde [''d''] example_cli_world = []"
  using example_jsonl_invar
  by (simp_all add: jsonl_invar_def jsonl_entries_def example_cli_world_def example_world_def example_journal_def)

definition example_invocation :: Invocation where
  "example_invocation =
     \<lparr>inv_env = example_env, inv_frame = submit_frame, inv_timing = None, inv_locks = (\<lambda>_. Unlocked), inv_faults = [],
      inv_hooks = hooks example_cli_world\<rparr>"

section \<open>Properties\<close>

text \<open>C3: one process, from the bytes of the frame to the response. Over a store left by any earlier
  runs and under every fault script, timed or not, a frame that decodes is answered under its own
  request identifier and kind: a submission is reported accepted exactly when its entry is now
  committed, duplicate when it already was; a conflict error names an identifier committed with
  other content; any other error leaves the entries as they were, the unknown outcome excepted,
  which may have added the one entry; a reconciliation answers from the committed entries. A frame
  that does not decode is answered with an error and changes nothing.\<close>

theorem cli_request_exact:
  assumes "typed_passes_agree R" "store_serde_laws S" "jsonl_invar S dir w"
    "respond R S env frame dir timing DispatchGate_new w = (a, gate, w')"
  shows "jsonl_invar S dir w' \<and>
    (\<exists>y. a = Some y \<and> answer_allowed R env frame (jsonl_entries S dir w) y (jsonl_entries S dir w'))"
  by (rule respond_allowed [OF assms])

theorem cli_request_exact_witness:
  "\<exists>y gate w'. respond submit_reader example_store_serde example_env submit_frame [''d''] None DispatchGate_new example_cli_world =
       (Some y, gate, w') \<and>
     submit_reply (Inr (BoundedTimestamp 1700000000)) example_signal example_expected [] (response_body (wr_response y))
       (jsonl_entries example_store_serde [''d''] w')"
proof -
  obtain a gate w' where r: "respond submit_reader example_store_serde example_env submit_frame [''d''] None DispatchGate_new
      example_cli_world = (a, gate, w')" by (rule prod_cases3)
  have "SystemClock_now (since_epoch example_env) = Inr (BoundedTimestamp 1700000000)"
    by (simp add: SystemClock_now_def example_env_def from_unix_seconds_def MIN_UNIX_SECONDS_def MAX_UNIX_SECONDS_def)
  with cli_request_exact [OF submit_reader_agrees example_store_serde_laws example_cli_invar(1) r] r
  show ?thesis by (auto simp: answer_allowed_def submit_decode example_cli_invar(2))
qed



end
