(* ===== verification/Tooling.thy ===== *)
theory Tooling
  imports Store_Profile
begin

text \<open>The shared parts of the repository tooling (\<open>xtask\<close>): text helpers of the standard library, findings
  and their report (report.rs), reading tracked files (audit/mod.rs) and running commands (shell.rs).
  What a run prints is part of its result. The file tree and the commands are outside the program:
  they are parameters of the definitions that ask them.\<close>

section \<open>Text\<close>

definition ends_with :: "string \<Rightarrow> string \<Rightarrow> bool" where
  "ends_with s p \<longleftrightarrow> length p \<le> length s \<and> drop (length s - length p) s = p"

definition strip_suffix :: "string \<Rightarrow> string \<Rightarrow> string option" where
  "strip_suffix s p = (if ends_with s p then Some (take (length s - length p) s) else None)"

text \<open>\<open>str::find\<close> for a text: the byte index of the first occurrence.\<close>

fun find_text :: "string \<Rightarrow> string \<Rightarrow> nat option" where
  "find_text p [] = (if p = [] then Some 0 else None)"
| "find_text p (c # cs) = (if starts_with (c # cs) p then Some 0 else map_option Suc (find_text p cs))"

definition contains_text :: "string \<Rightarrow> string \<Rightarrow> bool" where
  "contains_text s p \<longleftrightarrow> find_text p s \<noteq> None"

lemma starts_with_iff: "starts_with s p \<longleftrightarrow> (\<exists>t. s = p @ t)"
  unfolding starts_with_def by (metis append_eq_conv_conj append_take_drop_id)

lemma find_text_Some:
  "find_text p s = Some i \<Longrightarrow> starts_with (drop i s) p \<and> i \<le> length s \<and> (\<forall>j<i. \<not> starts_with (drop j s) p)"
proof (induction s arbitrary: i)
  case (Cons c cs)
  show ?case
  proof (cases "starts_with (c # cs) p")
    case False
    then obtain k where k: "find_text p cs = Some k" "i = Suc k" using Cons.prems by auto
    note ih = Cons.IH [OF k(1)]
    have "\<not> starts_with (drop j (c # cs)) p" if "j < i" for j
      using that False k(2) ih by (cases j) auto
    then show ?thesis using ih k(2) by simp
  qed (use Cons.prems in auto)
qed (auto simp: starts_with_def split: if_splits)

lemma find_text_None: "find_text p s = None \<longleftrightarrow> (\<forall>j \<le> length s. \<not> starts_with (drop j s) p)"
proof (induction s)
  case (Cons c cs)
  have "(\<forall>j \<le> length (c # cs). \<not> starts_with (drop j (c # cs)) p) \<longleftrightarrow>
      \<not> starts_with (c # cs) p \<and> (\<forall>j \<le> length cs. \<not> starts_with (drop j cs) p)"
    by (auto simp: less_Suc_eq_le) (metis Suc_le_mono drop0 drop_Suc_Cons not0_implies_Suc)+
  with Cons show ?case by simp
qed (auto simp: starts_with_def)

lemma contains_text_iff: "contains_text s p \<longleftrightarrow> (\<exists>a b. s = a @ p @ b)"
proof -
  have "contains_text s p \<longleftrightarrow> (\<exists>j \<le> length s. \<exists>b. drop j s = p @ b)"
    by (simp add: contains_text_def find_text_None starts_with_iff)
  also have "\<dots> \<longleftrightarrow> (\<exists>a b. s = a @ p @ b)"
    by (metis append_eq_conv_conj append_take_drop_id le_add1 length_append)
  finally show ?thesis .
qed

function trim_end :: "string \<Rightarrow> string" where
  "trim_end s =
     (let n = length s; space = (\<lambda>k. k \<le> n \<and> white_space_len (map byte_code (drop (n - k) s)) = k) in
      if n = 0 then s
      else if space 1 then trim_end (take (n - 1) s)
      else if space 2 then trim_end (take (n - 2) s)
      else if space 3 then trim_end (take (n - 3) s)
      else s)"
  by auto
termination by (relation "measure length") auto

declare trim_end.simps [simp del]

definition str_trim :: "string \<Rightarrow> string" where
  "str_trim s = trim_end (trim_start s)"

fun before_space :: "string \<Rightarrow> string" where
  "before_space [] = []"
| "before_space (c # cs) =
     (if white_space_len (map byte_code (take 3 (c # cs))) > 0 then [] else c # before_space cs)"

text \<open>\<open>split_whitespace().next().unwrap_or_default()\<close>.\<close>

definition first_word :: "string \<Rightarrow> string" where
  "first_word s = before_space (trim_start s)"

text \<open>\<open>trim_matches\<close> for one character.\<close>

definition trim_char :: "char \<Rightarrow> string \<Rightarrow> string" where
  "trim_char c s = rev (dropWhile (\<lambda>x. x = c) (rev (dropWhile (\<lambda>x. x = c) s)))"

fun join_text :: "string \<Rightarrow> string list \<Rightarrow> string" where
  "join_text sep [] = []"
| "join_text sep [s] = s"
| "join_text sep (s # ss) = s @ sep @ join_text sep ss"

text \<open>The characters that the messages quote names with, and the two non-ASCII ones they use.\<close>

definition ticked :: "string \<Rightarrow> string" where
  "ticked s = ''`'' @ s @ ''`''"

definition ellipsis :: string where "ellipsis = [CHR 0xE2, CHR 0x80, CHR 0xA6]"
definition em_dash :: string where "em_dash = [CHR 0xE2, CHR 0x80, CHR 0x94]"

section \<open>Sessions\<close>

text \<open>A path is the list of its components, a slash first when it is absolute; \<open>Path::components\<close> drops
  empty components and the dots after the first.\<close>

type_synonym RepoPath = "string list"

text \<open>The tree under the repository root, by path relative to it.\<close>

record Tree =
  read_file :: "RepoPath \<Rightarrow> (string, bytes) result"
  path_exists :: "RepoPath \<Rightarrow> bool"
  path_is_file :: "RepoPath \<Rightarrow> bool"
  path_is_dir :: "RepoPath \<Rightarrow> bool"
  read_dir :: "RepoPath \<Rightarrow> (string, string list) result"

text \<open>Child processes are outside the program: a shell answers a command line with an exit status and its
  output, in a state of its own that the file tree is part of. The commands started, with how
  they ended, and the lines printed are kept with it.\<close>

datatype Exit = Exited bool string bytes bytes | NotStarted string

record 'w Shell =
  run_child :: "string \<Rightarrow> string list \<Rightarrow> (string \<times> string) list \<Rightarrow> 'w \<Rightarrow> Exit \<times> 'w"
  tree_of :: "'w \<Rightarrow> Tree"

record 'w Session =
  child_state :: 'w
  started :: "(string \<times> string list \<times> Exit) list"
  printed :: "string list"

type_synonym ('w, 'a) tool = "'w Session \<Rightarrow> (string, 'a) result \<times> 'w Session"

definition tbind :: "('w, 'a) tool \<Rightarrow> ('a \<Rightarrow> ('w, 'b) tool) \<Rightarrow> ('w, 'b) tool" where
  "tbind m f s = (case m s of (Inl e, s) \<Rightarrow> (Inl e, s) | (Inr x, s) \<Rightarrow> f x s)"

definition tret :: "'a \<Rightarrow> ('w, 'a) tool" where "tret x s = (Inr x, s)"
definition tfail :: "string \<Rightarrow> ('w, 'a) tool" where "tfail e s = (Inl e, s)"

definition tsay :: "string \<Rightarrow> ('w, unit) tool" where
  "tsay line s = (Inr (), s\<lparr>printed := printed s @ [line]\<rparr>)"

definition tmap_err :: "(string \<Rightarrow> string) \<Rightarrow> ('w, 'a) tool \<Rightarrow> ('w, 'a) tool" where
  "tmap_err f m s = (case m s of (r, s) \<Rightarrow> (map_err f r, s))"

definition ttree :: "'w Shell \<Rightarrow> (Tree \<Rightarrow> ('w, 'a) tool) \<Rightarrow> ('w, 'a) tool" where
  "ttree H f s = f (tree_of H (child_state s)) s"

definition tlift :: "(string, 'a) result \<Rightarrow> ('w, 'a) tool" where "tlift r s = (r, s)"

section \<open>Findings (report.rs)\<close>

type_synonym Findings = "string list"

definition report_stage :: "string \<Rightarrow> string" where
  "report_stage name = CHR 0x0A # ''==> '' @ name"

definition tstage :: "string \<Rightarrow> ('w, unit) tool" where
  "tstage name = tsay (report_stage name)"

definition Findings_finish :: "string \<Rightarrow> Findings \<Rightarrow> ('w, unit) tool" where
  "Findings_finish audit items s =
     (if items = [] then (Inr (), s\<lparr>printed := printed s @ [audit @ '': ok'']\<rparr>)
      else (Inl (audit @ '': '' @ show_nat (length items) @ '' finding(s)''),
            s\<lparr>printed := printed s @ map (\<lambda>item. ''  - '' @ item) items\<rparr>))"

text \<open>A table of patterns that reports each entry that matches.\<close>

lemma flagged_none: "concat (map (\<lambda>x. if P x then [f x] else []) xs) = [] \<longleftrightarrow> (\<forall>x \<in> set xs. \<not> P x)"
  by (induction xs) auto

section \<open>Tracked files (shell.rs, audit/mod.rs)\<close>

definition path_components :: "string \<Rightarrow> RepoPath" where
  "path_components s =
     (let cs = filter (\<lambda>c. c \<noteq> []) (split_on (CHR ''/'') s) in
      if starts_with s ''/'' then ''/'' # filter (\<lambda>c. c \<noteq> ''.'') cs
      else take 1 cs @ filter (\<lambda>c. c \<noteq> ''.'') (drop 1 cs))"

definition join_path_text :: "RepoPath \<Rightarrow> string \<Rightarrow> RepoPath" where
  "join_path_text base s = (if starts_with s ''/'' then path_components s else base @ path_components s)"

definition tracked_files :: "string \<Rightarrow> RepoPath list" where
  "tracked_files listing = map path_components (filter (\<lambda>e. e \<noteq> []) (split_on (CHR 0x00) listing))"

definition display :: "RepoPath \<Rightarrow> string" where
  "display p = join_text ''/'' p"

definition read_text :: "Tree \<Rightarrow> RepoPath \<Rightarrow> (string, string option) result" where
  "read_text T p =
     (case read_file T p of
        Inl e \<Rightarrow> Inl (display p @ '': '' @ e)
      | Inr bs \<Rightarrow>
          Inr (if CHR 0x00 \<in> set bs then None
               else (case from_utf8 bs of Inl _ \<Rightarrow> None | Inr t \<Rightarrow> Some t)))"

text \<open>\<open>file_name\<close> and \<open>extension\<close> of a path: no name after a parent component, no extension without a dot
  after the first character of the name.\<close>

definition file_name :: "RepoPath \<Rightarrow> string option" where
  "file_name p = (if p = [] \<or> last p \<in> {''..'', ''.''} then None else Some (last p))"

definition name_extension :: "string \<Rightarrow> string option" where
  "name_extension n =
     (let ps = split_on (CHR ''.'') n in
      if length ps < 2 \<or> (length ps = 2 \<and> hd ps = []) then None else Some (last ps))"

definition path_extension :: "RepoPath \<Rightarrow> string option" where
  "path_extension p = Option.bind (file_name p) name_extension"

text \<open>A loop over tracked paths that reads the selected ones: an unreadable file ends it, a file that is
  not text is passed over.\<close>

fun read_each :: "Tree \<Rightarrow> (RepoPath \<Rightarrow> bool) \<Rightarrow> RepoPath list \<Rightarrow> (string, (RepoPath \<times> string option) list) result" where
  "read_each T sel [] = Inr []"
| "read_each T sel (p # ps) =
     and_then (if sel p then read_text T p else Inr None) (\<lambda>text. map_ok ((#) (p, text)) (read_each T sel ps))"

text \<open>The text of a file, nothing for one that is not text.\<close>

definition file_text :: "bytes \<Rightarrow> string option" where
  "file_text bs = (if CHR 0x00 \<in> set bs \<or> \<not> is_ok (from_utf8 bs) then None else Some bs)"

lemma read_text_ok: "read_text T p = Inr t \<longleftrightarrow> (\<exists>bs. read_file T p = Inr bs \<and> t = file_text bs)"
proof (cases "read_file T p")
  case (Inr bs)
  then show ?thesis
    by (cases "from_utf8 bs") (auto simp: read_text_def file_text_def is_ok_def dest: from_utf8_Inr)
qed (simp add: read_text_def)

lemma read_each_ok:
  "read_each T sel ps = Inr files \<longleftrightarrow>
     (\<forall>p \<in> set ps. sel p \<longrightarrow> (\<exists>bs. read_file T p = Inr bs)) \<and>
     files = map (\<lambda>p. (p, if sel p then (case read_file T p of Inl _ \<Rightarrow> None | Inr bs \<Rightarrow> file_text bs) else None)) ps"
  by (induction ps arbitrary: files) (auto simp: and_then_eq_Inr map_ok_eq_Inr read_text_ok split: if_splits)

lemma read_each_readable:
  "\<forall>p \<in> set ps. sel p \<longrightarrow> (\<exists>bs. read_file T p = Inr bs) \<Longrightarrow> \<exists>files. read_each T sel ps = Inr files"
  using read_each_ok [of T sel ps] by blast

definition numbered_lines :: "string \<Rightarrow> (nat \<times> string) list" where
  "numbered_lines text = zip [1..<Suc (length (str_lines text))] (str_lines text)"

lemma snd_numbered_lines [simp]: "snd ` set (numbered_lines text) = set (str_lines text)"
proof -
  have "map snd (numbered_lines text) = str_lines text"
    unfolding numbered_lines_def by (rule map_snd_zip) (simp del: upt_Suc)
  then show ?thesis by (metis set_map)
qed

section \<open>Commands (shell.rs)\<close>

definition start_child :: "'w Shell \<Rightarrow> string \<Rightarrow> string list \<Rightarrow> (string \<times> string) list \<Rightarrow> 'w Session \<Rightarrow> Exit \<times> 'w Session" where
  "start_child H prog args env s =
     (case run_child H prog args env (child_state s) of
        (x, w) \<Rightarrow> (x, s\<lparr>child_state := w, started := started s @ [(prog, args, x)]\<rparr>))"

definition render :: "string \<Rightarrow> string list \<Rightarrow> string" where
  "render prog args = prog @ concat (map (\<lambda>a. '' '' @ a) args)"

definition run_with_env :: "'w Shell \<Rightarrow> string \<Rightarrow> string list \<Rightarrow> (string \<times> string) list \<Rightarrow> ('w, unit) tool" where
  "run_with_env H prog args env =
     (let rendered = render prog args in
      tbind (tsay (''$ '' @ rendered)) (\<lambda>_ s.
      case start_child H prog args env s of
        (NotStarted e, s) \<Rightarrow> (Inl (''failed to start '' @ ticked rendered @ '': '' @ e), s)
      | (Exited ok status _ _, s) \<Rightarrow>
          (if ok then Inr () else Inl (ticked rendered @ '' exited with '' @ status), s)))"

definition shell_run :: "'w Shell \<Rightarrow> string \<Rightarrow> string list \<Rightarrow> ('w, unit) tool" where
  "shell_run H prog args = run_with_env H prog args []"

text \<open>\<open>String::from_utf8_lossy\<close> replaces bytes that are not UTF-8; it is a parameter.\<close>

definition failure_details :: "(bytes \<Rightarrow> string) \<Rightarrow> bytes \<Rightarrow> bytes \<Rightarrow> bool \<Rightarrow> string" where
  "failure_details lossy err out include_stdout =
     (let err = str_trim (lossy err) in
      if \<not> include_stdout then err
      else let out = str_trim (lossy out) in
        if err \<noteq> [] \<and> out \<noteq> [] then err @ [CHR 0x0A] @ out
        else if err \<noteq> [] then err else out)"

definition capture_output ::
  "(bytes \<Rightarrow> string) \<Rightarrow> 'w Shell \<Rightarrow> string \<Rightarrow> string list \<Rightarrow> bool \<Rightarrow> (string \<times> string) list \<Rightarrow> ('w, string) tool" where
  "capture_output lossy H prog args include_stdout env s =
     (let rendered = render prog args in
      case start_child H prog args env s of
        (NotStarted e, s) \<Rightarrow> (Inl (''failed to start '' @ ticked rendered @ '': '' @ e), s)
      | (Exited ok status out err, s) \<Rightarrow>
          (if \<not> ok
           then Inl (ticked rendered @ '' exited with '' @ status @ '': '' @ failure_details lossy err out include_stdout)
           else map_err (\<lambda>e. ticked rendered @ '' produced non-UTF-8 output: '' @ e) (from_utf8 out), s))"

definition capture_with_env where
  "capture_with_env lossy H prog args env = capture_output lossy H prog args False env"

definition shell_capture where
  "shell_capture lossy H prog args = capture_with_env lossy H prog args []"

definition capture_logged where
  "capture_logged lossy H prog args =
     tbind (tsay (''$ '' @ render prog args)) (\<lambda>_. capture_output lossy H prog args True [])"

definition available :: "'w Shell \<Rightarrow> string \<Rightarrow> string list \<Rightarrow> 'w Session \<Rightarrow> bool \<times> 'w Session" where
  "available H prog args s =
     (case start_child H prog args [] s of
        (NotStarted e, s) \<Rightarrow> (False, s)
      | (Exited ok _ _ _, s) \<Rightarrow> (ok, s))"

end
