(* ===== verification/Tree_Audit.thy ===== *)
theory Tree_Audit
  imports Tooling "HOL-Library.List_Lexorder" "HOL-Library.Char_ord"
begin

text \<open>The audits of \<open>cargo xtask public-audit\<close> that read text (audit/secrets.rs, links.rs, entry_docs.rs,
  threat_model.rs): what each reports of the tracked tree.\<close>

section \<open>Secrets and private paths (secrets.rs)\<close>

definition EXEMPT_CONTENT :: "string list" where
  "EXEMPT_CONTENT = [''xtask/src/audit/secrets.rs'']"

definition TOKEN_PREFIXES :: "(string \<times> nat \<times> string) list" where
  "TOKEN_PREFIXES =
     [(''ghp_'', 20, ''GitHub personal access token''),
      (''gho_'', 20, ''GitHub OAuth token''),
      (''ghu_'', 20, ''GitHub user-to-server token''),
      (''ghs_'', 20, ''GitHub server-to-server token''),
      (''ghr_'', 20, ''GitHub refresh token''),
      (''github_pat_'', 20, ''GitHub fine-grained token''),
      (''sk-ant-'', 20, ''Anthropic API key''),
      (''sk-proj-'', 20, ''OpenAI project key''),
      (''AKIA'', 16, ''AWS access key id''),
      (''xoxb-'', 10, ''Slack bot token''),
      (''xoxp-'', 10, ''Slack user token''),
      (''glpat-'', 20, ''GitLab personal access token''),
      (''npm_'', 36, ''npm access token'')]"

definition LITERALS :: "(string \<times> string) list" where
  "LITERALS =
     [(''PRIVATE KEY-----'', ''private key material''),
      (''_authToken'', ''registry auth token''),
      (''/Users/'', ''macOS home directory path''),
      (''/home/'', ''Linux home directory path''),
      (''C:'' @ [CHR 0x5C] @ ''Users'' @ [CHR 0x5C], ''Windows home directory path''),
      (''dev-orchestration-lab'', ''legacy private repository name (ADR-0006)'')]"

definition FORBIDDEN_BASENAMES :: "string list" where
  "FORBIDDEN_BASENAMES =
     [''.env'', ''id_rsa'', ''id_dsa'', ''id_ecdsa'', ''id_ed25519'', ''.DS_Store'', ''.npmrc.local'']"

definition FORBIDDEN_EXTENSIONS :: "string list" where
  "FORBIDDEN_EXTENSIONS = [''pem'', ''key'', ''p12'', ''pfx'', ''jks'', ''keystore'']"

definition FORBIDDEN_COMPONENTS :: "string list" where
  "FORBIDDEN_COMPONENTS = [''node_modules'', ''target'', ''.aizu-state'', ''.aizign-state'', ''runtime'']"

definition check_path :: "RepoPath \<Rightarrow> Findings" where
  "check_path p =
     (let rendered = display p;
          basename = (case file_name p of None \<Rightarrow> [] | Some n \<Rightarrow> n);
          extension = (case path_extension p of None \<Rightarrow> [] | Some e \<Rightarrow> e)
      in (if basename \<in> set FORBIDDEN_BASENAMES \<or> starts_with basename ''.env.''
          then [rendered @ '': file name must not be tracked''] else []) @
         (if extension \<in> set FORBIDDEN_EXTENSIONS
          then [rendered @ '': '' @ ticked (''.'' @ extension) @ '' files must not be tracked''] else []) @
         concat (map (\<lambda>c. if c \<in> set FORBIDDEN_COMPONENTS
                          then [rendered @ '': '' @ ticked (c @ ''/'') @ '' must not be tracked''] else []) p))"

definition token_char :: "char \<Rightarrow> bool" where
  "token_char c \<longleftrightarrow> is_ascii_alphanumeric c \<or> c = CHR ''_''"

text \<open>The search for one prefix: the first occurrence with a long enough tail, each next search starting
  after the prefix found.\<close>

function find_token :: "string \<Rightarrow> nat \<Rightarrow> string \<Rightarrow> bool" where
  "find_token prefix min_tail search =
     (case find_text prefix search of
        None \<Rightarrow> False
      | Some index \<Rightarrow>
          let tail = drop (index + length prefix) search in
          if length (takeWhile token_char tail) \<ge> min_tail then True
          else if prefix = [] then False else find_token prefix min_tail tail)"
  by auto
termination
proof (relation "measure (\<lambda>(_, _, s). length s)")
  fix prefix search tail and min_tail index :: nat
  assume a: "find_text prefix search = Some index" "tail = drop (index + length prefix) search" "prefix \<noteq> []"
  then have "search \<noteq> []" by auto
  with a show "((prefix, min_tail, tail), prefix, min_tail, search) \<in> measure (\<lambda>(_, _, s). length s)"
    by simp
qed simp

declare find_token.simps [simp del]

definition check_line :: "string \<Rightarrow> string \<Rightarrow> Findings" where
  "check_line location line =
     concat (map (\<lambda>(literal, description).
       if contains_text line literal then [location @ '': '' @ description @ '' ('' @ ticked literal @ '')''] else []) LITERALS) @
     concat (map (\<lambda>(prefix, min_tail, description).
       if find_token prefix min_tail line
       then [location @ '': possible '' @ description @ '' ('' @ ticked (prefix @ ellipsis) @ '')''] else []) TOKEN_PREFIXES)"

definition located :: "RepoPath \<Rightarrow> nat \<Rightarrow> string" where
  "located p n = display p @ '':'' @ show_nat n"

definition secrets_findings :: "(RepoPath \<times> string option) list \<Rightarrow> Findings" where
  "secrets_findings files =
     concat (map (\<lambda>(p, text). check_path p @
       (case text of None \<Rightarrow> [] | Some t \<Rightarrow> concat (map (\<lambda>(n, line). check_line (located p n) line) (numbered_lines t)))) files)"

definition secrets_run :: "Tree \<Rightarrow> RepoPath list \<Rightarrow> ('w, unit) tool" where
  "secrets_run T tracked =
     (let exempt = (\<lambda>p. display p \<in> set EXEMPT_CONTENT) in
      tbind (tlift (read_each T (\<lambda>p. \<not> exempt p) tracked)) (\<lambda>files.
      tbind (tsay (show_nat (length tracked) @ '' tracked path(s) checked; '' @
        show_nat (length (filter (\<lambda>(_, t). t \<noteq> None) files)) @ '' UTF-8 text file(s) content-scanned; '' @
        show_nat (length (filter exempt tracked)) @ '' rule-definition file(s) exempt'')) (\<lambda>_.
      Findings_finish ''secrets and private paths'' (secrets_findings files))))"

section \<open>Documentation links (links.rs)\<close>

definition is_external :: "string \<Rightarrow> bool" where
  "is_external target \<longleftrightarrow>
     starts_with target ''http://'' \<or> starts_with target ''https://'' \<or> starts_with target ''mailto:'' \<or>
     starts_with target ''#'' \<or> starts_with target ''<''"

function targets_loop :: "string \<Rightarrow> bool \<Rightarrow> nat \<Rightarrow> string list" where
  "targets_loop line in_code offset =
     (if offset < length line then
        if line ! offset = CHR 0x60 then targets_loop line (\<not> in_code) (offset + 1)
        else if line ! offset = CHR '']'' \<and> \<not> in_code \<and> get_at line (offset + 1) = Some (CHR ''('') then
          let rest = drop (offset + 2) line in
          (case find_text '')'' rest of
             None \<Rightarrow> []
           | Some e \<Rightarrow> first_word (take e rest) # targets_loop line in_code (offset + 2 + e + 1))
        else targets_loop line in_code (offset + 1)
      else [])"
  by auto
termination by (relation "measure (\<lambda>(line, _, offset). length line - offset)") auto

declare targets_loop.simps [simp del]

definition targets :: "string \<Rightarrow> string list" where
  "targets line = targets_loop line False 0"

definition resolve_link :: "RepoPath \<Rightarrow> string \<Rightarrow> RepoPath" where
  "resolve_link base target_path =
     (case strip_prefix target_path ''/'' of
        Some absolute \<Rightarrow> join_path_text [] absolute
      | None \<Rightarrow> join_path_text base target_path)"

definition check_target :: "Tree \<Rightarrow> RepoPath \<Rightarrow> nat \<Rightarrow> string \<Rightarrow> Findings" where
  "check_target T p n target =
     (if is_external target then []
      else let target_path = hd (split_on (CHR ''#'') target) in
        if target_path = [] then []
        else if path_exists T (resolve_link (butlast p) target_path) then []
        else [located p n @ '': link target '' @ ticked target @ '' does not exist''])"

definition links_findings :: "Tree \<Rightarrow> (RepoPath \<times> string option) list \<Rightarrow> Findings" where
  "links_findings T files =
     concat (map (\<lambda>(p, text). case text of None \<Rightarrow> []
       | Some t \<Rightarrow> concat (map (\<lambda>(n, line). concat (map (check_target T p n) (targets line))) (numbered_lines t))) files)"

definition links_run :: "Tree \<Rightarrow> RepoPath list \<Rightarrow> ('w, unit) tool" where
  "links_run T tracked =
     tbind (tlift (read_each T (\<lambda>p. path_extension p = Some ''md'') tracked)) (\<lambda>files.
     let texts = concat (map (\<lambda>(_, t). case t of None \<Rightarrow> [] | Some t \<Rightarrow> [t]) files) in
     tbind (tsay (show_nat (length texts) @ '' document(s), '' @
       show_nat (length (concat (map (\<lambda>t. concat (map targets (str_lines t))) texts))) @ '' link(s) checked'')) (\<lambda>_.
     Findings_finish ''documentation links'' (links_findings T files)))"

section \<open>Entry documents (entry_docs.rs)\<close>

definition CONTAINERS :: "string list" where "CONTAINERS = [''crates'', ''packages'', ''adapters'']"
definition AGENTS_REQUIRED :: "string list" where "AGENTS_REQUIRED = [''crates/aizign-core'', ''crates/aizign-engine'']"

text \<open>The units in the order of the set: sorted, each once.\<close>

definition entry_units :: "RepoPath list \<Rightarrow> string list" where
  "entry_units tracked =
     sort (remdups (concat (map (\<lambda>p.
       case p of
         container # unit_name # _ # _ \<Rightarrow> if container \<in> set CONTAINERS then [container @ ''/'' @ unit_name] else []
       | _ \<Rightarrow> []) tracked)))"

definition check_unit :: "Tree \<Rightarrow> string \<Rightarrow> Findings" where
  "check_unit T u =
     (if \<not> path_is_file T (path_components u @ [''README.md'']) then [u @ '': missing README.md''] else []) @
     (if (starts_with u ''adapters/'' \<or> u \<in> set AGENTS_REQUIRED) \<and> \<not> path_is_file T (path_components u @ [''AGENTS.md''])
      then [u @ '': missing AGENTS.md''] else [])"

definition entry_docs_run :: "Tree \<Rightarrow> RepoPath list \<Rightarrow> ('w, unit) tool" where
  "entry_docs_run T tracked =
     (let units = entry_units tracked in
      tbind (tsay (show_nat (length units) @ '' unit(s) checked'')) (\<lambda>_.
      Findings_finish ''entry documents'' (concat (map (check_unit T) units))))"

section \<open>Threat-model guarantee levels (threat_model.rs)\<close>

definition THREAT_MODEL :: string where "THREAT_MODEL = ''docs/security/threat-model.md''"
definition SECTION :: string where "SECTION = ''## Threat and failure matrix''"
definition HEADER :: string where
  "HEADER = ''| Threat or failure | Guarantee level | Enforcement owner | Runtime response | Regression evidence | Residual limitation |''"
definition SEPARATOR :: string where "SEPARATOR = ''|---|---|---|---|---|---|''"
definition LEVELS :: "string list" where
  "LEVELS = [''Runtime enforced'', ''Detected and fail closed'', ''Trusted assumption'', ''Regression evidence'', ''Not guaranteed'']"

definition table_columns :: "string \<Rightarrow> string list" where
  "table_columns line = map str_trim (split_on (CHR ''|'') (trim_char (CHR ''|'') line))"

definition is_separator_like :: "string \<Rightarrow> bool" where
  "is_separator_like line \<longleftrightarrow>
     (let columns = table_columns line in
      list_all (\<lambda>column. let trimmed = trim_char (CHR '':'') column in
        length trimmed \<ge> 2 \<and> list_all (\<lambda>c. c = CHR ''-'') trimmed) columns \<and> length columns = 6)"

definition indices_of :: "string \<Rightarrow> string list \<Rightarrow> nat list" where
  "indices_of marker ls = filter (\<lambda>i. ls ! i = marker) [0..<length ls]"

definition table_bounds :: "string list \<Rightarrow> Findings \<times> (nat \<times> nat) option" where
  "table_bounds ls =
     (let sections = indices_of SECTION ls;
          f1 = (if length sections \<noteq> 1
                then [THREAT_MODEL @ '': expected exactly one '' @ ticked SECTION @ '' section, got '' @ show_nat (length sections)]
                else [])
      in case sections of
           [] \<Rightarrow> (f1, None)
         | section_line # _ \<Rightarrow>
             (let section_end = (case find (\<lambda>i. starts_with (ls ! i) ''## '') [Suc section_line..<length ls] of
                    None \<Rightarrow> length ls | Some i \<Rightarrow> i);
                  headers = indices_of HEADER ls;
                  f2 = (if length headers \<noteq> 1
                        then [THREAT_MODEL @ '': expected exactly one exact threat-matrix header, got '' @ show_nat (length headers)]
                        else [])
              in case find (\<lambda>i. i > section_line \<and> i < section_end) headers of
                   None \<Rightarrow> (f1 @ f2 @ [THREAT_MODEL @ '': missing exact threat-matrix header inside '' @ ticked SECTION], None)
                 | Some header_line \<Rightarrow> (f1 @ f2, Some (header_line, section_end))))"

definition first_row :: "string list \<Rightarrow> nat \<Rightarrow> Findings \<times> nat" where
  "first_row ls header_line =
     (let separator_line = header_line + 1 in
      case get_at ls separator_line of
        None \<Rightarrow> ([THREAT_MODEL @ '':'' @ show_nat (separator_line + 1) @ '': missing threat-matrix separator''], separator_line)
      | Some line \<Rightarrow>
          if line = SEPARATOR then ([], separator_line + 1)
          else ([THREAT_MODEL @ '':'' @ show_nat (separator_line + 1) @
                  '': expected exact threat-matrix separator '' @ ticked SEPARATOR],
                if is_separator_like line then separator_line + 1 else separator_line))"

text \<open>The rows from line \<open>n\<close> on: the findings, the number of well-formed rows and the levels seen.\<close>

fun check_rows :: "nat \<Rightarrow> string list \<Rightarrow> Findings \<times> nat \<times> string list" where
  "check_rows n [] = ([], 0, [])"
| "check_rows n (line # ls) =
     (if line = HEADER \<or> \<not> starts_with line ''|'' then ([], 0, [])
      else let columns = table_columns line; (fs, rows, seen) = check_rows (Suc n) ls in
        if length columns \<noteq> 6
        then ((THREAT_MODEL @ '':'' @ show_nat (n + 1) @ '': expected 6 threat-matrix columns, got '' @ show_nat (length columns)) # fs,
              rows, seen)
        else let level = columns ! 1 in
          if level \<in> set LEVELS then (fs, Suc rows, level # seen)
          else ((THREAT_MODEL @ '':'' @ show_nat (n + 1) @ '': '' @ ticked level @ '' is not a declared guarantee level'') # fs,
                Suc rows, seen))"

definition check_levels :: "string \<Rightarrow> Findings \<times> nat" where
  "check_levels text =
     (let ls = str_lines text in
      case table_bounds ls of
        (fs, None) \<Rightarrow> (fs, 0)
      | (fs, Some (header_line, section_end)) \<Rightarrow>
          (case first_row ls header_line of
             (gs, row_start) \<Rightarrow>
               (case check_rows row_start (drop row_start (take section_end ls)) of
                  (hs, rows, seen) \<Rightarrow>
                    (fs @ gs @ hs @
                     (if rows = 0 then [THREAT_MODEL @ '':'' @ show_nat (header_line + 1) @ '': threat matrix has no rows''] else []) @
                     concat (map (\<lambda>level. if level \<in> set seen then []
                       else [THREAT_MODEL @ '': threat matrix does not exercise '' @ ticked level]) LEVELS),
                     rows))))"

definition threat_model_run :: "Tree \<Rightarrow> RepoPath list \<Rightarrow> ('w, unit) tool" where
  "threat_model_run T tracked =
     (let audit = ''threat-model guarantee levels''; p = path_components THREAT_MODEL in
      if p \<notin> set tracked
      then Findings_finish audit [THREAT_MODEL @ '': threat model must be tracked'']
      else tbind (tlift (read_text T p)) (\<lambda>text.
        case text of
          None \<Rightarrow> tfail (THREAT_MODEL @ '': not UTF-8 text'')
        | Some t \<Rightarrow>
            (case check_levels t of (findings, rows) \<Rightarrow>
              tbind (tsay (show_nat rows @ '' threat-matrix row(s) checked'')) (\<lambda>_. Findings_finish audit findings))))"

section \<open>The token search is exact\<close>

definition token_in :: "string \<Rightarrow> nat \<Rightarrow> string \<Rightarrow> bool" where
  "token_in prefix min_tail line \<longleftrightarrow>
     (\<exists>a b. line = a @ prefix @ b \<and> min_tail \<le> length (takeWhile token_char b))"

text \<open>A prefix may overlap itself only by characters that a token may contain.\<close>

definition overlap_safe :: "string \<Rightarrow> bool" where
  "overlap_safe p \<longleftrightarrow>
     (\<forall>k \<in> set [1..<length p]. drop k p = take (length p - k) p \<longrightarrow> list_all token_char (drop (length p - k) p))"

lemma overlap_tail:
  assumes "overlap_safe p" "p \<noteq> []" "p @ x = a @ p @ b" "0 < length a" "length a < length p"
  shows "length (takeWhile token_char b) \<le> length (takeWhile token_char x)"
proof -
  let ?k = "length a"
  have a: "a = take ?k p" using assms(3,5) by (metis append_eq_append_conv_if less_imp_le_nat take_all_iff take_take min.absorb2 append_eq_conv_conj)
  have "drop ?k p @ x = p @ b"
    using arg_cong [OF assms(3), of "drop ?k"] assms(5) by simp
  then have d: "drop ?k p = take (length p - ?k) p" "x = drop (length p - ?k) p @ b"
    using assms(5) by (auto simp: append_eq_append_conv_if split: if_splits)
  have "list_all token_char (drop (length p - ?k) p)"
    using assms(1,4,5) d(1) by (auto simp: overlap_safe_def)
  then show ?thesis by (simp add: d(2) takeWhile_append2 list_all_iff)
qed

lemma find_token_exact:
  assumes "overlap_safe p" "p \<noteq> []"
  shows "find_token p n line \<longleftrightarrow> token_in p n line"
  using assms
proof (induction p n line rule: find_token.induct)
  case (1 p n line)
  show ?case
  proof (cases "find_text p line")
    case None
    then have "\<not> contains_text line p" by (simp add: contains_text_def)
    with None show ?thesis by (subst find_token.simps) (auto simp: token_in_def contains_text_iff)
  next
    case (Some i)
    obtain t where t: "drop i line = p @ t" "i \<le> length line" and first: "\<And>j. j < i \<Longrightarrow> \<not> starts_with (drop j line) p"
      using find_text_Some [OF Some] by (auto simp: starts_with_iff)
    have line: "line = take i line @ p @ t" and tail: "drop (i + length p) line = t"
      using t(1) by (metis append_take_drop_id) (metis t(1) drop_drop append_eq_conv_conj add.commute)
    show ?thesis
    proof (cases "n \<le> length (takeWhile token_char t)")
      case True
      then have "token_in p n line" using line by (auto simp: token_in_def)
      with True Some tail show ?thesis by (subst find_token.simps) simp
    next
      case False
      have step: "find_token p n line = token_in p n t"
        using "1.IH" [OF Some] False "1.prems" Some tail by (subst find_token.simps) simp
      have "token_in p n line \<longleftrightarrow> token_in p n t"
      proof
        assume "token_in p n t"
        then show "token_in p n line" using line by (auto simp: token_in_def) (metis append.assoc)
      next
        assume "token_in p n line"
        then obtain a b where ab: "line = a @ p @ b" "n \<le> length (takeWhile token_char b)" by (auto simp: token_in_def)
        have "i \<le> length a" using first [of "length a"] ab(1) by (auto simp: starts_with_iff not_less [symmetric])
        then have "p @ t = drop i a @ p @ b" using t(1) ab(1) by simp
        moreover have "length (drop i a) \<noteq> 0 \<or> b = t" using calculation by auto
        moreover have "\<not> (0 < length (drop i a) \<and> length (drop i a) < length p)"
          using overlap_tail [OF "1.prems"(1,2) calculation(1)] ab(2) False by linarith
        ultimately obtain c where "drop i a = p @ c"
          using ab(2) False by (auto simp: append_eq_append_conv_if not_less split: if_splits) (metis append_take_drop_id)
        then show "token_in p n t" using \<open>p @ t = drop i a @ p @ b\<close> ab(2) by (auto simp: token_in_def)
      qed
      with step show ?thesis by simp
    qed
  qed
qed

lemma token_prefixes_safe: "list_all (\<lambda>(p, _, _). p \<noteq> [] \<and> overlap_safe p) TOKEN_PREFIXES"
  by code_simp

section \<open>What the secrets audit accepts\<close>

definition clean_line :: "string \<Rightarrow> bool" where
  "clean_line line \<longleftrightarrow>
     (\<forall>(literal, _) \<in> set LITERALS. \<not> (\<exists>a b. line = a @ literal @ b)) \<and>
     (\<forall>(prefix, min_tail, _) \<in> set TOKEN_PREFIXES. \<not> token_in prefix min_tail line)"

definition clean_path :: "RepoPath \<Rightarrow> bool" where
  "clean_path p \<longleftrightarrow>
     (\<forall>n. file_name p = Some n \<longrightarrow> n \<notin> set FORBIDDEN_BASENAMES \<and> \<not> (\<exists>t. n = ''.env.'' @ t)) \<and>
     (\<forall>e. path_extension p = Some e \<longrightarrow> e \<notin> set FORBIDDEN_EXTENSIONS) \<and>
     set p \<inter> set FORBIDDEN_COMPONENTS = {}"

lemma check_line_clean: "check_line location line = [] \<longleftrightarrow> clean_line line"
proof -
  have "find_token p n line \<longleftrightarrow> token_in p n line" if "(p, n, d) \<in> set TOKEN_PREFIXES" for p n d
    using that token_prefixes_safe find_token_exact [of p n line] by (auto simp: list_all_iff)
  then show ?thesis
    unfolding check_line_def clean_line_def case_prod_unfold append_is_Nil_conv flagged_none contains_text_iff by auto
qed

lemma check_path_clean: "check_path p = [] \<longleftrightarrow> clean_path p"
proof -
  have "[] \<notin> set FORBIDDEN_BASENAMES" "[] \<notin> set FORBIDDEN_EXTENSIONS"
    by (simp_all add: FORBIDDEN_BASENAMES_def FORBIDDEN_EXTENSIONS_def)
  then show ?thesis
    by (auto simp: check_path_def clean_path_def Let_def starts_with_iff split: option.splits if_splits)
qed

lemma Findings_finish_ok: "fst (Findings_finish audit items s) = Inr () \<longleftrightarrow> items = []"
  by (simp add: Findings_finish_def)

lemma text_findings_none:
  "(case text of None \<Rightarrow> [] | Some t \<Rightarrow> concat (map (\<lambda>x. check_line (located p (fst x)) (snd x)) (numbered_lines t))) = [] \<longleftrightarrow>
     (\<forall>t. text = Some t \<longrightarrow> (\<forall>line \<in> set (str_lines t). clean_line line))"
  by (simp add: check_line_clean snd_numbered_lines [symmetric] del: snd_numbered_lines split: option.splits)

lemma secrets_findings_none:
  "secrets_findings files = [] \<longleftrightarrow>
     (\<forall>(p, text) \<in> set files. clean_path p \<and> (\<forall>t. text = Some t \<longrightarrow> (\<forall>line \<in> set (str_lines t). clean_line line)))"
  unfolding secrets_findings_def case_prod_unfold by (simp add: check_path_clean text_findings_none)

definition example_leak :: Tree where
  "example_leak =
     \<lparr>read_file = (\<lambda>_. Inr (''id = AKIAKIA0123456789ABCDEF'' @ [CHR 0x0A])), path_exists = (\<lambda>_. True), path_is_file = (\<lambda>_. True),
      path_is_dir = (\<lambda>_. False), read_dir = (\<lambda>_. Inr [])\<rparr>"

section \<open>Properties\<close>

text \<open>C39: the secrets audit is exact. It passes if and only if every tracked path is free of the forbidden
  names, extensions and directories, every tracked file outside the exempt list can be read, and no
  line of a text file among them contains a forbidden literal or, anywhere, a token prefix followed
  by as many token characters as its table entry asks for. The search never misses an occurrence
  that overlaps an earlier one.\<close>

theorem secrets_audit_exact:
  "fst (secrets_run T tracked s) = Inr () \<longleftrightarrow>
     (\<forall>p \<in> set tracked. clean_path p \<and>
        (display p \<notin> set EXEMPT_CONTENT \<longrightarrow>
           (\<exists>bs. read_file T p = Inr bs \<and> (\<forall>t. file_text bs = Some t \<longrightarrow> (\<forall>line \<in> set (str_lines t). clean_line line)))))"
proof (cases "read_each T (\<lambda>p. display p \<notin> set EXEMPT_CONTENT) tracked")
  case (Inl e)
  then have "\<not> (\<forall>p \<in> set tracked. display p \<notin> set EXEMPT_CONTENT \<longrightarrow> (\<exists>bs. read_file T p = Inr bs))"
    using read_each_readable [of tracked "\<lambda>p. display p \<notin> set EXEMPT_CONTENT" T] by force
  with Inl show ?thesis by (auto simp: secrets_run_def tbind_def tlift_def)
next
  case (Inr files)
  then have run: "fst (secrets_run T tracked s) = Inr () \<longleftrightarrow> secrets_findings files = []"
    by (simp add: secrets_run_def tbind_def tlift_def tsay_def Findings_finish_ok)
  note files = Inr [unfolded read_each_ok]
  have "secrets_findings files = [] \<longleftrightarrow>
      (\<forall>p \<in> set tracked. clean_path p \<and> (\<forall>t. (if display p \<notin> set EXEMPT_CONTENT
         then (case read_file T p of Inl _ \<Rightarrow> None | Inr bs \<Rightarrow> file_text bs) else None) = Some t \<longrightarrow> (\<forall>line \<in> set (str_lines t). clean_line line)))"
    unfolding secrets_findings_none conjunct2 [OF files] by simp
  also have "\<dots> \<longleftrightarrow> (\<forall>p \<in> set tracked. clean_path p \<and>
        (display p \<notin> set EXEMPT_CONTENT \<longrightarrow>
           (\<exists>bs. read_file T p = Inr bs \<and> (\<forall>t. file_text bs = Some t \<longrightarrow> (\<forall>line \<in> set (str_lines t). clean_line line)))))"
    by (rule ball_cong [OF refl]) (use files in auto)
  finally show ?thesis using run by simp
qed

theorem secrets_audit_exact_witness:
  "\<forall>s. fst (secrets_run example_leak [[''docs'', ''a.md'']] s) \<noteq> Inr ()"
proof
  fix s
  let ?line = "''id = AKIAKIA0123456789ABCDEF''"
  have "file_text (?line @ [CHR 0x0A]) = Some (?line @ [CHR 0x0A])" "str_lines (?line @ [CHR 0x0A]) = [?line]"
    "display [''docs'', ''a.md''] \<notin> set EXEMPT_CONTENT" by code_simp+
  moreover have "token_in ''AKIA'' 16 ?line"
    unfolding token_in_def
    by (rule exI [of _ "''id = AKI''"], rule exI [of _ "''0123456789ABCDEF''"]) code_simp
  then have "\<not> clean_line ?line"
    by (auto simp: clean_line_def TOKEN_PREFIXES_def)
  ultimately show "fst (secrets_run example_leak [[''docs'', ''a.md'']] s) \<noteq> Inr ()"
    using secrets_audit_exact [of example_leak "[[''docs'', ''a.md'']]" s] by (simp add: example_leak_def)
qed

end
