(* ===== verification/Audit_Manifests.thy ===== *)
theory Audit_Manifests
  imports Tree_Audit
begin

text \<open>The audits that read manifests (audit/lockstep.rs, dependencies.rs, packages.rs) and the command that
  runs all seven (audit/mod.rs). The JSON reader is a third-party package and the Unicode tables are
  data: both are parameters.\<close>

record 'v Json =
  parse_json :: "string \<Rightarrow> (string, 'v) result"
  json_null :: 'v
  is_null :: "'v \<Rightarrow> bool"
  as_bool :: "'v \<Rightarrow> bool option"
  as_u64 :: "'v \<Rightarrow> nat option"
  as_str :: "'v \<Rightarrow> string option"
  as_array :: "'v \<Rightarrow> 'v list option"
  as_object :: "'v \<Rightarrow> (string \<times> 'v) list option"
  show_json :: "'v \<Rightarrow> string"

text \<open>\<open>value[key]\<close> is null for anything but an object that has the key; \<open>get\<close> tells.\<close>

definition json_get :: "'v Json \<Rightarrow> 'v \<Rightarrow> string \<Rightarrow> 'v option" where
  "json_get J v k = Option.bind (as_object J v) (\<lambda>kvs. map_of kvs k)"

definition json_index :: "'v Json \<Rightarrow> 'v \<Rightarrow> string \<Rightarrow> 'v" where
  "json_index J v k = (case json_get J v k of None \<Rightarrow> json_null J | Some x \<Rightarrow> x)"

record Unicode =
  is_alphanumeric :: "string \<Rightarrow> bool"
  is_uppercase :: "string \<Rightarrow> bool"
  is_lowercase :: "string \<Rightarrow> bool"
  is_numeric :: "string \<Rightarrow> bool"
  to_lowercase :: "string \<Rightarrow> string"
  debug_str :: "string \<Rightarrow> string"

section \<open>Version lockstep (lockstep.rs)\<close>

definition lockstep_quoted :: "string \<Rightarrow> string option" where
  "lockstep_quoted rest =
     map_option (\<lambda>rest. hd (split_on (CHR 0x22) rest)) (strip_prefix (str_trim rest) [CHR 0x22])"

fun section_loop :: "string \<Rightarrow> bool \<Rightarrow> string list \<Rightarrow> string list" where
  "section_loop sect inside [] = []"
| "section_loop sect inside (line # ls) =
     (let trimmed = str_trim line in
      if starts_with trimmed ''['' then section_loop sect (trimmed = sect) ls
      else if inside \<and> trimmed \<noteq> [] \<and> \<not> starts_with trimmed ''#''
      then trimmed # section_loop sect inside ls
      else section_loop sect inside ls)"

definition section_lines :: "string \<Rightarrow> string \<Rightarrow> string list" where
  "section_lines text sect = section_loop sect False (str_lines text)"

text \<open>The first line of the section that sets the key decides.\<close>

definition key_value :: "string \<Rightarrow> string \<Rightarrow> string option" where
  "key_value key line = Option.bind (strip_prefix line key) (\<lambda>rest. strip_prefix (trim_start rest) ''='')"

fun first_value :: "string \<Rightarrow> string list \<Rightarrow> string option" where
  "first_value key [] = None"
| "first_value key (line # ls) =
     (case key_value key line of Some rest \<Rightarrow> lockstep_quoted rest | None \<Rightarrow> first_value key ls)"

definition section_value :: "string \<Rightarrow> string \<Rightarrow> string \<Rightarrow> string option" where
  "section_value text sect key = first_value key (section_lines text sect)"

fun find_part :: "string \<Rightarrow> string list \<Rightarrow> string option" where
  "find_part key [] = None"
| "find_part key (part # ps) =
     (case split_once (CHR ''='') part of
        None \<Rightarrow> None
      | Some (name, val) \<Rightarrow> if str_trim name = key then lockstep_quoted val else find_part key ps)"

definition value_in_braces :: "string \<Rightarrow> string \<Rightarrow> string option" where
  "value_in_braces rest key =
     (case split_once (CHR ''{'') rest of
        None \<Rightarrow> None
      | Some (_, table_text) \<Rightarrow>
          find_part key (split_on (CHR '','') (rev (dropWhile (\<lambda>c. c = CHR ''}'') (rev (trim_end table_text))))))"

definition check_member_cargo :: "string \<Rightarrow> string \<Rightarrow> Findings" where
  "check_member_cargo rendered text =
     (if list_ex (\<lambda>line. str_trim line = ''version.workspace = true'') (str_lines text) then []
      else [rendered @ '': '' @ ticked ''[package]'' @ '' must set '' @ ticked ''version.workspace = true'']) @
     (if section_value text ''[package]'' ''version'' \<noteq> None
      then [rendered @ '': crates must not declare their own '' @ ticked ''version''] else [])"

definition check_pin :: "string \<Rightarrow> string \<Rightarrow> string \<Rightarrow> Findings" where
  "check_pin rendered anchor line =
     (case split_once (CHR ''='') line of
        None \<Rightarrow> []
      | Some (name, rest) \<Rightarrow>
          if \<not> contains_text rest ''path'' then []
          else let name = str_trim name in
            (case value_in_braces rest ''version'' of
               Some version \<Rightarrow>
                 if version = anchor then []
                 else [rendered @ '': '' @ ticked name @ '' pins version '' @ version @ ''; the workspace version is '' @ anchor]
             | None \<Rightarrow>
                 [rendered @ '': '' @ ticked name @ '' must pin '' @
                  ticked (''version = '' @ [CHR 0x22] @ anchor @ [CHR 0x22]) @ '' next to its path'']))"

definition check_root_cargo :: "string \<Rightarrow> string \<Rightarrow> string \<Rightarrow> Findings" where
  "check_root_cargo rendered text anchor =
     concat (map (check_pin rendered anchor) (section_lines text ''[workspace.dependencies]''))"

definition in_quotes :: "string \<Rightarrow> string" where
  "in_quotes s = [CHR 0x22] @ s @ [CHR 0x22]"

definition check_dependency_pin :: "'v Json \<Rightarrow> string \<Rightarrow> string \<Rightarrow> string \<Rightarrow> string \<Rightarrow> 'v \<Rightarrow> Findings" where
  "check_dependency_pin J rendered anchor table name v =
     (if \<not> starts_with name ''@aizign/'' then []
      else if as_str J v \<noteq> Some anchor
      then [rendered @ '': '' @ table @ ''.'' @ name @ '' must pin exactly '' @ in_quotes anchor @ '', found '' @ show_json J v]
      else [])"

definition check_package_json :: "'v Json \<Rightarrow> string \<Rightarrow> string \<Rightarrow> string \<Rightarrow> Findings" where
  "check_package_json J rendered text anchor =
     (case parse_json J text of
        Inl _ \<Rightarrow> []
      | Inr manifest \<Rightarrow>
          (case as_str J (json_index J manifest ''version'') of
             Some version \<Rightarrow>
               if version = anchor then []
               else [rendered @ '': version '' @ version @ '' is not the workspace version '' @ anchor]
           | None \<Rightarrow> [rendered @ '': '' @ ticked ''version'' @ '' must be '' @ in_quotes anchor]) @
          concat (map (\<lambda>table.
            case as_object J (json_index J manifest table) of
              None \<Rightarrow> []
            | Some entries \<Rightarrow> concat (map (\<lambda>(name, v). check_dependency_pin J rendered anchor table name v) entries))
            [''dependencies'', ''devDependencies'', ''peerDependencies'']))"

text \<open>The anchor, or the findings that end the audit.\<close>

definition workspace_version :: "Tree \<Rightarrow> (string, (Findings, string) result) result" where
  "workspace_version T =
     map_ok (\<lambda>text. case text of
         None \<Rightarrow> Inl [''Cargo.toml: missing'']
       | Some t \<Rightarrow>
           (case section_value t ''[workspace.package]'' ''version'' of
              None \<Rightarrow> Inl [''Cargo.toml: '' @ ticked ''[workspace.package]'' @ '' must set '' @ ticked ''version'']
            | Some v \<Rightarrow> Inr v))
       (read_text T [''Cargo.toml''])"

definition is_manifest :: "RepoPath \<Rightarrow> bool" where
  "is_manifest p \<longleftrightarrow> file_name p \<in> {Some ''Cargo.toml'', Some ''package.json''}"

definition check_manifest :: "'v Json \<Rightarrow> string \<Rightarrow> RepoPath \<Rightarrow> string \<Rightarrow> Findings" where
  "check_manifest J anchor p text =
     (if file_name p = Some ''Cargo.toml'' then
        (if length p > 1 then check_member_cargo (display p) text else check_root_cargo (display p) text anchor)
      else if file_name p = Some ''package.json'' then check_package_json J (display p) text anchor
      else [])"

definition lockstep_run :: "'v Json \<Rightarrow> Tree \<Rightarrow> RepoPath list \<Rightarrow> ('w, unit) tool" where
  "lockstep_run J T tracked =
     tbind (tlift (workspace_version T)) (\<lambda>v.
     case v of
       Inl findings \<Rightarrow> Findings_finish ''version lockstep'' findings
     | Inr anchor \<Rightarrow>
         tbind (tsay (''workspace version '' @ anchor)) (\<lambda>_.
         tbind (tlift (read_each T (\<lambda>p. file_name p \<noteq> None) tracked)) (\<lambda>files.
         let texts = concat (map (\<lambda>(p, t). case t of None \<Rightarrow> [] | Some t \<Rightarrow> [(p, t)]) files) in
         tbind (tsay (show_nat (length (filter (\<lambda>(p, _). is_manifest p) texts)) @ '' manifest(s) checked'')) (\<lambda>_.
         Findings_finish ''version lockstep'' (concat (map (\<lambda>(p, t). check_manifest J anchor p t) texts))))))"

section \<open>Dependency boundaries (dependencies.rs)\<close>

record CrateRule =
  rule_name :: string
  rule_workspace :: "string list"
  rule_dev_workspace :: "string list"
  rule_external :: "string list"
  harness_neutral :: bool
  shell_free :: bool

definition RULES :: "CrateRule list" where
  "RULES =
     [\<lparr>rule_name = ''aizign-core'', rule_workspace = [], rule_dev_workspace = [], rule_external = [],
       harness_neutral = True, shell_free = True\<rparr>,
      \<lparr>rule_name = ''aizign-engine'', rule_workspace = [''aizign-core''], rule_dev_workspace = [''aizign-testkit''],
       rule_external = [], harness_neutral = True, shell_free = True\<rparr>,
      \<lparr>rule_name = ''aizign-protocol'', rule_workspace = [''aizign-core''], rule_dev_workspace = [''aizign-testkit''],
       rule_external = [''serde'', ''serde_json''], harness_neutral = True, shell_free = True\<rparr>,
      \<lparr>rule_name = ''aizign-store-jsonl'', rule_workspace = [''aizign-core'', ''aizign-engine''],
       rule_dev_workspace = [''aizign-testkit''], rule_external = [''rustix'', ''serde'', ''serde_json'', ''sha2''],
       harness_neutral = True, shell_free = False\<rparr>,
      \<lparr>rule_name = ''aizign-testkit'', rule_workspace = [''aizign-core'', ''aizign-engine'', ''aizign-protocol''],
       rule_dev_workspace = [], rule_external = [''serde_json''], harness_neutral = True, shell_free = False\<rparr>,
      \<lparr>rule_name = ''aizign-cli'',
       rule_workspace = [''aizign-core'', ''aizign-engine'', ''aizign-protocol'', ''aizign-store-jsonl'', ''aizign-testkit''],
       rule_dev_workspace = [''aizign-testkit''], rule_external = [''serde_json''], harness_neutral = True, shell_free = False\<rparr>,
      \<lparr>rule_name = ''xtask'', rule_workspace = [], rule_dev_workspace = [], rule_external = [''serde_json''],
       harness_neutral = False, shell_free = False\<rparr>]"

definition FORBIDDEN_PATHS :: "(string \<times> string) list" where
  "FORBIDDEN_PATHS =
     [(''std::fs'', ''filesystem access belongs to the shell''),
      (''std::process'', ''process control belongs to the shell''),
      (''std::net'', ''network access belongs to the shell''),
      (''std::env'', ''environment access belongs to the shell''),
      (''std::time'', ''time must be passed in as a bounded timestamp''),
      (''std::thread'', ''scheduling belongs to the shell''),
      (''std::sync::mpsc'', ''scheduling belongs to the shell'')]"

definition RUNTIME_TOKENS :: "(string \<times> string) list" where
  "RUNTIME_TOKENS =
     [(''async'', ''no async runtime in the core''), (''await'', ''no async runtime in the core''),
      (''tokio'', ''no async runtime in the core''), (''futures'', ''no async runtime in the core'')]"

definition NAME_TOKENS :: "(string \<times> string) list" where
  "NAME_TOKENS =
     [(''dsh'', ''harness names stay in adapters''), (''codex'', ''provider names stay in adapters''),
      (''hermes'', ''harness names stay in adapters''), (''deepseek'', ''provider names stay in adapters''),
      (''openai'', ''provider names stay in adapters''), (''anthropic'', ''provider names stay in adapters'')]"

definition NO_SERDE_CRATES :: "string list" where "NO_SERDE_CRATES = [''aizign-core'', ''aizign-engine'']"

text \<open>\<open>str::chars\<close> of a UTF-8 text, each character as its bytes.\<close>

definition char_width :: "char \<Rightarrow> nat" where
  "char_width c =
     (if byte_code c < 0x80 then 1 else if byte_code c < 0xE0 then 2 else if byte_code c < 0xF0 then 3 else 4)"

function utf8_chars :: "string \<Rightarrow> string list" where
  "utf8_chars [] = []"
| "utf8_chars (c # cs) = take (char_width c) (c # cs) # utf8_chars (drop (char_width c) (c # cs))"
  by pat_completeness auto
termination by (relation "measure length") (auto simp: char_width_def)

fun words_loop :: "Unicode \<Rightarrow> string list \<Rightarrow> string \<Rightarrow> bool \<Rightarrow> string list" where
  "words_loop U [] current previous_lower = (if current \<noteq> [] then [current] else [])"
| "words_loop U (c # cs) current previous_lower =
     (if is_alphanumeric U c then
        let boundary = is_uppercase U c \<and> previous_lower \<and> current \<noteq> [] in
        (if boundary then [current] else []) @
        words_loop U cs ((if boundary then [] else current) @ to_lowercase U c) (is_lowercase U c \<or> is_numeric U c)
      else (if current \<noteq> [] then [current] else []) @ words_loop U cs [] False)"

definition words :: "Unicode \<Rightarrow> string \<Rightarrow> string list" where
  "words U line = words_loop U (utf8_chars line) [] False"

definition check_publish_disabled :: "'v Json \<Rightarrow> string \<Rightarrow> 'v \<Rightarrow> Findings" where
  "check_publish_disabled J name package =
     (if as_array J (json_index J package ''publish'') = Some [] then []
      else [name @ '': registry publication must stay disabled until v0.1 acceptance (ADR-0008); set '' @
            ticked ''publish.workspace = true''])"

definition str_or :: "string \<Rightarrow> string option \<Rightarrow> string" where
  "str_or d x = (case x of None \<Rightarrow> d | Some s \<Rightarrow> s)"

definition dependency_allowed :: "CrateRule \<Rightarrow> string set \<Rightarrow> string \<Rightarrow> string \<Rightarrow> bool" where
  "dependency_allowed rule workspace_names dep_kind dep_name \<longleftrightarrow>
     (if dep_name \<in> workspace_names
      then dep_name \<in> set (rule_workspace rule) \<or> dep_kind = ''dev'' \<and> dep_name \<in> set (rule_dev_workspace rule)
      else dep_name \<in> set (rule_external rule))"

definition check_declared_dependencies :: "'v Json \<Rightarrow> CrateRule \<Rightarrow> 'v \<Rightarrow> string set \<Rightarrow> Findings" where
  "check_declared_dependencies J rule package workspace_names =
     (case as_array J (json_index J package ''dependencies'') of
        None \<Rightarrow> []
      | Some dependencies \<Rightarrow>
          concat (map (\<lambda>dependency.
            let dep_name = str_or ''<unnamed>'' (as_str J (json_index J dependency ''name''));
                dep_kind = str_or ''normal'' (as_str J (json_index J dependency ''kind''))
            in if dependency_allowed rule workspace_names dep_kind dep_name then []
               else [rule_name rule @ '': '' @ dep_kind @ '' dependency '' @ ticked dep_name @
                     '' is not allowed by docs/architecture/dependency-rules.md'']) dependencies))"

definition reasoned :: "string \<Rightarrow> string \<Rightarrow> string \<Rightarrow> string" where
  "reasoned location token reason = location @ '': '' @ ticked token @ '' '' @ em_dash @ '' '' @ reason"

definition check_source_line :: "Unicode \<Rightarrow> CrateRule \<Rightarrow> string \<Rightarrow> string \<Rightarrow> Findings" where
  "check_source_line U rule location line =
     (let is_comment = starts_with (trim_start line) ''//''; ws = set (words U line) in
      (if harness_neutral rule
       then concat (map (\<lambda>(token, reason). if token \<in> ws then [reasoned location token reason] else []) NAME_TOKENS)
       else []) @
      (if is_comment \<or> \<not> shell_free rule then []
       else
         concat (map (\<lambda>(pat, reason). if contains_text line pat then [reasoned location pat reason] else []) FORBIDDEN_PATHS) @
         concat (map (\<lambda>(token, reason). if token \<in> ws then [reasoned location token reason] else []) RUNTIME_TOKENS) @
         (if rule_name rule \<in> set NO_SERDE_CRATES \<and> ''serde'' \<in> ws
          then [reasoned location ''serde'' ''serialization is owned by the protocol and store crates (ADR-0004)''] else [])))"

definition source_prefix :: "RepoPath \<Rightarrow> RepoPath \<Rightarrow> RepoPath" where
  "source_prefix root crate_dir =
     (let src_dir = crate_dir @ [''src''] in
      if take (length root) src_dir = root then drop (length root) src_dir else src_dir)"

definition is_rust_source :: "RepoPath \<Rightarrow> RepoPath \<Rightarrow> bool" where
  "is_rust_source src_prefix p \<longleftrightarrow> take (length src_prefix) p = src_prefix \<and> path_extension p = Some ''rs''"

definition check_sources ::
  "Unicode \<Rightarrow> Tree \<Rightarrow> RepoPath \<Rightarrow> RepoPath \<Rightarrow> CrateRule \<Rightarrow> RepoPath list \<Rightarrow> (string, Findings) result" where
  "check_sources U T root crate_dir rule tracked =
     map_ok (\<lambda>files. concat (map (\<lambda>(p, text).
         case text of None \<Rightarrow> []
         | Some t \<Rightarrow> concat (map (\<lambda>(n, line). check_source_line U rule (located p n) line) (numbered_lines t))) files))
       (read_each T (is_rust_source (source_prefix root crate_dir)) tracked)"

definition manifest_dir :: "string \<Rightarrow> RepoPath" where
  "manifest_dir manifest =
     (let p = path_components manifest in if p = [] \<or> p = [''/''] then [''.''] else butlast p)"

definition check_package :: "'v Json \<Rightarrow> Unicode \<Rightarrow> Tree \<Rightarrow> RepoPath \<Rightarrow> RepoPath list \<Rightarrow> string set \<Rightarrow> 'v \<Rightarrow> (string, Findings) result" where
  "check_package J U T root tracked workspace_names package =
     (let name = str_or ''<unnamed>'' (as_str J (json_index J package ''name'')) in
      case find (\<lambda>r. rule_name r = name) RULES of
        None \<Rightarrow> Inr [name @ '': crate is not registered in xtask/src/audit/dependencies.rs '' @
                        ''and docs/architecture/dependency-rules.md'']
      | Some rule \<Rightarrow>
          map_ok ((@) (check_publish_disabled J name package @ check_declared_dependencies J rule package workspace_names))
            (if harness_neutral rule \<or> shell_free rule
             then check_sources U T root (manifest_dir (str_or [] (as_str J (json_index J package ''manifest_path'')))) rule tracked
             else Inr []))"

fun check_packages :: "('v \<Rightarrow> (string, Findings) result) \<Rightarrow> 'v list \<Rightarrow> (string, Findings) result" where
  "check_packages f [] = Inr []"
| "check_packages f (p # ps) = and_then (f p) (\<lambda>fs. map_ok ((@) fs) (check_packages f ps))"

definition tor_else :: "('w, 'a) tool \<Rightarrow> ('w, 'a) tool \<Rightarrow> ('w, 'a) tool" where
  "tor_else m n s = (case m s of (Inl _, s) \<Rightarrow> n s | (Inr x, s) \<Rightarrow> (Inr x, s))"

definition dependencies_run ::
  "(bytes \<Rightarrow> string) \<Rightarrow> 'w Shell \<Rightarrow> 'v Json \<Rightarrow> Unicode \<Rightarrow> RepoPath \<Rightarrow> RepoPath list \<Rightarrow> ('w, unit) tool" where
  "dependencies_run lossy H J U root tracked =
     tbind (tor_else
       (shell_capture lossy H ''cargo'' [''metadata'', ''--format-version'', ''1'', ''--no-deps'', ''--offline''])
       (shell_capture lossy H ''cargo'' [''metadata'', ''--format-version'', ''1'', ''--no-deps''])) (\<lambda>text.
     tbind (tlift (map_err (\<lambda>e. ''cargo metadata: '' @ e) (parse_json J text))) (\<lambda>metadata.
     tbind (tlift (ok_or ''cargo metadata: missing packages'' (as_array J (json_index J metadata ''packages'')))) (\<lambda>packages.
     let workspace_names = set (List.map_filter (\<lambda>p. as_str J (json_index J p ''name'')) packages) in
     ttree H (\<lambda>T.
     tbind (tlift (check_packages (check_package J U T root tracked workspace_names) packages)) (\<lambda>findings.
     tbind (tsay (show_nat (length packages) @ '' workspace crate(s) checked'')) (\<lambda>_.
     Findings_finish ''dependency boundaries'' findings))))))"

section \<open>Package manifests (packages.rs)\<close>

definition is_workspace_package :: "RepoPath \<Rightarrow> bool" where
  "is_workspace_package p \<longleftrightarrow> length p = 3 \<and> p ! 0 \<in> {''packages'', ''adapters''}"

definition check_root :: "'v Json \<Rightarrow> string \<Rightarrow> 'v \<Rightarrow> Findings" where
  "check_root J rendered manifest =
     (let declared = (case as_array J (json_index J manifest ''workspaces'') of
            None \<Rightarrow> [] | Some entries \<Rightarrow> List.map_filter (as_str J) entries)
      in concat (map (\<lambda>required. if required \<in> set declared then []
           else [rendered @ '': '' @ ticked ''workspaces'' @ '' must include '' @ ticked required])
           [''packages/*'', ''adapters/*'']))"

text \<open>\<open>Debug\<close> of a set of texts: its members in order, each quoted.\<close>

definition debug_set :: "Unicode \<Rightarrow> string set \<Rightarrow> string" where
  "debug_set U xs = ''{'' @ join_text '', '' (map (debug_str U) (sorted_list_of_set xs)) @ ''}''"

definition expected_subpaths :: "string \<Rightarrow> string list option" where
  "expected_subpaths name =
     (if name \<in> {''@aizign/protocol'', ''@aizign/adapter-testkit''} then Some [''.'', ''./package.json'']
      else if name = ''@aizign/adapter-dsh'' then Some [''.'', ''./experimental/transport'', ''./package.json'']
      else None)"

definition check_exports :: "Unicode \<Rightarrow> string \<Rightarrow> string \<Rightarrow> string list \<Rightarrow> Findings" where
  "check_exports U rendered name keys =
     (if ''.'' \<in> set keys then [] else [rendered @ '': '' @ ticked ''exports'' @ '' must define the '' @ ticked ''.'' @ '' entry'']) @
     concat (map (\<lambda>key.
       if \<not> starts_with key ''.'' \<or> CHR ''*'' \<in> set key
       then [rendered @ '': '' @ ticked ''exports'' @ '' key '' @ ticked key @ '' is not a closed subpath (no wildcards)'']
       else []) keys) @
     (case expected_subpaths name of
        None \<Rightarrow> []
      | Some expected \<Rightarrow>
          if set keys \<noteq> set expected
          then [rendered @ '': exact export subpaths are '' @ debug_set U (set keys) @ ''; expected '' @ debug_set U (set expected)]
          else [])"

definition expected_workspace_dependencies :: "string \<Rightarrow> string \<Rightarrow> string list" where
  "expected_workspace_dependencies name table =
     (if name \<in> {''@aizign/adapter-testkit'', ''@aizign/adapter-dsh''} \<and> table = ''dependencies'' then [''@aizign/protocol'']
      else if name = ''@aizign/adapter-dsh'' \<and> table = ''devDependencies'' then [''@aizign/adapter-testkit'']
      else [])"

definition to_ascii_lowercase :: "char \<Rightarrow> char" where
  "to_ascii_lowercase c = (if is_ascii_uppercase c then char_of (byte_code c + 32) else c)"

definition is_noncanonical_dependency_spec :: "string \<Rightarrow> bool" where
  "is_noncanonical_dependency_spec requirement \<longleftrightarrow>
     (let requirement = str_trim requirement; lowercase = map to_ascii_lowercase requirement in
      list_ex (starts_with lowercase) [''file:'', ''link:'', ''npm:'', ''portal:'', ''workspace:'', ''./'', ''../'', ''/'', ''~/''] \<or>
      get_slice requirement 1 3 \<in> {Some '':/'', Some ('':'' @ [CHR 0x5C])})"

definition workspace_keys :: "string list \<Rightarrow> string set" where
  "workspace_keys ks = set (filter (\<lambda>d. starts_with d ''@aizign/'') ks)"

definition check_requirement :: "'v Json \<Rightarrow> string \<Rightarrow> string \<Rightarrow> string \<Rightarrow> 'v \<Rightarrow> Findings" where
  "check_requirement J rendered table dependency requirement =
     (case as_str J requirement of
        Some r \<Rightarrow>
          if is_noncanonical_dependency_spec r
          then [rendered @ '': '' @ table @ ''.'' @ dependency @ '' uses noncanonical local or alias requirement '' @ ticked r @
                ''; workspace packages must use their canonical '' @ ticked ''@aizign/*'' @ '' name and exact version'']
          else []
      | None \<Rightarrow> [rendered @ '': '' @ table @ ''.'' @ dependency @ '' requirement must be a string''])"

definition bundled_dependencies :: "'v Json \<Rightarrow> string \<Rightarrow> string \<Rightarrow> 'v \<Rightarrow> Findings \<times> string set" where
  "bundled_dependencies J rendered table manifest =
     (let v = json_index J manifest table in
      if is_null J v \<or> as_bool J v = Some False then ([], {})
      else case as_array J v of
        Some entries \<Rightarrow>
          (if list_ex (\<lambda>e. as_str J e = None) entries
           then [rendered @ '': '' @ ticked table @ '' entries must all be package-name strings''] else [],
           workspace_keys (List.map_filter (as_str J) entries))
      | None \<Rightarrow>
          if as_bool J v = Some True
          then ([rendered @ '': '' @ ticked (table @ '': true'') @
                  '' can implicitly bundle workspace dependencies; use an explicit array''],
                workspace_keys (case as_object J (json_index J manifest ''dependencies'') of None \<Rightarrow> [] | Some es \<Rightarrow> map fst es))
          else ([rendered @ '': '' @ ticked table @ '' must be absent, false, or an array of package names''], {}))"

definition declared_workspace_dependencies :: "'v Json \<Rightarrow> string \<Rightarrow> string \<Rightarrow> 'v \<Rightarrow> Findings \<times> string set" where
  "declared_workspace_dependencies J rendered table manifest =
     (if table \<in> {''bundleDependencies'', ''bundledDependencies''} then bundled_dependencies J rendered table manifest
      else let v = json_index J manifest table in
        if is_null J v then ([], {})
        else case as_object J v of
          Some entries \<Rightarrow>
            (concat (map (\<lambda>(dependency, requirement). check_requirement J rendered table dependency requirement) entries),
             workspace_keys (map fst entries))
        | None \<Rightarrow> ([rendered @ '': '' @ ticked table @ '' must be an object when present''], {}))"

definition DEPENDENCY_TABLES :: "string list" where
  "DEPENDENCY_TABLES =
     [''dependencies'', ''devDependencies'', ''peerDependencies'', ''optionalDependencies'', ''bundleDependencies'', ''bundledDependencies'']"

definition check_workspace_dependencies :: "'v Json \<Rightarrow> Unicode \<Rightarrow> string \<Rightarrow> string \<Rightarrow> 'v \<Rightarrow> Findings" where
  "check_workspace_dependencies J U rendered name manifest =
     (if name \<notin> {''@aizign/protocol'', ''@aizign/adapter-testkit'', ''@aizign/adapter-dsh''} then []
      else concat (map (\<lambda>table.
        case declared_workspace_dependencies J rendered table manifest of
          (fs, actual) \<Rightarrow>
            let expected = set (expected_workspace_dependencies name table) in
            fs @ (if actual \<noteq> expected
                  then [rendered @ '': exact '' @ table @ '' workspace packages are '' @ debug_set U actual @
                        ''; expected '' @ debug_set U expected]
                  else [])) DEPENDENCY_TABLES))"

definition check_workspace_package :: "'v Json \<Rightarrow> Unicode \<Rightarrow> string \<Rightarrow> 'v \<Rightarrow> Findings" where
  "check_workspace_package J U rendered manifest =
     (let name = str_or [] (as_str J (json_index J manifest ''name'')) in
      (if starts_with name ''@aizign/'' then [] else [rendered @ '': workspace packages are named '' @ ticked ''@aizign/<name>'']) @
      (case as_object J (json_index J manifest ''exports'') of
         None \<Rightarrow> [rendered @ '': '' @ ticked ''exports'' @ '' must be an object (closed map)'']
       | Some es \<Rightarrow> check_exports U rendered name (map fst es)) @
      check_workspace_dependencies J U rendered name manifest @
      (if as_array J (json_index J manifest ''files'') = None
       then [rendered @ '': '' @ ticked ''files'' @ '' must list the published contents''] else []))"

definition check_package_manifest :: "'v Json \<Rightarrow> Unicode \<Rightarrow> RepoPath \<Rightarrow> string \<Rightarrow> Findings" where
  "check_package_manifest J U p text =
     (let rendered = display p in
      case parse_json J text of
        Inl e \<Rightarrow> [rendered @ '': not valid JSON: '' @ e]
      | Inr manifest \<Rightarrow>
          (if as_bool J (json_index J manifest ''private'') = Some True then []
           else [rendered @ '': '' @ ticked ''private'' @ '' must be true until registry publication is enabled by ADR'']) @
          (if is_workspace_package p then check_workspace_package J U rendered manifest
           else if length p = 1 then check_root J rendered manifest
           else [rendered @ '': package.json outside the root, packages/*, or adapters/*'']))"

definition PACKAGE_BYPASSES :: "string list" where
  "PACKAGE_BYPASSES =
     [''@aizign/protocol/src/'', ''@aizign/protocol/lib/'', ''@aizign/adapter-testkit/src/'', ''@aizign/adapter-testkit/lib/'',
      ''@aizign/adapter-dsh/src/'', ''@aizign/adapter-dsh/lib/'', ''packages/protocol/src/'', ''packages/protocol/lib/'',
      ''packages/adapter-testkit/src/'', ''packages/adapter-testkit/lib/'', ''adapters/dsh/src/'', ''adapters/dsh/lib/'',
      ''../protocol/src/'', ''../protocol/lib/'', ''../adapter-testkit/src/'', ''../adapter-testkit/lib/'', ''../dsh/src/'', ''../dsh/lib/'']"

definition PROTOCOL_FORBIDDEN :: "string list" where
  "PROTOCOL_FORBIDDEN =
     [''node:'', ''child_process'', ''process.'', ''stateDir'', ''timeoutMs'', ''timingSink'', ''ParentTiming'', ''preflight'']"

definition allowed_protocol_proxy_guard :: "RepoPath \<Rightarrow> string \<Rightarrow> string \<Rightarrow> bool" where
  "allowed_protocol_proxy_guard p line token \<longleftrightarrow>
     token = ''node:'' \<and> p = [''packages'', ''protocol'', ''src'', ''shape.ts''] \<and>
     str_trim line = ''import { types as nodeTypes } from '' @ [CHR 0x27] @ ''node:util'' @ [CHR 0x27] @ '';''"

definition EXPORTS_TEST :: RepoPath where "EXPORTS_TEST = [''spec'', ''test'', ''package-exports.test.mjs'']"

definition check_typescript_line :: "RepoPath \<Rightarrow> string \<Rightarrow> string \<Rightarrow> Findings" where
  "check_typescript_line p location line =
     (let trimmed = trim_start line;
          is_comment = starts_with trimmed ''//'' \<or> starts_with trimmed ''/*'' \<or> starts_with trimmed ''*'';
          protocol_source = take 3 p = [''packages'', ''protocol'', ''src''] \<and>
            \<not> (case file_name p of None \<Rightarrow> False | Some n \<Rightarrow> ends_with n ''.test.ts'')
      in (if \<not> is_comment \<and> p \<noteq> EXPORTS_TEST
          then concat (map (\<lambda>bypass. if contains_text line bypass
            then [location @ '': package source/build bypass '' @ ticked bypass @ ''; use a declared package subpath''] else []) PACKAGE_BYPASSES)
          else []) @
         (if protocol_source
          then concat (map (\<lambda>token. if contains_text line token \<and> \<not> allowed_protocol_proxy_guard p line token
            then [location @ '': Protocol production source contains DSH/process token '' @ ticked token] else []) PROTOCOL_FORBIDDEN)
          else []) @
         (if p \<noteq> EXPORTS_TEST \<and> contains_text line ''ReferenceOneShotClient''
          then [location @ '': duplicate reference transport must not return''] else []))"

definition check_typescript_sources :: "Tree \<Rightarrow> RepoPath list \<Rightarrow> (string, Findings) result" where
  "check_typescript_sources T tracked =
     map_ok (\<lambda>files. concat (map (\<lambda>(p, text).
         case text of None \<Rightarrow> []
         | Some t \<Rightarrow> concat (map (\<lambda>(n, line). check_typescript_line p (located p n) line) (numbered_lines t))) files))
       (read_each T (\<lambda>p. path_extension p \<in> {Some ''ts'', Some ''mjs'', Some ''js''}) tracked)"

definition packages_run :: "'v Json \<Rightarrow> Unicode \<Rightarrow> Tree \<Rightarrow> RepoPath list \<Rightarrow> ('w, unit) tool" where
  "packages_run J U T tracked =
     tbind (tlift (read_each T (\<lambda>p. file_name p = Some ''package.json'') tracked)) (\<lambda>files.
     let texts = concat (map (\<lambda>(p, t). case t of None \<Rightarrow> [] | Some t \<Rightarrow> [(p, t)]) files) in
     tbind (tlift (check_typescript_sources T tracked)) (\<lambda>findings.
     tbind (tsay (show_nat (length (filter (\<lambda>(_, t). is_ok (parse_json J t)) texts)) @ '' package manifest(s) checked'')) (\<lambda>_.
     Findings_finish ''package manifests''
       (concat (map (\<lambda>(p, t). check_package_manifest J U p t) texts) @ findings))))"

section \<open>The command (audit/mod.rs)\<close>

fun run_audits :: "(string \<times> ('w, unit) tool) list \<Rightarrow> 'w Session \<Rightarrow> string list \<times> 'w Session" where
  "run_audits [] s = ([], s)"
| "run_audits ((name, audit) # rest) s =
     (case tbind (tstage (''public-audit: '' @ name)) (\<lambda>_. audit) s of
        (Inr _, s) \<Rightarrow> run_audits rest s
      | (Inl m, s) \<Rightarrow>
          (case run_audits rest (s\<lparr>printed := printed s @ [m]\<rparr>) of (failures, s) \<Rightarrow> (name # failures, s)))"

definition public_audits ::
  "(bytes \<Rightarrow> string) \<Rightarrow> 'w Shell \<Rightarrow> 'v Json \<Rightarrow> Unicode \<Rightarrow> RepoPath \<Rightarrow> RepoPath list \<Rightarrow> (string \<times> ('w, unit) tool) list" where
  "public_audits lossy H J U root tracked =
     [(''dependency boundaries'', dependencies_run lossy H J U root tracked),
      (''secrets and private paths'', ttree H (\<lambda>T. secrets_run T tracked)),
      (''package manifests'', ttree H (\<lambda>T. packages_run J U T tracked)),
      (''version lockstep'', ttree H (\<lambda>T. lockstep_run J T tracked)),
      (''entry documents'', ttree H (\<lambda>T. entry_docs_run T tracked)),
      (''documentation links'', ttree H (\<lambda>T. links_run T tracked)),
      (''threat-model guarantee levels'', ttree H (\<lambda>T. threat_model_run T tracked))]"

definition audit_run ::
  "(bytes \<Rightarrow> string) \<Rightarrow> 'w Shell \<Rightarrow> 'v Json \<Rightarrow> Unicode \<Rightarrow> RepoPath \<Rightarrow> ('w, unit) tool" where
  "audit_run lossy H J U root =
     tbind (shell_capture lossy H ''git'' [''ls-files'', ''-z'']) (\<lambda>listing s.
     case run_audits (public_audits lossy H J U root (tracked_files listing)) s of
       (failures, s) \<Rightarrow>
         (if failures = [] then Inr () else Inl (''public-audit failed: '' @ join_text '', '' failures), s))"

section \<open>What the audits guarantee\<close>

text \<open>The crates in the order of the table form layers: at run time each may depend only on crates above it,
  so the allowed dependencies have no cycle.\<close>

fun layered :: "string set \<Rightarrow> CrateRule list \<Rightarrow> bool" where
  "layered seen [] = True"
| "layered seen (r # rs) = (set (rule_workspace r) \<subseteq> seen \<and> layered (insert (rule_name r) seen) rs)"

lemma rules_layered: "layered {} RULES"
  by code_simp

lemma check_declared_dependencies_none:
  "check_declared_dependencies J rule package names = [] \<longleftrightarrow>
     (\<forall>ds. as_array J (json_index J package ''dependencies'') = Some ds \<longrightarrow>
        (\<forall>d \<in> set ds. dependency_allowed rule names (str_or ''normal'' (as_str J (json_index J d ''kind'')))
           (str_or ''<unnamed>'' (as_str J (json_index J d ''name'')))))"
  by (auto simp: check_declared_dependencies_def Let_def split: option.splits)

text \<open>A package manifest without lockstep findings carries the workspace version and pins exactly it for
  every internal dependency.\<close>

lemma check_package_json_none:
  assumes "check_package_json J rendered text anchor = []" "parse_json J text = Inr manifest"
  shows "as_str J (json_index J manifest ''version'') = Some anchor"
    and "table \<in> {''dependencies'', ''devDependencies'', ''peerDependencies''} \<Longrightarrow>
      as_object J (json_index J manifest table) = Some entries \<Longrightarrow> (name, v) \<in> set entries \<Longrightarrow>
      starts_with name ''@aizign/'' \<Longrightarrow> as_str J v = Some anchor"
proof -
  show "as_str J (json_index J manifest ''version'') = Some anchor"
    using assms by (auto simp: check_package_json_def split: option.splits if_splits)
  assume t: "table \<in> {''dependencies'', ''devDependencies'', ''peerDependencies''}"
    "as_object J (json_index J manifest table) = Some entries" "(name, v) \<in> set entries" "starts_with name ''@aizign/''"
  have "check_dependency_pin J rendered anchor table name v = []"
    using assms t by (auto simp: check_package_json_def)
  then show "as_str J v = Some anchor" using t(4) by (simp add: check_dependency_pin_def split: if_splits)
qed

lemma check_root_cargo_none:
  assumes "check_root_cargo rendered text anchor = []" "line \<in> set (section_lines text ''[workspace.dependencies]'')"
    "split_once (CHR ''='') line = Some (name, rest)" "contains_text rest ''path''"
  shows "value_in_braces rest ''version'' = Some anchor"
proof -
  have "check_pin rendered anchor line = []" using assms(1,2) by (simp add: check_root_cargo_def)
  with assms(3,4) show ?thesis by (auto simp: check_pin_def Let_def split: option.splits if_splits)
qed

text \<open>The audits run one after another, failed ones included; none failed if each one passed.\<close>

fun audits_pass :: "(string \<times> ('w, unit) tool) list \<Rightarrow> 'w Session \<Rightarrow> bool" where
  "audits_pass [] s = True"
| "audits_pass ((name, audit) # rest) s =
     (case tbind (tstage (''public-audit: '' @ name)) (\<lambda>_. audit) s of (r, s) \<Rightarrow> is_ok r \<and> audits_pass rest s)"

lemma run_audits_none: "fst (run_audits audits s) = [] \<longleftrightarrow> audits_pass audits s"
proof (induction audits arbitrary: s)
  case (Cons a audits)
  obtain name audit where a: "a = (name, audit)" by fastforce
  obtain r s1 where r: "tbind (tstage (''public-audit: '' @ name)) (\<lambda>_. audit) s = (r, s1)" by fastforce
  show ?case
  proof (cases r)
    case (Inl e)
    then show ?thesis unfolding a run_audits.simps audits_pass.simps r by (simp add: is_ok_def split: prod.splits)
  next
    case (Inr u)
    then show ?thesis unfolding a run_audits.simps audits_pass.simps r by (simp add: is_ok_def Cons.IH)
  qed
qed simp

lemma audit_run_ok:
  assumes "audit_run lossy H J U root s = (Inr (), s')"
  obtains listing s1 where "shell_capture lossy H ''git'' [''ls-files'', ''-z''] s = (Inr listing, s1)"
    "audits_pass (public_audits lossy H J U root (tracked_files listing)) s1"
proof -
  obtain r s1 where c: "shell_capture lossy H ''git'' [''ls-files'', ''-z''] s = (r, s1)" by fastforce
  with assms obtain listing where l: "r = Inr listing" by (cases r) (auto simp: audit_run_def tbind_def)
  have "fst (run_audits (public_audits lossy H J U root (tracked_files listing)) s1) = []"
    using assms c l by (auto simp: audit_run_def tbind_def split: prod.splits if_splits)
  with c l that show ?thesis by (simp add: run_audits_none)
qed

end
