(* ===== verification/Fixtures.thy ===== *)
theory Fixtures
  imports Audit_Manifests
begin

text \<open>The structural validation of the conformance fixtures (conformance.rs). Paths are relative to the
  repository root; the root itself only shows in messages.\<close>

definition FIXTURE_ROOT :: string where "FIXTURE_ROOT = ''spec/conformance''"
definition PROCESS_FIXTURE :: string where "PROCESS_FIXTURE = ''spec/process/v1/fixtures/cases.json''"
definition DIRECTIONS :: "string list" where "DIRECTIONS = [''request'', ''response'', ''journal'', ''store'']"

definition path_display :: "RepoPath \<Rightarrow> string" where
  "path_display p = (case p of [] \<Rightarrow> [] | c # cs \<Rightarrow> if c = ''/'' then ''/'' @ display cs else display p)"

definition fixture_display :: "RepoPath \<Rightarrow> RepoPath \<Rightarrow> string" where
  "fixture_display root p =
     (let rendered = path_display (root @ p) in
      case find_text FIXTURE_ROOT rendered of None \<Rightarrow> rendered | Some i \<Rightarrow> drop i rendered)"

definition is_short_code :: "string \<Rightarrow> bool" where
  "is_short_code c \<longleftrightarrow>
     (case c of [] \<Rightarrow> False
      | first # rest \<Rightarrow>
          is_ascii_uppercase first \<and> length c \<le> 64 \<and>
          list_all (\<lambda>b. is_ascii_uppercase b \<or> is_ascii_digit b \<or> b = CHR ''_'') rest)"

definition list_fixtures :: "Tree \<Rightarrow> RepoPath \<Rightarrow> RepoPath \<Rightarrow> (string, Findings \<times> RepoPath list) result" where
  "list_fixtures T root dir =
     (if \<not> path_is_dir T dir then Inr ([''missing fixture directory '' @ fixture_display root dir], [])
      else map_ok (\<lambda>names.
          let files = sort (filter (path_is_file T) (map (\<lambda>n. dir @ [n]) names)) in
          (if files = [] then [fixture_display root dir @ '': no fixtures''] else [], files))
        (map_err (\<lambda>e. fixture_display root dir @ '': '' @ e) (read_dir T dir)))"

definition read_fixture :: "Tree \<Rightarrow> string \<Rightarrow> RepoPath \<Rightarrow> (string, bytes) result" where
  "read_fixture T name p = map_err (\<lambda>e. name @ '': '' @ e) (read_file T p)"

definition check_valid_file :: "Tree \<Rightarrow> 'v Json \<Rightarrow> RepoPath \<Rightarrow> RepoPath \<Rightarrow> (string, Findings) result" where
  "check_valid_file T J root p =
     (let name = fixture_display root p in
      if path_extension p \<noteq> Some ''frame'' then Inr [name @ '': valid fixtures are '' @ ticked ''.frame'' @ '' files'']
      else map_ok (\<lambda>bs.
          (if is_ok (parse_json J bs) then [] else [name @ '': valid frames must be JSON'']) @
          (if ends_with bs [CHR 0x0A] then [name @ '': frames are stored without a trailing newline''] else []))
        (read_fixture T name p))"

definition check_valid :: "Tree \<Rightarrow> 'v Json \<Rightarrow> RepoPath \<Rightarrow> RepoPath \<Rightarrow> (string, Findings \<times> nat) result" where
  "check_valid T J root dir =
     and_then (list_fixtures T root dir) (\<lambda>(fs, files).
       map_ok (\<lambda>gs. (fs @ gs, length files)) (check_packages (check_valid_file T J root) files))"

definition PROTOCOL_KEYS :: "string list" where
  "PROTOCOL_KEYS = [''code'', ''requestId'', ''kind'', ''responseStage'', ''responseVersion'', ''schema'']"

definition get_str :: "'v Json \<Rightarrow> (string \<times> 'v) list \<Rightarrow> string \<Rightarrow> string option" where
  "get_str J kvs k = Option.bind (map_of kvs k) (as_str J)"

definition check_protocol_expectation :: "'v Json \<Rightarrow> string \<Rightarrow> (string \<times> 'v) list \<Rightarrow> Findings" where
  "check_protocol_expectation J name kvs =
     concat (map (\<lambda>key.
       case map_of kvs key of
         Some v \<Rightarrow> if as_str J v \<noteq> None \<or> is_null J v then [] else [name @ '': '' @ ticked key @ '' must be a string or null'']
       | None \<Rightarrow> [name @ '': '' @ ticked key @ '' must be a string or null'']) [''requestId'', ''kind'']) @
     (if get_str J kvs ''responseStage'' \<in> {Some ''bootstrap'', Some ''accepted-operation''} then []
      else [name @ '': '' @ ticked ''responseStage'' @ '' must be bootstrap or accepted-operation'']) @
     (case Option.bind (map_of kvs ''responseVersion'') (as_u64 J) of
        Some version \<Rightarrow> if version < 2 ^ 32 then [] else [name @ '': '' @ ticked ''responseVersion'' @ '' must be a u32'']
      | None \<Rightarrow> [name @ '': '' @ ticked ''responseVersion'' @ '' must be a u32''])"

definition check_expectation ::
  "Tree \<Rightarrow> 'v Json \<Rightarrow> Unicode \<Rightarrow> RepoPath \<Rightarrow> bool \<Rightarrow> RepoPath \<Rightarrow> (string, Findings) result" where
  "check_expectation T J U root is_protocol p =
     (let name = fixture_display root p in
      map_ok (\<lambda>bs.
        case parse_json J bs of
          Inl e \<Rightarrow> [name @ '': not JSON: '' @ e]
        | Inr v \<Rightarrow>
            (case as_object J v of
               None \<Rightarrow> [name @ '': expectation must be an object'']
             | Some kvs \<Rightarrow>
                 let allowed = set (if is_protocol then PROTOCOL_KEYS else [''code'', ''schema'']) in
                 (if set (map fst kvs) \<noteq> allowed then [name @ '': keys must be exactly '' @ debug_set U allowed] else []) @
                 (case get_str J kvs ''code'' of
                    Some c \<Rightarrow> if is_short_code c then [] else [name @ '': '' @ ticked ''code'' @ '' must match ^[A-Z][A-Z0-9_]{0,63}$'']
                  | None \<Rightarrow> [name @ '': '' @ ticked ''code'' @ '' must match ^[A-Z][A-Z0-9_]{0,63}$'']) @
                 (if Option.bind (map_of kvs ''schema'') (as_bool J) \<noteq> None then []
                  else [name @ '': '' @ ticked ''schema'' @ '' must state whether the frame validates against the JSON Schema '' @
                        ''(true only where the schema cannot express the rule, e.g. the size bound)'']) @
                 (if is_protocol then check_protocol_expectation J name kvs else [])))
        (read_fixture T name p))"

definition fixture_stems :: "string \<Rightarrow> RepoPath list \<Rightarrow> (string \<times> RepoPath) list" where
  "fixture_stems suffix files =
     List.map_filter (\<lambda>p. map_option (\<lambda>stem. (stem, p)) (strip_suffix (str_or [] (file_name p)) suffix)) files"

definition check_invalid ::
  "Tree \<Rightarrow> 'v Json \<Rightarrow> Unicode \<Rightarrow> RepoPath \<Rightarrow> RepoPath \<Rightarrow> bool \<Rightarrow> (string, Findings \<times> nat) result" where
  "check_invalid T J U root dir is_protocol =
     and_then (list_fixtures T root dir) (\<lambda>(fs, files).
       let expects = fixture_stems ''.expect.json'' files; frames = fixture_stems ''.frame'' files;
           stray = filter (\<lambda>p. p \<notin> snd ` set expects \<and> p \<notin> snd ` set frames) files;
           expect_stems = sort (map fst expects); frame_stems = sort (map fst frames)
       in map_ok (\<lambda>gs.
            (fs @
             map (\<lambda>p. fixture_display root p @ '': invalid fixtures are '' @ ticked ''.frame'' @ '' + '' @ ticked ''.expect.json'' @ '' pairs'') stray @
             concat (map (\<lambda>stem. if stem \<in> set expect_stems then []
               else [fixture_display root dir @ ''/'' @ stem @ ''.frame: missing '' @ stem @ ''.expect.json'']) frame_stems) @
             gs, length frames))
          (check_packages (\<lambda>stem. case map_of expects stem of
               None \<Rightarrow> Inr []
             | Some p \<Rightarrow>
                 map_ok ((@) (if stem \<in> set frame_stems then [] else [fixture_display root p @ '': missing '' @ stem @ ''.frame'']))
                   (check_expectation T J U root is_protocol p)) expect_stems))"

definition CASE_KEYS :: "string list" where
  "CASE_KEYS =
     [''id'', ''group'', ''stage'', ''stimulus'', ''responseVersion'', ''responseCode'', ''correlation'', ''effect'', ''parent'', ''evidence'']"

definition process_finding :: "string \<Rightarrow> string" where
  "process_finding m = PROCESS_FIXTURE @ '': '' @ m"

fun check_cases :: "'v Json \<Rightarrow> Unicode \<Rightarrow> nat \<Rightarrow> string set \<Rightarrow> 'v list \<Rightarrow> Findings" where
  "check_cases J U i ids [] = []"
| "check_cases J U i ids (v # vs) =
     (let cell = ''cases['' @ show_nat i @ '']'' in
      case as_object J v of
        None \<Rightarrow> process_finding (cell @ '' must be an object'') # check_cases J U (Suc i) ids vs
      | Some kvs \<Rightarrow>
          (if set (map fst kvs) \<noteq> set CASE_KEYS
           then [process_finding (cell @ '' keys must be exactly '' @ debug_set U (set CASE_KEYS))] else []) @
          (case get_str J kvs ''id'' of
             Some c \<Rightarrow> if c \<in> ids then [process_finding (''duplicate case id '' @ ticked c)] else []
           | None \<Rightarrow> [process_finding (cell @ '' has no string id'')]) @
          (case Option.bind (map_of kvs ''evidence'') (as_array J) of
             Some (_ # _) \<Rightarrow> []
           | _ \<Rightarrow> [process_finding (cell @ ''.evidence must be non-empty'')]) @
          check_cases J U (Suc i) (case get_str J kvs ''id'' of Some c \<Rightarrow> insert c ids | None \<Rightarrow> ids) vs)"

definition check_process_root :: "'v Json \<Rightarrow> Unicode \<Rightarrow> (string \<times> 'v) list \<Rightarrow> Findings" where
  "check_process_root J U kvs =
     (let expected = {''fixtureVersion'', ''authority'', ''normative'', ''cases''} in
      (if set (map fst kvs) \<noteq> expected then [process_finding (''root keys must be exactly '' @ debug_set U expected)] else []) @
      (if Option.bind (map_of kvs ''fixtureVersion'') (as_u64 J) = Some 1 then [] else [process_finding ''fixtureVersion must be 1'']) @
      (if get_str J kvs ''authority'' = Some ''spec/process/v1/README.md'' then []
       else [process_finding ''authority must name spec/process/v1/README.md'']) @
      (if Option.bind (map_of kvs ''normative'') (as_bool J) = Some False then [] else [process_finding ''normative must be false'']))"

definition check_process_fixture :: "Tree \<Rightarrow> 'v Json \<Rightarrow> Unicode \<Rightarrow> (string, Findings) result" where
  "check_process_fixture T J U =
     and_then (read_fixture T PROCESS_FIXTURE (path_components PROCESS_FIXTURE)) (\<lambda>bs.
     map_ok (\<lambda>v.
       case as_object J v of
         None \<Rightarrow> [process_finding ''root must be an object'']
       | Some kvs \<Rightarrow>
           check_process_root J U kvs @
           (case Option.bind (map_of kvs ''cases'') (as_array J) of
              None \<Rightarrow> [process_finding ''cases must be an array'']
            | Some cases \<Rightarrow>
                (if length cases \<noteq> 55
                 then [process_finding (''expected 55 projected cases, found '' @ show_nat (length cases))] else []) @
                check_cases J U 0 {} cases))
       (map_err (\<lambda>e. PROCESS_FIXTURE @ '': not JSON: '' @ e) (parse_json J bs)))"

fun check_directions ::
  "Tree \<Rightarrow> 'v Json \<Rightarrow> Unicode \<Rightarrow> RepoPath \<Rightarrow> string list \<Rightarrow> (string, Findings \<times> nat \<times> nat) result" where
  "check_directions T J U root [] = Inr ([], 0, 0)"
| "check_directions T J U root (d # ds) =
     (let base = path_components FIXTURE_ROOT in
      and_then (check_valid T J root (base @ [''valid'', d])) (\<lambda>(fs, v).
      and_then (check_invalid T J U root (base @ [''invalid'', d]) (d \<in> {''request'', ''response''})) (\<lambda>(gs, i).
      map_ok (\<lambda>(hs, vs, is). (fs @ gs @ hs, v + vs, i + is)) (check_directions T J U root ds))))"

definition conformance_run :: "'w Shell \<Rightarrow> 'v Json \<Rightarrow> Unicode \<Rightarrow> RepoPath \<Rightarrow> ('w, unit) tool" where
  "conformance_run H J U root =
     tbind (tstage ''conformance fixtures'') (\<lambda>_.
     ttree H (\<lambda>T.
     if \<not> path_is_dir T (path_components FIXTURE_ROOT) then tfail (FIXTURE_ROOT @ ''/ is missing'')
     else
       tbind (tlift (check_directions T J U root DIRECTIONS)) (\<lambda>(fs, valid_count, invalid_count).
       tbind (tlift (check_process_fixture T J U)) (\<lambda>gs.
       tbind (tsay (show_nat valid_count @ '' valid, '' @ show_nat invalid_count @ '' invalid fixture(s)'')) (\<lambda>_.
       Findings_finish ''conformance'' (fs @ gs))))))"

end
