(* ===== verification/Gate.thy ===== *)
theory Gate
  imports Fixtures
begin

text \<open>The commands of \<open>cargo xtask\<close> (main.rs) and what they run: the Rust gates (rust_check.rs), the TypeScript
  gates (npm_check.rs, cargo_build.rs), the network-free profiles (quick.rs) and the performance runner
  (performance.rs). The environment of the tool collects the parameters: the shell, the JSON reader,
  the Unicode tables, the lossy conversion, the repository root and the build target.\<close>

record ('w, 'v) Tool =
  shell_of :: "'w Shell"
  json_of :: "'v Json"
  unicode_of :: Unicode
  lossy_of :: "bytes \<Rightarrow> string"
  root_of :: RepoPath
  verified_target :: bool

definition sh :: "('w, 'v) Tool \<Rightarrow> string \<Rightarrow> string list \<Rightarrow> ('w, unit) tool" where
  "sh E prog args = shell_run (shell_of E) prog args"

section \<open>The Rust gates (rust_check.rs)\<close>

definition DENY_VERSION_FILE :: string where "DENY_VERSION_FILE = ''.cargo-deny-version''"

definition version_part :: "string \<Rightarrow> bool" where
  "version_part part \<longleftrightarrow>
     part \<noteq> [] \<and> list_all is_ascii_digit part \<and> (part = ''0'' \<or> \<not> starts_with part ''0'')"

definition parse_deny_version_file :: "bytes \<Rightarrow> (string, string) result" where
  "parse_deny_version_file bs =
     (if bs = [] \<or> last bs \<noteq> CHR 0x0A then Inl ''expected exactly one terminal LF byte (0x0A)''
      else let value_bytes = butlast bs in
        if CHR 0x0A \<in> set value_bytes then Inl ''expected exactly one line''
        else case from_utf8 value_bytes of
          Inl _ \<Rightarrow> Inl ''expected UTF-8 bytes''
        | Inr val \<Rightarrow>
            (let parts = split_on (CHR ''.'') val in
             if length parts = 3 \<and> list_all version_part parts then Inr val
             else Inl ''expected MAJOR.MINOR.PATCH digits with no whitespace or extra tokens''))"

definition validate_deny_version_output :: "string \<Rightarrow> string \<Rightarrow> (string, unit) result" where
  "validate_deny_version_output out expected =
     (case strip_suffix out [CHR 0x0A] of
        None \<Rightarrow> Inl ''cargo deny --version must end with exactly one LF byte''
      | Some line \<Rightarrow>
          let expected_line = ''cargo-deny '' @ expected in
          if line \<noteq> expected_line
          then Inl (''cargo deny --version output '' @ ticked line @ '' does not exactly match '' @ ticked expected_line)
          else Inr ())"

definition deny_install_hint :: "string option \<Rightarrow> string" where
  "deny_install_hint expected =
     (case expected of
        Some e \<Rightarrow>
          ''cargo-deny '' @ e @ '' is required for '' @ ticked ''cargo xtask rust-check'' @ ''.'' @ [CHR 0x0A] @
          ''install it with '' @ ticked (''cargo install cargo-deny --version '' @ e @ '' --locked'') @ '';'' @ [CHR 0x0A] @
          ''version authority: '' @ ticked DENY_VERSION_FILE
      | None \<Rightarrow>
          ''restore the exact value in '' @ ticked DENY_VERSION_FILE @ '', then install it with '' @
          ticked (''cargo install cargo-deny --version '' @ [CHR 0x22] @
            ''$(bash .github/scripts/read-cargo-deny-version.sh)'' @ [CHR 0x22] @ '' --locked'') @ '';'' @ [CHR 0x0A] @
          ''version authority: '' @ ticked DENY_VERSION_FILE)"

definition with_hint :: "string option \<Rightarrow> string \<Rightarrow> string" where
  "with_hint expected e = e @ [CHR 0x0A] @ deny_install_hint expected"

definition read_deny_version :: "('w, 'v) Tool \<Rightarrow> Tree \<Rightarrow> (string, string) result" where
  "read_deny_version E T =
     (let shown = ticked (path_display (root_of E @ [DENY_VERSION_FILE])) in
      and_then (map_err (\<lambda>e. ''cargo-deny version authority '' @ shown @ '' could not be read: '' @ e)
                  (read_file T [DENY_VERSION_FILE])) (\<lambda>bs.
      map_err (\<lambda>e. ''cargo-deny version authority '' @ shown @ '' is invalid: '' @ e) (parse_deny_version_file bs)))"

definition verify_deny_version :: "('w, 'v) Tool \<Rightarrow> (string \<times> string) list \<Rightarrow> ('w, unit) tool" where
  "verify_deny_version E env =
     ttree (shell_of E) (\<lambda>T.
     tbind (tlift (map_err (with_hint None) (read_deny_version E T))) (\<lambda>expected.
     tbind (tmap_err (\<lambda>e. with_hint (Some expected) (''cargo-deny version check failed: '' @ e))
              (capture_with_env (lossy_of E) (shell_of E) ''cargo'' [''deny'', ''--version''] env)) (\<lambda>out.
     tlift (map_err (with_hint (Some expected)) (validate_deny_version_output out expected)))))"

definition run_deny_check :: "('w, 'v) Tool \<Rightarrow> (string \<times> string) list \<Rightarrow> ('w, unit) tool" where
  "run_deny_check E env =
     tbind (verify_deny_version E env) (\<lambda>_.
     run_with_env (shell_of E) ''cargo'' [''deny'', ''check''] env)"

definition rust_check_run :: "('w, 'v) Tool \<Rightarrow> ('w, unit) tool" where
  "rust_check_run E =
     tbind (tstage ''cargo fmt'') (\<lambda>_.
     tbind (sh E ''cargo'' [''fmt'', ''--all'', ''--check'']) (\<lambda>_.
     tbind (tstage ''cargo clippy'') (\<lambda>_.
     tbind (sh E ''cargo'' [''clippy'', ''--workspace'', ''--all-targets'', ''--all-features'', ''--'', ''-D'', ''warnings'']) (\<lambda>_.
     tbind (tstage ''cargo test'') (\<lambda>_.
     tbind (sh E ''cargo'' [''test'', ''--workspace'']) (\<lambda>_.
     tbind (tstage ''cargo doc'') (\<lambda>_.
     tbind (run_with_env (shell_of E) ''cargo'' [''doc'', ''--workspace'', ''--no-deps''] [(''RUSTDOCFLAGS'', ''-D warnings'')]) (\<lambda>_.
     tbind (tstage ''cargo deny'') (\<lambda>_.
     tbind (run_deny_check E []) (\<lambda>_.
     tbind (tstage ''cargo package --list'') (\<lambda>_.
     tbind (sh E ''cargo'' [''package'', ''--list'', ''--workspace'', ''--allow-dirty'', ''--quiet'']) (\<lambda>_.
     tret ()))))))))))))"

section \<open>The built binary (cargo_build.rs)\<close>

definition message_executable :: "'v Json \<Rightarrow> string \<Rightarrow> string option" where
  "message_executable J line =
     (case parse_json J line of
        Inl _ \<Rightarrow> None
      | Inr message \<Rightarrow>
          if Option.bind (json_get J message ''reason'') (as_str J) \<noteq> Some ''compiler-artifact'' then None
          else (case json_get J message ''target'' of
            None \<Rightarrow> None
          | Some target \<Rightarrow>
              if Option.bind (json_get J target ''name'') (as_str J) = Some ''aizign'' \<and>
                 (case Option.bind (json_get J target ''kind'') (as_array J) of
                    None \<Rightarrow> False | Some kinds \<Rightarrow> list_ex (\<lambda>k. as_str J k = Some ''bin'') kinds)
              then Option.bind (json_get J message ''executable'') (as_str J) else None))"

text \<open>The last executable reported counts; a relative one is taken from the root.\<close>

definition executable_from_messages :: "'v Json \<Rightarrow> RepoPath \<Rightarrow> string \<Rightarrow> (string, RepoPath) result" where
  "executable_from_messages J root messages =
     (case List.map_filter (message_executable J) (str_lines messages) of
        [] \<Rightarrow> Inl (''cargo build did not report the '' @ ticked ''aizign'' @ '' executable artifact'')
      | e # es \<Rightarrow> Inr (join_path_text root (last (e # es))))"

definition aizign_binary_with_profile :: "('w, 'v) Tool \<Rightarrow> bool \<Rightarrow> bool \<Rightarrow> ('w, RepoPath) tool" where
  "aizign_binary_with_profile E frozen release =
     tbind (capture_logged (lossy_of E) (shell_of E) ''cargo''
       ([''build''] @ (if frozen then [''--frozen''] else []) @ (if release then [''--release''] else []) @
        [''--quiet'', ''--message-format=json'', ''--package'', ''aizign-cli''])) (\<lambda>messages.
     tbind (tlift (executable_from_messages (json_of E) (root_of E) messages)) (\<lambda>executable.
     tbind (tsay (''aizign binary: '' @ path_display executable)) (\<lambda>_.
     tret executable)))"

section \<open>The TypeScript gates (npm_check.rs)\<close>

definition NPM_INSTALL_HINT :: string where
  "NPM_INSTALL_HINT =
     ''npm is required for '' @ ticked ''cargo xtask npm-check'' @ ''; install the Node version '' @
     ''pinned in .node-version (see docs/development/getting-started.md)''"

definition has_workspace_packages :: "Tree \<Rightarrow> bool" where
  "has_workspace_packages T \<longleftrightarrow>
     list_ex (\<lambda>container.
       case read_dir T [container] of
         Inl _ \<Rightarrow> False
       | Inr names \<Rightarrow> list_ex (\<lambda>n. path_is_file T [container, n, ''package.json'']) names) [''packages'', ''adapters'']"

definition binary_env :: "RepoPath option \<Rightarrow> (string \<times> string) list" where
  "binary_env binary = (case binary of None \<Rightarrow> [] | Some b \<Rightarrow> [(''AIZIGN_BINARY'', path_display b)])"

definition tavailable :: "('w, 'v) Tool \<Rightarrow> string \<Rightarrow> string list \<Rightarrow> ('w, bool) tool" where
  "tavailable E prog args s = (case available (shell_of E) prog args s of (b, s) \<Rightarrow> (Inr b, s))"

definition npm_check_run :: "('w, 'v) Tool \<Rightarrow> ('w, unit) tool" where
  "npm_check_run E =
     tbind (tstage ''npm check'') (\<lambda>_.
     ttree (shell_of E) (\<lambda>T.
     if \<not> has_workspace_packages T
     then tsay ''no packages under packages/ or adapters/ yet; skipping npm checks''
     else
       tbind (tavailable E ''npm'' [''--version'']) (\<lambda>ok.
       if \<not> ok then tfail NPM_INSTALL_HINT
       else
         tbind (if verified_target E
                then tbind (aizign_binary_with_profile E False False) (\<lambda>b. tret (Some b))
                else tbind (tsay ''unverified storage target: real-binary scenarios are covered by x86_64 GNU/Linux CI'') (\<lambda>_. tret None)) (\<lambda>binary.
         tbind (sh E ''npm'' [''ci'', ''--no-audit'', ''--no-fund'']) (\<lambda>_.
         run_with_env (shell_of E) ''npm'' [''run'', ''check''] (binary_env binary))))))"

section \<open>Network-free profiles (quick.rs)\<close>

definition QUICK_USAGE :: string where
  "QUICK_USAGE = join_lines (CHR 0x0A)
     [''usage: cargo xtask quick [profile]'',
      [],
      ''profiles (run in the listed order):'',
      ''  default (or omitted)'',
      ''    1. verify the existing npm installation (no install)'',
      ''    2. cargo fmt --all --check'',
      ''    3. cargo check --frozen --workspace --all-targets --all-features'',
      ''    4. cargo test --frozen --workspace --lib'',
      ''    5. npm run build'',
      ''    6. npm run lint'',
      ''    7. npm run typecheck'',
      ''    Guarantees repository-wide Rust compilation and library unit tests plus'',
      ''    TypeScript build, lint, and type checking against the installed dependencies.'',
      [],
      ''  protocol'',
      ''    Run default, then structural conformance validation, Rust protocol and'',
      ''    journal tests, TypeScript protocol tests, and schema/example validation.'',
      ''    Guarantees the shared protocol and journal fixture acceptance sets are checked.'',
      [],
      ''  adapter-dsh'',
      ''    Run default (including adapter lint/typecheck), then always rebuild aizign-cli,'',
      ''    run targeted DSH lint/typecheck, and run protocol, adapter-testkit, and DSH'',
      ''    adapter tests with that real binary.'',
      ''    Guarantees the DSH fake-core and freshly built real-binary round trips are checked.'',
      [],
      ''All profiles are offline, require an existing node_modules installation, and'',
      ''must not change tracked files. They do not run npm ci, cargo doc, cargo deny,'',
      ''package inspection, public audit, full workspace integration tests, or clean-install'',
      ''checks. Success is not pull-request or release readiness; run `cargo xtask check`'',
      ''before push or PR.'']"

datatype Profile = DefaultProfile | ProtocolProfile | AdapterDsh

definition Profile_parse :: "string list \<Rightarrow> (string, Profile option) result" where
  "Profile_parse args =
     (case args of
        [] \<Rightarrow> Inr (Some DefaultProfile)
      | [profile] \<Rightarrow>
          if profile = ''default'' then Inr (Some DefaultProfile)
          else if profile = ''protocol'' then Inr (Some ProtocolProfile)
          else if profile = ''adapter-dsh'' then Inr (Some AdapterDsh)
          else if profile \<in> {''help'', ''--help'', ''-h''} then Inr None
          else Inl (''unknown quick profile '' @ ticked profile @ [CHR 0x0A, CHR 0x0A] @ QUICK_USAGE)
      | _ \<Rightarrow> Inl (''quick accepts at most one profile'' @ [CHR 0x0A, CHR 0x0A] @ QUICK_USAGE))"

fun Profile_name :: "Profile \<Rightarrow> string" where
  "Profile_name DefaultProfile = ''default''"
| "Profile_name ProtocolProfile = ''protocol''"
| "Profile_name AdapterDsh = ''adapter-dsh''"

definition run_npm_with_env :: "('w, 'v) Tool \<Rightarrow> string \<Rightarrow> string list \<Rightarrow> (string \<times> string) list \<Rightarrow> ('w, unit) tool" where
  "run_npm_with_env E stage args extra_env =
     tbind (tstage stage) (\<lambda>_.
     run_with_env (shell_of E) ''npm'' args ((''NPM_CONFIG_OFFLINE'', ''true'') # extra_env))"

definition run_npm :: "('w, 'v) Tool \<Rightarrow> string \<Rightarrow> string list \<Rightarrow> ('w, unit) tool" where
  "run_npm E stage args = run_npm_with_env E stage args []"

definition run_default :: "('w, 'v) Tool \<Rightarrow> ('w, unit) tool" where
  "run_default E =
     tbind (tstage ''quick/default: cargo fmt'') (\<lambda>_.
     tbind (sh E ''cargo'' [''fmt'', ''--all'', ''--check'']) (\<lambda>_.
     tbind (tstage ''quick/default: Rust workspace check (frozen cache)'') (\<lambda>_.
     tbind (sh E ''cargo'' [''check'', ''--frozen'', ''--workspace'', ''--all-targets'', ''--all-features'']) (\<lambda>_.
     tbind (tstage ''quick/default: Rust workspace library tests (frozen cache)'') (\<lambda>_.
     tbind (sh E ''cargo'' [''test'', ''--frozen'', ''--workspace'', ''--lib'']) (\<lambda>_.
     tbind (run_npm E ''quick/default: TypeScript build'' [''run'', ''build'']) (\<lambda>_.
     tbind (run_npm E ''quick/default: TypeScript lint'' [''run'', ''lint'']) (\<lambda>_.
     run_npm E ''quick/default: TypeScript typecheck'' [''run'', ''typecheck'']))))))))"

definition run_protocol :: "('w, 'v) Tool \<Rightarrow> ('w, unit) tool" where
  "run_protocol E =
     tbind (conformance_run (shell_of E) (json_of E) (unicode_of E) (root_of E)) (\<lambda>_.
     tbind (tstage ''quick/protocol: Rust protocol and journal tests'') (\<lambda>_.
     tbind (sh E ''cargo'' [''test'', ''--frozen'', ''-p'', ''aizign-protocol'', ''-p'', ''aizign-store-jsonl'']) (\<lambda>_.
     tbind (run_npm E ''quick/protocol: TypeScript protocol tests'' [''test'', ''-w'', ''@aizign/protocol'']) (\<lambda>_.
     run_npm E ''quick/protocol: schema and example tests'' [''run'', ''test:spec'']))))"

definition run_adapter_dsh :: "('w, 'v) Tool \<Rightarrow> ('w, unit) tool" where
  "run_adapter_dsh E =
     tbind (if verified_target E
            then tbind (tstage ''quick/adapter-dsh: rebuild real aizign binary'') (\<lambda>_.
              tbind (aizign_binary_with_profile E True False) (\<lambda>b. tret (Some b)))
            else tbind (tstage ''quick/adapter-dsh: fake core on unsupported storage host'') (\<lambda>_. tret None)) (\<lambda>binary.
     let env = binary_env binary in
     tbind (run_npm E ''quick/adapter-dsh: targeted lint'' [''exec'', ''--'', ''biome'', ''ci'', ''adapters/dsh'']) (\<lambda>_.
     tbind (run_npm E ''quick/adapter-dsh: targeted typecheck'' [''run'', ''typecheck'', ''-w'', ''@aizign/adapter-dsh'']) (\<lambda>_.
     tbind (run_npm_with_env E ''quick/adapter-dsh: reference protocol tests'' [''test'', ''-w'', ''@aizign/protocol''] env) (\<lambda>_.
     tbind (run_npm_with_env E ''quick/adapter-dsh: adapter testkit (fake and real binary)'' [''test'', ''-w'', ''@aizign/adapter-testkit''] env) (\<lambda>_.
     run_npm_with_env E ''quick/adapter-dsh: DSH adapter tests (fake and real binary)'' [''test'', ''-w'', ''@aizign/adapter-dsh''] env)))))"

definition quick_run_profile :: "('w, 'v) Tool \<Rightarrow> Profile \<Rightarrow> ('w, unit) tool" where
  "quick_run_profile E profile =
     tbind (run_default E) (\<lambda>_.
     case profile of
       DefaultProfile \<Rightarrow> tret ()
     | ProtocolProfile \<Rightarrow> run_protocol E
     | AdapterDsh \<Rightarrow> run_adapter_dsh E)"

text \<open>\<open>NPM_SETUP_HINT\<close> with its hole filled.\<close>

definition npm_setup_hint :: "string \<Rightarrow> string" where
  "npm_setup_hint problem =
     ''quick checks require the existing npm workspace dependencies, but '' @ problem @ ''. Run '' @
     ticked ''npm ci --no-audit --no-fund'' @ '' once (or run '' @ ticked ''cargo xtask check'' @
     '' for the full setup and PR gate), then retry. '' @ ticked ''cargo xtask quick'' @ '' never installs dependencies''"

definition ensure_dependencies :: "('w, 'v) Tool \<Rightarrow> ('w, unit) tool" where
  "ensure_dependencies E =
     tbind (tavailable E ''node'' [''--version'']) (\<lambda>node.
     if \<not> node then tfail (''Node.js is required for quick checks. Install the version pinned in '' @ ticked ''.node-version'' @
       '' (see docs/development/getting-started.md)'')
     else tbind (tavailable E ''npm'' [''--version'']) (\<lambda>npm.
     if \<not> npm then tfail (''npm is required for quick checks. Install the version pinned in '' @ ticked ''package.json'' @
       '' (see docs/development/getting-started.md)'')
     else ttree (shell_of E) (\<lambda>T.
     if \<not> path_is_file T [''node_modules'', ''.package-lock.json'']
     then tfail (npm_setup_hint ''node_modules/.package-lock.json is missing'')
     else tmap_err (\<lambda>_. npm_setup_hint ''the installed npm dependency tree is incomplete'')
       (tbind (shell_capture (lossy_of E) (shell_of E) ''npm'' [''ls'', ''--all'', ''--offline'']) (\<lambda>_. tret ())))))"

definition tracked_changes :: "('w, 'v) Tool \<Rightarrow> ('w, string) tool" where
  "tracked_changes E =
     tbind (shell_capture (lossy_of E) (shell_of E) ''git'' [''diff'', ''--binary'', ''--no-ext-diff'']) (\<lambda>unstaged.
     tbind (shell_capture (lossy_of E) (shell_of E) ''git'' [''diff'', ''--cached'', ''--binary'', ''--no-ext-diff'']) (\<lambda>staged.
     tret (''unstaged'' @ [CHR 0x0A] @ unstaged @ [CHR 0x0A] @ ''staged'' @ [CHR 0x0A] @ staged)))"

definition tcatch :: "('w, 'a) tool \<Rightarrow> ('w, (string, 'a) result) tool" where
  "tcatch m s = (case m s of (r, s) \<Rightarrow> (Inr r, s))"

definition CHANGED_HINT :: string where
  "CHANGED_HINT = ''changed tracked files; inspect and restore those changes before continuing''"

definition quick_run :: "('w, 'v) Tool \<Rightarrow> string list \<Rightarrow> ('w, unit) tool" where
  "quick_run E args =
     tbind (tlift (Profile_parse args)) (\<lambda>parsed.
     case parsed of
       None \<Rightarrow> tsay QUICK_USAGE
     | Some profile \<Rightarrow>
         tbind (ensure_dependencies E) (\<lambda>_.
         tbind (tracked_changes E) (\<lambda>tracked_before.
         tbind (tcatch (quick_run_profile E profile)) (\<lambda>outcome.
         tbind (tracked_changes E) (\<lambda>tracked_after.
         if tracked_before \<noteq> tracked_after
         then tfail (case outcome of
           Inr () \<Rightarrow> ''quick checks '' @ CHANGED_HINT
         | Inl e \<Rightarrow> e @ [CHR 0x0A] @ ''quick checks also '' @ CHANGED_HINT)
         else
           tbind (tlift outcome) (\<lambda>_.
           tsay (CHR 0x0A # ''quick '' @ Profile_name profile @ '' checks passed (run '' @ ticked ''cargo xtask check'' @
             '' before push or PR)'')))))))"

section \<open>The performance runner (performance.rs)\<close>

definition validate_smoke_args :: "string list \<Rightarrow> (string, unit) result" where
  "validate_smoke_args args =
     (if args = [] then Inr () else Inl ''performance-smoke has no configurable runner options'')"

definition performance_run_profile :: "('w, 'v) Tool \<Rightarrow> string list \<Rightarrow> string list \<Rightarrow> string \<Rightarrow> ('w, unit) tool" where
  "performance_run_profile E args defaults stage =
     (if ''--binary'' \<in> set args then tfail ''performance runner builds and supplies its own release binary''
      else
        tbind (tstage ''build TypeScript packages and DSH client'') (\<lambda>_.
        tbind (sh E ''npm'' [''run'', ''build'']) (\<lambda>_.
        tbind (tstage ''build release aizign binary'') (\<lambda>_.
        tbind (aizign_binary_with_profile E True True) (\<lambda>binary.
        tbind (tstage stage) (\<lambda>_.
        sh E ''node'' ([''benchmarks/performance/run.mjs'', ''--binary'', path_display binary] @ defaults @ args)))))))"

definition performance_run :: "('w, 'v) Tool \<Rightarrow> string list \<Rightarrow> ('w, unit) tool" where
  "performance_run E args = performance_run_profile E args [] ''run purpose-specific performance sweeps''"

definition performance_run_smoke :: "('w, 'v) Tool \<Rightarrow> string list \<Rightarrow> ('w, unit) tool" where
  "performance_run_smoke E args =
     tbind (tlift (validate_smoke_args args)) (\<lambda>_.
     performance_run_profile E args
       [''--profile'', ''pr-smoke'', ''--output-dir'', ''target/performance-smoke'', ''--warmup'', ''1'', ''--samples'', ''3'',
        ''--sweeps'', ''transport,concurrency,scenarios''] ''run informational PR performance smoke'')"

section \<open>The commands (main.rs)\<close>

definition whitespace :: "('w, 'v) Tool \<Rightarrow> ('w, unit) tool" where
  "whitespace E =
     tbind (tstage ''git diff --check (whole tree)'') (\<lambda>_.
     tbind (shell_capture (lossy_of E) (shell_of E) ''git'' [''hash-object'', ''-t'', ''tree'', ''/dev/null'']) (\<lambda>empty_tree.
     sh E ''git'' [''diff'', ''--check'', str_trim empty_tree]))"

definition public_audit :: "('w, 'v) Tool \<Rightarrow> ('w, unit) tool" where
  "public_audit E = audit_run (lossy_of E) (shell_of E) (json_of E) (unicode_of E) (root_of E)"

definition conformance :: "('w, 'v) Tool \<Rightarrow> ('w, unit) tool" where
  "conformance E = conformance_run (shell_of E) (json_of E) (unicode_of E) (root_of E)"

definition xtask_check :: "('w, 'v) Tool \<Rightarrow> ('w, unit) tool" where
  "xtask_check E =
     tbind (rust_check_run E) (\<lambda>_.
     tbind (npm_check_run E) (\<lambda>_.
     tbind (conformance E) (\<lambda>_.
     tbind (public_audit E) (\<lambda>_.
     tbind (whitespace E) (\<lambda>_.
     tsay (CHR 0x0A # ''all checks passed''))))))"

definition XTASK_USAGE :: string where
  "XTASK_USAGE = join_lines (CHR 0x0A)
     [''usage: cargo xtask <command>'',
      [],
      ''commands:'',
      ''  check          run every pull-request gate (rust-check, npm-check, conformance, public-audit, whitespace)'',
      ''  quick [profile]'',
      ''                 run network-free cached checks (default, protocol, adapter-dsh)'',
      ''  rust-check     cargo fmt / clippy / test / doc / deny'',
      ''  npm-check      npm ci + npm run check (lint, build, typecheck, test, pack) for the TypeScript workspace'',
      ''  conformance    validate the language-neutral fixtures under spec/conformance'',
      ''  public-audit   dependency boundaries, forbidden imports, secrets and private paths,'',
      ''                 closed package exports, entry documents, documentation links'',
      ''  performance-baseline [runner options]'',
      ''                 build release binary + TypeScript clients, then run manual/scheduled sweeps'',
      ''  performance-smoke'',
      ''                 run the small Linux PR matrix against generous informational budgets'',
      ''  store-crash-check'',
      ''                 run and audit the bounded Linux store crash-stage evidence matrix'',
      ''  whitespace     git diff --check over the whole tree (trailing whitespace, missing final newline)'',
      ''  help           print this message'',
      [],
      ''quick profiles (network-free; existing caches and node_modules only):'',
      ''  default        fmt -> Rust workspace check/library tests -> TypeScript build/lint/typecheck'',
      ''  protocol       default -> shared fixtures -> Rust/TypeScript protocol, journal, and schema tests'',
      ''  adapter-dsh    default -> fresh aizign-cli build -> targeted adapter lint/typecheck/tests'',
      ''                 with adapter-testkit fake-core and real-binary round trips'',
      ''Run `cargo xtask quick --help` for the exact order, guarantees, and exclusions.'']"

text \<open>The dispatch of \<open>main\<close>; the crash-stage evidence command is a parameter. The exit code is 0 or 1, and an
  error is written to standard error.\<close>

definition xtask_dispatch :: "('w, 'v) Tool \<Rightarrow> ('w, unit) tool \<Rightarrow> string list \<Rightarrow> ('w, unit) tool" where
  "xtask_dispatch E store_crash args =
     (case args of
        [] \<Rightarrow> tsay XTASK_USAGE
      | command # rest \<Rightarrow>
          if command = ''check'' then xtask_check E
          else if command = ''quick'' then quick_run E rest
          else if command = ''rust-check'' then rust_check_run E
          else if command = ''npm-check'' then npm_check_run E
          else if command = ''conformance'' then conformance E
          else if command = ''public-audit'' then public_audit E
          else if command = ''performance-baseline'' then performance_run E rest
          else if command = ''performance-smoke'' then performance_run_smoke E rest
          else if command = ''store-crash-check'' then store_crash
          else if command = ''whitespace'' then whitespace E
          else if command \<in> {''help'', ''--help'', ''-h''} then tsay XTASK_USAGE
          else tfail (''unknown command '' @ ticked command @ [CHR 0x0A, CHR 0x0A] @ XTASK_USAGE))"

definition xtask_main ::
  "('w, 'v) Tool \<Rightarrow> ('w, unit) tool \<Rightarrow> string list \<Rightarrow> 'w Session \<Rightarrow> (nat \<times> string list) \<times> 'w Session" where
  "xtask_main E store_crash args s =
     (case xtask_dispatch E store_crash args s of
        (Inr (), s) \<Rightarrow> ((0, []), s)
      | (Inl m, s) \<Rightarrow> ((1, [''error: '' @ m]), s))"

section \<open>What a passing command has run\<close>

text \<open>A log entry for a command that succeeded, and a tool that ends well only after entries of the given
  kinds, in the given order. Every tool only adds to the log.\<close>

type_synonym log_entry = "string \<times> string list \<times> Exit"

fun exited_ok :: "Exit \<Rightarrow> bool" where
  "exited_ok (Exited ok _ _ _) = ok"
| "exited_ok (NotStarted _) = False"

definition ran :: "string \<Rightarrow> string list \<Rightarrow> log_entry \<Rightarrow> bool" where
  "ran prog args e \<longleftrightarrow> (\<exists>x. e = (prog, args, x) \<and> exited_ok x)"

fun follows :: "('e \<Rightarrow> bool) list \<Rightarrow> 'e list \<Rightarrow> bool" where
  "follows [] es = True"
| "follows (g # gs) [] = False"
| "follows (g # gs) (e # es) = (g e \<and> follows gs es \<or> follows (g # gs) es)"

lemma follows_later: "follows gs es \<Longrightarrow> follows gs (fs @ es)"
  by (induction fs) (cases gs; simp)+

lemma follows_append: "follows gs es \<Longrightarrow> follows hs fs \<Longrightarrow> follows (gs @ hs) (es @ fs)"
  by (induction gs es rule: follows.induct) (auto intro: follows_later)

definition gates :: "('w, 'a) tool \<Rightarrow> (log_entry \<Rightarrow> bool) list \<Rightarrow> bool" where
  "gates m gs \<longleftrightarrow>
     (\<forall>s r s'. m s = (r, s') \<longrightarrow>
        (\<exists>log. started s' = started s @ log \<and> (is_ok r \<longrightarrow> follows gs log)))"

named_theorems gate_rules \<open>The gates of the tools\<close>

lemma gates_run:
  "gates m gs \<Longrightarrow> m s = (r, s') \<Longrightarrow> \<exists>log. started s' = started s @ log \<and> (is_ok r \<longrightarrow> follows gs log)"
  by (simp add: gates_def)

lemma gates_tbind:
  assumes m: "gates m gs" and f: "\<And>x. gates (f x) hs"
  shows "gates (tbind m f) (gs @ hs)"
  unfolding gates_def
proof (intro allI impI)
  fix s r s' assume run: "tbind m f s = (r, s')"
  obtain q s1 where q: "m s = (q, s1)" by fastforce
  obtain log where l: "started s1 = started s @ log" "is_ok q \<longrightarrow> follows gs log"
    using gates_run [OF m q] by blast
  show "\<exists>log. started s' = started s @ log \<and> (is_ok r \<longrightarrow> follows (gs @ hs) log)"
  proof (cases q)
    case (Inl e)
    with run q l show ?thesis by (auto simp: tbind_def is_ok_def)
  next
    case (Inr x)
    then have "f x s1 = (r, s')" using run q by (simp add: tbind_def)
    from gates_run [OF f this] obtain log2 where "started s' = started s1 @ log2" "is_ok r \<longrightarrow> follows hs log2" by blast
    with l Inr show ?thesis by (intro exI [of _ "log @ log2"]) (auto simp: is_ok_def intro: follows_append)
  qed
qed

lemma gates_bind_skip: "gates m [] \<Longrightarrow> (\<And>x. gates (f x) hs) \<Longrightarrow> gates (tbind m f) hs"
  using gates_tbind [of m "[]" f hs] by simp

lemma gates_bind_one: "gates m [c] \<Longrightarrow> (\<And>x. gates (f x) hs) \<Longrightarrow> gates (tbind m f) (c # hs)"
  using gates_tbind [of m "[c]" f hs] by simp

lemma gates_any: "gates m gs \<Longrightarrow> gates m []"
  unfolding gates_def by (metis follows.simps(1))

lemma gates_silent:
  assumes "\<And>s. started (snd (m s)) = started s"
  shows "gates m []"
  unfolding gates_def using assms by (metis append_Nil2 snd_conv follows.simps(1))

lemma gates_basic [gate_rules]:
  "gates (tret x) []" "gates (tsay l) []" "gates (tstage n) []" "gates (tlift r) []" "gates (Findings_finish a fs) []"
  by (rule gates_silent, simp add: tret_def tsay_def tstage_def tlift_def Findings_finish_def)+

lemma gates_tfail [gate_rules]: "gates (tfail e) gs"
  by (auto simp: gates_def tfail_def is_ok_def)

lemma gates_ttree: "(\<And>T. gates (f T) gs) \<Longrightarrow> gates (ttree H f) gs"
  by (simp add: gates_def ttree_def)

lemma gates_tmap_err: "gates m gs \<Longrightarrow> gates (tmap_err f m) gs"
  unfolding gates_def
proof (intro allI impI)
  assume m: "\<forall>s r s'. m s = (r, s') \<longrightarrow> (\<exists>log. started s' = started s @ log \<and> (is_ok r \<longrightarrow> follows gs log))"
  fix s r s' assume "tmap_err f m s = (r, s')"
  then obtain q where "m s = (q, s')" "is_ok r = is_ok q"
    by (auto simp: tmap_err_def is_ok_def map_err_def split: prod.splits sum.splits)
  with m show "\<exists>log. started s' = started s @ log \<and> (is_ok r \<longrightarrow> follows gs log)" by metis
qed

lemma started_start_child:
  "start_child H prog args env s = (x, s') \<Longrightarrow> started s' = started s @ [(prog, args, x)]"
  by (auto simp: start_child_def split: prod.splits)

lemma gates_run_with_env [gate_rules]: "gates (run_with_env H prog args env) [ran prog args]"
  unfolding gates_def
  by (auto simp: run_with_env_def Let_def tbind_def tsay_def is_ok_def ran_def split: prod.splits Exit.splits if_splits
      dest!: started_start_child)

lemma gates_sh [gate_rules]: "gates (sh E prog args) [ran prog args]"
  by (simp add: sh_def shell_run_def gates_run_with_env)

lemma gates_capture_output: "gates (capture_output lossy H prog args b env) [ran prog args]"
  unfolding gates_def
  by (auto simp: capture_output_def Let_def is_ok_def ran_def split: prod.splits Exit.splits if_splits dest!: started_start_child)

lemma gates_capture [gate_rules]:
  "gates (capture_with_env lossy H prog args env) [ran prog args]" "gates (shell_capture lossy H prog args) [ran prog args]"
  by (simp_all add: shell_capture_def capture_with_env_def gates_capture_output)

section \<open>The pinned version of cargo-deny\<close>

text \<open>A version: three decimal numbers without leading zeros.\<close>

definition is_version :: "string \<Rightarrow> bool" where
  "is_version v \<longleftrightarrow> (\<exists>a b c. v = a @ ''.'' @ b @ ''.'' @ c \<and> version_part a \<and> version_part b \<and> version_part c)"

lemma version_part_dotless: "version_part a \<Longrightarrow> CHR ''.'' \<notin> set a"
  by (auto simp: version_part_def list_all_iff byte_defs)

lemma split_on_join: "split_on d v = ps \<Longrightarrow> v = join_text [d] ps"
proof (induction v arbitrary: ps)
  case (Cons c v)
  obtain q qs where q: "split_on d v = q # qs" by (cases "split_on d v") auto
  with Cons.IH [OF refl] have "v = join_text [d] (q # qs)" by simp
  then show ?case using Cons.prems q by (cases qs) auto
qed auto

lemma parse_deny_version_file_exact:
  "parse_deny_version_file bs = Inr v \<longleftrightarrow> bs = v @ [CHR 0x0A] \<and> is_version v"
proof
  assume p: "parse_deny_version_file bs = Inr v"
  then have bs: "bs = butlast bs @ [CHR 0x0A]" and u: "from_utf8 (butlast bs) = Inr v"
    and parts: "length (split_on (CHR ''.'') v) = 3" "list_all version_part (split_on (CHR ''.'') v)"
    by (auto simp: parse_deny_version_file_def Let_def split: if_splits sum.splits)
      (metis append_butlast_last_id)
  obtain a b c where abc: "split_on (CHR ''.'') v = [a, b, c]"
    using parts(1) by (auto simp: numeral_3_eq_3 length_Suc_conv)
  then have "v = a @ ''.'' @ b @ ''.'' @ c" using split_on_join [OF abc] by simp
  moreover have "v = butlast bs" using from_utf8_Inr [OF u] .
  ultimately show "bs = v @ [CHR 0x0A] \<and> is_version v"
    using bs parts(2) abc by (auto simp: is_version_def)
next
  assume v: "bs = v @ [CHR 0x0A] \<and> is_version v"
  then obtain a b c where abc: "v = a @ ''.'' @ b @ ''.'' @ c" "version_part a" "version_part b" "version_part c"
    by (auto simp: is_version_def)
  have digits: "list_all (\<lambda>x. is_ascii_digit x \<or> x = CHR ''.'') v"
    using abc by (auto simp: version_part_def list_all_iff)
  then have "list_all (\<lambda>x. byte_code x < 128) v" "CHR 0x0A \<notin> set v"
    by (auto simp: list_all_iff byte_defs)
  moreover have "split_on (CHR ''.'') v = [a, b, c]"
    using abc version_part_dotless by (simp add: split_on_append split_on_no_sep)
  ultimately show "parse_deny_version_file bs = Inr v"
    using v abc(2-4) by (simp add: parse_deny_version_file_def from_utf8_ascii)
qed

lemma strip_suffix_Some: "strip_suffix s p = Some t \<longleftrightarrow> s = t @ p"
  by (auto simp: strip_suffix_def ends_with_def split: if_splits) (metis append_take_drop_id)

lemma validate_deny_version_output_ok:
  "validate_deny_version_output out v = Inr () \<longleftrightarrow> out = ''cargo-deny '' @ v @ [CHR 0x0A]"
  by (auto simp: validate_deny_version_output_def Let_def strip_suffix_Some split: option.splits if_splits)
    (auto simp: strip_suffix_def ends_with_def)

text \<open>The log entry of a version query whose output is exactly the version that the pin file held when the
  query started.\<close>

definition pinned_deny :: "('w, 'v) Tool \<Rightarrow> log_entry \<Rightarrow> bool" where
  "pinned_deny E e \<longleftrightarrow>
     (\<exists>w v status err. is_version v \<and> read_file (tree_of (shell_of E) w) [DENY_VERSION_FILE] = Inr (v @ [CHR 0x0A]) \<and>
        e = (''cargo'', [''deny'', ''--version''], Exited True status (''cargo-deny '' @ v @ [CHR 0x0A]) err))"

lemma capture_output_ok:
  assumes "capture_output lossy H prog args b env s = (Inr out, s')"
  shows "\<exists>status err. started s' = started s @ [(prog, args, Exited True status out err)]"
  using assms
  by (auto simp: capture_output_def Let_def map_err_eq_Inr split: prod.splits Exit.splits if_splits
      dest!: started_start_child from_utf8_Inr)

lemma gates_verify_deny: "gates (verify_deny_version E env) [pinned_deny E]"
proof -
  have ok: "\<exists>e. started s' = started s @ [e] \<and> pinned_deny E e"
    if run: "verify_deny_version E env s = (Inr (), s')" for s s'
  proof -
    let ?T = "tree_of (shell_of E) (child_state s)"
    obtain v out where v: "read_deny_version E ?T = Inr v"
      and c: "capture_output (lossy_of E) (shell_of E) ''cargo'' [''deny'', ''--version''] False env s = (Inr out, s')"
      and o: "validate_deny_version_output out v = Inr ()"
      using run
      by (auto simp: verify_deny_version_def ttree_def tbind_def tlift_def tmap_err_def capture_with_env_def map_err_eq_Inr
          split: prod.splits sum.splits)
    have "read_file ?T [DENY_VERSION_FILE] = Inr (v @ [CHR 0x0A])" "is_version v"
      using v by (auto simp: read_deny_version_def Let_def and_then_eq_Inr map_err_eq_Inr parse_deny_version_file_exact)
    with capture_output_ok [OF c] o show ?thesis
      by (auto simp: pinned_deny_def validate_deny_version_output_ok)
  qed
  have any: "gates (verify_deny_version E env) []"
    unfolding verify_deny_version_def
    by (intro gates_ttree gates_bind_skip gates_tmap_err gate_rules gates_any [OF gates_capture(1)])
  show ?thesis
    unfolding gates_def
  proof (intro allI impI)
    fix s r s' assume run: "verify_deny_version E env s = (r, s')"
    show "\<exists>log. started s' = started s @ log \<and> (is_ok r \<longrightarrow> follows [pinned_deny E] log)"
    proof (cases "is_ok r")
      case True
      with run ok [of s s'] show ?thesis by (auto simp: is_ok_def split: sum.splits)
    next
      case False
      with gates_run [OF any run] show ?thesis by blast
    qed
  qed
qed

lemma gates_deny_check: "gates (run_deny_check E env) [pinned_deny E, ran ''cargo'' [''deny'', ''check'']]"
  unfolding run_deny_check_def by (intro gates_bind_one gates_verify_deny gates_run_with_env)

lemma gates_bind_two: "gates m [c, d] \<Longrightarrow> (\<And>x. gates (f x) hs) \<Longrightarrow> gates (tbind m f) (c # d # hs)"
  using gates_tbind [of m "[c, d]" f hs] by simp

definition RUST_GATES :: "('w, 'v) Tool \<Rightarrow> (log_entry \<Rightarrow> bool) list" where
  "RUST_GATES E =
     [ran ''cargo'' [''fmt'', ''--all'', ''--check''],
      ran ''cargo'' [''clippy'', ''--workspace'', ''--all-targets'', ''--all-features'', ''--'', ''-D'', ''warnings''],
      ran ''cargo'' [''test'', ''--workspace''],
      ran ''cargo'' [''doc'', ''--workspace'', ''--no-deps''],
      pinned_deny E,
      ran ''cargo'' [''deny'', ''check''],
      ran ''cargo'' [''package'', ''--list'', ''--workspace'', ''--allow-dirty'', ''--quiet'']]"

lemma gates_rust_check: "gates (rust_check_run E) (RUST_GATES E)"
  unfolding rust_check_run_def RUST_GATES_def
  by (rule gates_bind_skip [OF gates_basic(3)] gates_bind_one [OF gates_sh] gates_bind_one [OF gates_run_with_env]
      gates_bind_two [OF gates_deny_check] gates_basic(1))+

section \<open>An example run\<close>

definition example_tree :: Tree where
  "example_tree =
     \<lparr>read_file = (\<lambda>p. if p = [DENY_VERSION_FILE] then Inr (''0.20.2'' @ [CHR 0x0A]) else Inl ''No such file or directory (os error 2)''),
      path_exists = (\<lambda>_. False), path_is_file = (\<lambda>_. False), path_is_dir = (\<lambda>_. False), read_dir = (\<lambda>_. Inr [])\<rparr>"

definition example_shell :: "unit Shell" where
  "example_shell =
     \<lparr>run_child = (\<lambda>prog args env w.
        (Exited True ''exit status: 0'' (if args = [''deny'', ''--version''] then ''cargo-deny 0.20.2'' @ [CHR 0x0A] else []) [], w)),
      tree_of = (\<lambda>_. example_tree)\<rparr>"

definition example_tool :: "(unit, unit) Tool" where
  "example_tool =
     \<lparr>shell_of = example_shell,
      json_of = \<lparr>parse_json = (\<lambda>_. Inr ()), json_null = (), is_null = (\<lambda>_. True), as_bool = (\<lambda>_. None), as_u64 = (\<lambda>_. None),
        as_str = (\<lambda>_. None), as_array = (\<lambda>_. None), as_object = (\<lambda>_. None), show_json = (\<lambda>_. ''null'')\<rparr>,
      unicode_of = \<lparr>is_alphanumeric = (\<lambda>_. False), is_uppercase = (\<lambda>_. False), is_lowercase = (\<lambda>_. False), is_numeric = (\<lambda>_. False),
        to_lowercase = (\<lambda>s. s), debug_str = (\<lambda>s. s)\<rparr>,
      lossy_of = (\<lambda>b. b), root_of = [''/'', ''repo''], verified_target = True\<rparr>"

definition example_session :: "unit Session" where
  "example_session = \<lparr>child_state = (), started = [], printed = []\<rparr>"

lemma example_rust_check: "\<exists>s'. rust_check_run example_tool example_session = (Inr (), s')"
proof -
  have "parse_deny_version_file (''0.20.2'' @ [CHR 0x0A]) = Inr ''0.20.2''" by code_simp
  moreover have "from_utf8 (''cargo-deny 0.20.2'' @ [CHR 0x0A]) = Inr (''cargo-deny 0.20.2'' @ [CHR 0x0A])" by code_simp
  moreover have "validate_deny_version_output (''cargo-deny 0.20.2'' @ [CHR 0x0A]) ''0.20.2'' = Inr ()" by code_simp
  ultimately show ?thesis
    by (simp add: rust_check_run_def tbind_def tstage_def tsay_def sh_def shell_run_def run_with_env_def Let_def start_child_def
        example_tool_def example_shell_def run_deny_check_def verify_deny_version_def ttree_def tlift_def tmap_err_def tret_def
        read_deny_version_def capture_with_env_def capture_output_def example_tree_def)
qed

section \<open>Properties\<close>



end
