(* ===== verification/Spec2Isabelle.thy ===== *)
theory Spec2Isabelle
  imports Memory_Journal Json_Grammar Envelope Store_Init Cli_Store Gate
begin

text \<open>
  A verification development of Aizign, a deterministic core that records workflow signals of agent
  harnesses: a one-shot process reads one request frame, decides on it against a journal, and
  answers with one response frame. Sources are named relative to \<^verbatim>\<open>src/\<close>.

  \<^bold>\<open>Parts and how they interact.\<close> \<^verbatim>\<open>aizign-cli\<close> reads a frame (\<^verbatim>\<open>run.rs\<close>), \<^verbatim>\<open>aizign-protocol\<close> decodes it,
  \<^verbatim>\<open>aizign-engine\<close> loads the journal, replays it, lets \<^verbatim>\<open>aizign-core\<close> decide, and appends; the journal is
  \<^verbatim>\<open>aizign-store-jsonl\<close> in the shipped binary and the memory journal of \<^verbatim>\<open>aizign-testkit\<close> in tests. A
  watchdog thread may answer before the worker does. \<^verbatim>\<open>xtask\<close> holds the repository's own checks.

  \<^bold>\<open>Theories and the code they model.\<close>
  \<^item> \<open>Prelude\<close>: results, bytes and text of the Rust standard library, integers as text, UTF-8.
  \<^item> \<open>Identity\<close> (\<^verbatim>\<open>aizign-core/src/identity.rs\<close>), \<open>Workflow\<close> (\<^verbatim>\<open>workflow/*.rs\<close>, \<^verbatim>\<open>recovery/mod.rs\<close>): identifiers, signals and
    their validation, the event-sourced state, decision, replay, reconciliation.
  \<^item> \<open>Engine\<close> (\<^verbatim>\<open>aizign-engine/src\<close>): the journal ports as records of operations, submit and reconcile with
    their observers; the locales \<open>journal_reader\<close> and \<open>journal\<close> state the contract of a journal and prove
    what the use cases do over any journal that keeps it.
  \<^item> \<open>Memory_Journal\<close> (\<^verbatim>\<open>aizign-testkit/src/memory_journal.rs\<close>, \<^verbatim>\<open>fixed_clock.rs\<close>): an interpretation of the contract, with
    injected faults.
  \<^item> \<open>Protocol\<close>, \<open>Json_Token\<close>, \<open>Json_Grammar\<close>, \<open>Envelope\<close> (\<^verbatim>\<open>aizign-protocol/src\<close>): error codes, hello and payloads; the
    byte-level token pass over a frame; its equivalence with the RFC 8259 grammar given inductively; the
    envelope, decoded with its failures, and the response encoder.
  \<^item> \<open>Store_Record\<close>, \<open>Store_Metadata\<close>, \<open>Store_Profile\<close> (\<^verbatim>\<open>record.rs\<close>, \<^verbatim>\<open>json_member.rs\<close>, \<^verbatim>\<open>commit.rs\<close>, \<^verbatim>\<open>publish.rs\<close>, \<^verbatim>\<open>mountinfo.rs\<close>, \<^verbatim>\<open>profile.rs\<close> of
    \<^verbatim>\<open>aizign-store-jsonl\<close>): journal lines, commit points and publication witnesses as text, and the
    qualification of the state directory.
  \<^item> \<open>Store_World\<close> (\<^verbatim>\<open>durability.rs\<close>, \<^verbatim>\<open>observation.rs\<close>): the file system the store runs on. A visible and a durable name
    table over inodes whose contents may be unsettled; every system call may fail, or stop the process
    in the middle of a write, as a fault script says; a crash image keeps what was settled and any
    subset of the rest. \<open>Store_Journal\<close> (\<^verbatim>\<open>journal.rs\<close>): opening, initialization, loading and appending, call by
    call. \<open>Store_Reading\<close>, \<open>Store_States\<close>, \<open>Store_Append\<close>: what reading returns, the states of a store on disk
    (at rest, committed, prepared), and how each step of an append moves between them.
    \<open>Store_Guarantees\<close>, \<open>Store_Open\<close>: the theorems of the store and its contract to the engine. \<open>Store_Init\<close>: how
    the initialization of a store goes from an absent directory to a clean witness, stopped anywhere.
  \<^item> \<open>Timing\<close>, \<open>Cli\<close>, \<open>Cli_Guarantees\<close> (\<^verbatim>\<open>aizign-cli/src\<close>): the timing record, framing, execution and output; worker and
    watchdog as the inductive step relation \<open>handle_step\<close>. \<open>Cli_Store\<close>: processes over the file store, from
    frame to response.
  \<^item> \<open>Tooling\<close>, \<open>Tree_Audit\<close>, \<open>Audit_Manifests\<close>, \<open>Fixtures\<close>, \<open>Gate\<close> (\<^verbatim>\<open>xtask/src\<close>): the audits of the tracked tree, the fixture check,
    and the commands as sequences of child processes.

  \<^bold>\<open>What the theorems show.\<close> One process answers what its request's contract allows, and any sequence of
  processes under any faults stores each event at most once and keeps what it acknowledged
  (\<open>Cli_Store\<close>); an append is atomic under every fault script and power loss, acknowledged entries
  survive, a prepared store refuses, and the lock excludes (\<open>Store_Guarantees\<close>, \<open>Store_Open\<close>); an
  initialization stopped anywhere leaves nothing that reads as an entry, and a completed one serves and
  lasts (\<open>Store_Init\<close>); a timeout
  answered before dispatch has had no effect and every run answers without a panic
  (\<open>Cli_Guarantees\<close>); the validator accepts exactly JSON (\<open>Json_Grammar\<close>); decoding is sound and its
  failures are registered (\<open>Envelope\<close>); payloads, records and metadata survive their encodings
  (\<open>Protocol\<close>, \<open>Store_Record\<close>, \<open>Store_Metadata\<close>); validation, decision and replay are exact
  (\<open>Identity\<close>, \<open>Workflow\<close>); observation changes nothing (\<open>Engine\<close>); the secrets audit is exact and the Rust
  gates are complete (\<open>Tree_Audit\<close>, \<open>Gate\<close>).

  \<^bold>\<open>Parameters.\<close> Third-party packages are arguments: serde (records \<open>Serde\<close>, \<open>StoreSerde\<close>, \<open>Json\<close>) with the laws
  \<open>payload_serde_laws\<close>, \<open>store_serde_laws\<close> and \<open>typed_passes_agree\<close> as named hypotheses; SHA-256 is part of
  \<open>StoreSerde\<close>, and nothing rests on the absence of collisions beyond the named law; the profile system
  calls, the clock, the monotonic readings, standard input, child processes and the file tree of the
  repository are inputs. Every law has a witness on a concrete instance.

  \<^bold>\<open>Bounds and termination.\<close> No fuel is used: every loop of the code is a total function with a measure or by
  structure; waiting on a peer is a step relation whose runs have at most five steps. The bounds of
  the code (64 KiB frames, 10,000 entries, 64 MiB, 4 KiB lines, nesting depth) are its constants. Integers are
  words where the code's width matters, naturals where a bound is checked first.

  \<^bold>\<open>Not modelled.\<close> \<^verbatim>\<open>crash_harness.rs\<close> and \<^verbatim>\<open>store_v2_cases.rs\<close> are test drivers that kill processes and damage files;
  the behaviours they probe are the fault scripts and crash images above. \<^verbatim>\<open>xtask/src/store_crash.rs\<close>
  launches them. Fixture builders of the testkit have no behaviour of their own. TypeScript adapters
  and specification documents are another language. The bytes that a terminal shows, thread scheduling
  below the shared gate and channel, and what a child process does are outside the models.
\<close>

end
